(* ===== verification/Prelude.thy ===== *)
theory Prelude
  imports
    Main
    "HOL-Library.Word"
    "HOL-Library.Code_Target_Nat"
    "HOL-Library.List_Lexorder"
    "HOL-Library.Product_Lexorder"
begin

text \<open>
  Shared vocabulary of the development: the state and error monad in which the pallets are
  written, the checked machine arithmetic of the Rust sources, sums over the support of a storage
  map, and the rule collections the component theories work with.

  A storage-changing Rust function of result type \<^verbatim>\<open>Result<A, DispatchError>\<close> is a function
  from a state to a result and the state it leaves behind.  The state is returned on the error
  branch as well, because a caller may swallow an error after the callee has written; the
  attribute \<^verbatim>\<open>#[transactional]\<close> is the combinator \<^verbatim>\<open>transactionalM\<close>, which restores the state.
\<close>

named_theorems ok_iff \<open>when a program returns successfully, by its outermost construct\<close>
named_theorems run_simps \<open>evaluation of the combinators on a state\<close>
named_theorems frame_intro \<open>a program leaves a projection of the state alone\<close>
named_theorems keeps_intro \<open>a program that returns successfully keeps a predicate\<close>

section \<open>Programs\<close>

type_synonym ('s, 'e, 'a) op = "'s \<Rightarrow> ('e + 'a) \<times> 's"

definition retM :: "'a \<Rightarrow> ('s, 'e, 'a) op" where
  "retM x s = (Inr x, s)"

definition failM :: "'e \<Rightarrow> ('s, 'e, 'a) op" where
  "failM e s = (Inl e, s)"

definition bindM :: "('s, 'e, 'a) op \<Rightarrow> ('a \<Rightarrow> ('s, 'e, 'b) op) \<Rightarrow> ('s, 'e, 'b) op" where
  "bindM m f s = (case m s of (Inl e, t) \<Rightarrow> (Inl e, t) | (Inr x, t) \<Rightarrow> f x t)"

definition getM :: "('s \<Rightarrow> 'a) \<Rightarrow> ('s, 'e, 'a) op" where
  "getM f s = (Inr (f s), s)"

definition queryM :: "('s \<Rightarrow> 'e + 'a) \<Rightarrow> ('s, 'e, 'a) op" where
  "queryM f s = (f s, s)"

definition liftM :: "'e + 'a \<Rightarrow> ('s, 'e, 'a) op" where
  "liftM r s = (r, s)"

definition modifyM :: "('s \<Rightarrow> 's) \<Rightarrow> ('s, 'e, unit) op" where
  "modifyM f s = (Inr (), f s)"

definition ensureM :: "bool \<Rightarrow> 'e \<Rightarrow> ('s, 'e, unit) op" where
  "ensureM b e s = (if b then Inr () else Inl e, s)"

definition ok_orM :: "'a option \<Rightarrow> 'e \<Rightarrow> ('s, 'e, 'a) op" where
  "ok_orM x e s = (case x of None \<Rightarrow> Inl e | Some y \<Rightarrow> Inr y, s)"

definition whenM :: "bool \<Rightarrow> ('s, 'e, unit) op \<Rightarrow> ('s, 'e, unit) op" where
  "whenM b m = (if b then m else retM ())"

definition transactionalM :: "('s, 'e, 'a) op \<Rightarrow> ('s, 'e, 'a) op" where
  "transactionalM m s = (case m s of (Inl e, t) \<Rightarrow> (Inl e, s) | (Inr x, t) \<Rightarrow> (Inr x, t))"

definition attemptM :: "('s, 'e, 'a) op \<Rightarrow> ('s, 'e, 'e + 'a) op" where
  "attemptM m s = (case m s of (r, t) \<Rightarrow> (Inr r, t))"

definition zoomM :: "('s \<Rightarrow> 'p) \<Rightarrow> (('p \<Rightarrow> 'p) \<Rightarrow> 's \<Rightarrow> 's) \<Rightarrow> ('p, 'e, 'a) op \<Rightarrow> ('s, 'e, 'a) op" where
  "zoomM g u m s = (case m (g s) of (r, p) \<Rightarrow> (r, u (\<lambda>_. p) s))"

primrec forM :: "'i list \<Rightarrow> ('i \<Rightarrow> ('s, 'e, unit) op) \<Rightarrow> ('s, 'e, unit) op" where
  "forM [] f = retM ()"
| "forM (x # xs) f = bindM (f x) (\<lambda>_. forM xs f)"

primrec foldMM :: "('b \<Rightarrow> 'i \<Rightarrow> ('s, 'e, 'b) op) \<Rightarrow> 'b \<Rightarrow> 'i list \<Rightarrow> ('s, 'e, 'b) op" where
  "foldMM f b [] = retM b"
| "foldMM f b (x # xs) = bindM (f b x) (\<lambda>b'. foldMM f b' xs)"

text \<open>The same for pure functions of result type \<^verbatim>\<open>Result<A, E>\<close>.\<close>

definition bindR :: "'e + 'a \<Rightarrow> ('a \<Rightarrow> 'e + 'b) \<Rightarrow> 'e + 'b" where
  "bindR r f = (case r of Inl e \<Rightarrow> Inl e | Inr x \<Rightarrow> f x)"

definition ensureR :: "bool \<Rightarrow> 'e \<Rightarrow> 'e + unit" where
  "ensureR b e = (if b then Inr () else Inl e)"

definition ok_orR :: "'a option \<Rightarrow> 'e \<Rightarrow> 'e + 'a" where
  "ok_orR x e = (case x of None \<Rightarrow> Inl e | Some y \<Rightarrow> Inr y)"

primrec mapR :: "('i \<Rightarrow> 'e + 'a) \<Rightarrow> 'i list \<Rightarrow> 'e + 'a list" where
  "mapR f [] = Inr []"
| "mapR f (x # xs) = bindR (f x) (\<lambda>y. bindR (mapR f xs) (\<lambda>ys. Inr (y # ys)))"

primrec foldR :: "('b \<Rightarrow> 'i \<Rightarrow> 'e + 'b) \<Rightarrow> 'b \<Rightarrow> 'i list \<Rightarrow> 'e + 'b" where
  "foldR f b [] = Inr b"
| "foldR f b (x # xs) = bindR (f b x) (\<lambda>b'. foldR f b' xs)"

lemmas run_defs = retM_def failM_def bindM_def getM_def queryM_def liftM_def modifyM_def ensureM_def
  ok_orM_def whenM_def transactionalM_def attemptM_def zoomM_def

lemmas result_defs = bindR_def ensureR_def ok_orR_def

lemma retM_run [run_simps]: "retM x s = (Inr x, s)"
  by (simp add: retM_def)

lemma failM_run [run_simps]: "failM e s = (Inl e, s)"
  by (simp add: failM_def)

lemma getM_run [run_simps]: "getM f s = (Inr (f s), s)"
  by (simp add: getM_def)

lemma queryM_run [run_simps]: "queryM f s = (f s, s)"
  by (simp add: queryM_def)

lemma liftM_run [run_simps]: "liftM r s = (r, s)"
  by (simp add: liftM_def)

lemma modifyM_run [run_simps]: "modifyM f s = (Inr (), f s)"
  by (simp add: modifyM_def)

lemma ensureM_run [run_simps]: "ensureM b e s = (if b then (Inr (), s) else (Inl e, s))"
  by (simp add: ensureM_def)

lemma ok_orM_run [run_simps]:
  "ok_orM None e s = (Inl e, s)" "ok_orM (Some x) e s = (Inr x, s)"
  by (simp_all add: ok_orM_def)

lemma bindM_run [run_simps]:
  "m s = (Inl e, t) \<Longrightarrow> bindM m f s = (Inl e, t)"
  "m s = (Inr x, t) \<Longrightarrow> bindM m f s = f x t"
  by (simp_all add: bindM_def)

lemma bindR_run [simp]: "bindR (Inl e) f = Inl e" "bindR (Inr x) f = f x"
  by (simp_all add: bindR_def)

lemma ok_orR_run [simp]: "ok_orR None e = Inl e" "ok_orR (Some x) e = Inr x"
  by (simp_all add: ok_orR_def)

lemma ensureR_run [simp]: "ensureR True e = Inr ()" "ensureR False e = Inl e"
  by (simp_all add: ensureR_def)

text \<open>Evaluation of a program on a concrete state keeps the continuation folded.\<close>

lemma bindM_weak_cong: "m = m' \<Longrightarrow> s = s' \<Longrightarrow> bindM m f s = bindM m' f s'"
  by simp

lemma bindR_weak_cong: "m = m' \<Longrightarrow> bindR m f = bindR m' f"
  by simp

lemma run_pair: "fst p = Inr r \<Longrightarrow> p = (Inr r, snd p)"
  by (cases p) simp

section \<open>Successful runs\<close>

lemma bindM_ok [ok_iff]:
  "bindM m f s = (Inr r, t) \<longleftrightarrow> (\<exists>x u. m s = (Inr x, u) \<and> f x u = (Inr r, t))"
  by (auto simp: bindM_def split: prod.splits sum.splits)

lemma retM_ok [ok_iff]: "retM x s = (Inr r, t) \<longleftrightarrow> r = x \<and> t = s"
  by (auto simp: retM_def)

lemma failM_ok [ok_iff]: "failM e s = (Inr r, t) \<longleftrightarrow> False"
  by (simp add: failM_def)

lemma getM_ok [ok_iff]: "getM f s = (Inr r, t) \<longleftrightarrow> r = f s \<and> t = s"
  by (auto simp: getM_def)

lemma queryM_ok [ok_iff]: "queryM f s = (Inr r, t) \<longleftrightarrow> f s = Inr r \<and> t = s"
  by (auto simp: queryM_def)

lemma liftM_ok [ok_iff]: "liftM x s = (Inr r, t) \<longleftrightarrow> x = Inr r \<and> t = s"
  by (auto simp: liftM_def)

lemma modifyM_ok [ok_iff]: "modifyM f s = (Inr r, t) \<longleftrightarrow> t = f s"
  by (auto simp: modifyM_def)

lemma ensureM_ok [ok_iff]: "ensureM b e s = (Inr r, t) \<longleftrightarrow> b \<and> t = s"
  by (auto simp: ensureM_def)

lemma ok_orM_ok [ok_iff]: "ok_orM x e s = (Inr r, t) \<longleftrightarrow> x = Some r \<and> t = s"
  by (auto simp: ok_orM_def split: option.splits)

lemma whenM_ok [ok_iff]:
  "whenM b m s = (Inr r, t) \<longleftrightarrow> (if b then m s = (Inr r, t) else t = s)"
  by (auto simp: whenM_def retM_def)

lemma transactionalM_ok [ok_iff]: "transactionalM m s = (Inr r, t) \<longleftrightarrow> m s = (Inr r, t)"
  by (auto simp: transactionalM_def split: prod.splits sum.splits)

lemma attemptM_ok [ok_iff]: "attemptM m s = (Inr r, t) \<longleftrightarrow> m s = (r, t)"
  by (auto simp: attemptM_def split: prod.splits)

lemma zoomM_ok [ok_iff]:
  "zoomM g u m s = (Inr r, t) \<longleftrightarrow> (\<exists>p. m (g s) = (Inr r, p) \<and> t = u (\<lambda>_. p) s)"
  by (auto simp: zoomM_def split: prod.splits)

lemma bindR_ok [ok_iff]: "bindR m f = Inr r \<longleftrightarrow> (\<exists>x. m = Inr x \<and> f x = Inr r)"
  by (auto simp: bindR_def split: sum.splits)

lemma ensureR_ok [ok_iff]: "ensureR b e = Inr r \<longleftrightarrow> b"
  by (auto simp: ensureR_def)

lemma ok_orR_ok [ok_iff]: "ok_orR x e = Inr r \<longleftrightarrow> x = Some r"
  by (auto simp: ok_orR_def split: option.splits)

lemma transactionalM_error: "transactionalM m s = (Inl e, t) \<Longrightarrow> t = s"
  by (auto simp: transactionalM_def split: prod.splits sum.splits)

lemma mapR_ok:
  "mapR f xs = Inr ys \<longleftrightarrow> list_all2 (\<lambda>x y. f x = Inr y) xs ys"
  by (induction xs arbitrary: ys) (auto simp: ok_iff list_all2_Cons1)

section \<open>Frames and invariants\<close>

definition frameM :: "('s \<Rightarrow> 'v) \<Rightarrow> ('s, 'e, 'a) op \<Rightarrow> bool" where
  "frameM g m \<longleftrightarrow> (\<forall>s. g (snd (m s)) = g s)"

definition keepsOkM :: "('s \<Rightarrow> bool) \<Rightarrow> ('s, 'e, 'a) op \<Rightarrow> bool" where
  "keepsOkM P m \<longleftrightarrow> (\<forall>s r t. P s \<longrightarrow> m s = (Inr r, t) \<longrightarrow> P t)"

lemma frameMI: "(\<And>s. g (snd (m s)) = g s) \<Longrightarrow> frameM g m"
  by (simp add: frameM_def)

lemma frameM_D: "frameM g m \<Longrightarrow> m s = (r, t) \<Longrightarrow> g t = g s"
  unfolding frameM_def by (metis snd_conv)

lemma frameM_comp: "frameM g m \<Longrightarrow> frameM (\<lambda>s. f (g s)) m"
  by (simp add: frameM_def)

lemma frame_basic [frame_intro]:
  "frameM g (retM x)" "frameM g (failM e)" "frameM g (getM f)" "frameM g (queryM q)"
  "frameM g (liftM r)" "frameM g (ensureM b e)" "frameM g (ok_orM y e)"
  by (simp_all add: frameM_def run_defs)

lemma frame_bind [frame_intro]:
  "frameM g m \<Longrightarrow> (\<And>x. frameM g (f x)) \<Longrightarrow> frameM g (bindM m f)"
  by (auto simp: frameM_def bindM_def split: prod.splits sum.splits) (metis snd_conv)+

lemma frame_modify [frame_intro]: "(\<And>s. g (f s) = g s) \<Longrightarrow> frameM g (modifyM f)"
  by (simp add: frameM_def modifyM_def)

lemma frame_when [frame_intro]: "frameM g m \<Longrightarrow> frameM g (whenM b m)"
  by (simp add: whenM_def frame_basic)

lemma frame_if [frame_intro]: "frameM g m \<Longrightarrow> frameM g n \<Longrightarrow> frameM g (if b then m else n)"
  by simp

lemma frame_let [frame_intro]: "(\<And>x. frameM g (f x)) \<Longrightarrow> frameM g (let x = v in f x)"
  by simp

lemma frame_prod [frame_intro]:
  "(\<And>x y. frameM g (f x y)) \<Longrightarrow> frameM g (case p of (x, y) \<Rightarrow> f x y)"
  by (simp split: prod.splits)

lemma frame_option [frame_intro]:
  "frameM g m \<Longrightarrow> (\<And>x. frameM g (f x)) \<Longrightarrow> frameM g (case y of None \<Rightarrow> m | Some x \<Rightarrow> f x)"
  by (simp split: option.splits)

lemma frame_sum [frame_intro]:
  "(\<And>x. frameM g (h x)) \<Longrightarrow> (\<And>x. frameM g (f x)) \<Longrightarrow> frameM g (case y of Inl x \<Rightarrow> h x | Inr x \<Rightarrow> f x)"
  by (simp split: sum.splits)

lemma frame_transactional [frame_intro]: "frameM g m \<Longrightarrow> frameM g (transactionalM m)"
  by (auto simp: frameM_def transactionalM_def split: prod.splits sum.splits) (metis snd_conv)+

lemma frame_attempt [frame_intro]: "frameM g m \<Longrightarrow> frameM g (attemptM m)"
  by (auto simp: frameM_def attemptM_def split: prod.splits) (metis snd_conv)

lemma frame_for [frame_intro]: "(\<And>x. frameM g (f x)) \<Longrightarrow> frameM g (forM xs f)"
  by (induction xs) (simp_all add: frame_basic frame_bind)

lemma frame_fold [frame_intro]: "(\<And>b x. frameM g (f b x)) \<Longrightarrow> frameM g (foldMM f b xs)"
  by (induction xs arbitrary: b) (simp_all add: frame_basic frame_bind)

lemma frame_zoom: "(\<And>f s. g (u f s) = g s) \<Longrightarrow> frameM g (zoomM h u m)"
  by (simp add: frameM_def zoomM_def split: prod.splits)

lemma keepsOkM_I: "(\<And>s r t. P s \<Longrightarrow> m s = (Inr r, t) \<Longrightarrow> P t) \<Longrightarrow> keepsOkM P m"
  by (auto simp: keepsOkM_def)

lemma keepsOkM_D: "keepsOkM P m \<Longrightarrow> P s \<Longrightarrow> m s = (Inr r, t) \<Longrightarrow> P t"
  by (auto simp: keepsOkM_def)

lemma keeps_frame: "frameM g m \<Longrightarrow> (\<And>s t. g s = g t \<Longrightarrow> P s = P t) \<Longrightarrow> keepsOkM P m"
  unfolding keepsOkM_def by (metis frameM_D)

lemma keeps_basic [keeps_intro]:
  "keepsOkM P (retM x)" "keepsOkM P (failM e)" "keepsOkM P (getM f)" "keepsOkM P (queryM q)"
  "keepsOkM P (liftM r)" "keepsOkM P (ensureM b e)" "keepsOkM P (ok_orM y e)"
  by (auto simp: keepsOkM_def ok_iff)

lemma keeps_bind [keeps_intro]:
  "keepsOkM P m \<Longrightarrow> (\<And>x. keepsOkM P (f x)) \<Longrightarrow> keepsOkM P (bindM m f)"
  unfolding keepsOkM_def bindM_ok by blast

lemma keeps_modify: "(\<And>s. P s \<Longrightarrow> P (f s)) \<Longrightarrow> keepsOkM P (modifyM f)"
  by (simp add: keepsOkM_def modifyM_def)

lemma keeps_when [keeps_intro]: "(b \<Longrightarrow> keepsOkM P m) \<Longrightarrow> keepsOkM P (whenM b m)"
  by (auto simp: keepsOkM_def whenM_def retM_def)

lemma keeps_if [keeps_intro]:
  "(b \<Longrightarrow> keepsOkM P m) \<Longrightarrow> (\<not> b \<Longrightarrow> keepsOkM P n) \<Longrightarrow> keepsOkM P (if b then m else n)"
  by simp

lemma keeps_let [keeps_intro]: "(\<And>x. keepsOkM P (f x)) \<Longrightarrow> keepsOkM P (let x = v in f x)"
  by simp

lemma keeps_prod [keeps_intro]:
  "(\<And>x y. keepsOkM P (f x y)) \<Longrightarrow> keepsOkM P (case p of (x, y) \<Rightarrow> f x y)"
  by (simp split: prod.splits)

lemma keeps_option [keeps_intro]:
  "keepsOkM P m \<Longrightarrow> (\<And>x. keepsOkM P (f x)) \<Longrightarrow> keepsOkM P (case y of None \<Rightarrow> m | Some x \<Rightarrow> f x)"
  by (simp split: option.splits)

lemma keeps_transactional [keeps_intro]: "keepsOkM P m \<Longrightarrow> keepsOkM P (transactionalM m)"
  by (simp add: keepsOkM_def ok_iff)

lemma keeps_for [keeps_intro]: "(\<And>x. keepsOkM P (f x)) \<Longrightarrow> keepsOkM P (forM xs f)"
  by (induction xs) (simp_all add: keeps_basic keeps_bind)

lemma keeps_fold [keeps_intro]: "(\<And>b x. keepsOkM P (f b x)) \<Longrightarrow> keepsOkM P (foldMM f b xs)"
  by (induction xs arbitrary: b) (simp_all add: keeps_basic keeps_bind)

section \<open>Hoare triples\<close>

text \<open>A successful run from a state with the precondition ends in one with the postcondition.\<close>

definition tripleM :: "('s \<Rightarrow> bool) \<Rightarrow> ('s, 'e, 'a) op \<Rightarrow> ('a \<Rightarrow> 's \<Rightarrow> bool) \<Rightarrow> bool" where
  "tripleM P m Q \<longleftrightarrow> (\<forall>s r t. P s \<longrightarrow> m s = (Inr r, t) \<longrightarrow> Q r t)"

lemma tripleI: "(\<And>s r t. P s \<Longrightarrow> m s = (Inr r, t) \<Longrightarrow> Q r t) \<Longrightarrow> tripleM P m Q"
  by (simp add: tripleM_def)

lemma tripleD: "tripleM P m Q \<Longrightarrow> P s \<Longrightarrow> m s = (Inr r, t) \<Longrightarrow> Q r t"
  by (simp add: tripleM_def)

lemma triple_keeps: "keepsOkM P m \<Longrightarrow> tripleM P m (\<lambda>_. P)"
  by (simp add: tripleM_def keepsOkM_def)

lemma keeps_triple: "tripleM P m (\<lambda>_. P) \<Longrightarrow> keepsOkM P m"
  by (simp add: tripleM_def keepsOkM_def)

lemma triple_bind: "tripleM P m Q \<Longrightarrow> (\<And>x. tripleM (Q x) (f x) R) \<Longrightarrow> tripleM P (bindM m f) R"
  unfolding tripleM_def bindM_ok by blast

lemma triple_then: "keepsOkM P m \<Longrightarrow> (\<And>x. tripleM P (f x) R) \<Longrightarrow> tripleM P (bindM m f) R"
  using triple_bind [OF triple_keeps] .

lemma triple_pre: "(\<And>s. P s \<Longrightarrow> P' s) \<Longrightarrow> tripleM P' m Q \<Longrightarrow> tripleM P m Q"
  by (auto simp: tripleM_def)

lemma triple_post: "tripleM P m Q' \<Longrightarrow> (\<And>r s. Q' r s \<Longrightarrow> Q r s) \<Longrightarrow> tripleM P m Q"
  by (auto simp: tripleM_def)

lemma triple_fact: "(F \<Longrightarrow> tripleM P m Q) \<Longrightarrow> tripleM (\<lambda>s. F \<and> P s) m Q"
  by (auto simp: tripleM_def)

lemma triple_lift: "(\<And>x. r = Inr x \<Longrightarrow> tripleM P (f x) R) \<Longrightarrow> tripleM P (bindM (liftM r) f) R"
  by (auto simp: tripleM_def ok_iff)

lemma triple_ensure: "(b \<Longrightarrow> tripleM P (f ()) R) \<Longrightarrow> tripleM P (bindM (ensureM b e) f) R"
  by (auto simp: tripleM_def ok_iff)

lemma triple_query:
  "(\<And>x. tripleM (\<lambda>s. P s \<and> q s = Inr x) (f x) R) \<Longrightarrow> tripleM P (bindM (queryM q) f) R"
  by (auto simp: tripleM_def ok_iff)

lemma triple_get:
  "(\<And>x. tripleM (\<lambda>s. P s \<and> q s = x) (f x) R) \<Longrightarrow> tripleM P (bindM (getM q) f) R"
  by (auto simp: tripleM_def ok_iff)

lemma triple_finish:
  "tripleM P m Q \<Longrightarrow> (\<And>r. keepsOkM R (f r)) \<Longrightarrow> (\<And>r s. Q r s \<Longrightarrow> R s) \<Longrightarrow> tripleM P (bindM m f) (\<lambda>_. R)"
  unfolding tripleM_def keepsOkM_def bindM_ok by blast

lemma triple_queryM: "(\<And>x. tripleM P (f x) R) \<Longrightarrow> tripleM P (bindM (queryM q) f) R"
  by (auto simp: tripleM_def ok_iff)

lemma triple_getM: "(\<And>x. tripleM P (f x) R) \<Longrightarrow> tripleM P (bindM (getM q) f) R"
  by (auto simp: tripleM_def ok_iff)

lemma triple_if: "(b \<Longrightarrow> tripleM P m R) \<Longrightarrow> (\<not> b \<Longrightarrow> tripleM P n R) \<Longrightarrow> tripleM P (if b then m else n) R"
  by simp

lemma triple_transactional: "tripleM P m Q \<Longrightarrow> tripleM P (transactionalM m) Q"
  by (auto simp: tripleM_def ok_iff)

lemma keeps_sum [keeps_intro]:
  "(\<And>x. keepsOkM P (h x)) \<Longrightarrow> (\<And>x. keepsOkM P (f x)) \<Longrightarrow> keepsOkM P (case y of Inl x \<Rightarrow> h x | Inr x \<Rightarrow> f x)"
  by (simp split: sum.splits)

text \<open>A swallowed error: the operation must keep the predicate on that path too.\<close>

lemma keeps_attempt:
  "(\<And>s e t. P s \<Longrightarrow> m s = (Inl e, t) \<Longrightarrow> P t) \<Longrightarrow> keepsOkM P m \<Longrightarrow> keepsOkM P (attemptM m)"
proof (rule keepsOkM_I)
  fix s r t
  assume err: "\<And>s e t. P s \<Longrightarrow> m s = (Inl e, t) \<Longrightarrow> P t" and "keepsOkM P m" and "P s"
    and "attemptM m s = (Inr r, t)"
  then have "m s = (r, t)" by (simp add: ok_iff)
  then show "P t"
    using err [OF \<open>P s\<close>] keepsOkM_D [OF \<open>keepsOkM P m\<close> \<open>P s\<close>] by (cases r) blast+
qed

lemma triple_for:
  "(\<And>x. x \<in> set xs \<Longrightarrow> tripleM P (f x) (\<lambda>_. P)) \<Longrightarrow> tripleM P (forM xs f) (\<lambda>_. P)"
proof (induction xs)
  case Nil
  then show ?case by (simp add: tripleM_def ok_iff)
next
  case (Cons x xs)
  then show ?case by (auto intro!: triple_bind [of _ _ "\<lambda>_. P"])
qed

text \<open>
  A pallet's storage inside the state of the whole chain: a projection and its update.
\<close>

locale pallet_store =
  fixes g :: "'s \<Rightarrow> 'p"
    and u :: "('p \<Rightarrow> 'p) \<Rightarrow> 's \<Rightarrow> 's"
  assumes get_put: "g (u f s) = f (g s)"
    and put_put: "u f (u h s) = u (\<lambda>p. f (h p)) s"
    and put_get: "u (\<lambda>p. p) s = s"
begin

lemma zoom_run:
  "zoomM g u m s = (r, t) \<longleftrightarrow> (\<exists>p. m (g s) = (r, p) \<and> t = u (\<lambda>_. p) s)"
  by (auto simp: zoomM_def split: prod.splits)

lemma zoom_get: "zoomM g u m s = (r, t) \<Longrightarrow> m (g s) = (r, g t)"
  by (auto simp: zoomM_def get_put split: prod.splits)

lemma zoom_bind: "zoomM g u (bindM m f) = bindM (zoomM g u m) (\<lambda>x. zoomM g u (f x))"
  by (rule ext) (auto simp: zoomM_def bindM_def get_put put_put split: prod.splits sum.splits)

lemma zoom_keeps: "keepsOkM P m \<Longrightarrow> keepsOkM (\<lambda>s. P (g s)) (zoomM g u m)"
  by (auto simp: keepsOkM_def zoom_run get_put)

lemma zoom_frame: "frameM h m \<Longrightarrow> frameM (\<lambda>s. h (g s)) (zoomM g u m)"
  by (auto simp: frameM_def zoomM_def get_put split: prod.splits) (metis snd_conv)

end

section \<open>Checked machine arithmetic\<close>

text \<open>
  Unsigned integers are natural numbers; where the code can overflow, the width is written out.
  \<^verbatim>\<open>checked_*\<close> of Rust returns \<^verbatim>\<open>None\<close> out of range, \<^verbatim>\<open>saturating_*\<close> clamps.
\<close>

definition checked_add_w :: "nat \<Rightarrow> nat \<Rightarrow> nat \<Rightarrow> nat option" where
  "checked_add_w w a b = (if a + b < 2 ^ w then Some (a + b) else None)"

definition saturating_add_w :: "nat \<Rightarrow> nat \<Rightarrow> nat \<Rightarrow> nat" where
  "saturating_add_w w a b = min (a + b) (2 ^ w - 1)"

definition wrapping_add_w :: "nat \<Rightarrow> nat \<Rightarrow> nat \<Rightarrow> nat" where
  "wrapping_add_w w a b = (a + b) mod 2 ^ w"

definition checked_sub_n :: "nat \<Rightarrow> nat \<Rightarrow> nat option" where
  "checked_sub_n a b = (if b \<le> a then Some (a - b) else None)"

definition checked_mul_w :: "nat \<Rightarrow> nat \<Rightarrow> nat \<Rightarrow> nat option" where
  "checked_mul_w w a b = (if a * b < 2 ^ w then Some (a * b) else None)"

definition checked_div_n :: "nat \<Rightarrow> nat \<Rightarrow> nat option" where
  "checked_div_n a b = (if b = 0 then None else Some (a div b))"

definition saturating_sub_n :: "nat \<Rightarrow> nat \<Rightarrow> nat" where
  "saturating_sub_n a b = (if b \<le> a then a - b else 0)"

abbreviation checked_add_128 where "checked_add_128 \<equiv> checked_add_w 128"
abbreviation checked_mul_128 where "checked_mul_128 \<equiv> checked_mul_w 128"

lemma checked_add_Some [ok_iff]: "checked_add_w w a b = Some x \<longleftrightarrow> x = a + b \<and> a + b < 2 ^ w"
  by (auto simp: checked_add_w_def)

lemma checked_sub_Some [ok_iff]: "checked_sub_n a b = Some x \<longleftrightarrow> x + b = a"
  by (auto simp: checked_sub_n_def)

lemma checked_mul_Some [ok_iff]: "checked_mul_w w a b = Some x \<longleftrightarrow> x = a * b \<and> a * b < 2 ^ w"
  by (auto simp: checked_mul_w_def)

lemma checked_div_Some [ok_iff]: "checked_div_n a b = Some x \<longleftrightarrow> b \<noteq> 0 \<and> x = a div b"
  by (auto simp: checked_div_n_def)

lemma saturating_sub_n_le [simp]: "saturating_sub_n a b \<le> a"
  by (simp add: saturating_sub_n_def)

lemma saturating_sub_n_minus: "saturating_sub_n a b = a - b"
  by (simp add: saturating_sub_n_def)

lemma saturating_add_le: "saturating_add_w w a b \<le> a + b"
  by (simp add: saturating_add_w_def)

text \<open>Signed 128 bit integers, as \<^typ>\<open>int\<close> in the range of \<^verbatim>\<open>i128\<close>; Rust divides towards zero.\<close>

definition i128_ok :: "int \<Rightarrow> bool" where
  "i128_ok i \<longleftrightarrow> - (2 ^ 127) \<le> i \<and> i < 2 ^ 127"

definition u128_ok :: "int \<Rightarrow> bool" where
  "u128_ok i \<longleftrightarrow> 0 \<le> i \<and> i < 2 ^ 128"

definition trunc_div :: "int \<Rightarrow> int \<Rightarrow> int" where
  "trunc_div a b = (if (0 \<le> a) = (0 \<le> b) then \<bar>a\<bar> div \<bar>b\<bar> else - (\<bar>a\<bar> div \<bar>b\<bar>))"

lemma trunc_div_nonneg: "0 \<le> a \<Longrightarrow> 0 < b \<Longrightarrow> trunc_div a b = a div b"
  by (simp add: trunc_div_def)

lemma trunc_div_abs: "\<bar>trunc_div a b\<bar> = \<bar>a\<bar> div \<bar>b\<bar>"
  by (cases "b = 0") (simp_all add: trunc_div_def pos_imp_zdiv_nonneg_iff)

lemma trunc_div_abs_le: "0 < b \<Longrightarrow> \<bar>trunc_div a b\<bar> * b \<le> \<bar>a\<bar>"
  using div_mult_mod_eq [of "\<bar>a\<bar>" b] pos_mod_sign [of b "\<bar>a\<bar>"]
  unfolding trunc_div_abs by linarith

section \<open>Sums over storage maps\<close>

text \<open>
  A value-query storage map is a total function with default zero.  Its sum ranges over the keys
  with a non-zero value, of which a chain has finitely many.
\<close>

definition support :: "('k \<Rightarrow> 'v::zero) \<Rightarrow> 'k set" where
  "support f = {k. f k \<noteq> 0}"

definition support_sum :: "('k \<Rightarrow> 'v::comm_monoid_add) \<Rightarrow> 'v" where
  "support_sum f = sum f (support f)"

lemma finite_support_upd [simp]: "finite (support (f(k := v))) \<longleftrightarrow> finite (support f)"
proof -
  have "support (f(k := v)) \<subseteq> insert k (support f)" "support f \<subseteq> insert k (support (f(k := v)))"
    by (auto simp: support_def split: if_splits)
  then show ?thesis by (meson finite_insert finite_subset)
qed

lemma support_zero [simp]: "support (\<lambda>_. 0) = {}"
  by (simp add: support_def)

lemma support_sum_zero [simp]: "support_sum (\<lambda>_. 0) = 0"
  by (simp add: support_sum_def)

lemma support_sum_superset:
  "finite A \<Longrightarrow> support f \<subseteq> A \<Longrightarrow> support_sum f = sum f A"
  unfolding support_sum_def by (rule sum.mono_neutral_left) (auto simp: support_def)

lemma support_sum_upd:
  fixes f :: "'k \<Rightarrow> 'v::comm_monoid_add"
  assumes "finite (support f)"
  shows "support_sum (f(k := v)) + f k = support_sum f + v"
proof -
  let ?A = "support f - {k}"
  have fin: "finite ?A" using assms by simp
  have rest: "sum (f(k := v)) ?A = sum f ?A"
    by (rule sum.cong) auto
  have "support_sum (f(k := v)) = sum (f(k := v)) (insert k ?A)"
    using fin by (intro support_sum_superset) (auto simp: support_def split: if_splits)
  also have "\<dots> = v + sum f ?A"
    by (subst sum.insert [OF fin]) (simp_all add: rest del: insert_Diff_single)
  finally have 1: "support_sum (f(k := v)) = v + sum f ?A" .
  have "support_sum f = sum f (insert k ?A)"
    using fin by (intro support_sum_superset) (auto simp: support_def)
  also have "\<dots> = f k + sum f ?A"
    by (subst sum.insert [OF fin]) simp_all
  finally show ?thesis using 1 by (simp add: ac_simps)
qed

lemma support_sum_upd_diff:
  fixes f :: "'k \<Rightarrow> 'v::ab_group_add"
  assumes "finite (support f)"
  shows "support_sum (f(k := v)) = support_sum f - f k + v"
  using support_sum_upd [OF assms, of k v] by (metis add_diff_cancel_right' diff_add_eq)

lemma support_sum_member_le:
  fixes f :: "'k \<Rightarrow> 'v::{semiring_1,ordered_comm_monoid_add}"
  assumes "finite (support f)" and "\<And>x. 0 \<le> f x"
  shows "f k \<le> support_sum f"
proof (cases "f k = 0")
  case True
  then show ?thesis by (simp add: support_sum_def assms(2) sum_nonneg)
next
  case False
  then show ?thesis
    unfolding support_sum_def using assms by (intro member_le_sum) (auto simp: support_def)
qed

text \<open>The same for a storage map whose keys can be absent.\<close>

definition map_sum :: "('v \<Rightarrow> 'n::comm_monoid_add) \<Rightarrow> ('k \<rightharpoonup> 'v) \<Rightarrow> 'n" where
  "map_sum w m = (\<Sum>k\<in>dom m. w (the (m k)))"

lemma map_sum_empty [simp]: "map_sum w Map.empty = 0"
  by (simp add: map_sum_def)

lemma map_sum_upd:
  assumes "finite (dom m)"
  shows "map_sum w (m(k \<mapsto> v)) + (case m k of None \<Rightarrow> 0 | Some v' \<Rightarrow> w v') = map_sum w m + w v"
proof -
  let ?A = "dom m - {k}"
  have fin: "finite ?A" using assms by simp
  have rest: "(\<Sum>j\<in>?A. w (the ((m(k \<mapsto> v)) j))) = (\<Sum>j\<in>?A. w (the (m j)))"
    by (rule sum.cong) auto
  have "map_sum w (m(k \<mapsto> v)) = w v + (\<Sum>j\<in>?A. w (the (m j)))"
    unfolding map_sum_def using fin assms rest
    by (simp add: sum.insert_remove)
  moreover have "map_sum w m = (case m k of None \<Rightarrow> 0 | Some v' \<Rightarrow> w v') + (\<Sum>j\<in>?A. w (the (m j)))"
  proof (cases "m k")
    case None
    then show ?thesis by (simp add: map_sum_def domIff)
  next
    case (Some v')
    then show ?thesis
      unfolding map_sum_def using assms by (subst sum.remove [of _ k]) auto
  qed
  ultimately show ?thesis by (simp add: ac_simps)
qed

end
