(* ===== verification/Errors.thy ===== *)
theory Errors
  imports Prelude
begin

text \<open>
  The error values of the runtime.  Each pallet's \<^verbatim>\<open>Error\<close> enumeration is a datatype with the
  source's constructors; \<^verbatim>\<open>dispatch_error\<close> is the sum the runtime returns
  (\<^verbatim>\<open>sp_runtime::DispatchError\<close>).  \<^verbatim>\<open>Panic\<close> stands for a Rust panic: the call does not return.
\<close>

datatype security_error =
    ParachainNotRunning

datatype staking_error =
    TryIntoIntError
  | InsufficientFunds
  | SlashZeroTotalStake
  | MaxRewardCurrencies

datatype reward_error =
    TryIntoIntError
  | InsufficientFunds
  | ZeroTotalStake

datatype pooled_rewards_error =
    TryIntoIntError
  | InsufficientFunds
  | ZeroTotalStake
  | MaxRewardCurrencies

datatype reward_distribution_error =
    Overflow
  | Underflow
  | NoRewardsForAccount
  | NotEnoughRewardsRegistered
  | InconsistentRewardCurrencies
  | CollectAmountTooSmall

datatype fee_error =
    TryIntoIntError
  | AboveMaxExpectedValue
  | Overflow

datatype oracle_error =
    InvalidOracleSource
  | MissingExchangeRate
  | TryIntoIntError

datatype currency_error =
    AssetConversionError
  | BalanceConversionError
  | CompatibleRoundingFailed
  | IncompatibleAmount
  | InvalidCurrency
  | TryIntoIntError

datatype vault_registry_error =
    InsufficientCollateral
  | ExceedingVaultLimit
  | InsufficientTokensCommitted
  | VaultBanned
  | InsufficientVaultCollateralAmount
  | VaultAlreadyRegistered
  | VaultNotFound
  | VaultNotBelowLiquidationThreshold
  | InvalidPublicKey
  | MaxNominationRatioViolation
  | CurrencyCeilingExceeded
  | VaultLiquidated
  | VaultNotRecoverable
  | NoStellarPublicKey
  | PublicKeyAlreadyRegistered
  | NoTokensIssued
  | NoVaultWithSufficientCollateral
  | NoVaultWithSufficientTokens
  | NoVaultUnderThePremiumRedeemThreshold
  | InvalidCurrency
  | GlobalThresholdNotSet
  | LiquidationCollateralThresholdNotSet
  | PremiumRedeemThresholdNotSet
  | SecureCollateralThresholdNotSet
  | CeilingNotSet
  | ThresholdNotAboveGlobalThreshold
  | TryIntoIntError
  | VaultNotAcceptingIssueRequests
  | MinimumCollateralNotSet

datatype issue_error =
    IssueIdNotFound
  | TimeNotExpired
  | IssueCompleted
  | IssueCancelled
  | VaultNotAcceptingNewIssues
  | InvalidExecutor
  | AmountBelowMinimumTransferAmount
  | ExceedLimitVolumeForIssueRequest

datatype redeem_error =
    AmountExceedsUserBalance
  | UnauthorizedRedeemer
  | UnauthorizedVault
  | TimeNotExpired
  | RedeemCancelled
  | RedeemCompleted
  | RedeemIdNotFound
  | TryIntoIntError
  | AmountBelowMinimumTransferAmount
  | ExceedLimitVolumeForRedeemRequest
  | InvalidPaymentAmount

datatype replace_error =
    ReplaceAmountZero
  | AmountBelowDustAmount
  | NoPendingRequest
  | UnauthorizedVault
  | ReplaceSelfNotAllowed
  | VaultHasEnabledNomination
  | ReplacePeriodNotExpired
  | ReplaceCompleted
  | ReplaceCancelled
  | ReplaceIdNotFound
  | InvalidWrappedCurrency
  | InvalidPaymentAmount

datatype nomination_error =
    VaultAlreadyOptedInToNomination
  | VaultNotOptedInToNomination
  | VaultNotFound
  | CannotWithdrawCollateral
  | VaultNominationDisabled
  | DepositViolatesMaxNominationRatio
  | CollateralizationTooLow

datatype stellar_relay_error =
    Base64DecodeError
  | BoundedVecCreationFailed
  | DuplicateOrganizationId
  | DuplicateValidatorPublicKey
  | EmptyEnvelopeSet
  | EnvelopeSlotIndexMismatch
  | ExternalizedNHMismatch
  | ExternalizedValueMismatch
  | FailedToComputeNonGenericTxSetContentHash
  | InvalidEnvelopeSignature
  | InvalidQuorumSetNotEnoughOrganizations
  | InvalidQuorumSetNotEnoughValidators
  | InvalidScpPledge
  | InvalidTransactionSetPrefix
  | InvalidXDR
  | MissingExternalizedMessage
  | NoOrganizationsRegistered
  | NoValidatorsRegistered
  | OrganizationLimitExceeded
  | SlotIndexIsNone
  | TransactionMemoDoesNotMatch
  | TransactionNotInTransactionSet
  | TransactionSetHashCreationFailed
  | TransactionSetHashMismatch
  | ValidatorLimitExceeded

datatype clients_info_error =
    ThisAccountIdIsNotAuthorized
  | UserUnableToDeauthorizeThemself

datatype arithmetic_error = ArithOverflow | ArithUnderflow | ArithDivisionByZero

datatype token_error = TokenError string

datatype dispatch_error =
    Arithmetic arithmetic_error
  | BadOrigin
  | Token token_error
  | Other string
  | Panic
  | SecurityErr security_error
  | StakingErr staking_error
  | RewardErr reward_error
  | PooledRewardsErr pooled_rewards_error
  | RewardDistributionErr reward_distribution_error
  | FeeErr fee_error
  | OracleErr oracle_error
  | CurrencyErr currency_error
  | VaultRegistryErr vault_registry_error
  | IssueErr issue_error
  | RedeemErr redeem_error
  | ReplaceErr replace_error
  | NominationErr nomination_error
  | StellarRelayErr stellar_relay_error
  | ClientsInfoErr clients_info_error

abbreviation Overflow_err :: dispatch_error where
  "Overflow_err \<equiv> Arithmetic ArithOverflow"

abbreviation Underflow_err :: dispatch_error where
  "Underflow_err \<equiv> Arithmetic ArithUnderflow"

type_synonym 'a result = "dispatch_error + 'a"
type_synonym ('s, 'a) prog = "('s, dispatch_error, 'a) op"

end
