(* ===== verification/Primitives.thy ===== *)
theory Primitives
  imports Errors
begin

text \<open>
  The shared data types of \<^verbatim>\<open>primitives/src/lib.rs\<close>: currencies, vault identifiers, the request
  records of the issue, redeem and replace pallets, and the conversions between the chain's and
  Stellar's representation of assets, amounts and payments.

  Not under \<^verbatim>\<open>src\<close> and therefore parameters: the fixed point type of \<^verbatim>\<open>sp_arithmetic\<close> (the record
  \<^verbatim>\<open>fixed_ops\<close>, a value being its inner integer), base58 and the Stellar key encoding.  The XDR types
  of the Stellar SDK appear with the constructors the sources match on; every constructor that a
  source treats by a wildcard arm is one constructor here.
\<close>

section \<open>Fixed point numbers\<close>

record fixed_ops =
  fx_accuracy :: int
  fx_checked_from_integer :: "int \<Rightarrow> int option"
  fx_checked_from_rational :: "int \<Rightarrow> int \<Rightarrow> int option"
  fx_checked_add :: "int \<Rightarrow> int \<Rightarrow> int option"
  fx_checked_sub :: "int \<Rightarrow> int \<Rightarrow> int option"
  fx_checked_mul :: "int \<Rightarrow> int \<Rightarrow> int option"
  fx_checked_div :: "int \<Rightarrow> int \<Rightarrow> int option"
  fx_checked_mul_int :: "int \<Rightarrow> int \<Rightarrow> int option"
  fx_round :: "int \<Rightarrow> int"

text \<open>
  What the sources rely on: results are values of the inner type's range, addition and subtraction
  are exact inside the range and refused outside, an integer is represented exactly, zero times
  anything is zero, products and quotients are off by less than one unit in the last place, and rounding gives an integral
  number, a nearest one where the integers around it are in range.
\<close>

definition fixed_point_laws :: "(int \<Rightarrow> bool) \<Rightarrow> fixed_ops \<Rightarrow> bool" where
  "fixed_point_laws in_range fx \<longleftrightarrow>
     0 < fx_accuracy fx \<and>
     (\<forall>b. fx_checked_mul fx 0 b = Some 0) \<and>
     (\<forall>n x. fx_checked_from_integer fx n = Some x \<longrightarrow> in_range x \<and> x = n * fx_accuracy fx) \<and>
     (\<forall>a b. fx_checked_add fx a b = (if in_range (a + b) then Some (a + b) else None)) \<and>
     (\<forall>a b. fx_checked_sub fx a b = (if in_range (a - b) then Some (a - b) else None)) \<and>
     (\<forall>a b x. fx_checked_mul fx a b = Some x \<longrightarrow>
        in_range x \<and> \<bar>x * fx_accuracy fx - a * b\<bar> < fx_accuracy fx) \<and>
     (\<forall>a b x. fx_checked_div fx a b = Some x \<longrightarrow>
        in_range x \<and> \<bar>x * b - a * fx_accuracy fx\<bar> < \<bar>b\<bar>) \<and>
     (\<forall>a n x. fx_checked_mul_int fx a n = Some x \<longrightarrow>
        in_range x \<and> \<bar>x * fx_accuracy fx - a * n\<bar> < fx_accuracy fx) \<and>
     (\<forall>n d x. fx_checked_from_rational fx n d = Some x \<longrightarrow>
        in_range x \<and> \<bar>x * d - n * fx_accuracy fx\<bar> < \<bar>d\<bar>) \<and>
     (\<forall>a. in_range a \<longrightarrow> in_range (fx_round fx a) \<and> fx_accuracy fx dvd fx_round fx a \<and>
        ((\<forall>k. \<bar>k * fx_accuracy fx - a\<bar> < fx_accuracy fx \<longrightarrow> in_range (k * fx_accuracy fx)) \<longrightarrow>
           2 * \<bar>fx_round fx a - a\<bar> \<le> fx_accuracy fx))"

type_synonym balance = nat

definition to_fixed :: "fixed_ops \<Rightarrow> balance \<Rightarrow> int option" where
  "to_fixed fx b = (if i128_ok (int b) then fx_checked_from_integer fx (int b) else None)"

definition truncate_to_inner_signed :: "fixed_ops \<Rightarrow> int \<Rightarrow> int option" where
  "truncate_to_inner_signed fx x =
     (if fx_accuracy fx = 0 \<or> (x = - (2 ^ 127) \<and> fx_accuracy fx = - 1) then None
      else Some (trunc_div x (fx_accuracy fx)))"

definition truncate_to_inner_unsigned :: "fixed_ops \<Rightarrow> int \<Rightarrow> int option" where
  "truncate_to_inner_unsigned fx x =
     (if fx_accuracy fx = 0 then None else Some (x div fx_accuracy fx))"

section \<open>Currencies\<close>

type_synonym byte = "8 word"
type_synonym account = nat
type_synonym block_number = nat
type_synonym moment = nat

datatype asset =
    StellarNative
  | AlphaNum4 "byte list" "byte list"
  | AlphaNum12 "byte list" "byte list"

datatype currency =
    Native
  | XCM byte
  | Stellar asset
  | ZenlinkLPToken byte byte byte byte
  | TokenCurrency "64 word"

text \<open>The derived order: by variant, then lexicographically by the fields.\<close>

type_synonym currency_key = "nat \<times> nat list \<times> byte list \<times> byte list"

fun currency_key :: "currency \<Rightarrow> currency_key" where
  "currency_key Native = (0, [], [], [])"
| "currency_key (XCM i) = (1, [unat i], [], [])"
| "currency_key (Stellar StellarNative) = (2, [0], [], [])"
| "currency_key (Stellar (AlphaNum4 code issuer)) = (2, [1], code, issuer)"
| "currency_key (Stellar (AlphaNum12 code issuer)) = (2, [2], code, issuer)"
| "currency_key (ZenlinkLPToken a b c d) = (3, [unat a, unat b, unat c, unat d], [], [])"
| "currency_key (TokenCurrency t) = (4, [unat t], [], [])"

lemma currency_key_inj: "currency_key a = currency_key b \<Longrightarrow> a = b"
  by (cases a rule: currency_key.cases; cases b rule: currency_key.cases)
     (auto simp: unsigned_word_eqI word_unat_eq_iff)

instantiation currency :: linorder
begin

definition less_eq_currency :: "currency \<Rightarrow> currency \<Rightarrow> bool" where
  "less_eq_currency a b \<longleftrightarrow> currency_key a \<le> currency_key b"

definition less_currency :: "currency \<Rightarrow> currency \<Rightarrow> bool" where
  "less_currency a b \<longleftrightarrow> currency_key a < currency_key b"

instance
  by standard (auto simp: less_eq_currency_def less_currency_def intro: currency_key_inj)

end

record vault_currency_pair =
  cp_collateral :: currency
  cp_wrapped :: currency

record vault_id =
  vid_account :: account
  vid_currencies :: vault_currency_pair

definition new_vault_id :: "account \<Rightarrow> currency \<Rightarrow> currency \<Rightarrow> vault_id" where
  "new_vault_id account_id collateral_currency wrapped_currency =
     \<lparr>vid_account = account_id,
      vid_currencies = \<lparr>cp_collateral = collateral_currency, cp_wrapped = wrapped_currency\<rparr>\<rparr>"

definition collateral_currency :: "vault_id \<Rightarrow> currency" where
  "collateral_currency v = cp_collateral (vid_currencies v)"

definition wrapped_currency :: "vault_id \<Rightarrow> currency" where
  "wrapped_currency v = cp_wrapped (vid_currencies v)"

section \<open>Requests\<close>

datatype issue_request_status = IssuePending | IssueStatusCompleted | IssueStatusCancelled

record issue_request =
  ir_vault :: vault_id
  ir_opentime :: block_number
  ir_period :: block_number
  ir_griefing_collateral :: balance
  ir_amount :: balance
  ir_asset :: currency
  ir_fee :: balance
  ir_requester :: account
  ir_stellar_address :: "byte list"
  ir_status :: issue_request_status

datatype redeem_request_status =
    RedeemPending
  | RedeemStatusCompleted
  | RedeemReimbursed bool
  | RedeemRetried

record redeem_request =
  rr_vault :: vault_id
  rr_opentime :: block_number
  rr_period :: block_number
  rr_fee :: balance
  rr_transfer_fee :: balance
  rr_amount :: balance
  rr_asset :: currency
  rr_premium :: balance
  rr_redeemer :: account
  rr_stellar_address :: "byte list"
  rr_status :: redeem_request_status

datatype replace_request_status = ReplacePending | ReplaceStatusCompleted | ReplaceStatusCancelled

record replace_request =
  rp_old_vault :: vault_id
  rp_new_vault :: vault_id
  rp_amount :: balance
  rp_asset :: currency
  rp_griefing_collateral :: balance
  rp_collateral :: balance
  rp_accept_time :: block_number
  rp_period :: block_number
  rp_stellar_address :: "byte list"
  rp_status :: replace_request_status

datatype oracle_key = ExchangeRate currency

section \<open>Currency metadata\<close>

definition is_ascii_alphanumeric :: "byte \<Rightarrow> bool" where
  "is_ascii_alphanumeric b \<longleftrightarrow>
     (48 \<le> b \<and> b \<le> 57) \<or> (65 \<le> b \<and> b \<le> 90) \<or> (97 \<le> b \<and> b \<le> 122)"

definition remove_trailing_non_alphanum_bytes :: "byte list \<Rightarrow> byte list" where
  "remove_trailing_non_alphanum_bytes input =
     rev (dropWhile (\<lambda>b. \<not> is_ascii_alphanumeric b) (rev input))"

text \<open>Well-formed UTF-8, the check of \<^verbatim>\<open>core::str::from_utf8\<close>.\<close>

definition utf8_tail :: "byte \<Rightarrow> bool" where
  "utf8_tail b \<longleftrightarrow> 128 \<le> b \<and> b \<le> 191"

fun utf8_ok :: "byte list \<Rightarrow> bool" where
  "utf8_ok [] = True"
| "utf8_ok (a # bs) =
     (if a \<le> 127 then utf8_ok bs
      else (case bs of
        [] \<Rightarrow> False
      | b # cs \<Rightarrow>
          if 194 \<le> a \<and> a \<le> 223 then utf8_tail b \<and> utf8_ok cs
          else (case cs of
            [] \<Rightarrow> False
          | c # ds \<Rightarrow>
              if a = 224 then 160 \<le> b \<and> b \<le> 191 \<and> utf8_tail c \<and> utf8_ok ds
              else if a = 237 then 128 \<le> b \<and> b \<le> 159 \<and> utf8_tail c \<and> utf8_ok ds
              else if 225 \<le> a \<and> a \<le> 239 then utf8_tail b \<and> utf8_tail c \<and> utf8_ok ds
              else (case ds of
                [] \<Rightarrow> False
              | d # es \<Rightarrow>
                  if a = 240 then 144 \<le> b \<and> b \<le> 191 \<and> utf8_tail c \<and> utf8_tail d \<and> utf8_ok es
                  else if 241 \<le> a \<and> a \<le> 243 then
                    utf8_tail b \<and> utf8_tail c \<and> utf8_tail d \<and> utf8_ok es
                  else if a = 244 then
                    128 \<le> b \<and> b \<le> 143 \<and> utf8_tail c \<and> utf8_tail d \<and> utf8_ok es
                  else False))))"

definition ascii_bytes :: "string \<Rightarrow> byte list" where
  "ascii_bytes = map (\<lambda>ch. of_nat (of_char ch))"

definition utf8_or_unspecified :: "byte list \<Rightarrow> byte list" where
  "utf8_or_unspecified bs = (if utf8_ok bs then bs else ascii_bytes ''unspecified'')"

fun asset_name :: "asset \<Rightarrow> byte list" where
  "asset_name StellarNative = ascii_bytes ''Stellar''"
| "asset_name (AlphaNum4 code issuer) =
     utf8_or_unspecified (remove_trailing_non_alphanum_bytes code)"
| "asset_name (AlphaNum12 code issuer) =
     utf8_or_unspecified (remove_trailing_non_alphanum_bytes code)"

fun asset_symbol :: "asset \<Rightarrow> byte list" where
  "asset_symbol StellarNative = ascii_bytes ''XLM''"
| "asset_symbol a = asset_name a"

definition asset_decimals :: "asset \<Rightarrow> nat" where
  "asset_decimals a = 12"

definition asset_one :: "asset \<Rightarrow> balance" where
  "asset_one a = 10 ^ asset_decimals a"

fun pendulum_decimals :: "currency \<Rightarrow> nat" where
  "pendulum_decimals (Stellar a) = asset_decimals a"
| "pendulum_decimals (XCM i) =
     (if i = 0 then 10 else if i = 1 then 6 else if i = 2 then 6 else if i = 3 then 9
      else if i = 4 then 18 else if i = 5 then 12 else if i = 6 then 18 else if i = 7 then 10
      else if i = 8 then 12 else if i = 9 then 10 else 12)"
| "pendulum_decimals _ = 12"

fun amplitude_decimals :: "currency \<Rightarrow> nat" where
  "amplitude_decimals (Stellar a) = asset_decimals a"
| "amplitude_decimals (XCM i) = (if i = 0 then 12 else if i = 1 then 6 else 12)"
| "amplitude_decimals _ = 12"

definition decimals_one :: "(currency \<Rightarrow> nat) \<Rightarrow> currency \<Rightarrow> balance" where
  "decimals_one decimals currency_id = 10 ^ decimals currency_id"

definition pad_to :: "nat \<Rightarrow> byte list \<Rightarrow> byte list" where
  "pad_to n bs = bs @ replicate (n - length bs) 0"

definition currency_try_from :: "byte list \<Rightarrow> byte list \<Rightarrow> string + currency" where
  "currency_try_from asset_code issuer =
     (if length asset_code \<le> 4 then Inr (Stellar (AlphaNum4 (pad_to 4 asset_code) issuer))
      else if length asset_code \<le> 12 then Inr (Stellar (AlphaNum12 (pad_to 12 asset_code) issuer))
      else Inl ''More than 12 bytes not supported'')"

definition currency_try_from_encoded ::
  "(byte list \<Rightarrow> byte list option) \<Rightarrow> byte list \<Rightarrow> byte list \<Rightarrow> string + currency" where
  "currency_try_from_encoded from_encoding asset_code issuer_encoded = (bindR (ok_orR (from_encoding issuer_encoded) ''Invalid issuer encoding'') (\<lambda>issuer.
    currency_try_from asset_code issuer))"

definition string_currency_convert ::
  "(byte list \<Rightarrow> byte list option) \<Rightarrow> byte list \<times> byte list \<Rightarrow> unit + currency" where
  "string_currency_convert from_encoding a = (bindR (ok_orR (from_encoding (snd a)) ()) (\<lambda>public_key.
    bindR ((if utf8_ok (fst a) then Inr (fst a) else Inl ())) (\<lambda>asset_code.
    (case currency_try_from asset_code public_key of Inl _ \<Rightarrow> Inl () | Inr x \<Rightarrow> Inr x))))"

section \<open>Stellar types\<close>

datatype stellar_asset =
    AssetTypeNative
  | AssetTypeCreditAlphanum4 "byte list" "byte list"
  | AssetTypeCreditAlphanum12 "byte list" "byte list"
  | DefaultAsset int

datatype muxed_account =
    KeyTypeEd25519 "byte list"
  | KeyTypeMuxedEd25519 nat "byte list"
  | DefaultMuxedAccount int

datatype memo =
    MemoNone
  | MemoText "byte list"
  | OtherMemo "byte list"

datatype claim_predicate = ClaimPredicateUnconditional | OtherClaimPredicate nat

record claimant =
  cl_destination :: "byte list"
  cl_predicate :: claim_predicate

record payment_op =
  po_destination :: muxed_account
  po_asset :: stellar_asset
  po_amount :: int

record claimable_balance_op =
  cb_asset :: stellar_asset
  cb_amount :: int
  cb_claimants :: "claimant list"

datatype operation_body =
    Payment payment_op
  | CreateClaimableBalance claimable_balance_op
  | OtherOperation nat

record transaction =
  tx_source :: "byte list"
  tx_seq_num :: int
  tx_memo :: memo
  tx_operations :: "operation_body list"

datatype transaction_envelope =
    EnvelopeTypeTxV0 transaction
  | EnvelopeTypeTx transaction
  | EnvelopeTypeTxFeeBump nat
  | DefaultEnvelope int

fun currency_from_stellar :: "stellar_asset \<Rightarrow> currency" where
  "currency_from_stellar (DefaultAsset _) = Stellar StellarNative"
| "currency_from_stellar AssetTypeNative = Stellar StellarNative"
| "currency_from_stellar (AssetTypeCreditAlphanum4 code issuer) = Stellar (AlphaNum4 code issuer)"
| "currency_from_stellar (AssetTypeCreditAlphanum12 code issuer) = Stellar (AlphaNum12 code issuer)"

fun currency_try_into_stellar :: "currency \<Rightarrow> string + stellar_asset" where
  "currency_try_into_stellar (XCM _) = Inl ''XCM Foreign Asset not defined in the Stellar world.''"
| "currency_try_into_stellar Native = Inl ''PEN token not defined in the Stellar world.''"
| "currency_try_into_stellar (Stellar StellarNative) = Inr AssetTypeNative"
| "currency_try_into_stellar (Stellar (AlphaNum4 code issuer)) =
     Inr (AssetTypeCreditAlphanum4 code issuer)"
| "currency_try_into_stellar (Stellar (AlphaNum12 code issuer)) =
     Inr (AssetTypeCreditAlphanum12 code issuer)"
| "currency_try_into_stellar (ZenlinkLPToken _ _ _ _) =
     Inl ''Zenlink LP Token not defined in the Stellar world.''"
| "currency_try_into_stellar (TokenCurrency _) = Inl ''Token not defined in the Stellar world.''"

datatype lookup_error = LookupError

definition asset_lookup :: "currency \<Rightarrow> lookup_error + stellar_asset" where
  "asset_lookup currency_id =
     (case currency_try_into_stellar currency_id of Inl _ \<Rightarrow> Inl LookupError | Inr a \<Rightarrow> Inr a)"

definition asset_unlookup :: "stellar_asset \<Rightarrow> currency" where
  "asset_unlookup stellar_asset = currency_from_stellar stellar_asset"

section \<open>Amounts on both chains\<close>

definition CHAIN_DECIMALS :: nat where "CHAIN_DECIMALS = 12"
definition STELLAR_DECIMALS :: nat where "STELLAR_DECIMALS = 7"

definition DECIMALS_CONVERSION_RATE :: nat where
  "DECIMALS_CONVERSION_RATE = 10 ^ (CHAIN_DECIMALS - STELLAR_DECIMALS)"

definition stellar_stroops_to_u128 :: "int \<Rightarrow> balance" where
  "stellar_stroops_to_u128 stroops =
     (let value = (if 0 \<le> stroops then nat stroops else 0) in
      min (value * DECIMALS_CONVERSION_RATE) (2 ^ 128 - 1))"

definition balance_lookup :: "balance \<Rightarrow> lookup_error + int" where
  "balance_lookup pendulum_balance =
     (let stroops = pendulum_balance div DECIMALS_CONVERSION_RATE in
      if stroops > 2 ^ 63 - 1 then Inl LookupError else Inr (int stroops))"

definition balance_unlookup :: "int \<Rightarrow> balance" where
  "balance_unlookup stellar_stroops = stellar_stroops_to_u128 stellar_stroops"

definition is_compatible_with_target :: "nat \<Rightarrow> bool" where
  "is_compatible_with_target source_amount \<longleftrightarrow> source_amount mod DECIMALS_CONVERSION_RATE = 0"

definition round_to_compatible_with_target :: "fixed_ops \<Rightarrow> nat \<Rightarrow> unit + nat" where
  "round_to_compatible_with_target fx source_amount = (let conversion_rate = int DECIMALS_CONVERSION_RATE in
    let fixed_amount = int source_amount in
    bindR (ok_orR (fx_checked_div fx fixed_amount conversion_rate) ()) (\<lambda>divided.
    bindR (ok_orR (fx_checked_mul fx (fx_round fx divided) conversion_rate) ()) (\<lambda>rounded.
    let rounded_amount = nat rounded in
    (if is_compatible_with_target rounded_amount then Inr rounded_amount else Inl ()))))"

section \<open>Payments and memos\<close>

definition is_type_text :: "byte list \<Rightarrow> bool" where
  "is_type_text memo_type \<longleftrightarrow> memo_type = ascii_bytes ''text''"

definition is_type_hash :: "byte list \<Rightarrow> bool" where
  "is_type_hash memo_type \<longleftrightarrow> memo_type = ascii_bytes ''hash''"

text \<open>Slicing out of range panics.\<close>

definition derive_shortened_request_id ::
  "(byte list \<Rightarrow> byte list) \<Rightarrow> byte list \<Rightarrow> byte list result" where
  "derive_shortened_request_id to_base58 hash =
     (let encoded = to_base58 hash in
      if length encoded < 28 then Inl Panic else Inr (take 28 encoded))"

fun memo_text :: "memo \<Rightarrow> byte list option" where
  "memo_text (MemoText text) = Some text"
| "memo_text _ = None"

fun get_text_memo_from_tx_env :: "transaction_envelope \<Rightarrow> byte list option" where
  "get_text_memo_from_tx_env (EnvelopeTypeTxV0 tx) = memo_text (tx_memo tx)"
| "get_text_memo_from_tx_env (EnvelopeTypeTx tx) = memo_text (tx_memo tx)"
| "get_text_memo_from_tx_env _ = None"

fun envelope_operations :: "transaction_envelope \<Rightarrow> operation_body list" where
  "envelope_operations (EnvelopeTypeTxV0 tx) = tx_operations tx"
| "envelope_operations (EnvelopeTypeTx tx) = tx_operations tx"
| "envelope_operations (EnvelopeTypeTxFeeBump _) = []"
| "envelope_operations (DefaultEnvelope _) = []"

definition saturating_add_i64 :: "int \<Rightarrow> int \<Rightarrow> int" where
  "saturating_add_i64 a b = max (- (2 ^ 63)) (min (2 ^ 63 - 1) (a + b))"

definition payment_step ::
  "byte list \<Rightarrow> stellar_asset \<Rightarrow> int \<Rightarrow> operation_body \<Rightarrow> int" where
  "payment_step to asset acc body = (case body of
     Payment payment \<Rightarrow>
       if po_destination payment = KeyTypeEd25519 to \<and> po_asset payment = asset
       then saturating_add_i64 acc (po_amount payment) else acc
   | CreateClaimableBalance payment \<Rightarrow>
       if length (cb_claimants payment) = 1 then
         (let claimant = cb_claimants payment ! 0 in
          if cl_destination claimant = to \<and> cb_asset payment = asset \<and>
             cl_predicate claimant = ClaimPredicateUnconditional
          then saturating_add_i64 acc (cb_amount payment) else acc)
       else acc
   | OtherOperation _ \<Rightarrow> acc)"

definition get_payment_amount_for_asset_to ::
  "transaction_envelope \<Rightarrow> byte list \<Rightarrow> stellar_asset \<Rightarrow> balance" where
  "get_payment_amount_for_asset_to env to asset =
     (let tx_operations = envelope_operations env in
      if tx_operations = [] then balance_unlookup 0
      else balance_unlookup (foldl (payment_step to asset) 0 tx_operations))"

fun sequence_number :: "transaction_envelope \<Rightarrow> int option" where
  "sequence_number (EnvelopeTypeTxV0 tx) = Some (tx_seq_num tx)"
| "sequence_number (EnvelopeTypeTx tx) = Some (tx_seq_num tx)"
| "sequence_number _ = None"

fun get_transaction ::
  "(transaction \<Rightarrow> transaction) \<Rightarrow> transaction_envelope \<Rightarrow> transaction option" where
  "get_transaction from_v0 (EnvelopeTypeTxV0 tx) = Some (from_v0 tx)"
| "get_transaction from_v0 (EnvelopeTypeTx tx) = Some tx"
| "get_transaction from_v0 _ = None"

section \<open>Laws of the fixed point type, one by one\<close>

lemma fixed_accuracy_pos: "fixed_point_laws R fx \<Longrightarrow> 0 < fx_accuracy fx"
  by (simp add: fixed_point_laws_def)

lemma fixed_from_integer:
  "fixed_point_laws R fx \<Longrightarrow> fx_checked_from_integer fx n = Some x \<Longrightarrow> x = n * fx_accuracy fx"
  by (simp add: fixed_point_laws_def)

lemma fixed_add:
  "fixed_point_laws R fx \<Longrightarrow> fx_checked_add fx a b = Some x \<longleftrightarrow> R (a + b) \<and> x = a + b"
  by (auto simp: fixed_point_laws_def)

lemma fixed_sub:
  "fixed_point_laws R fx \<Longrightarrow> fx_checked_sub fx a b = Some x \<longleftrightarrow> R (a - b) \<and> x = a - b"
  by (auto simp: fixed_point_laws_def)

lemma fixed_mul:
  "fixed_point_laws R fx \<Longrightarrow> fx_checked_mul fx a b = Some x \<Longrightarrow>
   \<bar>x * fx_accuracy fx - a * b\<bar> < fx_accuracy fx"
  by (simp add: fixed_point_laws_def)

lemma fixed_mul_zero: "fixed_point_laws R fx \<Longrightarrow> fx_checked_mul fx 0 b = Some 0"
  by (simp add: fixed_point_laws_def)

lemma fixed_mul_range: "fixed_point_laws R fx \<Longrightarrow> fx_checked_mul fx a b = Some x \<Longrightarrow> R x"
  by (simp add: fixed_point_laws_def)

lemma fixed_div:
  "fixed_point_laws R fx \<Longrightarrow> fx_checked_div fx a b = Some x \<Longrightarrow>
   \<bar>x * b - a * fx_accuracy fx\<bar> < \<bar>b\<bar>"
  by (simp add: fixed_point_laws_def)

lemma fixed_div_range: "fixed_point_laws R fx \<Longrightarrow> fx_checked_div fx a b = Some x \<Longrightarrow> R x"
  by (simp add: fixed_point_laws_def)

lemma fixed_mul_int:
  "fixed_point_laws R fx \<Longrightarrow> fx_checked_mul_int fx a n = Some x \<Longrightarrow>
   \<bar>x * fx_accuracy fx - a * n\<bar> < fx_accuracy fx"
  by (simp add: fixed_point_laws_def)

lemma fixed_round:
  "fixed_point_laws R fx \<Longrightarrow> R a \<Longrightarrow> fx_accuracy fx dvd fx_round fx a"
  "fixed_point_laws R fx \<Longrightarrow> R a \<Longrightarrow> R (fx_round fx a)"
  "fixed_point_laws R fx \<Longrightarrow> R a \<Longrightarrow>
   (\<And>k. \<bar>k * fx_accuracy fx - a\<bar> < fx_accuracy fx \<Longrightarrow> R (k * fx_accuracy fx)) \<Longrightarrow>
   2 * \<bar>fx_round fx a - a\<bar> \<le> fx_accuracy fx"
  by (simp_all add: fixed_point_laws_def)

text \<open>A product with an integral factor is exact.\<close>

lemma abs_mult_less_zero: "\<bar>x * d\<bar> < (d :: int) \<Longrightarrow> x = 0"
proof (rule ccontr)
  assume *: "\<bar>x * d\<bar> < d" "x \<noteq> 0"
  then have "0 < d" "1 \<le> \<bar>x\<bar>" by linarith+
  then have "d \<le> \<bar>x\<bar> * d" by simp
  with * \<open>0 < d\<close> show False by (simp add: abs_mult)
qed

lemma fixed_mul_integral:
  assumes "fixed_point_laws R fx" and "fx_checked_mul fx (k * fx_accuracy fx) b = Some x"
  shows "x = k * b"
proof -
  have "\<bar>(x - k * b) * fx_accuracy fx\<bar> < fx_accuracy fx"
    using fixed_mul [OF assms] by (simp add: algebra_simps)
  then show ?thesis using abs_mult_less_zero [of "x - k * b"] by simp
qed

lemma to_fixed_Some:
  "fixed_point_laws R fx \<Longrightarrow> to_fixed fx b = Some x \<Longrightarrow> x = int b * fx_accuracy fx"
  by (auto simp: to_fixed_def split: if_splits dest: fixed_from_integer)

lemma truncate_to_inner_signed_nonneg:
  "fixed_point_laws R fx \<Longrightarrow> 0 \<le> x \<Longrightarrow> truncate_to_inner_signed fx x = Some (x div fx_accuracy fx)"
  using fixed_accuracy_pos [of R fx] by (simp add: truncate_to_inner_signed_def trunc_div_nonneg)

section \<open>Conversions\<close>

lemma conversion_rate [simp]: "DECIMALS_CONVERSION_RATE = 100000"
  by (simp add: DECIMALS_CONVERSION_RATE_def CHAIN_DECIMALS_def STELLAR_DECIMALS_def)

text \<open>
  Converting a chain currency to a Stellar asset succeeds exactly on the Stellar
  currencies, and converting the result back gives the currency one started from; every
  well-formed Stellar asset is the image of the currency it converts to.
\<close>

theorem asset_conversion_roundtrip:
  "asset_lookup c = Inr a \<longleftrightarrow> asset_unlookup a = c \<and> (\<forall>d. a \<noteq> DefaultAsset d)"
  by (cases c rule: currency_try_into_stellar.cases; cases a)
     (auto simp: asset_lookup_def asset_unlookup_def)

lemma stroops_to_u128_exact:
  "0 \<le> s \<Longrightarrow> s < 2 ^ 63 \<Longrightarrow> stellar_stroops_to_u128 s = nat s * 100000"
  by (simp add: stellar_stroops_to_u128_def Let_def min_def nat_less_iff)

text \<open>
  C34: the conversion of a chain balance to stroops loses less than one stroop, and
  nothing exactly when the balance has five trailing zeros; a stroop amount survives the round
  trip through the chain representation.
\<close>

theorem balance_conversion_roundtrip:
  shows "balance_lookup b = Inr s \<Longrightarrow>
      balance_unlookup s \<le> b \<and> b < balance_unlookup s + DECIMALS_CONVERSION_RATE \<and>
      (balance_unlookup s = b \<longleftrightarrow> is_compatible_with_target b) \<and>
      balance_lookup (balance_unlookup s) = Inr s"
proof -
  assume "balance_lookup b = Inr s"
  then have s: "s = int (b div 100000)" and le: "b div 100000 < 2 ^ 63"
    by (auto simp: balance_lookup_def Let_def split: if_splits)
  have u: "balance_unlookup s = b div 100000 * 100000"
    unfolding balance_unlookup_def using s le by (subst stroops_to_u128_exact) auto
  have m: "b div 100000 * 100000 + b mod 100000 = b" "b mod 100000 < 100000"
    by simp_all
  then have "b div 100000 * 100000 \<le> b" "b < b div 100000 * 100000 + 100000"
    by linarith+
  moreover have "b div 100000 * 100000 = b \<longleftrightarrow> b mod 100000 = 0"
    using m by linarith
  moreover have "balance_lookup (b div 100000 * 100000) = Inr s"
    using le by (simp add: balance_lookup_def s)
  ultimately show ?thesis
    unfolding u by (simp add: is_compatible_with_target_def)
qed

theorem balance_conversion_roundtrip_witness:
  "balance_lookup 123456789 = Inr 1234 \<and> balance_unlookup 1234 = 123400000 \<and>
   \<not> is_compatible_with_target 123456789"
proof -
  have *: "balance_lookup 123456789 = Inr 1234"
    by (simp add: balance_lookup_def)
  show ?thesis
    using balance_conversion_roundtrip [OF *] *
    by (simp add: is_compatible_with_target_def balance_unlookup_def stroops_to_u128_exact)
qed

lemma sum_bound_int: "2 * a \<le> p \<Longrightarrow> b < r \<Longrightarrow> c \<le> a + b \<Longrightarrow> 2 * c < p + 2 * (r :: int)"
  by linarith

lemma abs_chain_int: "2 * \<bar>x - y\<bar> \<le> p \<Longrightarrow> \<bar>y - z\<bar> < r \<Longrightarrow> 2 * \<bar>x - z\<bar> < p + 2 * (r :: int)"
  using abs_triangle_ineq [of "x - y" "y - z"] by (intro sum_bound_int [of "\<bar>x - y\<bar>"]) simp_all

lemma nearest_multiple_bound:
  fixes x k s d r :: int
  assumes "\<bar>x * r - s * d\<bar> < r" and "2 * \<bar>k * d - x\<bar> \<le> d" and "2 * r \<le> d" and "0 < r"
  shows "2 * \<bar>k * r - s\<bar> \<le> r"
proof -
  have "2 * \<bar>k * d * r - x * r\<bar> \<le> d * r"
    using mult_right_mono [OF assms(2), of r] assms(4)
    by (simp add: abs_mult left_diff_distrib [symmetric])
  then have "2 * \<bar>k * d * r - s * d\<bar> < d * r + 2 * r"
    using assms(1) by (rule abs_chain_int)
  also have "\<dots> \<le> (r + 1) * d"
    using assms(3) by (simp add: algebra_simps)
  finally have "2 * \<bar>(k * r - s) * d\<bar> < (r + 1) * d"
    by (simp add: algebra_simps)
  then have "2 * \<bar>k * r - s\<bar> * d < (r + 1) * d"
    using assms(3,4) by (simp add: abs_mult)
  then have "2 * \<bar>k * r - s\<bar> < r + 1"
    using assms(3,4) by (simp add: mult_less_cancel_right)
  then show ?thesis by simp
qed

lemma multiple_above: "- fx_accuracy fx < j * fx_accuracy fx \<Longrightarrow> 0 < fx_accuracy fx \<Longrightarrow> 0 \<le> j"
  using mult_less_cancel_right [of "- 1" "fx_accuracy fx" j] by simp

text \<open>
  A rounded amount always has five trailing zeros, so that the final check of the
  function never fails: it returns an error only where the division or the multiplication leaves
  the range.  The amount it returns is a nearest compatible one, which can be above the amount given.
\<close>

theorem round_to_compatible:
  assumes laws: "fixed_point_laws u128_ok fx" and acc: "200000 \<le> fx_accuracy fx"
    and div: "fx_checked_div fx (int n) 100000 = Some d" and top: "u128_ok (d + fx_accuracy fx)"
    and mul: "fx_checked_mul fx (fx_round fx d) 100000 = Some m"
  shows "\<exists>r. round_to_compatible_with_target fx n = Inr r \<and> is_compatible_with_target r \<and>
           2 * \<bar>int r - int n\<bar> \<le> int DECIMALS_CONVERSION_RATE"
proof -
  have d: "u128_ok d" using fixed_div_range [OF laws div] .
  obtain k where k: "fx_round fx d = k * fx_accuracy fx"
    using fixed_round(1) [OF laws d] by (metis dvd_def mult.commute)
  have "0 \<le> k * fx_accuracy fx"
    using fixed_round(2) [OF laws d] by (simp add: k u128_ok_def)
  then have "0 \<le> k" using fixed_accuracy_pos [OF laws] by (simp add: zero_le_mult_iff)
  have m: "m = k * 100000" using fixed_mul_integral [OF laws mul [unfolded k]] .
  have "2 * \<bar>k * 100000 - int n\<bar> \<le> 100000"
  proof (rule nearest_multiple_bound)
    show "\<bar>d * 100000 - int n * fx_accuracy fx\<bar> < 100000"
      using fixed_div [OF laws div] by simp
    have "u128_ok (j * fx_accuracy fx)" if j: "\<bar>j * fx_accuracy fx - d\<bar> < fx_accuracy fx" for j
      using j d top multiple_above [of fx j] fixed_accuracy_pos [OF laws] by (auto simp: u128_ok_def)
    then show "2 * \<bar>k * fx_accuracy fx - d\<bar> \<le> fx_accuracy fx"
      using fixed_round(3) [OF laws d] by (simp add: k)
  qed (use acc in simp_all)
  moreover have "is_compatible_with_target (nat m)"
    using \<open>0 \<le> k\<close> by (simp add: m is_compatible_with_target_def nat_mult_distrib)
  ultimately show ?thesis
    using \<open>0 \<le> k\<close> div mul
    by (simp add: round_to_compatible_with_target_def m Let_def)
qed

text \<open>
  A Stellar asset code of up to twelve alphanumeric bytes is recovered as the
  symbol of the currency built from it, although the code is padded to four or twelve bytes.
\<close>

theorem currency_symbol_roundtrip:
  assumes "\<forall>b\<in>set code. is_ascii_alphanumeric b" and "length code \<le> 12"
  shows "\<exists>a. currency_try_from code issuer = Inr (Stellar a) \<and> asset_symbol a = code"
proof -
  have strip: "remove_trailing_non_alphanum_bytes (pad_to n code) = code" for n
  proof -
    have "dropWhile (\<lambda>b. \<not> is_ascii_alphanumeric b) (replicate k 0 @ rev code) = rev code" for k
    proof (induction k)
      case 0
      then show ?case using assms(1) by (cases "code = []") (simp_all add: dropWhile_eq_self_iff hd_rev)
    qed (simp add: is_ascii_alphanumeric_def)
    then show ?thesis by (simp add: remove_trailing_non_alphanum_bytes_def pad_to_def)
  qed
  have "utf8_ok code"
    using assms(1)
  proof (induction code)
    case (Cons b bs)
    then have "b \<le> 127" by (auto simp: is_ascii_alphanumeric_def word_le_nat_alt)
    with Cons show ?case by simp
  qed simp
  then show ?thesis
    using assms(2) by (auto simp: currency_try_from_def strip utf8_or_unspecified_def)
qed

theorem currency_symbol_roundtrip_witness:
  "\<exists>a. currency_try_from (ascii_bytes ''USDC'') (replicate 32 7) = Inr (Stellar a) \<and>
       asset_symbol a = ascii_bytes ''USDC''"
  by (rule currency_symbol_roundtrip) (simp_all add: ascii_bytes_def is_ascii_alphanumeric_def)

end
