(* ===== verification/Runtime_Config.thy ===== *)
theory Runtime_Config
  imports Primitives
begin

text \<open>
  What the pallets take from their configuration traits and from crates that are not under
  \<^verbatim>\<open>src\<close>.  One record \<^verbatim>\<open>config\<close> is an argument of every operation, in the place of the type
  parameter \<^verbatim>\<open>T: Config\<close>.  The token ledger (the pallets \<^verbatim>\<open>orml_currencies\<close> and
  \<^verbatim>\<open>pallet_balances\<close>) has a state type of its own, the type variable, and is used through the
  operations of \<^verbatim>\<open>ledger_ops\<close>.
\<close>

record 'l ledger_ops =
  led_transfer :: "currency \<Rightarrow> account \<Rightarrow> account \<Rightarrow> balance \<Rightarrow> ('l, unit) prog"
  led_reserve :: "currency \<Rightarrow> account \<Rightarrow> balance \<Rightarrow> ('l, unit) prog"
  led_unreserve :: "currency \<Rightarrow> account \<Rightarrow> balance \<Rightarrow> 'l \<Rightarrow> balance \<times> 'l"
  led_slash_reserved :: "currency \<Rightarrow> account \<Rightarrow> balance \<Rightarrow> 'l \<Rightarrow> balance \<times> 'l"
  led_deposit :: "currency \<Rightarrow> account \<Rightarrow> balance \<Rightarrow> ('l, unit) prog"
  led_deposit_creating :: "account \<Rightarrow> balance \<Rightarrow> 'l \<Rightarrow> 'l"
  led_minimum_balance :: "balance"
  led_free :: "'l \<Rightarrow> currency \<Rightarrow> account \<Rightarrow> balance"
  led_reserved :: "'l \<Rightarrow> currency \<Rightarrow> account \<Rightarrow> balance"
  led_issuance :: "'l \<Rightarrow> currency \<Rightarrow> int"

text \<open>
  The documented behaviour of the multi-currency traits, with existential deposits of zero: a
  transfer and a (un)reservation move tokens, \<^verbatim>\<open>unreserve\<close> and \<^verbatim>\<open>slash_reserved\<close> handle at most what
  is reserved and return what is missing, only deposits and slashes change the total issuance.
\<close>

definition move :: "(currency \<Rightarrow> account \<Rightarrow> balance) \<Rightarrow> currency \<Rightarrow> account \<Rightarrow> balance \<Rightarrow>
    currency \<Rightarrow> account \<Rightarrow> balance" where
  "move f cur acc v = (\<lambda>cu ac. if cu = cur \<and> ac = acc then v else f cu ac)"

definition ledger_laws :: "'l ledger_ops \<Rightarrow> bool" where
  "ledger_laws L \<longleftrightarrow>
     (\<forall>cur a b n l l'. led_transfer L cur a b n l = (Inr (), l') \<longrightarrow>
        n \<le> led_free L l cur a \<and>
        led_free L l' = (let taken = move (led_free L l) cur a (led_free L l cur a - n)
                         in move taken cur b (taken cur b + n)) \<and>
        led_reserved L l' = led_reserved L l \<and> led_issuance L l' = led_issuance L l) \<and>
     (\<forall>cur a n l l'. led_reserve L cur a n l = (Inr (), l') \<longrightarrow>
        n \<le> led_free L l cur a \<and>
        led_free L l' = move (led_free L l) cur a (led_free L l cur a - n) \<and>
        led_reserved L l' = move (led_reserved L l) cur a (led_reserved L l cur a + n) \<and>
        led_issuance L l' = led_issuance L l) \<and>
     (\<forall>cur a n l rest l'. led_unreserve L cur a n l = (rest, l') \<longrightarrow>
        rest = n - min n (led_reserved L l cur a) \<and>
        led_free L l' = move (led_free L l) cur a
          (led_free L l cur a + min n (led_reserved L l cur a)) \<and>
        led_reserved L l' = move (led_reserved L l) cur a
          (led_reserved L l cur a - min n (led_reserved L l cur a)) \<and>
        led_issuance L l' = led_issuance L l) \<and>
     (\<forall>cur a n l rest l'. led_slash_reserved L cur a n l = (rest, l') \<longrightarrow>
        rest = n - min n (led_reserved L l cur a) \<and>
        led_free L l' = led_free L l \<and>
        led_reserved L l' = move (led_reserved L l) cur a
          (led_reserved L l cur a - min n (led_reserved L l cur a)) \<and>
        led_issuance L l' =
          (led_issuance L l)(cur := led_issuance L l cur - int (min n (led_reserved L l cur a)))) \<and>
     (\<forall>cur a n l l'. led_deposit L cur a n l = (Inr (), l') \<longrightarrow>
        led_free L l' = move (led_free L l) cur a (led_free L l cur a + n) \<and>
        led_reserved L l' = led_reserved L l \<and>
        led_issuance L l' = (led_issuance L l)(cur := led_issuance L l cur + int n))"

section \<open>What the relay takes from the Stellar library\<close>

text \<open>
  The messages of the Stellar consensus protocol.  Of prepare and nominate statements the relay
  reads nothing, and their content is kept opaque, as is a transaction set.
\<close>

record scp_ballot =
  ballot_counter :: nat
  ballot_value :: "byte list"

record scp_confirm =
  confirm_ballot :: scp_ballot
  confirm_n_h :: nat

record scp_externalize =
  externalize_commit :: scp_ballot
  externalize_n_h :: nat

datatype scp_pledges =
    ScpStPrepare "byte list"
  | ScpStConfirm scp_confirm
  | ScpStExternalize scp_externalize
  | ScpStNominate "byte list"

record scp_statement =
  stmt_node_id :: "byte list"
  stmt_slot_index :: nat
  stmt_pledges :: scp_pledges

record scp_envelope =
  env_statement :: scp_statement
  env_signature :: "byte list"

type_synonym transaction_set = "byte list"

record relay_ops =
  rel_base64_decode :: "byte list \<Rightarrow> byte list option"
  rel_transaction_envelope_from_xdr :: "byte list \<Rightarrow> transaction_envelope option"
  rel_scp_envelopes_from_xdr :: "byte list \<Rightarrow> scp_envelope list option"
  rel_transaction_set_from_xdr :: "byte list \<Rightarrow> transaction_set option"
  rel_txes :: "transaction_set \<Rightarrow> transaction_envelope list"
  rel_get_hash :: "byte list \<Rightarrow> transaction_envelope \<Rightarrow> byte list"
  rel_get_tx_set_hash :: "transaction_set \<Rightarrow> byte list option"
  rel_stellar_value_tx_set_hash :: "byte list \<Rightarrow> byte list option"
  rel_to_encoding :: "byte list \<Rightarrow> byte list"
  rel_statement_to_xdr :: "scp_statement \<Rightarrow> byte list"
  rel_verify_signature :: "byte list \<Rightarrow> byte list \<Rightarrow> byte list \<Rightarrow> bool"
  rel_public_network :: "byte list"
  rel_test_network :: "byte list"

section \<open>The configuration\<close>

record 'l config =
  cfg_signed :: fixed_ops
  cfg_unsigned :: fixed_ops
  cfg_ledger :: "'l ledger_ops"
  cfg_native_currency :: currency
  cfg_relay_chain_currency :: currency
  cfg_griefing_currency :: currency
  cfg_decimals :: "currency \<Rightarrow> nat"
  cfg_staking_max_reward_currencies :: nat
  cfg_pool_max_reward_currencies :: nat
  cfg_max_currencies :: nat
  cfg_storage_hash :: "currency \<Rightarrow> nat"
  cfg_fee_account :: account
  cfg_treasury_account :: account
  cfg_liquidation_account :: account
  cfg_decay_interval :: block_number
  cfg_decay_rate :: nat
  cfg_perquintill_mul_floor :: "nat \<Rightarrow> balance \<Rightarrow> balance"
  cfg_perquintill_left_from_one :: "nat \<Rightarrow> nat"
  cfg_perquintill_from_rational :: "balance \<Rightarrow> balance \<Rightarrow> nat"
  cfg_max_expected_value :: int
  cfg_block_number_to_balance :: "block_number \<Rightarrow> balance"
  cfg_to_base58 :: "byte list \<Rightarrow> byte list"
  cfg_sha256 :: "byte list \<Rightarrow> byte list"
  cfg_existential_deposit :: "currency \<Rightarrow> balance"
  cfg_relay :: relay_ops
  cfg_organization_limit :: nat
  cfg_validator_limit :: nat
  cfg_is_public_network :: bool

section \<open>The origin of a call and the block it runs in\<close>

datatype origin = Root | Signed account | NoOrigin

definition ensure_root :: "origin \<Rightarrow> unit result" where
  "ensure_root origin = (case origin of Root \<Rightarrow> Inr () | _ \<Rightarrow> Inl BadOrigin)"

definition ensure_signed :: "origin \<Rightarrow> account result" where
  "ensure_signed origin = (case origin of Signed a \<Rightarrow> Inr a | _ \<Rightarrow> Inl BadOrigin)"

definition ensure_none :: "origin \<Rightarrow> unit result" where
  "ensure_none origin = (case origin of NoOrigin \<Rightarrow> Inr () | _ \<Rightarrow> Inl BadOrigin)"

lemma ensure_origin_ok [ok_iff]:
  "ensure_root ori = Inr r \<longleftrightarrow> ori = Root"
  "ensure_signed ori = Inr a \<longleftrightarrow> ori = Signed a"
  "ensure_none ori = Inr r \<longleftrightarrow> ori = NoOrigin"
  by (auto simp: ensure_root_def ensure_signed_def ensure_none_def split: origin.splits)

record block_env =
  env_number :: block_number
  env_timestamp :: moment
  env_extrinsic_index :: "nat option"
  env_parent_hash :: "byte list"

text \<open>Fixed-width little-endian integers, the encoding of the SCALE codec.\<close>

primrec le_bytes :: "nat \<Rightarrow> nat \<Rightarrow> byte list" where
  "le_bytes 0 n = []"
| "le_bytes (Suc k) n = of_nat (n mod 256) # le_bytes k (n div 256)"

lemma length_le_bytes [simp]: "length (le_bytes k n) = k"
  by (induction k arbitrary: n) simp_all

lemma of_byte_inj: "(of_nat (m mod 256) :: byte) = of_nat (n mod 256) \<Longrightarrow> m mod 256 = n mod 256"
  by (drule arg_cong [where f = unat]) (simp add: unat_of_nat)

lemma le_bytes_inj: "le_bytes k m = le_bytes k n \<Longrightarrow> m < 256 ^ k \<Longrightarrow> n < 256 ^ k \<Longrightarrow> m = n"
proof (induction k arbitrary: m n)
  case (Suc k)
  have "(of_nat (m mod 256) :: byte) = of_nat (n mod 256)" using Suc.prems(1) by simp
  then have low: "m mod 256 = n mod 256"
    by (rule of_byte_inj)
  have "m div 256 < 256 ^ k" "n div 256 < 256 ^ k"
    using Suc.prems(2,3) by (simp_all add: less_mult_imp_div_less mult.commute)
  then have "m div 256 = n div 256" using Suc by simp
  with low show ?case by (metis div_mult_mod_eq)
qed simp

end
