(* ===== verification/Sample_Runtime.thy ===== *)
theory Sample_Runtime
  imports Runtime_Config
begin

text \<open>
  A concrete instance of the parameters, on which the properties with hypotheses about them are
  evaluated: fixed point numbers with two decimals that truncate towards zero, and a ledger of balance tables.  The
  lemmas show that the instance satisfies the laws.
\<close>

definition in_range_or_none :: "(int \<Rightarrow> bool) \<Rightarrow> int \<Rightarrow> int option" where
  "in_range_or_none R x = (if R x then Some x else None)"

definition fixed_impl :: "(int \<Rightarrow> bool) \<Rightarrow> int \<Rightarrow> fixed_ops" where
  "fixed_impl R acc =
     \<lparr>fx_accuracy = acc,
      fx_checked_from_integer = (\<lambda>n. in_range_or_none R (n * acc)),
      fx_checked_from_rational = (\<lambda>n d. if d = 0 then None else in_range_or_none R (trunc_div (n * acc) d)),
      fx_checked_add = (\<lambda>a b. in_range_or_none R (a + b)),
      fx_checked_sub = (\<lambda>a b. in_range_or_none R (a - b)),
      fx_checked_mul = (\<lambda>a b. in_range_or_none R (trunc_div (a * b) acc)),
      fx_checked_div = (\<lambda>a b. if b = 0 then None else in_range_or_none R (trunc_div (a * acc) b)),
      fx_checked_mul_int = (\<lambda>a n. in_range_or_none R (trunc_div (a * n) acc)),
      fx_round = (\<lambda>a. if R ((2 * a + acc) div (2 * acc) * acc) then (2 * a + acc) div (2 * acc) * acc
                      else trunc_div a acc * acc)\<rparr>"

definition fixed_i128 :: fixed_ops where
  "fixed_i128 = fixed_impl i128_ok 100"

definition fixed_u128 :: fixed_ops where
  "fixed_u128 = fixed_impl u128_ok 100"

lemma trunc_div_error:
  assumes "b \<noteq> 0"
  shows "\<bar>trunc_div a b * b - a\<bar> < \<bar>b\<bar>"
proof -
  define q m where "q = \<bar>a\<bar> div \<bar>b\<bar>" and "m = \<bar>a\<bar> mod \<bar>b\<bar>"
  have "q * \<bar>b\<bar> + m = \<bar>a\<bar>" unfolding q_def m_def by (rule div_mult_mod_eq)
  then have *: "q * \<bar>b\<bar> = \<bar>a\<bar> - m" by linarith
  have m: "0 \<le> m" "m < \<bar>b\<bar>" using assms by (simp_all add: m_def)
  have "trunc_div a b = (if (0 \<le> a) = (0 \<le> b) then q else - q)"
    by (simp add: trunc_div_def q_def)
  then show ?thesis
    using * m by (cases "0 \<le> a"; cases "0 \<le> b") simp_all
qed

lemma nearest_error:
  fixes a acc :: int
  assumes "0 < acc"
  shows "2 * \<bar>(2 * a + acc) div (2 * acc) * acc - a\<bar> \<le> acc"
proof -
  define q m where "q = (2 * a + acc) div (2 * acc)" and "m = (2 * a + acc) mod (2 * acc)"
  have "q * (2 * acc) + m = 2 * a + acc" unfolding q_def m_def by (rule div_mult_mod_eq)
  then have "2 * (q * acc - a) = acc - m" by (simp add: algebra_simps)
  moreover have "0 \<le> m" "m < 2 * acc" using assms by (simp_all add: m_def)
  ultimately have "2 * \<bar>q * acc - a\<bar> \<le> acc" by linarith
  then show ?thesis by (simp flip: q_def)
qed

lemma half_less: "2 * x \<le> a \<Longrightarrow> 0 < a \<Longrightarrow> x < (a :: int)"
  by simp

lemma fixed_impl_laws:
  assumes acc: "0 < acc" and R: "R 0" and down: "\<And>a. R a \<Longrightarrow> R (trunc_div a acc * acc)"
  shows "fixed_point_laws R (fixed_impl R acc)"
proof -
  have mul: "\<bar>trunc_div (a * b) acc * acc - a * b\<bar> < acc" for a b
    using trunc_div_error [of acc "a * b"] acc by simp
  have div: "\<bar>trunc_div (a * acc) b * b - a * acc\<bar> < \<bar>b\<bar>" if "b \<noteq> 0" for a b
    using trunc_div_error [OF that] .
  have near: "\<bar>(2 * a + acc) div (2 * acc) * acc - a\<bar> < acc" for a
    using half_less [OF nearest_error [OF acc] acc] .
  have zero: "trunc_div 0 acc = 0" by (simp add: trunc_div_def)
  show ?thesis
    unfolding fixed_point_laws_def fixed_impl_def
    using acc R mul div zero down near nearest_error [OF acc]
    by (simp add: in_range_or_none_def split: if_splits)
qed

lemma trunc_towards_zero:
  fixes a acc :: int
  assumes "0 < acc"
  shows "min 0 a \<le> trunc_div a acc * acc" and "trunc_div a acc * acc \<le> max 0 a"
proof -
  define q m where "q = \<bar>a\<bar> div acc" and "m = \<bar>a\<bar> mod acc"
  have "q * acc + m = \<bar>a\<bar>" unfolding q_def m_def by (rule div_mult_mod_eq)
  moreover have "0 \<le> m" "0 \<le> q * acc"
    using assms by (simp_all add: m_def q_def pos_imp_zdiv_nonneg_iff)
  moreover have "trunc_div a acc = (if 0 \<le> a then q else - q)"
    using assms by (simp add: trunc_div_def q_def)
  ultimately have "min 0 a \<le> trunc_div a acc * acc \<and> trunc_div a acc * acc \<le> max 0 a"
    by (cases "0 \<le> a") simp_all
  then show "min 0 a \<le> trunc_div a acc * acc" "trunc_div a acc * acc \<le> max 0 a" by simp_all
qed

lemma fixed_i128_laws: "fixed_point_laws i128_ok fixed_i128"
  unfolding fixed_i128_def
proof (rule fixed_impl_laws)
  show "i128_ok (trunc_div a 100 * 100)" if "i128_ok a" for a
    using that trunc_towards_zero [of 100 a] by (auto simp: i128_ok_def)
qed (simp_all add: i128_ok_def)

lemma fixed_u128_laws: "fixed_point_laws u128_ok fixed_u128"
  unfolding fixed_u128_def
proof (rule fixed_impl_laws)
  show "u128_ok (trunc_div a 100 * 100)" if "u128_ok a" for a
    using that trunc_towards_zero [of 100 a] by (auto simp: u128_ok_def)
qed (simp_all add: u128_ok_def)

section \<open>A ledger\<close>

record ledger =
  lg_free :: "currency \<Rightarrow> account \<Rightarrow> balance"
  lg_reserved :: "currency \<Rightarrow> account \<Rightarrow> balance"
  lg_issuance :: "currency \<Rightarrow> int"

definition ledger_transfer_impl ::
  "currency \<Rightarrow> account \<Rightarrow> account \<Rightarrow> balance \<Rightarrow> (ledger, unit) prog" where
  "ledger_transfer_impl k a b n l =
     (if n \<le> lg_free l k a then
        (Inr (), l\<lparr>lg_free := (let taken = move (lg_free l) k a (lg_free l k a - n)
                              in move taken k b (taken k b + n))\<rparr>)
      else (Inl (Token (TokenError ''BalanceTooLow'')), l))"

definition ledger_impl :: "ledger ledger_ops" where
  "ledger_impl =
     \<lparr>led_transfer = ledger_transfer_impl,
      led_reserve = (\<lambda>k a n l.
        if n \<le> lg_free l k a then
          (Inr (), l\<lparr>lg_free := move (lg_free l) k a (lg_free l k a - n),
                    lg_reserved := move (lg_reserved l) k a (lg_reserved l k a + n)\<rparr>)
        else (Inl (Token (TokenError ''BalanceTooLow'')), l)),
      led_unreserve = (\<lambda>k a n l.
        let m = min n (lg_reserved l k a) in
        (n - m, l\<lparr>lg_free := move (lg_free l) k a (lg_free l k a + m),
                  lg_reserved := move (lg_reserved l) k a (lg_reserved l k a - m)\<rparr>)),
      led_slash_reserved = (\<lambda>k a n l.
        let m = min n (lg_reserved l k a) in
        (n - m, l\<lparr>lg_reserved := move (lg_reserved l) k a (lg_reserved l k a - m),
                  lg_issuance := (lg_issuance l)(k := lg_issuance l k - int m)\<rparr>)),
      led_deposit = (\<lambda>k a n l.
        (Inr (), l\<lparr>lg_free := move (lg_free l) k a (lg_free l k a + n),
                  lg_issuance := (lg_issuance l)(k := lg_issuance l k + int n)\<rparr>)),
      led_deposit_creating = (\<lambda>a n l.
        l\<lparr>lg_free := move (lg_free l) Native a (lg_free l Native a + n),
          lg_issuance := (lg_issuance l)(Native := lg_issuance l Native + int n)\<rparr>),
      led_minimum_balance = 0,
      led_free = lg_free,
      led_reserved = lg_reserved,
      led_issuance = lg_issuance\<rparr>"

lemma ledger_impl_laws: "ledger_laws ledger_impl"
  by (auto simp: ledger_laws_def ledger_impl_def ledger_transfer_impl_def Let_def split: if_splits)

text \<open>
  A relay library in which a transaction set is the concatenation of one-byte transaction names,
  hashes are the names themselves, and a signature is valid if it repeats the key's first byte.
\<close>

definition sample_transaction :: "byte list \<Rightarrow> transaction_envelope" where
  "sample_transaction name = EnvelopeTypeTx
     \<lparr>tx_source = [], tx_seq_num = 1, tx_memo = MemoText name, tx_operations = []\<rparr>"

definition sample_relay :: relay_ops where
  "sample_relay =
     \<lparr>rel_base64_decode = Some,
      rel_transaction_envelope_from_xdr = (\<lambda>bs. Some (sample_transaction bs)),
      rel_scp_envelopes_from_xdr = (\<lambda>bs. None),
      rel_transaction_set_from_xdr = Some,
      rel_txes = map (\<lambda>b. sample_transaction [b]),
      rel_get_hash = (\<lambda>network tx. case get_text_memo_from_tx_env tx of None \<Rightarrow> [] | Some name \<Rightarrow> name),
      rel_get_tx_set_hash = Some,
      rel_stellar_value_tx_set_hash = Some,
      rel_to_encoding = (\<lambda>key. key),
      rel_statement_to_xdr = (\<lambda>st. [of_nat (stmt_slot_index st)]),
      rel_verify_signature = (\<lambda>key body signature. signature = replicate 64 (hd key)),
      rel_public_network = [1],
      rel_test_network = [0]\<rparr>"

definition sample_config :: "ledger config" where
  "sample_config =
     \<lparr>cfg_signed = fixed_i128,
      cfg_unsigned = fixed_u128,
      cfg_ledger = ledger_impl,
      cfg_native_currency = Native,
      cfg_relay_chain_currency = XCM 0,
      cfg_griefing_currency = Native,
      cfg_decimals = pendulum_decimals,
      cfg_staking_max_reward_currencies = 10,
      cfg_pool_max_reward_currencies = 10,
      cfg_max_currencies = 10,
      cfg_storage_hash = (\<lambda>k. fst (currency_key k)),
      cfg_fee_account = 1000,
      cfg_treasury_account = 1001,
      cfg_liquidation_account = 1002,
      cfg_decay_interval = 216000,
      cfg_decay_rate = 50000000000000000,
      cfg_perquintill_mul_floor = (\<lambda>p n. p * n div 10 ^ 18),
      cfg_perquintill_left_from_one = (\<lambda>p. 10 ^ 18 - p),
      cfg_perquintill_from_rational = (\<lambda>n d. if d = 0 then 10 ^ 18 else n * 10 ^ 18 div d),
      cfg_max_expected_value = 100000,
      cfg_block_number_to_balance = (\<lambda>n. n),
      cfg_to_base58 = (\<lambda>bs. bs),
      cfg_sha256 = (\<lambda>bs. bs),
      cfg_existential_deposit = (\<lambda>_. 1),
      cfg_relay = sample_relay,
      cfg_organization_limit = 255,
      cfg_validator_limit = 255,
      cfg_is_public_network = True\<rparr>"

lemmas sample_defs = sample_config_def fixed_i128_def fixed_u128_def fixed_impl_def in_range_or_none_def
  i128_ok_def u128_ok_def trunc_div_def run_defs result_defs

lemma sample_laws:
  "fixed_point_laws i128_ok (cfg_signed sample_config)"
  "fixed_point_laws u128_ok (cfg_unsigned sample_config)"
  "ledger_laws (cfg_ledger sample_config)"
  by (simp_all add: sample_config_def fixed_i128_laws fixed_u128_laws ledger_impl_laws)

definition sample_vault :: vault_id where
  "sample_vault = new_vault_id 1 (XCM 0) (Stellar StellarNative)"

lemma sample_vault_sel [simp]:
  "vid_account sample_vault = 1" "collateral_currency sample_vault = XCM 0"
  "wrapped_currency sample_vault = Stellar StellarNative"
  "cp_collateral (vid_currencies sample_vault) = XCM 0"
  "cp_wrapped (vid_currencies sample_vault) = Stellar StellarNative"
  by (simp_all add: sample_vault_def new_vault_id_def collateral_currency_def wrapped_currency_def)

text \<open>
  With six decimals, 1.5 units of the target's smallest denomination round up to 2 of them.
\<close>

definition sample_rounding :: fixed_ops where
  "sample_rounding = fixed_impl u128_ok 1000000"

lemma sample_rounding_laws: "fixed_point_laws u128_ok sample_rounding"
  unfolding sample_rounding_def
proof (rule fixed_impl_laws)
  show "u128_ok (trunc_div a 1000000 * 1000000)" if "u128_ok a" for a
    using that trunc_towards_zero [of 1000000 a] by (auto simp: u128_ok_def)
qed (simp_all add: u128_ok_def)

theorem round_to_compatible_witness:
  "(\<exists>r. round_to_compatible_with_target sample_rounding 150000 = Inr r \<and> is_compatible_with_target r \<and>
      2 * \<bar>int r - int 150000\<bar> \<le> int DECIMALS_CONVERSION_RATE) \<and>
   round_to_compatible_with_target sample_rounding 150000 = Inr 200000"
proof (intro conjI)
  show "\<exists>r. round_to_compatible_with_target sample_rounding 150000 = Inr r \<and> is_compatible_with_target r \<and>
      2 * \<bar>int r - int 150000\<bar> \<le> int DECIMALS_CONVERSION_RATE"
    by (rule round_to_compatible [OF sample_rounding_laws, where d = 1500000 and m = 200000])
       (simp_all add: sample_rounding_def fixed_impl_def in_range_or_none_def u128_ok_def trunc_div_def)
  show "round_to_compatible_with_target sample_rounding 150000 = Inr 200000"
    by (simp add: round_to_compatible_with_target_def sample_rounding_def fixed_impl_def in_range_or_none_def
        u128_ok_def trunc_div_def result_defs is_compatible_with_target_def DECIMALS_CONVERSION_RATE_def)
qed

end
