(* ===== verification/Fixed_Storage.thy ===== *)
theory Fixed_Storage
  imports Sample_Runtime
begin

text \<open>
  Storage cells holding fixed point numbers, shared by the staking, reward and pooled-rewards
  pallets: the macros \<^verbatim>\<open>checked_add_mut!\<close> and \<^verbatim>\<open>checked_sub_mut!\<close>, and the bounded ordered set of
  reward currencies.  A cell is given by the storage map's projection, its update and the key.
\<close>

definition checked_add_mut ::
  "fixed_ops \<Rightarrow> ('s \<Rightarrow> 'k \<Rightarrow> int) \<Rightarrow> ((('k \<Rightarrow> int) \<Rightarrow> 'k \<Rightarrow> int) \<Rightarrow> 's \<Rightarrow> 's) \<Rightarrow> 'k \<Rightarrow> int \<Rightarrow>
   ('s, int) prog" where
  "checked_add_mut fx storage storage_update key amount = (bindM (getM (\<lambda>s. storage s key)) (\<lambda>value.
    bindM (ok_orM (fx_checked_add fx value amount) Overflow_err) (\<lambda>value'.
    bindM (modifyM (storage_update (\<lambda>m. m(key := value')))) (\<lambda>_.
    retM value'))))"

definition checked_sub_mut ::
  "fixed_ops \<Rightarrow> ('s \<Rightarrow> 'k \<Rightarrow> int) \<Rightarrow> ((('k \<Rightarrow> int) \<Rightarrow> 'k \<Rightarrow> int) \<Rightarrow> 's \<Rightarrow> 's) \<Rightarrow> 'k \<Rightarrow> int \<Rightarrow>
   ('s, int) prog" where
  "checked_sub_mut fx storage storage_update key amount = (bindM (getM (\<lambda>s. storage s key)) (\<lambda>value.
    bindM (ok_orM (fx_checked_sub fx value amount) Underflow_err) (\<lambda>value'.
    bindM (modifyM (storage_update (\<lambda>m. m(key := value')))) (\<lambda>_.
    retM value'))))"

text \<open>The same for a single storage value.\<close>

definition checked_add_value ::
  "fixed_ops \<Rightarrow> ('s \<Rightarrow> int) \<Rightarrow> ((int \<Rightarrow> int) \<Rightarrow> 's \<Rightarrow> 's) \<Rightarrow> int \<Rightarrow> ('s, unit) prog" where
  "checked_add_value fx storage storage_update amount = (bindM (getM storage) (\<lambda>value.
    bindM (ok_orM (fx_checked_add fx value amount) Overflow_err) (\<lambda>value'.
    modifyM (storage_update (\<lambda>_. value')))))"

definition checked_sub_value ::
  "fixed_ops \<Rightarrow> ('s \<Rightarrow> int) \<Rightarrow> ((int \<Rightarrow> int) \<Rightarrow> 's \<Rightarrow> 's) \<Rightarrow> int \<Rightarrow> ('s, unit) prog" where
  "checked_sub_value fx storage storage_update amount = (bindM (getM storage) (\<lambda>value.
    bindM (ok_orM (fx_checked_sub fx value amount) Underflow_err) (\<lambda>value'.
    modifyM (storage_update (\<lambda>_. value')))))"

text \<open>\<^verbatim>\<open>BoundedBTreeSet::try_insert\<close>: a full set accepts only an element it already has.\<close>

definition bounded_set_insert :: "nat \<Rightarrow> 'k::linorder \<Rightarrow> 'k list \<Rightarrow> 'k list option" where
  "bounded_set_insert bound x xs =
     (if length xs < bound \<or> x \<in> set xs then Some (insort_insert x xs) else None)"

lemma checked_add_mut_ok [ok_iff]:
  "checked_add_mut fx g u k x s = (Inr r, t) \<longleftrightarrow>
   fx_checked_add fx (g s k) x = Some r \<and> t = u (\<lambda>m. m(k := r)) s"
  by (auto simp: checked_add_mut_def ok_iff)

lemma checked_sub_mut_ok [ok_iff]:
  "checked_sub_mut fx g u k x s = (Inr r, t) \<longleftrightarrow>
   fx_checked_sub fx (g s k) x = Some r \<and> t = u (\<lambda>m. m(k := r)) s"
  by (auto simp: checked_sub_mut_def ok_iff)

lemma checked_value_ok [ok_iff]:
  "checked_add_value fx g u x s = (Inr r, t) \<longleftrightarrow>
   (\<exists>v. fx_checked_add fx (g s) x = Some v \<and> t = u (\<lambda>_. v) s)"
  "checked_sub_value fx g u x s = (Inr r, t) \<longleftrightarrow>
   (\<exists>v. fx_checked_sub fx (g s) x = Some v \<and> t = u (\<lambda>_. v) s)"
  by (auto simp: checked_add_value_def checked_sub_value_def ok_iff)

lemma checked_mut_run:
  "fx_checked_add fx (g s k) x = Some r \<Longrightarrow>
     checked_add_mut fx g u k x s = (Inr r, u (\<lambda>m. m(k := r)) s)"
  "fx_checked_sub fx (g s k) x = Some r \<Longrightarrow>
     checked_sub_mut fx g u k x s = (Inr r, u (\<lambda>m. m(k := r)) s)"
  by (simp_all add: checked_add_mut_ok checked_sub_mut_ok)

lemma checked_mut_frame [frame_intro]:
  "(\<And>v s. h (u (\<lambda>m. m(k := v)) s) = h s) \<Longrightarrow> frameM h (checked_add_mut fx g u k x)"
  "(\<And>v s. h (u (\<lambda>m. m(k := v)) s) = h s) \<Longrightarrow> frameM h (checked_sub_mut fx g u k x)"
  unfolding checked_add_mut_def checked_sub_mut_def by (intro frame_intro; simp)+

lemma checked_value_frame [frame_intro]:
  "(\<And>f s. h (u f s) = h s) \<Longrightarrow> frameM h (checked_add_value fx g u x)"
  "(\<And>f s. h (u f s) = h s) \<Longrightarrow> frameM h (checked_sub_value fx g u x)"
  unfolding checked_add_value_def checked_sub_value_def by (intro frame_intro; simp)+

lemma bounded_set_insert_Some:
  assumes "bounded_set_insert bound x xs = Some ys" and "sorted xs" and "distinct xs"
    and "length xs \<le> bound"
  shows "set ys = insert x (set xs) \<and> sorted ys \<and> distinct ys \<and> length ys \<le> bound"
proof (cases "x \<in> set xs")
  case True
  then show ?thesis
    using assms by (auto simp: bounded_set_insert_def insort_insert_triv)
next
  case False
  then show ?thesis
    using assms by (auto simp: bounded_set_insert_def insort_insert_insort set_insort_key sorted_insort
        distinct_insort split: if_splits)
qed

text \<open>
  Updating one cell of a family of totals and one cell of the family's summands by the same
  amount keeps every total equal to the sum of its summands.
\<close>

definition totals_ok :: "('g \<Rightarrow> int) \<Rightarrow> ('g \<Rightarrow> 'i \<Rightarrow> int) \<Rightarrow> bool" where
  "totals_ok tot part \<longleftrightarrow>
     (\<forall>g. finite (support (part g)) \<and> tot g = support_sum (part g))"

lemma totals_ok_upd:
  assumes "totals_ok tot part"
  shows "totals_ok (tot(g := tot g + d)) (\<lambda>h i. if h = g \<and> i = j then part g j + d else part h i)"
proof -
  have "(\<lambda>i. if h = g \<and> i = j then part g j + d else part h i) =
        (if h = g then (part g)(j := part g j + d) else part h)" for h
    by auto
  then show ?thesis
    using assms by (simp add: totals_ok_def support_sum_upd_diff)
qed

lemma totals_ok_sub:
  assumes "totals_ok tot part"
  shows "totals_ok (tot(g := tot g - d)) (\<lambda>h i. if h = g \<and> i = j then part g j - d else part h i)"
  using totals_ok_upd [OF assms, of g "- d" j] unfolding diff_conv_add_uminus .

text \<open>
  The rounding error of a share: \<open>q\<close> approximates \<open>x / T\<close>, and \<open>m\<close>, \<open>m'\<close> approximate the products
  of a stake with a rate before and after \<open>q\<close> is added to the rate.
\<close>

lemma proportional_error:
  fixes T acc q x stake m m' spt :: int
  assumes q: "\<bar>q * T - x * acc\<bar> < T" and m: "\<bar>m * acc - stake * spt\<bar> < acc"
    and m': "\<bar>m' * acc - stake * (spt + q)\<bar> < acc" and "0 \<le> stake" "0 < T"
  shows "acc * \<bar>T * (m' - m) - stake * x\<bar> \<le> T * (2 * acc + stake)"
proof -
  define e where "e = (m' * acc - stake * (spt + q)) - (m * acc - stake * spt)"
  have e: "\<bar>e\<bar> \<le> 2 * acc" unfolding e_def using m m' by linarith
  have "acc * (T * (m' - m) - stake * x) = stake * (q * T - x * acc) + T * e"
    unfolding e_def by (simp add: algebra_simps)
  also have "\<bar>\<dots>\<bar> \<le> \<bar>stake * (q * T - x * acc)\<bar> + \<bar>T * e\<bar>" by (rule abs_triangle_ineq)
  also have "\<dots> \<le> stake * T + T * (2 * acc)"
    using q e assms(4,5) by (intro add_mono) (simp_all add: abs_mult mult_left_mono)
  finally have "\<bar>acc * (T * (m' - m) - stake * x)\<bar> \<le> T * (2 * acc + stake)"
    by (simp add: algebra_simps)
  moreover have "0 < acc" using m by linarith
  ultimately show ?thesis by (simp add: abs_mult)
qed

section \<open>The contract of a pool\<close>

text \<open>
  The reward and the pooled-rewards pallet offer the same interface to their clients: stake of a
  participant in a group is deposited, withdrawn, or set to a value.  The laws are what the two
  pallets promise of these operations; totals and the meaning of setting a stake follow once for
  both.
\<close>

locale stake_pool =
  fixes part :: "'s \<Rightarrow> 'g \<Rightarrow> 'i \<Rightarrow> int"
    and tot :: "'s \<Rightarrow> 'g \<Rightarrow> int"
    and deposit :: "'l config \<Rightarrow> 'g \<Rightarrow> 'i \<Rightarrow> int \<Rightarrow> ('s, unit) prog"
    and withdraw :: "'l config \<Rightarrow> 'g \<Rightarrow> 'i \<Rightarrow> int \<Rightarrow> ('s, unit) prog"
    and set_to :: "'l config \<Rightarrow> 'g \<Rightarrow> 'i \<Rightarrow> balance \<Rightarrow> ('s, unit) prog"
  assumes deposit_effect:
      "fixed_point_laws i128_ok (cfg_signed c) \<Longrightarrow> deposit c g i x s = (Inr r, t) \<Longrightarrow>
       part t = (\<lambda>h j. if h = g \<and> j = i then part s g i + x else part s h j) \<and>
       tot t = (tot s)(g := tot s g + x)"
    and withdraw_effect:
      "fixed_point_laws i128_ok (cfg_signed c) \<Longrightarrow> withdraw c g i x s = (Inr r, t) \<Longrightarrow>
       x \<le> part s g i \<and>
       part t = (\<lambda>h j. if h = g \<and> j = i then part s g i - x else part s h j) \<and>
       tot t = (tot s)(g := tot s g - x)"
    and set_effect:
      "set_to c g i n s = (Inr r, t) \<Longrightarrow>
       \<exists>m. truncate_to_inner_signed (cfg_signed c) (part s g i) = Some m \<and> 0 \<le> m \<and>
         (if nat m < n then \<exists>x. to_fixed (cfg_signed c) (n - nat m) = Some x \<and> deposit c g i x s = (Inr (), t)
          else if n < nat m then \<exists>x. to_fixed (cfg_signed c) (nat m - n) = Some x \<and>
            withdraw c g i x s = (Inr (), t)
          else t = s)"
begin

lemma deposit_totals:
  assumes "fixed_point_laws i128_ok (cfg_signed c)"
  shows "keepsOkM (\<lambda>s. totals_ok (tot s) (part s)) (deposit c g i x)"
  by (rule keepsOkM_I) (auto simp: totals_ok_upd dest!: deposit_effect [OF assms])

lemma withdraw_totals:
  assumes "fixed_point_laws i128_ok (cfg_signed c)"
  shows "keepsOkM (\<lambda>s. totals_ok (tot s) (part s)) (withdraw c g i x)"
  by (rule keepsOkM_I) (auto simp: totals_ok_sub dest!: withdraw_effect [OF assms])

lemma set_to_totals:
  assumes laws: "fixed_point_laws i128_ok (cfg_signed c)"
  shows "keepsOkM (\<lambda>s. totals_ok (tot s) (part s)) (set_to c g i n)"
proof (rule keepsOkM_I)
  fix s r t
  assume inv: "totals_ok (tot s) (part s)" and run: "set_to c g i n s = (Inr r, t)"
  show "totals_ok (tot t) (part t)"
    using set_effect [OF run] inv
    by (auto split: if_splits dest: keepsOkM_D [OF deposit_totals [OF laws]]
        keepsOkM_D [OF withdraw_totals [OF laws]])
qed

lemma set_to_value:
  assumes laws: "fixed_point_laws i128_ok (cfg_signed c)" and run: "set_to c g i n s = (Inr r, t)"
    and whole: "part s g i = int k * fx_accuracy (cfg_signed c)"
  shows "part t g i = int n * fx_accuracy (cfg_signed c)"
    and "tot t g = tot s g + (int n - int k) * fx_accuracy (cfg_signed c)"
proof -
  have "truncate_to_inner_signed (cfg_signed c) (part s g i) = Some (int k)"
    using fixed_accuracy_pos [OF laws]
    by (simp add: whole truncate_to_inner_signed_nonneg [OF laws])
  then consider (less) x where "k < n" "x = int (n - k) * fx_accuracy (cfg_signed c)" "deposit c g i x s = (Inr (), t)"
    | (more) x where "n < k" "x = int (k - n) * fx_accuracy (cfg_signed c)" "withdraw c g i x s = (Inr (), t)"
    | (same) "n = k" "t = s"
    using set_effect [OF run] by (auto split: if_splits dest: to_fixed_Some [OF laws])
  then have "part t g i = int n * fx_accuracy (cfg_signed c) \<and>
      tot t g = tot s g + (int n - int k) * fx_accuracy (cfg_signed c)"
  proof cases
    case less
    then show ?thesis
      using deposit_effect [OF laws less(3)] by (simp add: whole of_nat_diff algebra_simps)
  next
    case more
    then show ?thesis
      using withdraw_effect [OF laws more(3)] by (simp add: whole of_nat_diff algebra_simps)
  qed (simp add: whole)
  then show "part t g i = int n * fx_accuracy (cfg_signed c)"
    and "tot t g = tot s g + (int n - int k) * fx_accuracy (cfg_signed c)" by simp_all
qed

end

end
