(* ===== verification/Reward.thy ===== *)
theory Reward
  imports Fixed_Storage
begin

text \<open>
  The reward pallet, \<^verbatim>\<open>pallets/reward/src/lib.rs\<close>: one pool in which rewards of several currencies
  are distributed in proportion to stake.  Participants are vaults.
\<close>

datatype reward_event =
    RwDepositStake vault_id int
  | RwDistributeReward currency int
  | RwWithdrawStake vault_id int
  | RwWithdrawReward vault_id currency int

record reward_pool =
  rw_total_stake :: int
  rw_total_rewards :: "currency \<Rightarrow> int"
  rw_reward_per_token :: "currency \<Rightarrow> int"
  rw_stake :: "vault_id \<Rightarrow> int"
  rw_reward_tally :: "currency \<times> vault_id \<Rightarrow> int"
  rw_events :: "reward_event list"

definition reward_deposit_event :: "reward_event \<Rightarrow> (reward_pool, unit) prog" where
  "reward_deposit_event e = modifyM (\<lambda>s. s\<lparr>rw_events := e # rw_events s\<rparr>)"

section \<open>Internal functions\<close>

definition reward_get_total_rewards :: "'l config \<Rightarrow> currency \<Rightarrow> reward_pool \<Rightarrow> int result" where
  "reward_get_total_rewards c currency_id s =
     ok_orR (truncate_to_inner_signed (cfg_signed c) (rw_total_rewards s currency_id))
       (RewardErr reward_error.TryIntoIntError)"

definition reward_add_tally ::
  "'l config \<Rightarrow> vault_id \<Rightarrow> int \<Rightarrow> currency \<Rightarrow> (reward_pool, unit) prog" where
  "reward_add_tally c reward_id amount currency_id = (bindM (getM (\<lambda>s. rw_reward_per_token s currency_id)) (\<lambda>reward_per_token.
    bindM (ok_orM (fx_checked_mul (cfg_signed c) reward_per_token amount) Overflow_err) (\<lambda>reward_per_token_mul_amount.
    bindM (checked_add_mut (cfg_signed c) rw_reward_tally rw_reward_tally_update
      (currency_id, reward_id) reward_per_token_mul_amount) (\<lambda>_.
    retM ()))))"

definition reward_sub_tally ::
  "'l config \<Rightarrow> vault_id \<Rightarrow> int \<Rightarrow> currency \<Rightarrow> (reward_pool, unit) prog" where
  "reward_sub_tally c reward_id amount currency_id = (bindM (getM (\<lambda>s. rw_reward_per_token s currency_id)) (\<lambda>reward_per_token.
    bindM (ok_orM (fx_checked_mul (cfg_signed c) reward_per_token amount) Overflow_err) (\<lambda>reward_per_token_mul_amount.
    bindM (checked_sub_mut (cfg_signed c) rw_reward_tally rw_reward_tally_update
      (currency_id, reward_id) reward_per_token_mul_amount) (\<lambda>_.
    retM ()))))"

definition reward_deposit_stake ::
  "'l config \<Rightarrow> vault_id \<Rightarrow> int \<Rightarrow> currency \<Rightarrow> (reward_pool, unit) prog" where
  "reward_deposit_stake c reward_id amount wrapped = (bindM (checked_add_mut (cfg_signed c) rw_stake rw_stake_update reward_id amount) (\<lambda>_.
    bindM (checked_add_value (cfg_signed c) rw_total_stake rw_total_stake_update amount) (\<lambda>_.
    bindM (forM [cfg_native_currency c, wrapped] (reward_add_tally c reward_id amount)) (\<lambda>_.
    reward_deposit_event (RwDepositStake reward_id amount)))))"

definition reward_distribute_reward ::
  "'l config \<Rightarrow> currency \<Rightarrow> int \<Rightarrow> (reward_pool, unit) prog" where
  "reward_distribute_reward c currency_id reward = (bindM (getM rw_total_stake) (\<lambda>total_stake.
    bindM (ensureM (total_stake \<noteq> 0) (RewardErr reward_error.ZeroTotalStake)) (\<lambda>_.
    bindM (ok_orM (fx_checked_div (cfg_signed c) reward total_stake) Underflow_err) (\<lambda>reward_div_total_stake.
    bindM (checked_add_mut (cfg_signed c) rw_reward_per_token rw_reward_per_token_update
      currency_id reward_div_total_stake) (\<lambda>_.
    bindM (checked_add_mut (cfg_signed c) rw_total_rewards rw_total_rewards_update currency_id reward) (\<lambda>_.
    reward_deposit_event (RwDistributeReward currency_id reward)))))))"

definition reward_compute_reward ::
  "'l config \<Rightarrow> currency \<Rightarrow> vault_id \<Rightarrow> reward_pool \<Rightarrow> int result" where
  "reward_compute_reward c currency_id account_id s = (let stake = rw_stake s account_id in
    let reward_per_token = rw_reward_per_token s currency_id in
    bindR (ok_orR (fx_checked_mul (cfg_signed c) stake reward_per_token) Overflow_err) (\<lambda>stake_mul_reward_per_token.
    let reward_tally = rw_reward_tally s (currency_id, account_id) in
    bindR (ok_orR (fx_checked_sub (cfg_signed c) stake_mul_reward_per_token reward_tally)
      Underflow_err) (\<lambda>difference.
    ok_orR (truncate_to_inner_signed (cfg_signed c) difference)
      (RewardErr reward_error.TryIntoIntError))))"

definition reward_withdraw_stake ::
  "'l config \<Rightarrow> vault_id \<Rightarrow> int \<Rightarrow> currency \<Rightarrow> (reward_pool, unit) prog" where
  "reward_withdraw_stake c reward_id amount wrapped = (bindM (getM (\<lambda>s. rw_stake s reward_id)) (\<lambda>stake.
    (if amount > stake then failM (RewardErr reward_error.InsufficientFunds)
      else (bindM (checked_sub_mut (cfg_signed c) rw_stake rw_stake_update reward_id amount) (\<lambda>_.
        bindM (checked_sub_value (cfg_signed c) rw_total_stake rw_total_stake_update amount) (\<lambda>_.
        bindM (forM [cfg_native_currency c, wrapped] (reward_sub_tally c reward_id amount)) (\<lambda>_.
        reward_deposit_event (RwWithdrawStake reward_id amount))))))))"

definition reward_withdraw_reward ::
  "'l config \<Rightarrow> vault_id \<Rightarrow> currency \<Rightarrow> (reward_pool, int) prog" where
  "reward_withdraw_reward c reward_id currency_id = (bindM (queryM (reward_compute_reward c currency_id reward_id)) (\<lambda>reward.
    bindM (ok_orM (fx_checked_from_integer (cfg_signed c) reward)
      (RewardErr reward_error.TryIntoIntError)) (\<lambda>reward_as_fixed.
    bindM (checked_sub_mut (cfg_signed c) rw_total_rewards rw_total_rewards_update currency_id reward_as_fixed) (\<lambda>_.
    bindM (getM (\<lambda>s. rw_stake s reward_id)) (\<lambda>stake.
    bindM (getM (\<lambda>s. rw_reward_per_token s currency_id)) (\<lambda>reward_per_token.
    bindM (ok_orM (fx_checked_mul (cfg_signed c) stake reward_per_token) Overflow_err) (\<lambda>tally.
    bindM (modifyM (rw_reward_tally_update (\<lambda>m. m((currency_id, reward_id) := tally)))) (\<lambda>_.
    bindM (reward_deposit_event (RwWithdrawReward reward_id currency_id reward_as_fixed)) (\<lambda>_.
    retM reward)))))))))"

section \<open>The trait implementations on balances\<close>

definition reward_try_into :: "int \<Rightarrow> balance result" where
  "reward_try_into x =
     (if 0 \<le> x then Inr (nat x) else Inl (RewardErr reward_error.TryIntoIntError))"

definition rewards_get_stake :: "'l config \<Rightarrow> vault_id \<Rightarrow> reward_pool \<Rightarrow> balance result" where
  "rewards_get_stake c reward_id s = (bindR (ok_orR (truncate_to_inner_signed (cfg_signed c) (rw_stake s reward_id))
      (RewardErr reward_error.TryIntoIntError)) (\<lambda>inner.
    reward_try_into inner))"

definition reward_to_fixed :: "'l config \<Rightarrow> balance \<Rightarrow> (reward_pool, int) prog" where
  "reward_to_fixed c amount =
     ok_orM (to_fixed (cfg_signed c) amount) (RewardErr reward_error.TryIntoIntError)"

definition rewards_set_stake ::
  "'l config \<Rightarrow> vault_id \<Rightarrow> balance \<Rightarrow> currency \<Rightarrow> (reward_pool, unit) prog" where
  "rewards_set_stake c reward_id amount wrapped = (bindM (queryM (rewards_get_stake c reward_id)) (\<lambda>current_stake.
    (if current_stake < amount then (let additional_stake = saturating_sub_n amount current_stake in
       bindM (reward_to_fixed c additional_stake) (\<lambda>x.
       reward_deposit_stake c reward_id x wrapped))
      else if current_stake > amount then (let surplus_stake = saturating_sub_n current_stake amount in
        bindM (reward_to_fixed c surplus_stake) (\<lambda>x.
        reward_withdraw_stake c reward_id x wrapped))
      else retM ())))"

definition rewards_distribute_reward :: "'l config \<Rightarrow> balance \<Rightarrow> currency \<Rightarrow> (reward_pool, unit) prog" where
  "rewards_distribute_reward c amount currency_id = (bindM (reward_to_fixed c amount) (\<lambda>x.
    reward_distribute_reward c currency_id x))"

definition rewards_compute_reward ::
  "'l config \<Rightarrow> vault_id \<Rightarrow> currency \<Rightarrow> reward_pool \<Rightarrow> balance result" where
  "rewards_compute_reward c reward_id currency_id s = (bindR (reward_compute_reward c currency_id reward_id s) (\<lambda>x.
    reward_try_into x))"

definition rewards_withdraw_reward ::
  "'l config \<Rightarrow> vault_id \<Rightarrow> currency \<Rightarrow> (reward_pool, balance) prog" where
  "rewards_withdraw_reward c reward_id currency_id = (bindM (reward_withdraw_reward c reward_id currency_id) (\<lambda>x.
    liftM (reward_try_into x)))"

definition modify_deposit_stake ::
  "'l config \<Rightarrow> vault_id \<Rightarrow> balance \<Rightarrow> currency \<Rightarrow> (reward_pool, unit) prog" where
  "modify_deposit_stake c reward_id amount wrapped = (bindM (reward_to_fixed c amount) (\<lambda>x.
    reward_deposit_stake c reward_id x wrapped))"

definition modify_withdraw_stake ::
  "'l config \<Rightarrow> vault_id \<Rightarrow> currency \<Rightarrow> (reward_pool, unit) prog" where
  "modify_withdraw_stake c reward_id wrapped = (bindM (getM (\<lambda>s. rw_stake s reward_id)) (\<lambda>stake.
    reward_withdraw_stake c reward_id stake wrapped))"

section \<open>The pool contract\<close>

text \<open>A group of the contract is the wrapped currency the client names; all groups share the pool.\<close>

lemma reward_tally_frames:
  "frameM (\<lambda>s. (rw_stake s, rw_total_stake s)) (reward_add_tally c v x k)"
  "frameM (\<lambda>s. (rw_stake s, rw_total_stake s)) (reward_sub_tally c v x k)"
  "frameM (\<lambda>s. (rw_stake s, rw_total_stake s)) (reward_deposit_event e)"
  unfolding reward_add_tally_def reward_sub_tally_def reward_deposit_event_def
  by (intro frame_intro; simp)+

lemma reward_deposit_effect:
  assumes laws: "fixed_point_laws i128_ok (cfg_signed c)"
    and run: "reward_deposit_stake c v x k s = (Inr r, t)"
  shows "rw_stake t = (rw_stake s)(v := rw_stake s v + x) \<and> rw_total_stake t = rw_total_stake s + x"
proof -
  obtain u w where u: "u = rw_total_stake_update (\<lambda>_. rw_total_stake s + x)
      (rw_stake_update (\<lambda>m. m(v := rw_stake s v + x)) s)"
    and loop: "forM [cfg_native_currency c, k] (reward_add_tally c v x) u = (Inr (), w)"
    and ev: "reward_deposit_event (RwDepositStake v x) w = (Inr r, t)"
    using run by (auto simp: reward_deposit_stake_def ok_iff fixed_add [OF laws] simp del: forM.simps)
  show ?thesis
    using frameM_D [OF frame_for [OF reward_tally_frames(1)] loop] frameM_D [OF reward_tally_frames(3) ev]
    by (simp add: u)
qed

lemma reward_withdraw_effect:
  assumes laws: "fixed_point_laws i128_ok (cfg_signed c)"
    and run: "reward_withdraw_stake c v x k s = (Inr r, t)"
  shows "x \<le> rw_stake s v \<and> rw_stake t = (rw_stake s)(v := rw_stake s v - x) \<and>
    rw_total_stake t = rw_total_stake s - x"
proof -
  obtain u w where u: "u = rw_total_stake_update (\<lambda>_. rw_total_stake s - x)
      (rw_stake_update (\<lambda>m. m(v := rw_stake s v - x)) s)" and "x \<le> rw_stake s v"
    and loop: "forM [cfg_native_currency c, k] (reward_sub_tally c v x) u = (Inr (), w)"
    and ev: "reward_deposit_event (RwWithdrawStake v x) w = (Inr r, t)"
    using run by (auto simp: reward_withdraw_stake_def ok_iff fixed_sub [OF laws] simp del: forM.simps split: if_splits)
  then show ?thesis
    using frameM_D [OF frame_for [OF reward_tally_frames(2)] loop] frameM_D [OF reward_tally_frames(3) ev]
    by simp
qed

interpretation rwp: stake_pool
  "\<lambda>s (_ :: unit). rw_stake s" "\<lambda>s _. rw_total_stake s"
  "\<lambda>c _ v x. reward_deposit_stake c v x k" "\<lambda>c _ v x. reward_withdraw_stake c v x k"
  "\<lambda>c _ v n. rewards_set_stake c v n k" for k
proof unfold_locales
  fix c :: "'l config" and g :: unit and i x s r t
  assume laws: "fixed_point_laws i128_ok (cfg_signed c)"
  show "reward_deposit_stake c i x k s = (Inr r, t) \<Longrightarrow>
      (\<lambda>(_ :: unit). rw_stake t) = (\<lambda>h j. if h = g \<and> j = i then rw_stake s i + x else rw_stake s j) \<and>
      (\<lambda>_. rw_total_stake t) = (\<lambda>_. rw_total_stake s)(g := rw_total_stake s + x)"
    by (auto simp: fun_eq_iff dest!: reward_deposit_effect [OF laws])
  show "reward_withdraw_stake c i x k s = (Inr r, t) \<Longrightarrow>
      x \<le> rw_stake s i \<and>
      (\<lambda>(_ :: unit). rw_stake t) = (\<lambda>h j. if h = g \<and> j = i then rw_stake s i - x else rw_stake s j) \<and>
      (\<lambda>_. rw_total_stake t) = (\<lambda>_. rw_total_stake s)(g := rw_total_stake s - x)"
    by (auto simp: fun_eq_iff dest!: reward_withdraw_effect [OF laws])
next
  fix c :: "'l config" and g :: unit and i n s r t
  assume "rewards_set_stake c i n k s = (Inr r, t)"
  then show "\<exists>m. truncate_to_inner_signed (cfg_signed c) (rw_stake s i) = Some m \<and> 0 \<le> m \<and>
      (if nat m < n then \<exists>x. to_fixed (cfg_signed c) (n - nat m) = Some x \<and>
         reward_deposit_stake c i x k s = (Inr (), t)
       else if n < nat m then \<exists>x. to_fixed (cfg_signed c) (nat m - n) = Some x \<and>
         reward_withdraw_stake c i x k s = (Inr (), t)
       else t = s)"
    by (auto simp: rewards_set_stake_def rewards_get_stake_def reward_try_into_def reward_to_fixed_def
        saturating_sub_n_minus ok_iff Let_def split: if_splits)
qed

text \<open>
  Setting a participant's stake to a number of whole tokens gives exactly that stake
  and moves the total by the difference.
\<close>

theorem rewards_set_stake_value:
  assumes "fixed_point_laws i128_ok (cfg_signed c)" and "rewards_set_stake c v n wrapped s = (Inr r, t)"
    and "rw_stake s v = int k * fx_accuracy (cfg_signed c)"
  shows "rw_stake t v = int n * fx_accuracy (cfg_signed c) \<and>
    rw_total_stake t = rw_total_stake s + (int n - int k) * fx_accuracy (cfg_signed c)"
  using rwp.set_to_value [OF assms(1,2), of k] assms(3) by simp

section \<open>Rewards in currencies that are not tracked\<close>

lemma reward_add_tally_other:
  "j \<noteq> k \<Longrightarrow> frameM (\<lambda>s. (rw_reward_tally s (k, v), rw_reward_per_token s, rw_stake s)) (reward_add_tally c v x j)"
  unfolding reward_add_tally_def by (intro frame_intro; simp)

text \<open>
  C38: a deposit adjusts the tally only for the native currency and for the one
  wrapped currency the caller names.  In any other currency the new stake is paid for every past
  distribution, as if it had been deposited from the beginning.
\<close>

theorem reward_past_distributions_claimable:
  assumes laws: "fixed_point_laws i128_ok (cfg_signed c)"
    and run: "reward_deposit_stake c v x wrapped s = (Inr r, t)"
    and k: "k \<noteq> cfg_native_currency c" "k \<noteq> wrapped"
    and new: "rw_stake s v = 0" "rw_reward_tally s (k, v) = 0"
    and m: "fx_checked_mul (cfg_signed c) x (rw_reward_per_token s k) = Some m" "0 \<le> m"
  shows "reward_compute_reward c k v t = Inr (m div fx_accuracy (cfg_signed c))"
proof -
  obtain u w where u: "u = rw_total_stake_update (\<lambda>_. rw_total_stake s + x)
      (rw_stake_update (\<lambda>f. f(v := x)) s)"
    and loop: "bindM (reward_add_tally c v x (cfg_native_currency c)) (\<lambda>_.
        bindM (reward_add_tally c v x wrapped) (\<lambda>_. retM ())) u = (Inr (), w)"
    and t: "t = w\<lparr>rw_events := RwDepositStake v x # rw_events w\<rparr>"
    using run new by (auto simp: reward_deposit_stake_def reward_deposit_event_def ok_iff fixed_add [OF laws])
  have "frameM (\<lambda>s. (rw_reward_tally s (k, v), rw_reward_per_token s, rw_stake s))
      (bindM (reward_add_tally c v x (cfg_native_currency c)) (\<lambda>_.
        bindM (reward_add_tally c v x wrapped) (\<lambda>_. retM ())))"
    using k by (intro frame_intro reward_add_tally_other) auto
  from frameM_D [OF this loop] have "rw_stake t v = x" "rw_reward_per_token t k = rw_reward_per_token s k"
    "rw_reward_tally t (k, v) = 0"
    using new by (simp_all add: t u)
  moreover have "fx_checked_sub (cfg_signed c) m 0 = Some m"
    using fixed_mul_range [OF laws m(1)] by (simp add: fixed_sub [OF laws])
  ultimately show ?thesis
    using m by (simp add: reward_compute_reward_def Let_def truncate_to_inner_signed_nonneg [OF laws])
qed

section \<open>A sample pool of participants\<close>

definition sample_reward_pool :: reward_pool where
  "sample_reward_pool =
     \<lparr>rw_total_stake = 1000, rw_total_rewards = (\<lambda>_. 0)(XCM 1 := 2000),
      rw_reward_per_token = (\<lambda>_. 0)(XCM 1 := 200), rw_stake = (\<lambda>_. 0)(sample_vault\<lparr>vid_account := 9\<rparr> := 1000),
      rw_reward_tally = (\<lambda>_. 0), rw_events = []\<rparr>"

lemmas reward_run = reward_deposit_stake_def reward_add_tally_def reward_deposit_event_def
  rewards_set_stake_def rewards_get_stake_def reward_try_into_def reward_to_fixed_def to_fixed_def
  truncate_to_inner_signed_def checked_add_mut_def checked_add_value_def saturating_sub_n_def
  sample_reward_pool_def sample_defs

lemma sample_vault_other: "sample_vault \<noteq> sample_vault\<lparr>vid_account := 9\<rparr>"
  by (simp add: sample_vault_def new_vault_id_def)

theorem rewards_set_stake_value_witness:
  "rw_stake (snd (rewards_set_stake sample_config sample_vault 4 (Stellar StellarNative) sample_reward_pool))
     sample_vault = 400"
proof -
  have "fst (rewards_set_stake sample_config sample_vault 4 (Stellar StellarNative) sample_reward_pool) = Inr ()"
    using sample_vault_other by (simp cong: bindM_weak_cong bindR_weak_cong add: reward_run)
  then show ?thesis
    using rewards_set_stake_value [OF sample_laws(1) run_pair, of sample_vault 4 "Stellar StellarNative"
        sample_reward_pool "()" 0] sample_vault_other
    by (simp add: sample_reward_pool_def sample_defs)
qed

theorem reward_past_distributions_claimable_witness:
  "reward_compute_reward sample_config (XCM 1) sample_vault
     (snd (reward_deposit_stake sample_config sample_vault 500 (Stellar StellarNative) sample_reward_pool))
   = Inr 10"
proof -
  have run: "fst (reward_deposit_stake sample_config sample_vault 500 (Stellar StellarNative) sample_reward_pool)
      = Inr ()"
    using sample_vault_other by (simp cong: bindM_weak_cong bindR_weak_cong add: reward_run)
  show ?thesis
    using reward_past_distributions_claimable [OF sample_laws(1) run_pair [OF run], of "XCM 1" 1000]
      sample_vault_other
    by (simp add: sample_reward_pool_def sample_defs)
qed

end
