(* ===== verification/Currency_Amount.thy ===== *)
theory Currency_Amount
  imports Sample_Runtime
begin

text \<open>
  The currency pallet, \<^verbatim>\<open>pallets/currency/src\<close>: amounts tagged with a currency, their checked
  arithmetic, the token actions on the ledger, and the amount a Stellar transaction pays to an
  address.
\<close>

record amount =
  amt :: balance
  cur :: currency

definition new_amount :: "balance \<Rightarrow> currency \<Rightarrow> amount" where
  "new_amount n currency_id = \<lparr>amt = n, cur = currency_id\<rparr>"

section \<open>Conversions\<close>

definition from_signed_fixed_point :: "'l config \<Rightarrow> int \<Rightarrow> currency \<Rightarrow> amount result" where
  "from_signed_fixed_point c x currency_id = (bindR (ok_orR (truncate_to_inner_signed (cfg_signed c) x)
      (CurrencyErr currency_error.TryIntoIntError)) (\<lambda>inner.
    bindR (ensureR (0 \<le> inner) (CurrencyErr currency_error.TryIntoIntError)) (\<lambda>_.
    Inr (new_amount (nat inner) currency_id))))"

definition to_signed_fixed_point :: "'l config \<Rightarrow> amount \<Rightarrow> int result" where
  "to_signed_fixed_point c a = (bindR (ensureR (i128_ok (int (amt a))) (CurrencyErr currency_error.TryIntoIntError)) (\<lambda>_.
    ok_orR (fx_checked_from_integer (cfg_signed c) (int (amt a)))
      (CurrencyErr currency_error.TryIntoIntError)))"

section \<open>Arithmetic\<close>

definition zero_amount :: "currency \<Rightarrow> amount" where
  "zero_amount currency_id = new_amount 0 currency_id"

definition is_zero :: "amount \<Rightarrow> bool" where
  "is_zero a \<longleftrightarrow> amt a = 0"

definition ensure_is_compatible_with_target_chain :: "amount \<Rightarrow> unit result" where
  "ensure_is_compatible_with_target_chain a =
     (if \<not> is_compatible_with_target (amt a) then Inl (CurrencyErr IncompatibleAmount) else Inr ())"

definition round_to_target_chain :: "'l config \<Rightarrow> amount \<Rightarrow> amount result" where
  "round_to_target_chain c a =
     (case round_to_compatible_with_target (cfg_unsigned c) (amt a) of
        Inl _ \<Rightarrow> Inl (CurrencyErr CompatibleRoundingFailed)
      | Inr rounded_amount \<Rightarrow> Inr (new_amount rounded_amount (cur a)))"

definition checked_fn ::
  "amount \<Rightarrow> amount \<Rightarrow> (balance \<Rightarrow> balance \<Rightarrow> balance option) \<Rightarrow> arithmetic_error \<Rightarrow> amount result" where
  "checked_fn a other f err =
     (if cur a \<noteq> cur other then Inl (CurrencyErr currency_error.InvalidCurrency)
      else (bindR (ok_orR (f (amt a) (amt other)) (Arithmetic err)) (\<lambda>n.
        Inr (new_amount n (cur a)))))"

definition checked_add :: "amount \<Rightarrow> amount \<Rightarrow> amount result" where
  "checked_add a other = checked_fn a other checked_add_128 ArithOverflow"

definition checked_sub :: "amount \<Rightarrow> amount \<Rightarrow> amount result" where
  "checked_sub a other = checked_fn a other checked_sub_n ArithUnderflow"

definition saturating_sub :: "amount \<Rightarrow> amount \<Rightarrow> amount result" where
  "saturating_sub a other = (bindR (ensureR (cur a = cur other) (CurrencyErr currency_error.InvalidCurrency)) (\<lambda>_.
    (case checked_sub a other of Inr d \<Rightarrow> Inr d | Inl _ \<Rightarrow> Inr (new_amount 0 (cur a)))))"

definition checked_fixed_point_mul :: "'l config \<Rightarrow> amount \<Rightarrow> int \<Rightarrow> amount result" where
  "checked_fixed_point_mul c a scalar = (bindR (ok_orR (fx_checked_mul_int (cfg_unsigned c) scalar (int (amt a))) Underflow_err) (\<lambda>n.
    Inr (new_amount (nat n) (cur a))))"

definition checked_fixed_point_mul_rounded_up :: "'l config \<Rightarrow> amount \<Rightarrow> int \<Rightarrow> amount result" where
  "checked_fixed_point_mul_rounded_up c a scalar = (bindR (ok_orR (fx_checked_from_integer (cfg_unsigned c) (int (amt a)))
      (CurrencyErr currency_error.TryIntoIntError)) (\<lambda>self_fixed_point.
    bindR (ok_orR (fx_checked_mul (cfg_unsigned c) self_fixed_point scalar) Overflow_err) (\<lambda>product.
    let product_inner = nat product in
    let accuracy = nat (fx_accuracy (cfg_unsigned c)) in
    bindR (ok_orR (checked_add_128 product_inner accuracy) Overflow_err) (\<lambda>sum.
    bindR (ok_orR (checked_sub_n sum 1) Underflow_err) (\<lambda>less_one.
    bindR (ok_orR (checked_div_n less_one accuracy) Underflow_err) (\<lambda>n.
    Inr (new_amount n (cur a))))))))"

definition checked_div :: "'l config \<Rightarrow> amount \<Rightarrow> int \<Rightarrow> amount result" where
  "checked_div c a scalar = (bindR (ok_orR (fx_checked_from_integer (cfg_unsigned c) (int (amt a)))
      (CurrencyErr currency_error.TryIntoIntError)) (\<lambda>x.
    bindR (ok_orR (fx_checked_div (cfg_unsigned c) x scalar) Overflow_err) (\<lambda>q.
    bindR (ok_orR (truncate_to_inner_unsigned (cfg_unsigned c) q)
      (CurrencyErr currency_error.TryIntoIntError)) (\<lambda>n.
    Inr (new_amount (nat n) (cur a))))))"

definition ratio :: "'l config \<Rightarrow> amount \<Rightarrow> amount \<Rightarrow> int result" where
  "ratio c a other = (bindR (ensureR (cur a = cur other) (CurrencyErr currency_error.InvalidCurrency)) (\<lambda>_.
    ok_orR (fx_checked_from_rational (cfg_unsigned c) (int (amt a)) (int (amt other)))
      (CurrencyErr currency_error.TryIntoIntError)))"

definition same_currency :: "amount \<Rightarrow> amount \<Rightarrow> 'a \<Rightarrow> 'a result" where
  "same_currency a other r = (bindR (ensureR (cur a = cur other) (CurrencyErr currency_error.InvalidCurrency)) (\<lambda>_.
    Inr r))"

definition amount_lt :: "amount \<Rightarrow> amount \<Rightarrow> bool result" where
  "amount_lt a other = same_currency a other (amt a < amt other)"

definition amount_le :: "amount \<Rightarrow> amount \<Rightarrow> bool result" where
  "amount_le a other = same_currency a other (amt a \<le> amt other)"

definition amount_eq :: "amount \<Rightarrow> amount \<Rightarrow> bool result" where
  "amount_eq a other = same_currency a other (amt a = amt other)"

definition amount_ne :: "amount \<Rightarrow> amount \<Rightarrow> bool result" where
  "amount_ne a other = (bindR (amount_eq a other) (\<lambda>b.
    Inr (\<not> b)))"

definition amount_ge :: "amount \<Rightarrow> amount \<Rightarrow> bool result" where
  "amount_ge a other = same_currency a other (amt a \<ge> amt other)"

definition amount_gt :: "amount \<Rightarrow> amount \<Rightarrow> bool result" where
  "amount_gt a other = same_currency a other (amt a > amt other)"

definition amount_min :: "amount \<Rightarrow> amount \<Rightarrow> amount result" where
  "amount_min a other = (bindR (ensureR (cur a = cur other) (CurrencyErr currency_error.InvalidCurrency)) (\<lambda>_.
    bindR (amount_le a other) (\<lambda>le.
    Inr (if le then a else other))))"

definition rounded_mul :: "'l config \<Rightarrow> amount \<Rightarrow> int \<Rightarrow> amount result" where
  "rounded_mul c a fraction = (bindR (ok_orR (fx_checked_from_rational (cfg_unsigned c) 1 2)
      (CurrencyErr currency_error.TryIntoIntError)) (\<lambda>rounding_addition.
    bindR (ok_orR (fx_checked_from_integer (cfg_unsigned c) (int (amt a))) Overflow_err) (\<lambda>x.
    bindR (ok_orR (fx_checked_mul (cfg_unsigned c) x fraction) Overflow_err) (\<lambda>y.
    bindR (ok_orR (fx_checked_add (cfg_unsigned c) y rounding_addition) Overflow_err) (\<lambda>z.
    bindR (ok_orR (truncate_to_inner_unsigned (cfg_unsigned c) z)
      (CurrencyErr currency_error.TryIntoIntError)) (\<lambda>n.
    Inr (new_amount (nat n) (cur a))))))))"

definition amount_map :: "(balance \<Rightarrow> balance) \<Rightarrow> amount \<Rightarrow> amount" where
  "amount_map f a = new_amount (f (amt a)) (cur a)"

section \<open>Actions on the ledger\<close>

definition transfer :: "'l config \<Rightarrow> amount \<Rightarrow> account \<Rightarrow> account \<Rightarrow> ('l, unit) prog" where
  "transfer c a source destination =
     led_transfer (cfg_ledger c) (cur a) source destination (amt a)"

definition lock_on :: "'l config \<Rightarrow> amount \<Rightarrow> account \<Rightarrow> ('l, unit) prog" where
  "lock_on c a account_id = led_reserve (cfg_ledger c) (cur a) account_id (amt a)"

definition balance_too_low :: dispatch_error where
  "balance_too_low = Token (TokenError ''BalanceTooLow'')"

definition unlock_on :: "'l config \<Rightarrow> amount \<Rightarrow> account \<Rightarrow> ('l, unit) prog" where
  "unlock_on c a account_id l =
     (case led_unreserve (cfg_ledger c) (cur a) account_id (amt a) l of
        (rest, l') \<Rightarrow> (if rest = 0 then Inr () else Inl balance_too_low, l'))"

definition burn_from :: "'l config \<Rightarrow> amount \<Rightarrow> account \<Rightarrow> ('l, unit) prog" where
  "burn_from c a account_id l =
     (case led_slash_reserved (cfg_ledger c) (cur a) account_id (amt a) l of
        (rest, l') \<Rightarrow> (if rest = 0 then Inr () else Inl balance_too_low, l'))"

definition mint_to :: "'l config \<Rightarrow> amount \<Rightarrow> account \<Rightarrow> ('l, unit) prog" where
  "mint_to c a account_id = led_deposit (cfg_ledger c) (cur a) account_id (amt a)"

definition get_free_balance :: "'l config \<Rightarrow> 'l \<Rightarrow> currency \<Rightarrow> account \<Rightarrow> amount" where
  "get_free_balance c l currency_id account =
     new_amount (led_free (cfg_ledger c) l currency_id account) currency_id"

definition get_reserved_balance :: "'l config \<Rightarrow> 'l \<Rightarrow> currency \<Rightarrow> account \<Rightarrow> amount" where
  "get_reserved_balance c l currency_id account =
     new_amount (led_reserved (cfg_ledger c) l currency_id account) currency_id"

definition on_sweep :: "'l config \<Rightarrow> account \<Rightarrow> amount \<Rightarrow> ('l, unit) prog" where
  "on_sweep c who a = transfer c a who (cfg_treasury_account c)"

section \<open>Payments\<close>

definition add_operation ::
  "stellar_asset \<Rightarrow> byte list \<Rightarrow> int \<Rightarrow> operation_body \<Rightarrow> int" where
  "add_operation asset recipient transferred_amount body = (case body of
     Payment payment \<Rightarrow>
       if po_destination payment = KeyTypeEd25519 recipient \<and> po_asset payment = asset
       then saturating_add_i64 transferred_amount (po_amount payment) else transferred_amount
   | CreateClaimableBalance payment \<Rightarrow>
       if length (cb_claimants payment) = 1 then
         (let claimant = cb_claimants payment ! 0 in
          if cl_destination claimant = recipient \<and> cb_asset payment = asset \<and>
             cl_predicate claimant = ClaimPredicateUnconditional
          then saturating_add_i64 transferred_amount (cb_amount payment) else transferred_amount)
       else transferred_amount
   | OtherOperation _ \<Rightarrow> transferred_amount)"

fun sum_operations ::
  "stellar_asset \<Rightarrow> byte list \<Rightarrow> int \<Rightarrow> operation_body list \<Rightarrow> int" where
  "sum_operations asset recipient transferred_amount [] = transferred_amount"
| "sum_operations asset recipient transferred_amount (x # xs) =
     sum_operations asset recipient (add_operation asset recipient transferred_amount x) xs"

definition get_amount_from_transaction_envelope ::
  "transaction_envelope \<Rightarrow> byte list \<Rightarrow> currency \<Rightarrow> amount result" where
  "get_amount_from_transaction_envelope env recipient currency = (bindR ((case asset_lookup currency of
      Inl _ \<Rightarrow> Inl (CurrencyErr AssetConversionError) | Inr x \<Rightarrow> Inr x)) (\<lambda>asset.
    let tx_operations = envelope_operations env in
    let transferred_amount = sum_operations asset recipient 0 tx_operations in
    let balance = balance_unlookup transferred_amount in
    Inr (new_amount balance currency)))"

lemmas amount_defs = new_amount_def zero_amount_def is_zero_def checked_fn_def checked_add_def
  checked_sub_def saturating_sub_def checked_fixed_point_mul_def checked_div_def ratio_def
  same_currency_def amount_lt_def amount_le_def amount_eq_def amount_ne_def amount_ge_def
  amount_gt_def amount_min_def rounded_mul_def amount_map_def

section \<open>Successful arithmetic\<close>

lemma checked_add_ok [ok_iff]:
  "checked_add a b = Inr r \<longleftrightarrow>
   cur a = cur b \<and> amt a + amt b < 2 ^ 128 \<and> r = \<lparr>amt = amt a + amt b, cur = cur a\<rparr>"
  by (auto simp: checked_add_def checked_fn_def new_amount_def ok_iff)

lemma checked_sub_ok [ok_iff]:
  "checked_sub a b = Inr r \<longleftrightarrow>
   cur a = cur b \<and> amt b \<le> amt a \<and> r = \<lparr>amt = amt a - amt b, cur = cur a\<rparr>"
  by (auto simp: checked_sub_def checked_fn_def new_amount_def ok_iff)

lemma saturating_sub_ok [ok_iff]:
  "saturating_sub a b = Inr r \<longleftrightarrow> cur a = cur b \<and> r = \<lparr>amt = amt a - amt b, cur = cur a\<rparr>"
proof (cases "cur a = cur b")
  case True
  then show ?thesis
    by (cases "amt b \<le> amt a")
       (auto simp: saturating_sub_def checked_sub_def checked_fn_def new_amount_def checked_sub_n_def)
qed (simp add: saturating_sub_def)

lemma amount_compare_ok [ok_iff]:
  "amount_lt a b = Inr r \<longleftrightarrow> cur a = cur b \<and> r = (amt a < amt b)"
  "amount_le a b = Inr r \<longleftrightarrow> cur a = cur b \<and> r = (amt a \<le> amt b)"
  "amount_eq a b = Inr r \<longleftrightarrow> cur a = cur b \<and> r = (amt a = amt b)"
  "amount_ne a b = Inr r \<longleftrightarrow> cur a = cur b \<and> r = (amt a \<noteq> amt b)"
  "amount_ge a b = Inr r \<longleftrightarrow> cur a = cur b \<and> r = (amt a \<ge> amt b)"
  "amount_gt a b = Inr r \<longleftrightarrow> cur a = cur b \<and> r = (amt a > amt b)"
  by (auto simp: amount_lt_def amount_le_def amount_eq_def amount_ne_def amount_ge_def amount_gt_def
      same_currency_def ok_iff)

lemma amount_min_ok [ok_iff]:
  "amount_min a b = Inr r \<longleftrightarrow> cur a = cur b \<and> r = (if amt a \<le> amt b then a else b)"
  by (auto simp: amount_min_def ok_iff)

lemma new_amount_sel [simp]: "amt (new_amount n k) = n" "cur (new_amount n k) = k"
  by (simp_all add: new_amount_def)

lemma zero_amount_sel [simp]: "amt (zero_amount k) = 0" "cur (zero_amount k) = k"
  by (simp_all add: zero_amount_def)

lemma new_amount_same [simp]: "new_amount (amt a) (cur a) = a"
  by (simp add: new_amount_def)

lemma round_to_target_chain_cur [dest]: "round_to_target_chain c a = Inr r \<Longrightarrow> cur r = cur a"
  by (auto simp: round_to_target_chain_def split: sum.splits)

lemma checked_fixed_point_mul_cur: "checked_fixed_point_mul c a x = Inr r \<Longrightarrow> cur r = cur a"
  by (auto simp: checked_fixed_point_mul_def ok_iff)

lemma rounded_mul_cur: "rounded_mul c a x = Inr r \<Longrightarrow> cur r = cur a"
  by (auto simp: rounded_mul_def ok_iff)

lemma from_signed_fixed_point_cur: "from_signed_fixed_point c x k = Inr r \<Longrightarrow> cur r = k"
  by (auto simp: from_signed_fixed_point_def ok_iff)

section \<open>Products and quotients\<close>

lemma fixed_from_amount_mul:
  assumes "fixed_point_laws R fx" and "fx_checked_from_integer fx n = Some x"
    and "fx_checked_mul fx x f = Some y"
  shows "y = n * f"
  using fixed_from_integer [OF assms(1,2)] assms(3) fixed_mul_integral [OF assms(1)] by simp

lemma ceiling_division:
  fixes p a :: nat
  assumes "0 < a"
  shows "p \<le> (p + a - 1) div a * a" and "(p + a - 1) div a * a < p + a"
proof -
  have "(p + a - 1) div a * a + (p + a - 1) mod a = p + a - 1" by simp
  moreover have "(p + a - 1) mod a < a" using assms by simp
  ultimately show "p \<le> (p + a - 1) div a * a" "(p + a - 1) div a * a < p + a"
    using assms by linarith+
qed

text \<open>
  The product rounded up is the least integral amount not below the exact product of the
  amount and the fixed point factor.
\<close>

theorem mul_rounded_up:
  assumes laws: "fixed_point_laws u128_ok (cfg_unsigned c)" and "0 \<le> scalar"
    and res: "checked_fixed_point_mul_rounded_up c a scalar = Inr r"
  shows "cur r = cur a \<and>
    int (amt a) * scalar \<le> int (amt r) * fx_accuracy (cfg_unsigned c) \<and>
    int (amt r) * fx_accuracy (cfg_unsigned c)
      < int (amt a) * scalar + fx_accuracy (cfg_unsigned c)"
proof -
  let ?acc = "fx_accuracy (cfg_unsigned c)"
  obtain x p where x: "fx_checked_from_integer (cfg_unsigned c) (int (amt a)) = Some x"
    and p: "fx_checked_mul (cfg_unsigned c) x scalar = Some p"
    and r: "r = new_amount ((nat p + nat ?acc - 1) div nat ?acc) (cur a)"
    using res by (auto simp: checked_fixed_point_mul_rounded_up_def ok_iff Let_def)
       (metis diff_Suc_1 diff_Suc_Suc diff_zero)
  have p': "p = int (amt a) * scalar" by (rule fixed_from_amount_mul [OF laws x p])
  have acc: "0 < ?acc" by (rule fixed_accuracy_pos [OF laws])
  have "nat p \<le> amt r * nat ?acc" "amt r * nat ?acc < nat p + nat ?acc"
    using ceiling_division [of "nat ?acc" "nat p"] acc by (simp_all add: r)
  then have "p \<le> int (amt r) * ?acc" "int (amt r) * ?acc < p + ?acc"
    using acc assms(2) p' by (simp_all add: nat_le_iff nat_less_iff zless_nat_eq_int_zless flip: nat_add_distrib)
  then show ?thesis using p' r by simp
qed

section \<open>Ledger actions\<close>

lemma ledger_transfer:
  "ledger_laws L \<Longrightarrow> led_transfer L k a b n l = (Inr r, l') \<Longrightarrow>
   n \<le> led_free L l k a \<and>
   led_free L l' = (let taken = move (led_free L l) k a (led_free L l k a - n)
                    in move taken k b (taken k b + n)) \<and>
   led_reserved L l' = led_reserved L l \<and> led_issuance L l' = led_issuance L l"
  by (simp add: ledger_laws_def)

lemma ledger_unreserve:
  "ledger_laws L \<Longrightarrow> led_unreserve L k a n l = (rest, l') \<Longrightarrow>
   rest = n - min n (led_reserved L l k a) \<and>
   led_free L l' = move (led_free L l) k a (led_free L l k a + min n (led_reserved L l k a)) \<and>
   led_reserved L l' =
     move (led_reserved L l) k a (led_reserved L l k a - min n (led_reserved L l k a)) \<and>
   led_issuance L l' = led_issuance L l"
  unfolding ledger_laws_def by blast

lemma ledger_slash_reserved:
  "ledger_laws L \<Longrightarrow> led_slash_reserved L k a n l = (rest, l') \<Longrightarrow>
   rest = n - min n (led_reserved L l k a) \<and>
   led_free L l' = led_free L l \<and>
   led_reserved L l' =
     move (led_reserved L l) k a (led_reserved L l k a - min n (led_reserved L l k a)) \<and>
   led_issuance L l' =
     (led_issuance L l)(k := led_issuance L l k - int (min n (led_reserved L l k a)))"
  unfolding ledger_laws_def by blast

lemma transfer_ok:
  assumes "ledger_laws (cfg_ledger c)" and "transfer c a s d l = (Inr r, l')"
  shows "amt a \<le> led_free (cfg_ledger c) l (cur a) s"
    and "led_issuance (cfg_ledger c) l' = led_issuance (cfg_ledger c) l"
    and "led_reserved (cfg_ledger c) l' = led_reserved (cfg_ledger c) l"
  using ledger_transfer [OF assms(1) assms(2) [unfolded transfer_def]] by simp_all

lemma transfer_free:
  assumes "ledger_laws (cfg_ledger c)" and "transfer c a s d l = (Inr r, l')" and "s \<noteq> d"
  shows "led_free (cfg_ledger c) l' (cur a) d = led_free (cfg_ledger c) l (cur a) d + amt a"
    and "led_free (cfg_ledger c) l' (cur a) s = led_free (cfg_ledger c) l (cur a) s - amt a"
    and "cu \<noteq> cur a \<or> (ac \<noteq> s \<and> ac \<noteq> d) \<Longrightarrow>
         led_free (cfg_ledger c) l' cu ac = led_free (cfg_ledger c) l cu ac"
  using ledger_transfer [OF assms(1) assms(2) [unfolded transfer_def]] assms(3)
  by (auto simp: Let_def move_def)

lemma lock_on_ok:
  assumes "ledger_laws (cfg_ledger c)" and "lock_on c a s l = (Inr r, l')"
  shows "amt a \<le> led_free (cfg_ledger c) l (cur a) s"
    and "led_issuance (cfg_ledger c) l' = led_issuance (cfg_ledger c) l"
    and "led_reserved (cfg_ledger c) l' =
         move (led_reserved (cfg_ledger c) l) (cur a) s (led_reserved (cfg_ledger c) l (cur a) s + amt a)"
    and "led_free (cfg_ledger c) l' =
         move (led_free (cfg_ledger c) l) (cur a) s (led_free (cfg_ledger c) l (cur a) s - amt a)"
  using assms by (simp_all add: lock_on_def ledger_laws_def)

lemma min_rest: "n - min n k = (0::nat) \<Longrightarrow> min n k = n"
  by simp

lemma unlock_on_ok:
  assumes "ledger_laws (cfg_ledger c)" and "unlock_on c a s l = (Inr r, l')"
  shows "amt a \<le> led_reserved (cfg_ledger c) l (cur a) s"
    and "led_issuance (cfg_ledger c) l' = led_issuance (cfg_ledger c) l"
    and "led_reserved (cfg_ledger c) l' =
         move (led_reserved (cfg_ledger c) l) (cur a) s (led_reserved (cfg_ledger c) l (cur a) s - amt a)"
    and "led_free (cfg_ledger c) l' =
         move (led_free (cfg_ledger c) l) (cur a) s (led_free (cfg_ledger c) l (cur a) s + amt a)"
proof -
  have u: "led_unreserve (cfg_ledger c) (cur a) s (amt a) l = (0, l')"
    using assms(2) by (auto simp: unlock_on_def split: prod.splits if_splits)
  note law = ledger_unreserve [OF assms(1) u]
  moreover have "min (amt a) (led_reserved (cfg_ledger c) l (cur a) s) = amt a"
    using law by (intro min_rest) simp
  ultimately show "amt a \<le> led_reserved (cfg_ledger c) l (cur a) s"
    and "led_issuance (cfg_ledger c) l' = led_issuance (cfg_ledger c) l"
    and "led_reserved (cfg_ledger c) l' =
         move (led_reserved (cfg_ledger c) l) (cur a) s (led_reserved (cfg_ledger c) l (cur a) s - amt a)"
    and "led_free (cfg_ledger c) l' =
         move (led_free (cfg_ledger c) l) (cur a) s (led_free (cfg_ledger c) l (cur a) s + amt a)"
    by simp_all
qed

lemma burn_from_ok:
  assumes "ledger_laws (cfg_ledger c)" and "burn_from c a s l = (Inr r, l')"
  shows "amt a \<le> led_reserved (cfg_ledger c) l (cur a) s"
    and "led_issuance (cfg_ledger c) l' =
         (led_issuance (cfg_ledger c) l)(cur a := led_issuance (cfg_ledger c) l (cur a) - int (amt a))"
    and "led_reserved (cfg_ledger c) l' =
         move (led_reserved (cfg_ledger c) l) (cur a) s (led_reserved (cfg_ledger c) l (cur a) s - amt a)"
    and "led_free (cfg_ledger c) l' = led_free (cfg_ledger c) l"
proof -
  have u: "led_slash_reserved (cfg_ledger c) (cur a) s (amt a) l = (0, l')"
    using assms(2) by (auto simp: burn_from_def split: prod.splits if_splits)
  note law = ledger_slash_reserved [OF assms(1) u]
  moreover have m: "min (amt a) (led_reserved (cfg_ledger c) l (cur a) s) = amt a"
    using law by (intro min_rest) simp
  ultimately show "amt a \<le> led_reserved (cfg_ledger c) l (cur a) s"
    and "led_issuance (cfg_ledger c) l' =
         (led_issuance (cfg_ledger c) l)(cur a := led_issuance (cfg_ledger c) l (cur a) - int (amt a))"
    and "led_reserved (cfg_ledger c) l' =
         move (led_reserved (cfg_ledger c) l) (cur a) s (led_reserved (cfg_ledger c) l (cur a) s - amt a)"
    and "led_free (cfg_ledger c) l' = led_free (cfg_ledger c) l"
    unfolding m using min.cobounded2 [of "amt a" "led_reserved (cfg_ledger c) l (cur a) s"]
    by (simp_all add: m)
qed

lemma mint_to_ok:
  assumes "ledger_laws (cfg_ledger c)" and "mint_to c a s l = (Inr r, l')"
  shows "led_issuance (cfg_ledger c) l' =
         (led_issuance (cfg_ledger c) l)(cur a := led_issuance (cfg_ledger c) l (cur a) + int (amt a))"
    and "led_reserved (cfg_ledger c) l' = led_reserved (cfg_ledger c) l"
    and "led_free (cfg_ledger c) l' =
         move (led_free (cfg_ledger c) l) (cur a) s (led_free (cfg_ledger c) l (cur a) s + amt a)"
  using assms by (simp_all add: mint_to_def ledger_laws_def)

section \<open>Payments\<close>

fun matching_amount :: "stellar_asset \<Rightarrow> byte list \<Rightarrow> operation_body \<Rightarrow> int list" where
  "matching_amount asset recipient (Payment p) =
     (if po_destination p = KeyTypeEd25519 recipient \<and> po_asset p = asset then [po_amount p] else [])"
| "matching_amount asset recipient (CreateClaimableBalance p) =
     (case cb_claimants p of
        [cl] \<Rightarrow> if cl_destination cl = recipient \<and> cb_asset p = asset \<and>
                   cl_predicate cl = ClaimPredicateUnconditional then [cb_amount p] else []
      | _ \<Rightarrow> [])"
| "matching_amount asset recipient (OtherOperation _) = []"

definition matching_amounts :: "stellar_asset \<Rightarrow> byte list \<Rightarrow> transaction_envelope \<Rightarrow> int list" where
  "matching_amounts asset recipient env =
     concat (map (matching_amount asset recipient) (envelope_operations env))"

lemma add_operation_matching:
  "add_operation asset recipient n body = foldl saturating_add_i64 n (matching_amount asset recipient body)"
  by (cases body) (auto simp: add_operation_def Let_def split: list.splits)

lemma sum_operations_matching:
  "sum_operations asset recipient n ops =
   foldl saturating_add_i64 n (concat (map (matching_amount asset recipient) ops))"
  by (induction ops arbitrary: n) (simp_all add: add_operation_matching)

lemma payment_steps_sum_operations:
  "foldl (payment_step recipient asset) n ops = sum_operations asset recipient n ops"
  by (induction ops arbitrary: n) (simp_all add: payment_step_def add_operation_def)

lemma saturating_sum:
  assumes "\<forall>a\<in>set xs. 0 \<le> a" and "0 \<le> n" and "n \<le> 2 ^ 63 - 1"
  shows "foldl saturating_add_i64 n xs = min (2 ^ 63 - 1) (n + sum_list xs)"
  using assms
proof (induction xs arbitrary: n)
  case (Cons a xs)
  have "0 \<le> sum_list xs" using Cons.prems(1) by (intro sum_list_nonneg) simp
  moreover have "saturating_add_i64 n a = min (2 ^ 63 - 1) (n + a)"
    using Cons.prems by (simp add: saturating_add_i64_def)
  ultimately show ?case using Cons by (simp add: min_def)
qed simp

text \<open>
  C29: the amount the currency pallet reads off a Stellar transaction is the sum of the payments
  and of the unconditional single-claimant claimable balances in the asset to the recipient,
  clamped at the largest stroop amount and scaled to the chain's decimals; it is the amount that
  the function of the primitives crate used by the vault client computes.
\<close>

theorem paid_amount:
  assumes "asset_lookup currency = Inr asset" and "\<forall>a\<in>set (matching_amounts asset recipient env). 0 \<le> a"
  shows "get_amount_from_transaction_envelope env recipient currency =
           Inr (new_amount (nat (min (2 ^ 63 - 1) (sum_list (matching_amounts asset recipient env)))
             * DECIMALS_CONVERSION_RATE) currency) \<and>
         get_amount_from_transaction_envelope env recipient currency =
           Inr (new_amount (get_payment_amount_for_asset_to env recipient asset) currency)"
proof -
  let ?s = "min (2 ^ 63 - 1) (sum_list (matching_amounts asset recipient env))"
  have s: "sum_operations asset recipient 0 (envelope_operations env) = ?s"
    using saturating_sum [OF assms(2), of 0]
    by (simp add: sum_operations_matching matching_amounts_def)
  have "0 \<le> ?s" using assms(2) by (simp add: sum_list_nonneg)
  then have u: "balance_unlookup ?s = nat ?s * 100000"
    unfolding balance_unlookup_def by (intro stroops_to_u128_exact) auto
  have "get_payment_amount_for_asset_to env recipient asset =
        balance_unlookup (sum_operations asset recipient 0 (envelope_operations env))"
    by (simp add: get_payment_amount_for_asset_to_def payment_steps_sum_operations Let_def)
  then show ?thesis
    using assms(1) s u by (simp add: get_amount_from_transaction_envelope_def Let_def)
qed

theorem paid_amount_witness:
  "get_amount_from_transaction_envelope
     (EnvelopeTypeTx \<lparr>tx_source = [], tx_seq_num = 1, tx_memo = MemoNone, tx_operations =
       [Payment \<lparr>po_destination = KeyTypeEd25519 [1], po_asset = AssetTypeNative, po_amount = 30\<rparr>,
        Payment \<lparr>po_destination = KeyTypeEd25519 [2], po_asset = AssetTypeNative, po_amount = 5\<rparr>,
        CreateClaimableBalance \<lparr>cb_asset = AssetTypeNative, cb_amount = 12, cb_claimants =
          [\<lparr>cl_destination = [1], cl_predicate = ClaimPredicateUnconditional\<rparr>]\<rparr>]\<rparr>)
     [1] (Stellar StellarNative) = Inr (new_amount 4200000 (Stellar StellarNative))"
  by (subst paid_amount [of _ AssetTypeNative, THEN conjunct1])
     (simp_all add: asset_lookup_def matching_amounts_def)

theorem mul_rounded_up_witness:
  "checked_fixed_point_mul_rounded_up sample_config (new_amount 3 Native) 50 = Inr (new_amount 2 Native) \<and>
   int 3 * 50 \<le> int 2 * fx_accuracy (cfg_unsigned sample_config) \<and>
   int 2 * fx_accuracy (cfg_unsigned sample_config) < int 3 * 50 + fx_accuracy (cfg_unsigned sample_config)"
proof -
  have "checked_fixed_point_mul_rounded_up sample_config (new_amount 3 Native) 50 = Inr (new_amount 2 Native)"
    by (simp add: checked_fixed_point_mul_rounded_up_def sample_defs Let_def checked_add_w_def checked_sub_n_def checked_div_n_def)
  then show ?thesis
    using mul_rounded_up [OF sample_laws(2), of 50 "new_amount 3 Native" "new_amount 2 Native"] by simp
qed

end
