(* ===== verification/Security.thy ===== *)
theory Security
  imports Sample_Runtime
begin

text \<open>
  The security pallet, \<^verbatim>\<open>pallets/security/src\<close>: the parachain status, the set of errors behind an
  error status, the counter of blocks in which the chain was running, and the identifiers of
  requests.
\<close>

datatype status_code = Running | StatusError | Shutdown

datatype error_code = NoError | OracleOffline

datatype security_event =
    RecoverFromErrors status_code "error_code list"
  | UpdateActiveBlock block_number

record security =
  parachain_status :: status_code
  sec_errors :: "error_code set"
  sec_nonce :: "256 word"
  active_block_number :: block_number
  sec_events :: "security_event list"

section \<open>Internal functions\<close>

definition ensure_parachain_status_running :: "security \<Rightarrow> unit result" where
  "ensure_parachain_status_running s =
     (if parachain_status s = Running then Inr () else Inl (SecurityErr ParachainNotRunning))"

definition is_parachain_shutdown :: "security \<Rightarrow> bool" where
  "is_parachain_shutdown s \<longleftrightarrow> parachain_status s = Shutdown"

definition is_parachain_error_oracle_offline :: "security \<Rightarrow> bool" where
  "is_parachain_error_oracle_offline s \<longleftrightarrow>
     parachain_status s = StatusError \<and> OracleOffline \<in> sec_errors s"

definition set_status :: "status_code \<Rightarrow> security \<Rightarrow> security" where
  "set_status status_code s = s\<lparr>parachain_status := status_code\<rparr>"

definition insert_error :: "error_code \<Rightarrow> security \<Rightarrow> security" where
  "insert_error error_code s = s\<lparr>sec_errors := insert error_code (sec_errors s)\<rparr>"

definition remove_error :: "error_code \<Rightarrow> security \<Rightarrow> security" where
  "remove_error error_code s = s\<lparr>sec_errors := sec_errors s - {error_code}\<rparr>"

definition parachain_block_expired ::
  "block_number \<Rightarrow> block_number \<Rightarrow> security \<Rightarrow> bool result" where
  "parachain_block_expired opentime period s = (bindR (ok_orR (checked_add_w 32 opentime period) Overflow_err) (\<lambda>expiration_block.
    Inr (active_block_number s > expiration_block)))"

definition security_deposit_event :: "security_event \<Rightarrow> security \<Rightarrow> security" where
  "security_deposit_event e s = s\<lparr>sec_events := e # sec_events s\<rparr>"

definition recover_from :: "error_code list \<Rightarrow> security \<Rightarrow> security" where
  "recover_from error_codes s =
     (let s1 = fold remove_error error_codes s;
          s2 = (if sec_errors s1 = {} then set_status Running s1 else s1)
      in security_deposit_event (RecoverFromErrors (parachain_status s2) error_codes) s2)"

definition recover_from_oracle_offline :: "security \<Rightarrow> security" where
  "recover_from_oracle_offline s = recover_from [OracleOffline] s"

definition get_nonce :: "security \<Rightarrow> 256 word \<times> security" where
  "get_nonce s = (let n = sec_nonce s + 1 in (n, s\<lparr>sec_nonce := n\<rparr>))"

definition increment_active_block :: "security \<Rightarrow> security" where
  "increment_active_block s =
     (if parachain_status s = Running then
        (let height = saturating_add_w 32 (active_block_number s) 1 in
         security_deposit_event (UpdateActiveBlock height) (s\<lparr>active_block_number := height\<rparr>))
      else s)"

definition secure_id_preimage :: "block_env \<Rightarrow> 256 word \<Rightarrow> byte list" where
  "secure_id_preimage env nonce =
     le_bytes 4 (case env_extrinsic_index env of None \<Rightarrow> 0 | Some i \<Rightarrow> i) @
     le_bytes 32 (unat nonce) @ env_parent_hash env"

definition get_secure_id :: "'l config \<Rightarrow> block_env \<Rightarrow> security \<Rightarrow> byte list \<times> security" where
  "get_secure_id c env s =
     (case get_nonce s of (nonce, s') \<Rightarrow> (cfg_sha256 c (secure_id_preimage env nonce), s'))"

section \<open>Genesis, hooks and calls\<close>

definition security_genesis :: "status_code \<Rightarrow> security" where
  "security_genesis initial_status =
     insert_error OracleOffline (set_status initial_status
       \<lparr>parachain_status = Running, sec_errors = {}, sec_nonce = 0, active_block_number = 0,
        sec_events = []\<rparr>)"

definition security_on_initialize :: "security \<Rightarrow> security" where
  "security_on_initialize s = increment_active_block s"

definition set_parachain_status :: "origin \<Rightarrow> status_code \<Rightarrow> (security, unit) prog" where
  "set_parachain_status origin status_code = transactionalM (bindM (liftM (ensure_root origin)) (\<lambda>_.
    modifyM (set_status status_code)))"

definition insert_parachain_error :: "origin \<Rightarrow> error_code \<Rightarrow> (security, unit) prog" where
  "insert_parachain_error origin error_code = transactionalM (bindM (liftM (ensure_root origin)) (\<lambda>_.
    modifyM (insert_error error_code)))"

definition remove_parachain_error :: "origin \<Rightarrow> error_code \<Rightarrow> (security, unit) prog" where
  "remove_parachain_error origin error_code = transactionalM (bindM (liftM (ensure_root origin)) (\<lambda>_.
    modifyM (remove_error error_code)))"

section \<open>Steps of the pallet\<close>

text \<open>
  Every way the storage of the pallet changes: a block starts, an identifier is drawn, the oracle
  reports, the root origin intervenes.
\<close>

inductive security_step :: "security \<Rightarrow> security \<Rightarrow> bool" where
  sec_block: "security_step s (security_on_initialize s)"
| sec_secure_id: "get_nonce s = (n, s') \<Longrightarrow> security_step s s'"
| sec_oracle_error: "security_step s (set_status StatusError (insert_error OracleOffline s))"
| sec_recover: "security_step s (recover_from_oracle_offline s)"
| sec_set_status: "set_parachain_status ori code s = (r, s') \<Longrightarrow> security_step s s'"
| sec_insert_error: "insert_parachain_error ori err s = (r, s') \<Longrightarrow> security_step s s'"
| sec_remove_error: "remove_parachain_error ori err s = (r, s') \<Longrightarrow> security_step s s'"

inductive_cases security_stepE: "security_step s s'"

lemmas security_defs = set_status_def insert_error_def remove_error_def security_deposit_event_def
  recover_from_def recover_from_oracle_offline_def get_nonce_def increment_active_block_def
  security_on_initialize_def

lemma set_parachain_status_run:
  "set_parachain_status ori code s =
     (if ori = Root then (Inr (), set_status code s) else (Inl BadOrigin, s))"
  by (cases ori) (simp_all add: set_parachain_status_def run_defs ensure_root_def)

lemma insert_parachain_error_run:
  "insert_parachain_error ori err s =
     (if ori = Root then (Inr (), insert_error err s) else (Inl BadOrigin, s))"
  by (cases ori) (simp_all add: insert_parachain_error_def run_defs ensure_root_def)

lemma remove_parachain_error_run:
  "remove_parachain_error ori err s =
     (if ori = Root then (Inr (), remove_error err s) else (Inl BadOrigin, s))"
  by (cases ori) (simp_all add: remove_parachain_error_def run_defs ensure_root_def)

lemmas security_runs = set_parachain_status_run insert_parachain_error_run remove_parachain_error_run

lemma security_step_counter:
  assumes "security_step s s'" and "active_block_number s < 2 ^ 32"
  shows "active_block_number s \<le> active_block_number s'" and "active_block_number s' < 2 ^ 32"
    and "parachain_status s \<noteq> Running \<Longrightarrow> active_block_number s' = active_block_number s"
  using assms
  by (auto elim!: security_stepE simp: security_defs security_runs saturating_add_w_def Let_def
      split: if_splits)

text \<open>
  C32: along any sequence of steps the count of active blocks never decreases and stays
  within its 32 bits, so a request that has expired stays expired.
\<close>

theorem active_blocks_monotone:
  assumes "security_step\<^sup>*\<^sup>* s s'" and "active_block_number s < 2 ^ 32"
    and "parachain_block_expired opentime period s = Inr True"
  shows "active_block_number s \<le> active_block_number s' \<and> active_block_number s' < 2 ^ 32 \<and>
    parachain_block_expired opentime period s' = Inr True"
proof -
  have "active_block_number s \<le> active_block_number s' \<and> active_block_number s' < 2 ^ 32"
    using assms(1,2)
  proof (induction rule: rtranclp_induct)
    case (step t u)
    then show ?case using security_step_counter [OF step.hyps(2)] by simp
  qed simp
  with assms(3) show ?thesis
    by (auto simp: parachain_block_expired_def ok_iff)
qed

theorem active_blocks_monotone_witness:
  "parachain_block_expired 3 4 (recover_from_oracle_offline (security_on_initialize
     \<lparr>parachain_status = Running, sec_errors = {OracleOffline}, sec_nonce = 0,
      active_block_number = 8, sec_events = []\<rparr>)) = Inr True"
proof -
  let ?s = "\<lparr>parachain_status = Running, sec_errors = {OracleOffline}, sec_nonce = 0,
      active_block_number = 8, sec_events = []\<rparr>"
  have "security_step\<^sup>*\<^sup>* ?s (recover_from_oracle_offline (security_on_initialize ?s))"
    by (meson sec_block sec_recover converse_rtranclp_into_rtranclp r_into_rtranclp)
  then show ?thesis
    using active_blocks_monotone [of ?s _ 3 4]
    by (simp add: parachain_block_expired_def checked_add_w_def)
qed

lemma on_initialize_running:
  "parachain_status s = Running \<Longrightarrow>
   parachain_status (security_on_initialize s) = Running \<and>
   active_block_number (security_on_initialize s) = min (active_block_number s + 1) (2 ^ 32 - 1)"
  by (simp add: security_defs Let_def saturating_add_w_def)

lemma on_initialize_iterate_running:
  "parachain_status s = Running \<Longrightarrow> active_block_number s < 2 ^ 32 \<Longrightarrow>
   parachain_status ((security_on_initialize ^^ n) s) = Running \<and>
   active_block_number ((security_on_initialize ^^ n) s) = min (active_block_number s + n) (2 ^ 32 - 1)"
proof (induction n)
  case (Suc n)
  then show ?case using on_initialize_running [of "(security_on_initialize ^^ n) s"] by simp
qed simp

text \<open>
  While the chain is not running, the start of a block changes nothing, so no request
  expires because of the blocks that pass; while it runs, each block adds one to the count until
  the 32 bits are full.
\<close>

theorem active_blocks_count:
  assumes "active_block_number s < 2 ^ 32"
  shows "if parachain_status s = Running
    then active_block_number ((security_on_initialize ^^ n) s)
           = min (active_block_number s + n) (2 ^ 32 - 1)
    else (security_on_initialize ^^ n) s = s"
proof (cases "parachain_status s = Running")
  case False
  then have "(security_on_initialize ^^ n) s = s" by (induction n) (simp_all add: security_defs)
  with False show ?thesis by simp
qed (use on_initialize_iterate_running [of s n] assms in simp)

theorem active_blocks_count_witness:
  "active_block_number ((security_on_initialize ^^ 5) (set_status Running (security_genesis Shutdown))) = 5"
  using active_blocks_count [of "set_status Running (security_genesis Shutdown)" 5]
  by (simp add: security_genesis_def security_defs)

section \<open>Recovery\<close>

text \<open>
  Recovering from the offline oracle clears exactly that error; the chain
  then runs if no other error is left, whatever its status was, a shutdown by the root origin
  included, and otherwise keeps its status.
\<close>

theorem recover_from_oracle_offline_status:
  "sec_errors (recover_from_oracle_offline s) = sec_errors s - {OracleOffline} \<and>
   parachain_status (recover_from_oracle_offline s) =
     (if sec_errors s \<subseteq> {OracleOffline} then Running else parachain_status s) \<and>
   active_block_number (recover_from_oracle_offline s) = active_block_number s \<and>
   sec_nonce (recover_from_oracle_offline s) = sec_nonce s"
  by (auto simp: security_defs Let_def)

section \<open>Identifiers\<close>

text \<open>The identifiers and the hashed byte strings of a sequence of requests.\<close>

fun secure_ids :: "'l config \<Rightarrow> block_env list \<Rightarrow> security \<Rightarrow> byte list list" where
  "secure_ids c [] s = []"
| "secure_ids c (env # envs) s = (case get_secure_id c env s of (i, s') \<Rightarrow> i # secure_ids c envs s')"

fun hashed_preimages :: "block_env list \<Rightarrow> security \<Rightarrow> byte list list" where
  "hashed_preimages [] s = []"
| "hashed_preimages (env # envs) s =
     secure_id_preimage env (sec_nonce s + 1) # hashed_preimages envs (snd (get_nonce s))"

lemma secure_ids_hashes: "secure_ids c envs s = map (cfg_sha256 c) (hashed_preimages envs s)"
  by (induction envs arbitrary: s) (simp_all add: get_secure_id_def get_nonce_def Let_def)

lemma secure_id_preimage_nonce:
  assumes "secure_id_preimage e m = secure_id_preimage e' n"
  shows "m = n"
proof -
  have "le_bytes 32 (unat m) = le_bytes 32 (unat n)"
    using assms by (simp add: secure_id_preimage_def append_eq_append_conv)
  moreover have b: "unat x < 256 ^ 32" for x :: "256 word"
    using unsigned_less [of x, where ?'a = nat] by simp
  ultimately have "unat m = unat n" using le_bytes_inj [OF _ b b] by blast
  then show ?thesis by (rule unsigned_word_eqI)
qed

lemma hashed_preimages_nth:
  "p \<in> set (hashed_preimages envs s) \<Longrightarrow>
   \<exists>e i. p = secure_id_preimage e (sec_nonce s + of_nat i) \<and> 1 \<le> i \<and> i \<le> length envs"
proof (induction envs arbitrary: s)
  case (Cons env envs)
  then consider "p = secure_id_preimage env (sec_nonce s + 1)" |
    "p \<in> set (hashed_preimages envs (snd (get_nonce s)))" by auto
  then show ?case
  proof cases
    case 1
    then have "p = secure_id_preimage env (sec_nonce s + of_nat 1) \<and> 1 \<le> (1::nat) \<and> 1 \<le> length (env # envs)"
      by simp
    then show ?thesis by blast
  next
    case 2
    then obtain e i where i: "p = secure_id_preimage e (sec_nonce s + 1 + of_nat i)" "i \<le> length envs"
      using Cons.IH [OF 2] by (auto simp: get_nonce_def Let_def)
    then have "p = secure_id_preimage e (sec_nonce s + of_nat (Suc i)) \<and> 1 \<le> Suc i \<and>
        Suc i \<le> length (env # envs)" by (simp add: ac_simps)
    then show ?thesis by blast
  qed
qed simp

lemma nonce_step_distinct:
  assumes "(n :: 256 word) + 1 = n + 1 + of_nat i" and "1 \<le> i" and "i < 2 ^ 256"
  shows False
proof -
  have "(of_nat i :: 256 word) = 0" using assms(1) by simp
  moreover have "unat (of_nat i :: 256 word) = i" using assms(3) by (simp add: unat_of_nat)
  ultimately show False using assms(2) by simp
qed

lemma hashed_preimages_distinct: "length envs \<le> 2 ^ 256 \<Longrightarrow> distinct (hashed_preimages envs s)"
proof (induction envs arbitrary: s)
  case (Cons env envs)
  have "secure_id_preimage env (sec_nonce s + 1) \<notin> set (hashed_preimages envs (snd (get_nonce s)))"
  proof
    assume "secure_id_preimage env (sec_nonce s + 1) \<in> set (hashed_preimages envs (snd (get_nonce s)))"
    then obtain e i where "secure_id_preimage env (sec_nonce s + 1) =
        secure_id_preimage e (sec_nonce s + 1 + of_nat i)" and i: "1 \<le> i" "i \<le> length envs"
      using hashed_preimages_nth by (fastforce simp: get_nonce_def Let_def)
    then have "sec_nonce s + 1 = sec_nonce s + 1 + of_nat i" by (blast dest: secure_id_preimage_nonce)
    moreover have "i < 2 ^ 256" using i Cons.prems by simp
    ultimately show False using nonce_step_distinct i(1) by blast
  qed
  then show ?case using Cons by simp
qed simp

text \<open>
  C33: as long as the hash function has no collision among the byte strings it is given, no
  two of up to \<open>2 ^ 256\<close> requests share an identifier, in whatever block and extrinsic they are
  made: the nonce inside the hashed string takes a new value each time.
\<close>

theorem secure_ids_distinct:
  assumes "length envs \<le> 2 ^ 256" and "inj_on (cfg_sha256 c) (set (hashed_preimages envs s))"
  shows "distinct (secure_ids c envs s)"
  using assms by (simp add: secure_ids_hashes distinct_map hashed_preimages_distinct)

theorem secure_ids_distinct_witness:
  "distinct (secure_ids sample_config
     (replicate 3 \<lparr>env_number = 1, env_timestamp = 0, env_extrinsic_index = Some 0, env_parent_hash = [1, 2]\<rparr>)
     (security_genesis Running))"
  by (rule secure_ids_distinct) (simp_all add: sample_config_def)

end
