(* ===== verification/Oracle.thy ===== *)
theory Oracle
  imports Currency_Amount Security
begin

text \<open>
  The oracle pallet, \<^verbatim>\<open>pallets/oracle/src\<close>: which prices are expected and how old they may be, the
  report to the security pallet whether all of them are fresh, and conversion between currencies.
  The price feed (\<^verbatim>\<open>T::DataProvider\<close>) is a function from keys to timestamped values; for the DIA
  adapter of \<^verbatim>\<open>dia.rs\<close> it is derived below from the DIA pallet's lookup, which is a parameter.
\<close>

record price =
  price_value :: int
  price_timestamp :: moment

type_synonym price_feed = "oracle_key \<Rightarrow> price option"

datatype oracle_event =
    AggregateUpdated "(oracle_key \<times> int) list"
  | OracleKeysUpdated "oracle_key list"
  | MaxDelayUpdated moment

record oracle_state =
  or_max_delay :: moment
  or_keys :: "oracle_key list"
  or_events :: "oracle_event list"

definition oracle_genesis :: "nat \<Rightarrow> oracle_key list \<Rightarrow> oracle_state" where
  "oracle_genesis delay keys = \<lparr>or_max_delay = delay, or_keys = keys, or_events = []\<rparr>"

definition USD_DECIMALS :: nat where "USD_DECIMALS = 12"

section \<open>Calls\<close>

definition oracle_deposit_event :: "oracle_event \<Rightarrow> oracle_state \<Rightarrow> oracle_state" where
  "oracle_deposit_event e s = s\<lparr>or_events := e # or_events s\<rparr>"

definition update_oracle_keys :: "origin \<Rightarrow> oracle_key list \<Rightarrow> (oracle_state, unit) prog" where
  "update_oracle_keys origin oracle_keys = transactionalM (bindM (liftM (ensure_root origin)) (\<lambda>_.
    bindM (modifyM (\<lambda>s. s\<lparr>or_keys := oracle_keys\<rparr>)) (\<lambda>_.
    modifyM (oracle_deposit_event (OracleKeysUpdated oracle_keys)))))"

definition set_max_delay :: "origin \<Rightarrow> moment \<Rightarrow> (oracle_state, unit) prog" where
  "set_max_delay origin new_max_delay = transactionalM (bindM (liftM (ensure_root origin)) (\<lambda>_.
    bindM (modifyM (\<lambda>s. s\<lparr>or_max_delay := new_max_delay\<rparr>)) (\<lambda>_.
    modifyM (oracle_deposit_event (MaxDelayUpdated new_max_delay)))))"

section \<open>The start of a block\<close>

definition is_oracle_online :: "security \<Rightarrow> bool" where
  "is_oracle_online sec \<longleftrightarrow> OracleOffline \<notin> sec_errors sec"

definition report_oracle_offline :: "security \<Rightarrow> security" where
  "report_oracle_offline sec = insert_error OracleOffline (set_status StatusError sec)"

text \<open>The sum of a timestamp and the delay wraps at 64 bits.\<close>

definition is_outdated :: "moment \<Rightarrow> moment \<Rightarrow> price \<Rightarrow> bool" where
  "is_outdated current_time max_delay p \<longleftrightarrow>
     current_time > wrapping_add_w 64 (price_timestamp p) max_delay"

fun fresh_items :: "moment \<Rightarrow> moment \<Rightarrow> price_feed \<Rightarrow> oracle_key list \<Rightarrow> (oracle_key \<times> int) list" where
  "fresh_items current_time max_delay feed [] = []"
| "fresh_items current_time max_delay feed (key # keys) =
     (case feed key of
        None \<Rightarrow> fresh_items current_time max_delay feed keys
      | Some p \<Rightarrow>
          if \<not> is_outdated current_time max_delay p
          then (key, price_value p) # fresh_items current_time max_delay feed keys
          else fresh_items current_time max_delay feed keys)"

definition begin_block :: "moment \<Rightarrow> price_feed \<Rightarrow> oracle_state \<times> security \<Rightarrow> oracle_state \<times> security" where
  "begin_block current_time feed st = (case st of (orc, sec) \<Rightarrow>
     (let keys = or_keys orc;
          updated_items = fresh_items current_time (or_max_delay orc) feed keys;
          updated_items_len = length updated_items;
          orc' = (if updated_items \<noteq> []
                  then oracle_deposit_event (AggregateUpdated updated_items) orc else orc);
          current_status_is_online = is_oracle_online sec;
          new_status_is_online =
            (keys \<noteq> [] \<and> updated_items_len > 0 \<and> updated_items_len = length keys)
      in if current_status_is_online \<noteq> new_status_is_online then
           (if new_status_is_online then (orc', recover_from_oracle_offline sec)
            else (orc', report_oracle_offline sec))
         else (orc', sec)))"

section \<open>Prices and conversion\<close>

definition get_price :: "price_feed \<Rightarrow> security \<Rightarrow> oracle_key \<Rightarrow> int result" where
  "get_price feed sec key = (bindR (ensure_parachain_status_running sec) (\<lambda>_.
    (case feed key of
        None \<Rightarrow> Inl (OracleErr MissingExchangeRate)
      | Some p \<Rightarrow> Inr (price_value p))))"

definition convert_amount ::
  "'l config \<Rightarrow> balance \<Rightarrow> int \<Rightarrow> int \<Rightarrow> nat \<Rightarrow> nat \<Rightarrow> balance result" where
  "convert_amount c from_amount from_price to_price from_decimals to_decimals =
     (if from_amount = 0 then Inr 0
      else
        (let fx = cfg_unsigned c in
         if from_decimals > to_decimals then (bindR (ok_orR (fx_checked_mul fx from_price (int from_amount)) Overflow_err) (\<lambda>product.
           bindR (ok_orR (fx_checked_div fx product to_price) Underflow_err) (\<lambda>quotient.
           bindR (ok_orR (fx_checked_from_integer fx
             (10 ^ saturating_sub_n from_decimals to_decimals mod 2 ^ 128))
             (OracleErr oracle_error.TryIntoIntError)) (\<lambda>scale.
           bindR (ok_orR (fx_checked_div fx quotient scale) Underflow_err) (\<lambda>to_amount.
           Inr (nat to_amount))))))
         else (bindR (ok_orR (fx_checked_mul fx from_price (int from_amount)) Overflow_err) (\<lambda>product.
           bindR (ok_orR (fx_checked_from_integer fx
             (10 ^ saturating_sub_n to_decimals from_decimals mod 2 ^ 128))
             (OracleErr oracle_error.TryIntoIntError)) (\<lambda>scale.
           bindR (ok_orR (fx_checked_mul fx product scale) Overflow_err) (\<lambda>scaled.
           bindR (ok_orR (fx_checked_div fx scaled to_price) Underflow_err) (\<lambda>to_amount.
           Inr (nat to_amount))))))))"

definition convert :: "'l config \<Rightarrow> price_feed \<Rightarrow> security \<Rightarrow> amount \<Rightarrow> currency \<Rightarrow> amount result" where
  "convert c feed sec a currency_id = (bindR ((if cur a = currency_id then Inr (amt a)
      else (bindR (get_price feed sec (ExchangeRate (cur a))) (\<lambda>from_price.
        bindR (get_price feed sec (ExchangeRate currency_id)) (\<lambda>to_price.
        convert_amount c (amt a) from_price to_price (cfg_decimals c (cur a))
          (cfg_decimals c currency_id)))))) (\<lambda>converted.
    Inr (new_amount converted currency_id)))"

definition usd_rate :: "'l config \<Rightarrow> int" where
  "usd_rate c = fx_accuracy (cfg_unsigned c)"

definition currency_to_usd ::
  "'l config \<Rightarrow> price_feed \<Rightarrow> security \<Rightarrow> balance \<Rightarrow> currency \<Rightarrow> balance result" where
  "currency_to_usd c feed sec a currency_id = (bindR (get_price feed sec (ExchangeRate currency_id)) (\<lambda>asset_rate.
    convert_amount c a asset_rate (usd_rate c) (cfg_decimals c currency_id) USD_DECIMALS))"

definition usd_to_currency ::
  "'l config \<Rightarrow> price_feed \<Rightarrow> security \<Rightarrow> balance \<Rightarrow> currency \<Rightarrow> balance result" where
  "usd_to_currency c feed sec a currency_id = (bindR (get_price feed sec (ExchangeRate currency_id)) (\<lambda>asset_rate.
    convert_amount c a (usd_rate c) asset_rate USD_DECIMALS (cfg_decimals c currency_id)))"

definition get_exchange_rate :: "price_feed \<Rightarrow> security \<Rightarrow> currency \<Rightarrow> int result" where
  "get_exchange_rate feed sec currency_id = get_price feed sec (ExchangeRate currency_id)"

section \<open>The DIA adapter\<close>

record dia_keys =
  dia_native_symbol :: "byte list"
  dia_native_chain :: "byte list"
  dia_to_dia_currency_id :: "byte \<Rightarrow> (byte list \<times> byte list) option"
  dia_from_dia_currency_id :: "byte list \<Rightarrow> byte list \<Rightarrow> byte option"

definition to_ascii_uppercase :: "byte list \<Rightarrow> byte list" where
  "to_ascii_uppercase = map (\<lambda>b. if 97 \<le> b \<and> b \<le> 122 then b - 32 else b)"

definition construct_fiat_usd_symbol_for_currency :: "byte list \<Rightarrow> byte list" where
  "construct_fiat_usd_symbol_for_currency base =
     (let base_currency =
        (if to_ascii_uppercase base = ascii_bytes ''USDC'' then ascii_bytes ''USD''
         else if to_ascii_uppercase base = ascii_bytes ''EURC'' then ascii_bytes ''EUR''
         else if to_ascii_uppercase base = ascii_bytes ''AUDD'' then ascii_bytes ''AUD''
         else if to_ascii_uppercase base = ascii_bytes ''NGNC'' then ascii_bytes ''NGN''
         else remove_trailing_non_alphanum_bytes (to_ascii_uppercase base))
      in base_currency @ ascii_bytes ''-'' @ ascii_bytes ''USD'')"

fun dia_key_convert :: "dia_keys \<Rightarrow> oracle_key \<Rightarrow> (byte list \<times> byte list) option" where
  "dia_key_convert D (ExchangeRate (XCM token_symbol)) = dia_to_dia_currency_id D token_symbol"
| "dia_key_convert D (ExchangeRate Native) = Some (dia_native_chain D, dia_native_symbol D)"
| "dia_key_convert D (ExchangeRate (Stellar StellarNative)) =
     Some (ascii_bytes ''Stellar'', ascii_bytes ''XLM'')"
| "dia_key_convert D (ExchangeRate (Stellar (AlphaNum4 code issuer))) =
     Some (ascii_bytes ''FIAT'', construct_fiat_usd_symbol_for_currency code)"
| "dia_key_convert D (ExchangeRate (Stellar (AlphaNum12 code issuer))) = None"
| "dia_key_convert D (ExchangeRate (ZenlinkLPToken _ _ _ _)) = None"
| "dia_key_convert D (ExchangeRate (TokenCurrency _)) = None"

text \<open>The reverse direction; a symbol of the wrong length makes the conversion to an array panic.\<close>

definition dia_key_convert_back :: "dia_keys \<Rightarrow> byte list \<times> byte list \<Rightarrow> oracle_key option result" where
  "dia_key_convert_back D dia_oracle_key = (case dia_oracle_key of (blockchain, symbol) \<Rightarrow>
     (case dia_from_dia_currency_id D blockchain symbol of
        Some xcm_currency_id \<Rightarrow> Inr (Some (ExchangeRate (XCM xcm_currency_id)))
      | None \<Rightarrow>
          if blockchain = dia_native_chain D \<and> symbol = dia_native_symbol D
          then Inr (Some (ExchangeRate Native))
          else if blockchain = ascii_bytes ''Stellar'' \<and> symbol = ascii_bytes ''XLM''
          then Inr (Some (ExchangeRate (Stellar StellarNative)))
          else if blockchain = ascii_bytes ''FIAT'' then
            (if length symbol = 4
             then Inr (Some (ExchangeRate (Stellar (AlphaNum4 symbol (replicate 32 0)))))
             else Inl Panic)
          else Inr None))"

record coin_info =
  coin_price :: nat
  coin_last_update_timestamp :: nat

definition dia_get_no_op ::
  "dia_keys \<Rightarrow> (byte list \<Rightarrow> byte list \<Rightarrow> coin_info option) \<Rightarrow> (nat \<Rightarrow> int option) \<Rightarrow> (nat \<Rightarrow> moment option) \<Rightarrow>
   price_feed" where
  "dia_get_no_op D get_coin_info convert_price convert_moment key =
     (case dia_key_convert D key of
        None \<Rightarrow> None
      | Some (blockchain, symbol) \<Rightarrow>
          (case get_coin_info blockchain symbol of
             None \<Rightarrow> None
           | Some info \<Rightarrow>
               (case convert_price (coin_price info) of
                  None \<Rightarrow> None
                | Some value \<Rightarrow>
                    (case convert_moment (coin_last_update_timestamp info) of
                       None \<Rightarrow> None
                     | Some timestamp \<Rightarrow>
                         Some \<lparr>price_value = value, price_timestamp = timestamp\<rparr>))))"

section \<open>Freshness and the status of the chain\<close>

definition all_fresh :: "moment \<Rightarrow> price_feed \<Rightarrow> oracle_state \<Rightarrow> bool" where
  "all_fresh now feed orc \<longleftrightarrow>
     or_keys orc \<noteq> [] \<and>
     (\<forall>k\<in>set (or_keys orc). \<exists>p. feed k = Some p \<and> \<not> is_outdated now (or_max_delay orc) p)"

lemma fresh_items_length: "length (fresh_items now d feed keys) \<le> length keys"
  by (induction keys) (auto split: option.splits)

lemma fresh_items_all:
  "length (fresh_items now d feed keys) = length keys \<longleftrightarrow>
   (\<forall>k\<in>set keys. \<exists>p. feed k = Some p \<and> \<not> is_outdated now d p)"
proof (induction keys)
  case (Cons k keys)
  have "length (fresh_items now d feed keys) \<noteq> Suc (length keys)"
    using fresh_items_length [of now d feed keys] by linarith
  then show ?case using Cons by (auto split: option.splits)
qed simp

lemma begin_block_snd:
  "snd (begin_block now feed (orc, sec)) =
   (if all_fresh now feed orc = is_oracle_online sec then sec
    else if all_fresh now feed orc then recover_from_oracle_offline sec else report_oracle_offline sec)"
proof -
  have "(or_keys orc \<noteq> [] \<and> length (fresh_items now (or_max_delay orc) feed (or_keys orc)) > 0 \<and>
      length (fresh_items now (or_max_delay orc) feed (or_keys orc)) = length (or_keys orc)) =
      all_fresh now feed orc"
    using fresh_items_all [of now "or_max_delay orc" feed "or_keys orc"] by (auto simp: all_fresh_def)
  then show ?thesis by (auto simp: begin_block_def Let_def)
qed

text \<open>
  C30: after the start of a block the error of an offline oracle is recorded exactly if not every
  expected price is present and fresh; going offline puts the chain into the error status, coming
  back makes it run again if no other error is left, and otherwise the status is not touched.
\<close>

theorem oracle_status:
  "let sec' = snd (begin_block now feed (orc, sec)) in
   (is_oracle_online sec' \<longleftrightarrow> all_fresh now feed orc) \<and>
   sec_errors sec' - {OracleOffline} = sec_errors sec - {OracleOffline} \<and>
   parachain_status sec' =
     (if all_fresh now feed orc = is_oracle_online sec then parachain_status sec
      else if \<not> all_fresh now feed orc then StatusError
      else if sec_errors sec = {OracleOffline} then Running
      else parachain_status sec)"
  using begin_block_snd [of now feed orc sec]
  by (auto simp: Let_def is_oracle_online_def report_oracle_offline_def security_defs)

text \<open>
  C36: a shutdown ordered by the root origin does not survive an outage of the oracle: if the
  prices become stale in one block and fresh in a later one, the chain is running again.
\<close>

theorem shutdown_not_sticky:
  assumes "parachain_status sec = Shutdown" and "sec_errors sec = {}"
    and "\<not> all_fresh now feed orc" and "all_fresh now' feed' orc"
  shows "parachain_status (snd (begin_block now' feed' (orc, snd (begin_block now feed (orc, sec))))) = Running"
  using assms
  by (simp add: begin_block_snd is_oracle_online_def report_oracle_offline_def security_defs)

section \<open>Conversion\<close>

lemma pow10_fits: "d \<le> 38 \<Longrightarrow> (10 :: int) ^ d mod 2 ^ 128 = 10 ^ d"
proof -
  assume "d \<le> 38"
  then have "(10 :: int) ^ d \<le> 10 ^ 38" by (intro power_increasing) auto
  then show ?thesis by (intro mod_pos_pos_trivial) auto
qed

lemma scale_up_error:
  fixes p1 p3 fp a tp e acc :: int
  assumes p1: "\<bar>p1 * acc - fp * a\<bar> < acc" and p3: "\<bar>p3 * tp - p1 * e * acc\<bar> < tp" and "0 < e"
  shows "\<bar>p3 * tp - a * fp * e\<bar> \<le> tp + e * acc"
proof -
  have "p3 * tp - a * fp * e = (p3 * tp - p1 * e * acc) + e * (p1 * acc - fp * a)"
    by (simp add: algebra_simps)
  also have "\<bar>\<dots>\<bar> \<le> \<bar>p3 * tp - p1 * e * acc\<bar> + \<bar>e * (p1 * acc - fp * a)\<bar>" by (rule abs_triangle_ineq)
  also have "\<dots> \<le> tp + e * acc"
    using p1 p3 assms(3) by (intro add_mono) (simp_all add: abs_mult)
  finally show ?thesis .
qed

lemma scale_down_error:
  fixes p1 q r fp a tp e acc :: int
  assumes p1: "\<bar>p1 * acc - fp * a\<bar> < acc" and q: "\<bar>q * tp - p1 * acc\<bar> < tp"
    and r: "\<bar>r * (e * acc) - q * acc\<bar> < e * acc" and "0 < e" "0 < tp"
  shows "\<bar>r * e * tp - a * fp\<bar> \<le> tp * e + tp + acc"
proof -
  have acc: "0 < acc" using p1 by linarith
  have "\<bar>(r * e - q) * acc\<bar> < e * acc" using r by (simp add: algebra_simps)
  then have "\<bar>r * e - q\<bar> < e" using acc by (simp add: abs_mult)
  then have "\<bar>tp * (r * e - q)\<bar> \<le> tp * e" using assms(5) by (simp add: abs_mult)
  moreover have "r * e * tp - a * fp = tp * (r * e - q) + ((q * tp - p1 * acc) + (p1 * acc - fp * a))"
    by (simp add: algebra_simps)
  moreover have "\<bar>(q * tp - p1 * acc) + (p1 * acc - fp * a)\<bar> \<le> tp + acc"
    using p1 q abs_triangle_ineq [of "q * tp - p1 * acc" "p1 * acc - fp * a"] by linarith
  ultimately show ?thesis
    using abs_triangle_ineq [of "tp * (r * e - q)" "(q * tp - p1 * acc) + (p1 * acc - fp * a)"] by linarith
qed

text \<open>
  C31: the converted amount is the exact quotient of values, with the difference of the
  currencies' decimals taken into account, up to a rounding error of the fixed point operations
  which the bound makes explicit.
\<close>

theorem convert_amount_accuracy:
  assumes laws: "fixed_point_laws u128_ok (cfg_unsigned c)" and tp: "0 < to_price"
    and run: "convert_amount c a from_price to_price fd td = Inr r" and "fd \<le> 38" "td \<le> 38"
  shows "if fd > td
    then \<bar>int r * 10 ^ (fd - td) * to_price - int a * from_price\<bar>
           \<le> to_price * 10 ^ (fd - td) + to_price + fx_accuracy (cfg_unsigned c)
    else \<bar>int r * to_price - int a * from_price * 10 ^ (td - fd)\<bar>
           \<le> to_price + 10 ^ (td - fd) * fx_accuracy (cfg_unsigned c)"
proof (cases "a = 0")
  case True
  then show ?thesis using run tp fixed_accuracy_pos [OF laws] by (simp add: convert_amount_def)
next
  case a: False
  let ?fx = "cfg_unsigned c" and ?acc = "fx_accuracy (cfg_unsigned c)"
  show ?thesis
  proof (cases "fd > td")
    case True
    obtain p q y where p: "fx_checked_mul ?fx from_price (int a) = Some p"
      and q: "fx_checked_div ?fx p to_price = Some q"
      and y: "fx_checked_div ?fx q (10 ^ (fd - td) * ?acc) = Some y" and r: "r = nat y"
      using run a True assms(4,5) pow10_fits [of "fd - td"]
      by (auto simp: convert_amount_def ok_iff Let_def saturating_sub_n_minus dest!: fixed_from_integer [OF laws])
    have y0: "0 \<le> y" using fixed_div_range [OF laws y] by (simp add: u128_ok_def)
    have "\<bar>y * 10 ^ (fd - td) * to_price - int a * from_price\<bar> \<le> to_price * 10 ^ (fd - td) + to_price + ?acc"
      using scale_down_error [OF fixed_mul [OF laws p], of q to_price y "10 ^ (fd - td)"]
        fixed_div [OF laws q] fixed_div [OF laws y] tp fixed_accuracy_pos [OF laws]
      by (simp add: abs_mult)
    then show ?thesis using True y0 r by simp
  next
    case False
    obtain p q y where p: "fx_checked_mul ?fx from_price (int a) = Some p"
      and q: "fx_checked_mul ?fx p (10 ^ (td - fd) * ?acc) = Some q"
      and y: "fx_checked_div ?fx q to_price = Some y" and r: "r = nat y"
      using run a False assms(4,5) pow10_fits [of "td - fd"]
      by (auto simp: convert_amount_def ok_iff Let_def saturating_sub_n_minus dest!: fixed_from_integer [OF laws])
    have "\<bar>(q - p * 10 ^ (td - fd)) * ?acc\<bar> < ?acc"
      using fixed_mul [OF laws q] by (simp add: algebra_simps)
    then have "q - p * 10 ^ (td - fd) = 0" by (rule abs_mult_less_zero)
    then have q': "q = p * 10 ^ (td - fd)" by simp
    have y0: "0 \<le> y" using fixed_div_range [OF laws y] by (simp add: u128_ok_def)
    have "\<bar>y * to_price - int a * from_price * 10 ^ (td - fd)\<bar> \<le> to_price + 10 ^ (td - fd) * ?acc"
      using scale_up_error [OF fixed_mul [OF laws p], of y to_price "10 ^ (td - fd)"]
        fixed_div [OF laws y] tp by (simp add: q')
    then show ?thesis using False y0 r by simp
  qed
qed

lemma convert_same [simp]: "cur a = k \<Longrightarrow> convert c feed sec a k = Inr a"
  by (auto simp: convert_def new_amount_def)

lemma convert_cur: "convert c feed sec a k = Inr r \<Longrightarrow> cur r = k"
  by (auto simp: convert_def ok_iff split: if_splits)

text \<open>
  While the chain is not running, no amount can be converted to another
  currency; the identity conversion needs neither a price nor a running chain.
\<close>

theorem no_conversion_unless_running:
  "convert c feed sec a k =
     (if cur a = k then Inr a
      else if parachain_status sec \<noteq> Running then Inl (SecurityErr ParachainNotRunning)
      else convert c feed (set_status Running sec) a k)"
  by (simp add: convert_def get_price_def ensure_parachain_status_running_def security_defs)

section \<open>Keys of the DIA oracle\<close>

lemma length_fiat_symbol:
  "remove_trailing_non_alphanum_bytes (to_ascii_uppercase code) \<noteq> [] \<Longrightarrow>
   4 < length (construct_fiat_usd_symbol_for_currency code)"
  by (auto simp: construct_fiat_usd_symbol_for_currency_def ascii_bytes_def Let_def)

text \<open>
  The key of the native currency and of Stellar lumens, and of every foreign asset whose
  table entries are inverse, is recovered from its DIA key; but the DIA key of any other Stellar
  asset with a non-empty code makes the reverse conversion panic, since it appends the quote
  currency to the code and the reverse direction expects four bytes.
\<close>

theorem dia_keys_roundtrip:
  assumes "dia_key_convert D (ExchangeRate k) = Some dia_key"
    and xcm: "\<And>i. k = XCM i \<Longrightarrow> dia_from_dia_currency_id D (fst dia_key) (snd dia_key) = Some i"
    and other: "\<And>i. k \<noteq> XCM i \<Longrightarrow> dia_from_dia_currency_id D (fst dia_key) (snd dia_key) = None"
    and chain: "dia_native_chain D \<noteq> ascii_bytes ''Stellar''" "dia_native_chain D \<noteq> ascii_bytes ''FIAT''"
    and code: "\<And>code issuer. k = Stellar (AlphaNum4 code issuer) \<Longrightarrow>
      remove_trailing_non_alphanum_bytes (to_ascii_uppercase code) \<noteq> []"
  shows "dia_key_convert_back D dia_key =
    (case k of Stellar (AlphaNum4 code issuer) \<Rightarrow> Inl Panic | _ \<Rightarrow> Inr (Some (ExchangeRate k)))"
proof (cases "\<exists>i. k = XCM i")
  case True
  then show ?thesis using xcm by (auto simp: dia_key_convert_back_def split: prod.splits)
next
  case False
  then have "dia_from_dia_currency_id D (fst dia_key) (snd dia_key) = None" using other by blast
  moreover have "ascii_bytes ''FIAT'' \<noteq> ascii_bytes ''Stellar''" by (simp add: ascii_bytes_def)
  ultimately show ?thesis
    using assms(1) False chain code length_fiat_symbol
    by (cases "(D, ExchangeRate k)" rule: dia_key_convert.cases)
       (fastforce simp: dia_key_convert_back_def split: prod.splits)+
qed

definition sample_oracle :: oracle_state where
  "sample_oracle = oracle_genesis 3600 [ExchangeRate Native]"

definition sample_price :: "moment \<Rightarrow> price_feed" where
  "sample_price t k = Some \<lparr>price_value = 150, price_timestamp = t\<rparr>"

theorem shutdown_not_sticky_witness:
  "parachain_status (snd (begin_block 10001 (sample_price 10000)
     (sample_oracle, snd (begin_block 10000 (sample_price 0)
       (sample_oracle, remove_error OracleOffline (security_genesis Shutdown)))))) = Running"
  by (rule shutdown_not_sticky)
     (simp_all add: all_fresh_def sample_oracle_def oracle_genesis_def sample_price_def is_outdated_def
        wrapping_add_w_def security_genesis_def remove_error_def insert_error_def set_status_def)

theorem convert_amount_accuracy_witness:
  "convert_amount sample_config 70 100 300 1 0 = Inr 2 \<and>
   \<bar>int 2 * 10 ^ (1 - 0) * 300 - int 70 * 100\<bar>
     \<le> 300 * 10 ^ (1 - 0) + 300 + fx_accuracy (cfg_unsigned sample_config)"
proof -
  have "convert_amount sample_config 70 100 300 1 0 = Inr 2"
    by (simp add: convert_amount_def sample_defs Let_def saturating_sub_n_def)
  then show ?thesis using convert_amount_accuracy [OF sample_laws(2), of 300 70 100 1 0 2] by simp
qed

definition sample_dia_keys :: dia_keys where
  "sample_dia_keys =
     \<lparr>dia_native_symbol = ascii_bytes ''AMPE'', dia_native_chain = ascii_bytes ''Amplitude'',
      dia_to_dia_currency_id = (\<lambda>i. if i = 0 then Some (ascii_bytes ''Kusama'', ascii_bytes ''KSM'') else None),
      dia_from_dia_currency_id = (\<lambda>chain symbol.
        if chain = ascii_bytes ''Kusama'' \<and> symbol = ascii_bytes ''KSM'' then Some 0 else None)\<rparr>"

theorem dia_keys_roundtrip_witness:
  "dia_key_convert_back sample_dia_keys (ascii_bytes ''FIAT'', ascii_bytes ''EUR-USD'') = Inl Panic"
  using dia_keys_roundtrip [of sample_dia_keys "Stellar (AlphaNum4 (ascii_bytes ''EURC'') [])"
      "(ascii_bytes ''FIAT'', ascii_bytes ''EUR-USD'')"]
  by (simp add: sample_dia_keys_def ascii_bytes_def construct_fiat_usd_symbol_for_currency_def
      to_ascii_uppercase_def remove_trailing_non_alphanum_bytes_def is_ascii_alphanumeric_def)

end
