(* ===== verification/Pooled_Rewards.thy ===== *)
theory Pooled_Rewards
  imports Fixed_Storage
begin

text \<open>
  The pooled-rewards pallet, \<^verbatim>\<open>pallets/pooled-rewards/src/lib.rs\<close>: one pool per collateral currency,
  in which vaults hold stake and receive rewards in several currencies.  The keys of the total
  stake map are kept as well, in the order of iteration over the map, which follows the hash of
  the key.
\<close>

datatype pooled_event =
    PrDepositStake currency vault_id int
  | PrDistributeReward currency int
  | PrWithdrawStake currency vault_id int
  | PrWithdrawReward currency vault_id currency int

record pooled_rewards =
  pr_total_stake :: "currency \<Rightarrow> int"
  pr_pools :: "currency list"
  pr_total_rewards :: "currency \<Rightarrow> int"
  pr_reward_per_token :: "currency \<times> currency \<Rightarrow> int"
  pr_stake :: "currency \<times> vault_id \<Rightarrow> int"
  pr_reward_tally :: "currency \<times> currency \<times> vault_id \<Rightarrow> int"
  pr_reward_currencies :: "currency \<Rightarrow> currency list"
  pr_events :: "pooled_event list"

definition pool_deposit_event :: "pooled_event \<Rightarrow> (pooled_rewards, unit) prog" where
  "pool_deposit_event e = modifyM (\<lambda>s. s\<lparr>pr_events := e # pr_events s\<rparr>)"

text \<open>Writing to the total stake of a pool makes its key present.\<close>

definition touch_pool :: "'l config \<Rightarrow> currency \<Rightarrow> (pooled_rewards, unit) prog" where
  "touch_pool c pool_id = modifyM (\<lambda>s.
     if pool_id \<in> set (pr_pools s) then s
     else s\<lparr>pr_pools := insort_key (cfg_storage_hash c) pool_id (pr_pools s)\<rparr>)"

section \<open>Internal functions\<close>

definition pool_get_total_rewards :: "'l config \<Rightarrow> currency \<Rightarrow> pooled_rewards \<Rightarrow> int result" where
  "pool_get_total_rewards c currency_id s =
     ok_orR (truncate_to_inner_signed (cfg_signed c) (pr_total_rewards s currency_id))
       (PooledRewardsErr pooled_rewards_error.TryIntoIntError)"

definition pool_add_tally ::
  "'l config \<Rightarrow> currency \<Rightarrow> vault_id \<Rightarrow> int \<Rightarrow> currency \<Rightarrow> (pooled_rewards, unit) prog" where
  "pool_add_tally c pool_id stake_id amount currency_id = (bindM (getM (\<lambda>s. pr_reward_per_token s (currency_id, pool_id))) (\<lambda>reward_per_token.
    bindM (ok_orM (fx_checked_mul (cfg_signed c) reward_per_token amount) Overflow_err) (\<lambda>reward_per_token_mul_amount.
    bindM (checked_add_mut (cfg_signed c) pr_reward_tally pr_reward_tally_update
      (currency_id, pool_id, stake_id) reward_per_token_mul_amount) (\<lambda>_.
    retM ()))))"

definition pool_sub_tally ::
  "'l config \<Rightarrow> currency \<Rightarrow> vault_id \<Rightarrow> int \<Rightarrow> currency \<Rightarrow> (pooled_rewards, unit) prog" where
  "pool_sub_tally c pool_id stake_id amount currency_id = (bindM (getM (\<lambda>s. pr_reward_per_token s (currency_id, pool_id))) (\<lambda>reward_per_token.
    bindM (ok_orM (fx_checked_mul (cfg_signed c) reward_per_token amount) Overflow_err) (\<lambda>reward_per_token_mul_amount.
    bindM (checked_sub_mut (cfg_signed c) pr_reward_tally pr_reward_tally_update
      (currency_id, pool_id, stake_id) reward_per_token_mul_amount) (\<lambda>_.
    retM ()))))"

definition pool_deposit_stake ::
  "'l config \<Rightarrow> currency \<Rightarrow> vault_id \<Rightarrow> int \<Rightarrow> (pooled_rewards, unit) prog" where
  "pool_deposit_stake c pool_id stake_id amount = (bindM (checked_add_mut (cfg_signed c) pr_stake pr_stake_update (pool_id, stake_id) amount) (\<lambda>_.
    bindM (touch_pool c pool_id) (\<lambda>_.
    bindM (checked_add_mut (cfg_signed c) pr_total_stake pr_total_stake_update pool_id amount) (\<lambda>_.
    bindM (getM (\<lambda>s. pr_reward_currencies s pool_id)) (\<lambda>currencies.
    bindM (forM currencies (pool_add_tally c pool_id stake_id amount)) (\<lambda>_.
    pool_deposit_event (PrDepositStake pool_id stake_id amount)))))))"

definition pool_distribute_reward ::
  "'l config \<Rightarrow> currency \<Rightarrow> currency \<Rightarrow> int \<Rightarrow> (pooled_rewards, unit) prog" where
  "pool_distribute_reward c pool_id currency_id reward =
     (if reward = 0 then retM ()
      else (bindM (getM (\<lambda>s. pr_total_stake s pool_id)) (\<lambda>total_stake.
        bindM (ensureM (total_stake \<noteq> 0) (PooledRewardsErr pooled_rewards_error.ZeroTotalStake)) (\<lambda>_.
        bindM (getM (\<lambda>s. pr_reward_currencies s pool_id)) (\<lambda>currencies.
        bindM (ok_orM
          (bounded_set_insert (cfg_pool_max_reward_currencies c) currency_id currencies)
          (PooledRewardsErr pooled_rewards_error.MaxRewardCurrencies)) (\<lambda>currencies'.
        bindM (modifyM (pr_reward_currencies_update (\<lambda>m. m(pool_id := currencies')))) (\<lambda>_.
        bindM (ok_orM (fx_checked_div (cfg_signed c) reward total_stake) Underflow_err) (\<lambda>reward_div_total_stake.
        bindM (checked_add_mut (cfg_signed c) pr_reward_per_token pr_reward_per_token_update
          (currency_id, pool_id) reward_div_total_stake) (\<lambda>_.
        bindM (checked_add_mut (cfg_signed c) pr_total_rewards pr_total_rewards_update currency_id reward) (\<lambda>_.
        pool_deposit_event (PrDistributeReward currency_id reward)))))))))))"

definition pool_compute_reward ::
  "'l config \<Rightarrow> currency \<Rightarrow> vault_id \<Rightarrow> currency \<Rightarrow> pooled_rewards \<Rightarrow> int result" where
  "pool_compute_reward c pool_id stake_id currency_id s = (let stake = pr_stake s (pool_id, stake_id) in
    let reward_per_token = pr_reward_per_token s (currency_id, pool_id) in
    bindR (ok_orR (fx_checked_mul (cfg_signed c) stake reward_per_token) Overflow_err) (\<lambda>stake_mul_reward_per_token.
    let reward_tally = pr_reward_tally s (currency_id, pool_id, stake_id) in
    bindR (ok_orR (fx_checked_sub (cfg_signed c) stake_mul_reward_per_token reward_tally)
      Underflow_err) (\<lambda>difference.
    ok_orR (truncate_to_inner_signed (cfg_signed c) difference)
      (PooledRewardsErr pooled_rewards_error.TryIntoIntError))))"

definition pool_withdraw_stake ::
  "'l config \<Rightarrow> currency \<Rightarrow> vault_id \<Rightarrow> int \<Rightarrow> (pooled_rewards, unit) prog" where
  "pool_withdraw_stake c pool_id stake_id amount = (bindM (getM (\<lambda>s. pr_stake s (pool_id, stake_id))) (\<lambda>stake.
    (if amount > stake then failM (PooledRewardsErr pooled_rewards_error.InsufficientFunds)
      else (bindM (checked_sub_mut (cfg_signed c) pr_stake pr_stake_update (pool_id, stake_id) amount) (\<lambda>_.
        bindM (touch_pool c pool_id) (\<lambda>_.
        bindM (checked_sub_mut (cfg_signed c) pr_total_stake pr_total_stake_update pool_id amount) (\<lambda>_.
        bindM (getM (\<lambda>s. pr_reward_currencies s pool_id)) (\<lambda>currencies.
        bindM (forM currencies (pool_sub_tally c pool_id stake_id amount)) (\<lambda>_.
        pool_deposit_event (PrWithdrawStake pool_id stake_id amount))))))))))"

definition pool_withdraw_reward ::
  "'l config \<Rightarrow> currency \<Rightarrow> vault_id \<Rightarrow> currency \<Rightarrow> (pooled_rewards, int) prog" where
  "pool_withdraw_reward c pool_id stake_id currency_id = (bindM (queryM (pool_compute_reward c pool_id stake_id currency_id)) (\<lambda>reward.
    bindM (ok_orM (fx_checked_from_integer (cfg_signed c) reward)
      (PooledRewardsErr pooled_rewards_error.TryIntoIntError)) (\<lambda>reward_as_fixed.
    bindM (checked_sub_mut (cfg_signed c) pr_total_rewards pr_total_rewards_update currency_id reward_as_fixed) (\<lambda>_.
    bindM (getM (\<lambda>s. pr_stake s (pool_id, stake_id))) (\<lambda>stake.
    bindM (getM (\<lambda>s. pr_reward_per_token s (currency_id, pool_id))) (\<lambda>reward_per_token.
    bindM (ok_orM (fx_checked_mul (cfg_signed c) stake reward_per_token) Overflow_err) (\<lambda>tally.
    bindM (modifyM (pr_reward_tally_update (\<lambda>m. m((currency_id, pool_id, stake_id) := tally)))) (\<lambda>_.
    bindM (pool_deposit_event (PrWithdrawReward pool_id stake_id currency_id reward_as_fixed)) (\<lambda>_.
    retM reward)))))))))"

section \<open>The interface on balances\<close>

definition pool_try_into :: "int \<Rightarrow> balance result" where
  "pool_try_into x =
     (if 0 \<le> x then Inr (nat x) else Inl (PooledRewardsErr pooled_rewards_error.TryIntoIntError))"

definition pool_to_fixed :: "'l config \<Rightarrow> balance \<Rightarrow> (pooled_rewards, int) prog" where
  "pool_to_fixed c amount =
     ok_orM (to_fixed (cfg_signed c) amount) (PooledRewardsErr pooled_rewards_error.TryIntoIntError)"

definition reward_currencies_len :: "currency \<Rightarrow> pooled_rewards \<Rightarrow> nat" where
  "reward_currencies_len pool_id s = length (pr_reward_currencies s pool_id)"

definition api_distribute_reward ::
  "'l config \<Rightarrow> currency \<Rightarrow> currency \<Rightarrow> balance \<Rightarrow> (pooled_rewards, unit) prog" where
  "api_distribute_reward c pool_id currency_id amount = (bindM (pool_to_fixed c amount) (\<lambda>x.
    pool_distribute_reward c pool_id currency_id x))"

definition api_compute_reward ::
  "'l config \<Rightarrow> currency \<Rightarrow> vault_id \<Rightarrow> currency \<Rightarrow> pooled_rewards \<Rightarrow> balance result" where
  "api_compute_reward c pool_id stake_id currency_id s = (bindR (pool_compute_reward c pool_id stake_id currency_id s) (\<lambda>x.
    pool_try_into x))"

definition api_withdraw_reward ::
  "'l config \<Rightarrow> currency \<Rightarrow> vault_id \<Rightarrow> currency \<Rightarrow> (pooled_rewards, balance) prog" where
  "api_withdraw_reward c pool_id stake_id currency_id = (bindM (pool_withdraw_reward c pool_id stake_id currency_id) (\<lambda>x.
    liftM (pool_try_into x)))"

definition api_get_total_stake :: "'l config \<Rightarrow> currency \<Rightarrow> pooled_rewards \<Rightarrow> balance result" where
  "api_get_total_stake c pool_id s = (bindR (ok_orR (truncate_to_inner_signed (cfg_signed c) (pr_total_stake s pool_id))
      (PooledRewardsErr pooled_rewards_error.TryIntoIntError)) (\<lambda>inner.
    pool_try_into inner))"

definition api_get_stake :: "'l config \<Rightarrow> currency \<Rightarrow> vault_id \<Rightarrow> pooled_rewards \<Rightarrow> balance result" where
  "api_get_stake c pool_id stake_id s = (bindR (ok_orR (truncate_to_inner_signed (cfg_signed c) (pr_stake s (pool_id, stake_id)))
      (PooledRewardsErr pooled_rewards_error.TryIntoIntError)) (\<lambda>inner.
    pool_try_into inner))"

definition api_deposit_stake ::
  "'l config \<Rightarrow> currency \<Rightarrow> vault_id \<Rightarrow> balance \<Rightarrow> (pooled_rewards, unit) prog" where
  "api_deposit_stake c pool_id stake_id amount = (bindM (pool_to_fixed c amount) (\<lambda>x.
    pool_deposit_stake c pool_id stake_id x))"

definition api_withdraw_stake ::
  "'l config \<Rightarrow> currency \<Rightarrow> vault_id \<Rightarrow> balance \<Rightarrow> (pooled_rewards, unit) prog" where
  "api_withdraw_stake c pool_id stake_id amount = (bindM (pool_to_fixed c amount) (\<lambda>x.
    pool_withdraw_stake c pool_id stake_id x))"

definition api_withdraw_all_stake ::
  "'l config \<Rightarrow> currency \<Rightarrow> vault_id \<Rightarrow> (pooled_rewards, balance) prog" where
  "api_withdraw_all_stake c pool_id stake_id = (bindM (queryM (api_get_stake c pool_id stake_id)) (\<lambda>amount.
    bindM (api_withdraw_stake c pool_id stake_id amount) (\<lambda>_.
    retM amount)))"

definition api_set_stake ::
  "'l config \<Rightarrow> currency \<Rightarrow> vault_id \<Rightarrow> balance \<Rightarrow> (pooled_rewards, unit) prog" where
  "api_set_stake c pool_id stake_id amount = (bindM (queryM (api_get_stake c pool_id stake_id)) (\<lambda>current_stake.
    (if current_stake < amount then
        (let additional_stake = saturating_sub_n amount current_stake in
         api_deposit_stake c pool_id stake_id additional_stake)
      else if current_stake > amount then
        (let surplus_stake = saturating_sub_n current_stake amount in
         api_withdraw_stake c pool_id stake_id surplus_stake)
      else retM ())))"

definition get_total_stake_all_pools ::
  "'l config \<Rightarrow> pooled_rewards \<Rightarrow> (currency \<times> balance) list result" where
  "get_total_stake_all_pools c s = mapR (\<lambda>pool_id. (bindR (ok_orR (truncate_to_inner_signed (cfg_signed c) (pr_total_stake s pool_id))
      (PooledRewardsErr pooled_rewards_error.TryIntoIntError)) (\<lambda>inner.
    bindR (pool_try_into inner) (\<lambda>balance.
    Inr (pool_id, balance))))) (pr_pools s)"

section \<open>The pool contract\<close>

definition pooled_stakes :: "pooled_rewards \<Rightarrow> currency \<Rightarrow> vault_id \<Rightarrow> int" where
  "pooled_stakes s = (\<lambda>p v. pr_stake s (p, v))"

lemma pool_tally_frames:
  "frameM (\<lambda>s. (pr_stake s, pr_total_stake s)) (pool_add_tally c p v x k)"
  "frameM (\<lambda>s. (pr_stake s, pr_total_stake s)) (pool_sub_tally c p v x k)"
  "frameM (\<lambda>s. (pr_stake s, pr_total_stake s)) (pool_deposit_event e)"
  unfolding pool_add_tally_def pool_sub_tally_def pool_deposit_event_def
  by (intro frame_intro; simp)+

lemma touch_pool_ok:
  "touch_pool c p s = (Inr r, t) \<Longrightarrow>
   pr_stake t = pr_stake s \<and> pr_total_stake t = pr_total_stake s \<and>
   pr_reward_tally t = pr_reward_tally s \<and> pr_reward_per_token t = pr_reward_per_token s \<and>
   pr_reward_currencies t = pr_reward_currencies s \<and> pr_total_rewards t = pr_total_rewards s \<and>
   set (pr_pools t) = insert p (set (pr_pools s))"
  by (auto simp: touch_pool_def ok_iff set_insort_key)

lemma pool_deposit_effect:
  assumes laws: "fixed_point_laws i128_ok (cfg_signed c)"
    and run: "pool_deposit_stake c p v x s = (Inr r, t)"
  shows "pr_stake t = (pr_stake s)((p, v) := pr_stake s (p, v) + x) \<and>
    pr_total_stake t = (pr_total_stake s)(p := pr_total_stake s p + x)"
proof -
  obtain s1 u w where touch: "touch_pool c p (pr_stake_update (\<lambda>m. m((p, v) := pr_stake s (p, v) + x)) s) = (Inr (), s1)"
    and u: "u = pr_total_stake_update (\<lambda>m. m(p := pr_total_stake s1 p + x)) s1"
    and loop: "forM (pr_reward_currencies u p) (pool_add_tally c p v x) u = (Inr (), w)"
    and ev: "pool_deposit_event (PrDepositStake p v x) w = (Inr r, t)"
    using run by (auto simp: pool_deposit_stake_def ok_iff fixed_add [OF laws])
  show ?thesis
    using touch_pool_ok [OF touch] frameM_D [OF frame_for [OF pool_tally_frames(1)] loop]
      frameM_D [OF pool_tally_frames(3) ev]
    by (simp add: u)
qed

lemma pool_withdraw_effect:
  assumes laws: "fixed_point_laws i128_ok (cfg_signed c)"
    and run: "pool_withdraw_stake c p v x s = (Inr r, t)"
  shows "x \<le> pr_stake s (p, v) \<and> pr_stake t = (pr_stake s)((p, v) := pr_stake s (p, v) - x) \<and>
    pr_total_stake t = (pr_total_stake s)(p := pr_total_stake s p - x)"
proof -
  obtain s1 u w where le: "x \<le> pr_stake s (p, v)"
    and touch: "touch_pool c p (pr_stake_update (\<lambda>m. m((p, v) := pr_stake s (p, v) - x)) s) = (Inr (), s1)"
    and u: "u = pr_total_stake_update (\<lambda>m. m(p := pr_total_stake s1 p - x)) s1"
    and loop: "forM (pr_reward_currencies u p) (pool_sub_tally c p v x) u = (Inr (), w)"
    and ev: "pool_deposit_event (PrWithdrawStake p v x) w = (Inr r, t)"
    using run by (auto simp: pool_withdraw_stake_def ok_iff fixed_sub [OF laws] split: if_splits)
  show ?thesis
    using le touch_pool_ok [OF touch] frameM_D [OF frame_for [OF pool_tally_frames(2)] loop]
      frameM_D [OF pool_tally_frames(3) ev]
    by (simp add: u)
qed

interpretation prp: stake_pool pooled_stakes pr_total_stake pool_deposit_stake pool_withdraw_stake api_set_stake
proof unfold_locales
  fix c :: "'l config" and g i x s r t
  assume laws: "fixed_point_laws i128_ok (cfg_signed c)"
  show "pool_deposit_stake c g i x s = (Inr r, t) \<Longrightarrow>
      pooled_stakes t = (\<lambda>h j. if h = g \<and> j = i then pooled_stakes s g i + x else pooled_stakes s h j) \<and>
      pr_total_stake t = (pr_total_stake s)(g := pr_total_stake s g + x)"
    by (auto simp: pooled_stakes_def fun_eq_iff dest!: pool_deposit_effect [OF laws])
  show "pool_withdraw_stake c g i x s = (Inr r, t) \<Longrightarrow>
      x \<le> pooled_stakes s g i \<and>
      pooled_stakes t = (\<lambda>h j. if h = g \<and> j = i then pooled_stakes s g i - x else pooled_stakes s h j) \<and>
      pr_total_stake t = (pr_total_stake s)(g := pr_total_stake s g - x)"
    by (auto simp: pooled_stakes_def fun_eq_iff dest!: pool_withdraw_effect [OF laws])
next
  fix c :: "'l config" and g i n s r t
  assume "api_set_stake c g i n s = (Inr r, t)"
  then show "\<exists>m. truncate_to_inner_signed (cfg_signed c) (pooled_stakes s g i) = Some m \<and> 0 \<le> m \<and>
      (if nat m < n then \<exists>x. to_fixed (cfg_signed c) (n - nat m) = Some x \<and>
         pool_deposit_stake c g i x s = (Inr (), t)
       else if n < nat m then \<exists>x. to_fixed (cfg_signed c) (nat m - n) = Some x \<and>
         pool_withdraw_stake c g i x s = (Inr (), t)
       else t = s)"
    by (auto simp: api_set_stake_def api_get_stake_def api_deposit_stake_def api_withdraw_stake_def
        pool_try_into_def pool_to_fixed_def pooled_stakes_def saturating_sub_n_minus ok_iff Let_def
        split: if_splits)
qed

section \<open>Invariant\<close>

definition pooled_inv :: "'l config \<Rightarrow> pooled_rewards \<Rightarrow> bool" where
  "pooled_inv c s \<longleftrightarrow>
     totals_ok (pr_total_stake s) (pooled_stakes s) \<and>
     (\<forall>p. sorted (pr_reward_currencies s p) \<and> distinct (pr_reward_currencies s p) \<and>
          length (pr_reward_currencies s p) \<le> cfg_pool_max_reward_currencies c) \<and>
     (\<forall>p k. k \<notin> set (pr_reward_currencies s p) \<longrightarrow> pr_reward_per_token s (k, p) = 0) \<and>
     (\<forall>p. pr_total_stake s p \<noteq> 0 \<longrightarrow> p \<in> set (pr_pools s))"

definition rate_view where
  "rate_view s = (pr_reward_currencies s, pr_reward_per_token s, pr_pools s)"

lemma pool_rate_frames:
  "frameM rate_view (pool_add_tally c p v x k)" "frameM rate_view (pool_sub_tally c p v x k)"
  "frameM rate_view (pool_deposit_event e)"
  unfolding pool_add_tally_def pool_sub_tally_def pool_deposit_event_def
  by (intro frame_intro; simp add: rate_view_def)+

lemma pool_deposit_rates:
  assumes "pool_deposit_stake c p v x s = (Inr r, t)"
  shows "pr_reward_currencies t = pr_reward_currencies s \<and> pr_reward_per_token t = pr_reward_per_token s \<and>
    set (pr_pools t) = insert p (set (pr_pools s))"
proof -
  obtain y s1 z w where touch: "touch_pool c p (pr_stake_update (\<lambda>m. m((p, v) := y)) s) = (Inr (), s1)"
    and loop: "forM (pr_reward_currencies s1 p) (pool_add_tally c p v x)
      (pr_total_stake_update (\<lambda>m. m(p := z)) s1) = (Inr (), w)"
    and ev: "pool_deposit_event (PrDepositStake p v x) w = (Inr r, t)"
    using assms by (auto simp: pool_deposit_stake_def ok_iff)
  show ?thesis
    using touch_pool_ok [OF touch] frameM_D [OF frame_for [OF pool_rate_frames(1)] loop]
      frameM_D [OF pool_rate_frames(3) ev]
    by (simp add: rate_view_def)
qed

lemma pool_withdraw_rates:
  assumes "pool_withdraw_stake c p v x s = (Inr r, t)"
  shows "pr_reward_currencies t = pr_reward_currencies s \<and> pr_reward_per_token t = pr_reward_per_token s \<and>
    set (pr_pools t) = insert p (set (pr_pools s))"
proof -
  obtain y s1 z w where touch: "touch_pool c p (pr_stake_update (\<lambda>m. m((p, v) := y)) s) = (Inr (), s1)"
    and loop: "forM (pr_reward_currencies s1 p) (pool_sub_tally c p v x)
      (pr_total_stake_update (\<lambda>m. m(p := z)) s1) = (Inr (), w)"
    and ev: "pool_deposit_event (PrWithdrawStake p v x) w = (Inr r, t)"
    using assms by (auto simp: pool_withdraw_stake_def ok_iff split: if_splits)
  show ?thesis
    using touch_pool_ok [OF touch] frameM_D [OF frame_for [OF pool_rate_frames(2)] loop]
      frameM_D [OF pool_rate_frames(3) ev]
    by (simp add: rate_view_def)
qed

lemma pool_stake_keeps:
  assumes laws: "fixed_point_laws i128_ok (cfg_signed c)"
  shows "keepsOkM (pooled_inv c) (pool_deposit_stake c p v x)"
    and "keepsOkM (pooled_inv c) (pool_withdraw_stake c p v x)"
proof (safe intro!: keepsOkM_I)
  fix s r t
  assume inv: "pooled_inv c s" and run: "pool_deposit_stake c p v x s = (Inr r, t)"
  then show "pooled_inv c t"
    using pool_deposit_rates [OF run] pool_deposit_effect [OF laws run]
      keepsOkM_D [OF prp.deposit_totals [OF laws] _ run]
    by (auto simp: pooled_inv_def split: if_splits)
next
  fix s r t
  assume inv: "pooled_inv c s" and run: "pool_withdraw_stake c p v x s = (Inr r, t)"
  then show "pooled_inv c t"
    using pool_withdraw_rates [OF run] pool_withdraw_effect [OF laws run]
      keepsOkM_D [OF prp.withdraw_totals [OF laws] _ run]
    by (auto simp: pooled_inv_def split: if_splits)
qed

lemma pool_distribute_ok:
  assumes laws: "fixed_point_laws i128_ok (cfg_signed c)" and "x \<noteq> 0"
    and run: "pool_distribute_reward c p k x s = (Inr r, t)"
  obtains ks q where "bounded_set_insert (cfg_pool_max_reward_currencies c) k (pr_reward_currencies s p) = Some ks"
    and "pr_total_stake s p \<noteq> 0" and "fx_checked_div (cfg_signed c) x (pr_total_stake s p) = Some q"
    and "pr_reward_currencies t = (pr_reward_currencies s)(p := ks)"
    and "pr_reward_per_token t = (pr_reward_per_token s)((k, p) := pr_reward_per_token s (k, p) + q)"
    and "pr_total_rewards t = (pr_total_rewards s)(k := pr_total_rewards s k + x)"
    and "pr_stake t = pr_stake s" and "pr_total_stake t = pr_total_stake s"
    and "pr_reward_tally t = pr_reward_tally s" and "pr_pools t = pr_pools s"
  using run assms(2)
  by (auto simp: pool_distribute_reward_def pool_deposit_event_def ok_iff fixed_add [OF laws] intro!: that)

lemma pool_distribute_keeps:
  assumes laws: "fixed_point_laws i128_ok (cfg_signed c)"
  shows "keepsOkM (pooled_inv c) (pool_distribute_reward c p k x)"
proof (rule keepsOkM_I)
  fix s r t
  assume inv: "pooled_inv c s" and run: "pool_distribute_reward c p k x s = (Inr r, t)"
  show "pooled_inv c t"
  proof (cases "x = 0")
    case True
    then show ?thesis using inv run by (simp add: pool_distribute_reward_def ok_iff)
  next
    case False
    then obtain ks q where ks: "bounded_set_insert (cfg_pool_max_reward_currencies c) k (pr_reward_currencies s p) = Some ks"
      and t: "pr_reward_currencies t = (pr_reward_currencies s)(p := ks)"
        "pr_reward_per_token t = (pr_reward_per_token s)((k, p) := pr_reward_per_token s (k, p) + q)"
        "pr_stake t = pr_stake s" "pr_total_stake t = pr_total_stake s" "pr_pools t = pr_pools s"
      using pool_distribute_ok [OF laws False run] by metis
    then show ?thesis
      using inv bounded_set_insert_Some [OF ks] by (auto simp: pooled_inv_def pooled_stakes_def)
  qed
qed

lemma pool_withdraw_reward_keeps: "keepsOkM (pooled_inv c) (pool_withdraw_reward c p v k)"
  unfolding pool_withdraw_reward_def pool_deposit_event_def checked_sub_mut_def
  by (intro keeps_intro keeps_modify; simp add: pooled_inv_def pooled_stakes_def)

lemmas pool_api_defs = api_distribute_reward_def api_withdraw_reward_def api_deposit_stake_def
  api_withdraw_stake_def api_withdraw_all_stake_def api_set_stake_def pool_to_fixed_def

inductive pooled_step :: "'l config \<Rightarrow> pooled_rewards \<Rightarrow> pooled_rewards \<Rightarrow> bool" for c where
  pst_distribute: "api_distribute_reward c p k n s = (Inr r, t) \<Longrightarrow> pooled_step c s t"
| pst_reward: "api_withdraw_reward c p v k s = (Inr b, t) \<Longrightarrow> pooled_step c s t"
| pst_deposit: "api_deposit_stake c p v n s = (Inr r, t) \<Longrightarrow> pooled_step c s t"
| pst_withdraw: "api_withdraw_stake c p v n s = (Inr r, t) \<Longrightarrow> pooled_step c s t"
| pst_withdraw_all: "api_withdraw_all_stake c p v s = (Inr b, t) \<Longrightarrow> pooled_step c s t"
| pst_set: "api_set_stake c p v n s = (Inr r, t) \<Longrightarrow> pooled_step c s t"

lemma pool_api_keeps:
  assumes laws: "fixed_point_laws i128_ok (cfg_signed c)"
  shows "keepsOkM (pooled_inv c) (api_distribute_reward c p k n)"
    and "keepsOkM (pooled_inv c) (api_withdraw_reward c p v k)"
    and "keepsOkM (pooled_inv c) (api_deposit_stake c p v n)"
    and "keepsOkM (pooled_inv c) (api_withdraw_stake c p v n)"
    and "keepsOkM (pooled_inv c) (api_withdraw_all_stake c p v)"
    and "keepsOkM (pooled_inv c) (api_set_stake c p v n)"
  unfolding pool_api_defs
  by (intro pool_stake_keeps [OF laws] pool_distribute_keeps [OF laws] pool_withdraw_reward_keeps keeps_intro)+

lemmas pool_api_keepsD = pool_api_keeps [THEN keepsOkM_D]

lemma pooled_step_keeps:
  assumes "fixed_point_laws i128_ok (cfg_signed c)" and "pooled_step c s t" and "pooled_inv c s"
  shows "pooled_inv c t"
  using assms(2,3)
  by (cases rule: pooled_step.cases) (blast intro: pool_api_keepsD [OF assms(1)])+

definition pooled_genesis :: pooled_rewards where
  "pooled_genesis = \<lparr>pr_total_stake = (\<lambda>_. 0), pr_pools = [], pr_total_rewards = (\<lambda>_. 0),
     pr_reward_per_token = (\<lambda>_. 0), pr_stake = (\<lambda>_. 0), pr_reward_tally = (\<lambda>_. 0),
     pr_reward_currencies = (\<lambda>_. []), pr_events = []\<rparr>"

lemma pooled_genesis_inv: "pooled_inv c pooled_genesis"
  by (simp add: pooled_inv_def pooled_genesis_def pooled_stakes_def totals_ok_def)


section \<open>Earned rewards\<close>

text \<open>
  What a vault has earned in a currency and not yet withdrawn, before truncation to whole units.
\<close>

definition pool_pending :: "'l config \<Rightarrow> currency \<Rightarrow> vault_id \<Rightarrow> currency \<Rightarrow> pooled_rewards \<Rightarrow> int option" where
  "pool_pending c p v k s =
     map_option (\<lambda>m. m - pr_reward_tally s (k, p, v))
       (fx_checked_mul (cfg_signed c) (pr_stake s (p, v)) (pr_reward_per_token s (k, p)))"

lemma fixed_mul_zero_right:
  "fixed_point_laws R fx \<Longrightarrow> fx_checked_mul fx a 0 = Some x \<Longrightarrow> x = 0"
  using fixed_mul [of R fx a 0 x] abs_mult_less_zero by simp

lemma pool_tally_ok:
  assumes "fixed_point_laws i128_ok (cfg_signed c)"
  shows "pool_add_tally c p v x j s = (Inr r, u) \<Longrightarrow>
      \<exists>m. fx_checked_mul (cfg_signed c) (pr_reward_per_token s (j, p)) x = Some m \<and>
        u = pr_reward_tally_update (\<lambda>f. f((j, p, v) := pr_reward_tally s (j, p, v) + m)) s"
    and "pool_sub_tally c p v x j s = (Inr r, u) \<Longrightarrow>
      \<exists>m. fx_checked_mul (cfg_signed c) (pr_reward_per_token s (j, p)) x = Some m \<and>
        u = pr_reward_tally_update (\<lambda>f. f((j, p, v) := pr_reward_tally s (j, p, v) - m)) s"
  by (auto simp: pool_add_tally_def pool_sub_tally_def ok_iff fixed_add [OF assms] fixed_sub [OF assms])

lemma add_tally_loop:
  assumes laws: "fixed_point_laws i128_ok (cfg_signed c)" and "distinct ks"
    and "forM ks (pool_add_tally c p v x) s = (Inr r, t)"
  shows "if k \<in> set ks
    then \<exists>m. fx_checked_mul (cfg_signed c) (pr_reward_per_token s (k, p)) x = Some m \<and>
           pr_reward_tally t (k, p, v) = pr_reward_tally s (k, p, v) + m
    else pr_reward_tally t (k, p, v) = pr_reward_tally s (k, p, v)"
  using assms(2,3)
proof (induction ks arbitrary: s)
  case (Cons j ks)
  obtain m u where m: "fx_checked_mul (cfg_signed c) (pr_reward_per_token s (j, p)) x = Some m"
    and u: "u = pr_reward_tally_update (\<lambda>f. f((j, p, v) := pr_reward_tally s (j, p, v) + m)) s"
    and rest: "forM ks (pool_add_tally c p v x) u = (Inr r, t)"
    using Cons.prems(2) by (auto simp: bindM_ok dest!: pool_tally_ok(1) [OF laws])
  show ?case using Cons.IH [OF _ rest] Cons.prems(1) m by (auto simp: u split: if_splits)
qed (simp add: ok_iff)

lemma sub_tally_loop:
  assumes laws: "fixed_point_laws i128_ok (cfg_signed c)" and "distinct ks"
    and "forM ks (pool_sub_tally c p v x) s = (Inr r, t)"
  shows "if k \<in> set ks
    then \<exists>m. fx_checked_mul (cfg_signed c) (pr_reward_per_token s (k, p)) x = Some m \<and>
           pr_reward_tally t (k, p, v) = pr_reward_tally s (k, p, v) - m
    else pr_reward_tally t (k, p, v) = pr_reward_tally s (k, p, v)"
  using assms(2,3)
proof (induction ks arbitrary: s)
  case (Cons j ks)
  obtain m u where m: "fx_checked_mul (cfg_signed c) (pr_reward_per_token s (j, p)) x = Some m"
    and u: "u = pr_reward_tally_update (\<lambda>f. f((j, p, v) := pr_reward_tally s (j, p, v) - m)) s"
    and rest: "forM ks (pool_sub_tally c p v x) u = (Inr r, t)"
    using Cons.prems(2) by (auto simp: bindM_ok dest!: pool_tally_ok(2) [OF laws])
  show ?case using Cons.IH [OF _ rest] Cons.prems(1) m by (auto simp: u split: if_splits)
qed (simp add: ok_iff)

lemma three_products:
  fixes m m0 m1 S x R acc :: int
  assumes "\<bar>m * acc - R * x\<bar> < acc" and "\<bar>m0 * acc - S * R\<bar> < acc" and "\<bar>m1 * acc - (S + x) * R\<bar> < acc"
  shows "\<bar>m1 - m0 - m\<bar> \<le> 2"
proof -
  have acc: "0 < acc" using assms(1) by linarith
  have "\<bar>(m1 - m0 - m) * acc\<bar> < 3 * acc"
    using assms by (simp add: algebra_simps abs_less_iff)
  then have "\<bar>m1 - m0 - m\<bar> * acc < 3 * acc" using acc by (simp add: abs_mult)
  then have "\<bar>m1 - m0 - m\<bar> < 3" using acc by (simp only: mult_less_cancel_right)
  then show ?thesis by simp
qed

lemma pending_after_deposit:
  assumes laws: "fixed_point_laws i128_ok (cfg_signed c)" and inv: "pooled_inv c s"
    and run: "pool_deposit_stake c p v x s = (Inr r, t)"
    and m0: "pool_pending c p v k s = Some a" and m1: "pool_pending c p v k t = Some b"
  shows "\<bar>b - a\<bar> \<le> 2"
proof -
  let ?R = "pr_reward_per_token s (k, p)" and ?S = "pr_stake s (p, v)"
  obtain y s1 z w where touch: "touch_pool c p (pr_stake_update (\<lambda>m. m((p, v) := y)) s) = (Inr (), s1)"
    and loop: "forM (pr_reward_currencies s1 p) (pool_add_tally c p v x)
      (pr_total_stake_update (\<lambda>m. m(p := z)) s1) = (Inr (), w)"
    and ev: "t = w\<lparr>pr_events := PrDepositStake p v x # pr_events w\<rparr>"
    using run by (auto simp: pool_deposit_stake_def pool_deposit_event_def ok_iff)
  have d: "distinct (pr_reward_currencies s1 p)" and rate: "k \<notin> set (pr_reward_currencies s1 p) \<Longrightarrow> ?R = 0"
    using inv touch_pool_ok [OF touch] by (auto simp: pooled_inv_def)
  obtain m where m: "fx_checked_mul (cfg_signed c) ?R x = Some m \<or> (?R = 0 \<and> m = 0)"
    and tally: "pr_reward_tally t (k, p, v) = pr_reward_tally s (k, p, v) + m"
    using add_tally_loop [OF laws d loop, of k] rate touch_pool_ok [OF touch]
    by (auto simp: ev split: if_splits)
  obtain n0 n1 where n: "fx_checked_mul (cfg_signed c) ?S ?R = Some n0"
      "fx_checked_mul (cfg_signed c) (?S + x) ?R = Some n1"
    and ab: "a = n0 - pr_reward_tally s (k, p, v)" "b = n1 - pr_reward_tally t (k, p, v)"
    using m0 m1 pool_deposit_effect [OF laws run] pool_deposit_rates [OF run] by (auto simp: pool_pending_def)
  have "\<bar>m * fx_accuracy (cfg_signed c) - ?R * x\<bar> < fx_accuracy (cfg_signed c)"
    using m fixed_mul [OF laws] fixed_accuracy_pos [OF laws] by auto
  from three_products [OF this fixed_mul [OF laws n(1)] fixed_mul [OF laws n(2)]]
  show ?thesis using tally ab by simp
qed

lemma pending_after_withdrawal:
  assumes laws: "fixed_point_laws i128_ok (cfg_signed c)" and inv: "pooled_inv c s"
    and run: "pool_withdraw_stake c p v x s = (Inr r, t)"
    and m0: "pool_pending c p v k s = Some a" and m1: "pool_pending c p v k t = Some b"
  shows "\<bar>b - a\<bar> \<le> 2"
proof -
  let ?R = "pr_reward_per_token s (k, p)" and ?S = "pr_stake s (p, v)"
  obtain y s1 z w where touch: "touch_pool c p (pr_stake_update (\<lambda>m. m((p, v) := y)) s) = (Inr (), s1)"
    and loop: "forM (pr_reward_currencies s1 p) (pool_sub_tally c p v x)
      (pr_total_stake_update (\<lambda>m. m(p := z)) s1) = (Inr (), w)"
    and ev: "t = w\<lparr>pr_events := PrWithdrawStake p v x # pr_events w\<rparr>"
    using run by (auto simp: pool_withdraw_stake_def pool_deposit_event_def ok_iff split: if_splits)
  have d: "distinct (pr_reward_currencies s1 p)" and rate: "k \<notin> set (pr_reward_currencies s1 p) \<Longrightarrow> ?R = 0"
    using inv touch_pool_ok [OF touch] by (auto simp: pooled_inv_def)
  obtain m where m: "fx_checked_mul (cfg_signed c) ?R x = Some m \<or> (?R = 0 \<and> m = 0)"
    and tally: "pr_reward_tally t (k, p, v) = pr_reward_tally s (k, p, v) - m"
    using sub_tally_loop [OF laws d loop, of k] rate touch_pool_ok [OF touch]
    by (auto simp: ev split: if_splits)
  obtain n0 n1 where n: "fx_checked_mul (cfg_signed c) ?S ?R = Some n0"
      "fx_checked_mul (cfg_signed c) (?S - x) ?R = Some n1"
    and ab: "a = n0 - pr_reward_tally s (k, p, v)" "b = n1 - pr_reward_tally t (k, p, v)"
    using m0 m1 pool_withdraw_effect [OF laws run] pool_withdraw_rates [OF run] by (auto simp: pool_pending_def)
  have "\<bar>m * fx_accuracy (cfg_signed c) - ?R * x\<bar> < fx_accuracy (cfg_signed c)"
    using m fixed_mul [OF laws] fixed_accuracy_pos [OF laws] by auto
  from three_products [OF this fixed_mul [OF laws n(2)], of n0] fixed_mul [OF laws n(1)]
  show ?thesis using tally ab by simp
qed

text \<open>
  C27: setting a vault's stake in a pool to another value leaves what the vault has
  earned so far in every reward currency as it was, up to two units in the last place of the
  fixed point representation: new stake earns nothing from past distributions and withdrawn stake loses nothing.
\<close>

theorem stake_change_keeps_rewards:
  assumes laws: "fixed_point_laws i128_ok (cfg_signed c)" and inv: "pooled_inv c s"
    and run: "api_set_stake c p v n s = (Inr r, t)"
    and "pool_pending c p v k s = Some a" and "pool_pending c p v k t = Some b"
  shows "\<bar>b - a\<bar> \<le> 2"
  using prp.set_effect [OF run] assms(4,5)
  by (auto split: if_splits dest: pending_after_deposit [OF laws inv] pending_after_withdrawal [OF laws inv])

text \<open>
  C26: distributing a reward to a pool adds it to the recorded total and raises what
  each vault has earned in proportion to the vault's share of the pool's stake, up to a rounding
  error of at most two units in the last place plus one per whole token of stake.
\<close>

theorem distribution_is_proportional:
  assumes laws: "fixed_point_laws i128_ok (cfg_signed c)"
    and run: "pool_distribute_reward c p k x s = (Inr r, t)"
    and tot: "0 < pr_total_stake s p" and stake: "0 \<le> pr_stake s (p, v)"
    and "pool_pending c p v k s = Some a" and "pool_pending c p v k t = Some b"
  shows "pr_total_rewards t k = pr_total_rewards s k + x \<and>
    fx_accuracy (cfg_signed c) * \<bar>pr_total_stake s p * (b - a) - pr_stake s (p, v) * x\<bar>
      \<le> pr_total_stake s p * (2 * fx_accuracy (cfg_signed c) + pr_stake s (p, v))"
proof (cases "x = 0")
  case True
  then have "t = s" using run by (simp add: pool_distribute_reward_def ok_iff)
  then show ?thesis using True assms(5,6) tot stake fixed_accuracy_pos [OF laws] by simp
next
  case False
  then obtain q where q: "fx_checked_div (cfg_signed c) x (pr_total_stake s p) = Some q"
    and t: "pr_reward_per_token t = (pr_reward_per_token s)((k, p) := pr_reward_per_token s (k, p) + q)"
      "pr_total_rewards t = (pr_total_rewards s)(k := pr_total_rewards s k + x)"
      "pr_stake t = pr_stake s" "pr_reward_tally t = pr_reward_tally s"
    using pool_distribute_ok [OF laws False run] by metis
  obtain m m' where m: "fx_checked_mul (cfg_signed c) (pr_stake s (p, v)) (pr_reward_per_token s (k, p)) = Some m"
      "fx_checked_mul (cfg_signed c) (pr_stake s (p, v)) (pr_reward_per_token s (k, p) + q) = Some m'"
    and "b - a = m' - m"
    using assms(5,6) by (auto simp: pool_pending_def t)
  moreover have "\<bar>q * pr_total_stake s p - x * fx_accuracy (cfg_signed c)\<bar> < pr_total_stake s p"
    using fixed_div [OF laws q] tot by simp
  ultimately show ?thesis
    using proportional_error [OF _ fixed_mul [OF laws m(1)] fixed_mul [OF laws m(2)] stake tot] t by simp
qed

text \<open>
  Setting a vault's stake to a number of whole tokens gives the vault exactly that stake,
  whether the stake has to grow or to shrink, and moves the pool's total by the difference.
\<close>

theorem pool_set_stake_value:
  assumes "fixed_point_laws i128_ok (cfg_signed c)" and "api_set_stake c p v n s = (Inr r, t)"
    and "pr_stake s (p, v) = int k * fx_accuracy (cfg_signed c)"
  shows "pr_stake t (p, v) = int n * fx_accuracy (cfg_signed c) \<and>
    pr_total_stake t p = pr_total_stake s p + (int n - int k) * fx_accuracy (cfg_signed c) \<and>
    api_get_stake c p v t = Inr n"
proof -
  have "pr_stake t (p, v) = int n * fx_accuracy (cfg_signed c)"
    "pr_total_stake t p = pr_total_stake s p + (int n - int k) * fx_accuracy (cfg_signed c)"
    using prp.set_to_value [OF assms(1,2), of k] assms(3) by (simp_all add: pooled_stakes_def)
  then show ?thesis
    using fixed_accuracy_pos [OF assms(1)]
    by (simp add: api_get_stake_def truncate_to_inner_signed_nonneg [OF assms(1)] pool_try_into_def)
qed

section \<open>A sample pool of vaults\<close>

definition sample_pooled :: pooled_rewards where
  "sample_pooled = pooled_genesis\<lparr>
     pr_stake := (\<lambda>_. 0)((XCM 0, sample_vault) := 1000),
     pr_total_stake := (\<lambda>_. 0)(XCM 0 := 1000),
     pr_pools := [XCM 0],
     pr_total_rewards := (\<lambda>_. 0)(Native := 2000),
     pr_reward_per_token := (\<lambda>_. 0)((Native, XCM 0) := 200),
     pr_reward_currencies := (\<lambda>_. [])(XCM 0 := [Native])\<rparr>"

lemmas pooled_run = pool_deposit_stake_def pool_withdraw_stake_def pool_distribute_reward_def
  pool_add_tally_def pool_sub_tally_def pool_deposit_event_def touch_pool_def
  api_set_stake_def api_get_stake_def api_deposit_stake_def api_withdraw_stake_def
  pool_try_into_def pool_to_fixed_def to_fixed_def truncate_to_inner_signed_def
  checked_add_mut_def checked_sub_mut_def saturating_sub_n_def bounded_set_insert_def
  sample_pooled_def pooled_genesis_def sample_defs

lemma sample_pooled_inv: "pooled_inv sample_config sample_pooled"
proof -
  have "pooled_stakes sample_pooled p = (if p = XCM 0 then (\<lambda>_. 0)(sample_vault := 1000) else (\<lambda>_. 0))" for p
    by (auto simp: pooled_stakes_def sample_pooled_def fun_eq_iff)
  then show ?thesis
    by (auto simp: pooled_inv_def totals_ok_def support_sum_upd_diff sample_pooled_def pooled_genesis_def
        sample_config_def)
qed

lemma sample_set_stake: "fst (api_set_stake sample_config (XCM 0) sample_vault 14 sample_pooled) = Inr ()"
  by (simp cong: bindM_weak_cong bindR_weak_cong add: pooled_run)


theorem stake_change_keeps_rewards_witness:
  "\<exists>b. pool_pending sample_config (XCM 0) sample_vault Native
         (snd (api_set_stake sample_config (XCM 0) sample_vault 14 sample_pooled)) = Some b \<and> \<bar>b - 2000\<bar> \<le> 2"
proof -
  let ?t = "snd (api_set_stake sample_config (XCM 0) sample_vault 14 sample_pooled)"
  have a: "pool_pending sample_config (XCM 0) sample_vault Native sample_pooled = Some 2000"
    by (simp add: pool_pending_def pooled_run)
  obtain b where b: "pool_pending sample_config (XCM 0) sample_vault Native ?t = Some b"
    by (simp cong: bindM_weak_cong bindR_weak_cong add: pool_pending_def pooled_run)
  show ?thesis
    using stake_change_keeps_rewards [OF sample_laws(1) sample_pooled_inv run_pair [OF sample_set_stake] a b] b
    by simp
qed

theorem distribution_is_proportional_witness:
  "pr_total_rewards (snd (pool_distribute_reward sample_config (XCM 0) Native 500 sample_pooled)) Native = 2500"
proof -
  let ?t = "snd (pool_distribute_reward sample_config (XCM 0) Native 500 sample_pooled)"
  have run: "fst (pool_distribute_reward sample_config (XCM 0) Native 500 sample_pooled) = Inr ()"
    by (simp cong: bindM_weak_cong bindR_weak_cong add: pooled_run insort_insert_triv)
  have "pool_pending sample_config (XCM 0) sample_vault Native sample_pooled = Some 2000"
    by (simp add: pool_pending_def pooled_run)
  moreover have "pool_pending sample_config (XCM 0) sample_vault Native ?t = Some 2500"
    by (simp cong: bindM_weak_cong bindR_weak_cong add: pool_pending_def pooled_run insort_insert_triv)
  ultimately show ?thesis
    using distribution_is_proportional [OF sample_laws(1) run_pair [OF run]]
    by (simp add: sample_pooled_def)
qed

theorem pool_set_stake_value_witness:
  "api_get_stake sample_config (XCM 0) sample_vault
     (snd (api_set_stake sample_config (XCM 0) sample_vault 14 sample_pooled)) = Inr 14"
  using pool_set_stake_value [OF sample_laws(1) run_pair [OF sample_set_stake], of 10]
  by (simp add: sample_pooled_def sample_defs)

end
