(* ===== verification/Staking.thy ===== *)
theory Staking
  imports Fixed_Storage
begin

text \<open>
  The staking pallet, \<^verbatim>\<open>pallets/staking/src/lib.rs\<close>: nominated collateral of each vault, with
  slashing and rewards distributed in proportion to the stake.  A storage double map is a function
  of the pair of its keys, with the default zero; the pool of a vault is identified by the vault
  and a nonce, which a forced refund increases.  Amounts are fixed point numbers given by their
  inner integers.
\<close>

type_synonym nonce = nat

datatype staking_event =
    DepositStake vault_id account int
  | DistributeReward currency vault_id int
  | WithdrawStake vault_id account int
  | WithdrawReward nonce currency vault_id account int
  | ForceRefund vault_id
  | IncreaseNonce vault_id nonce

record staking =
  st_total_stake :: "nonce \<times> vault_id \<Rightarrow> int"
  st_total_current_stake :: "nonce \<times> vault_id \<Rightarrow> int"
  st_total_rewards :: "currency \<times> nonce \<times> vault_id \<Rightarrow> int"
  st_reward_per_token :: "currency \<times> nonce \<times> vault_id \<Rightarrow> int"
  st_slash_per_token :: "nonce \<times> vault_id \<Rightarrow> int"
  st_stake :: "nonce \<times> vault_id \<times> account \<Rightarrow> int"
  st_reward_tally :: "currency \<times> nonce \<times> vault_id \<times> account \<Rightarrow> int"
  st_slash_tally :: "nonce \<times> vault_id \<times> account \<Rightarrow> int"
  st_nonce :: "vault_id \<Rightarrow> nonce"
  st_reward_currencies :: "currency list"
  st_events :: "staking_event list"

definition staking_deposit_event :: "staking_event \<Rightarrow> (staking, unit) prog" where
  "staking_deposit_event e = modifyM (\<lambda>s. s\<lparr>st_events := e # st_events s\<rparr>)"

section \<open>Queries\<close>

definition total_current_stake :: "'l config \<Rightarrow> vault_id \<Rightarrow> staking \<Rightarrow> int result" where
  "total_current_stake c vault_id s =
     ok_orR (truncate_to_inner_signed (cfg_signed c)
       (st_total_current_stake s (st_nonce s vault_id, vault_id)))
       (StakingErr staking_error.TryIntoIntError)"

definition compute_amount_to_slash :: "'l config \<Rightarrow> int \<Rightarrow> int \<Rightarrow> int \<Rightarrow> int result" where
  "compute_amount_to_slash c stake slash_per_token slash_tally = (bindR (ok_orR (fx_checked_mul (cfg_signed c) stake slash_per_token) Overflow_err) (\<lambda>stake_mul_slash_per_token.
    ok_orR (fx_checked_sub (cfg_signed c) stake_mul_slash_per_token slash_tally) Underflow_err))"

definition compute_stake_at_index ::
  "'l config \<Rightarrow> nonce \<Rightarrow> vault_id \<Rightarrow> account \<Rightarrow> staking \<Rightarrow> int result" where
  "compute_stake_at_index c nonce vault_id nominator_id s = (let stake = st_stake s (nonce, vault_id, nominator_id) in
    let slash_per_token = st_slash_per_token s (nonce, vault_id) in
    let slash_tally = st_slash_tally s (nonce, vault_id, nominator_id) in
    bindR (compute_amount_to_slash c stake slash_per_token slash_tally) (\<lambda>to_slash.
    bindR (ok_orR (fx_checked_sub (cfg_signed c) stake to_slash) Underflow_err) (\<lambda>stake_sub.
    bindR (ok_orR (truncate_to_inner_signed (cfg_signed c) stake_sub)
      (StakingErr staking_error.TryIntoIntError)) (\<lambda>stake_sub_to_slash.
    Inr (max 0 stake_sub_to_slash)))))"

definition compute_stake :: "'l config \<Rightarrow> vault_id \<Rightarrow> account \<Rightarrow> staking \<Rightarrow> int result" where
  "compute_stake c vault_id nominator_id s =
     compute_stake_at_index c (st_nonce s vault_id) vault_id nominator_id s"

definition compute_reward_at_index ::
  "'l config \<Rightarrow> nonce \<Rightarrow> currency \<Rightarrow> vault_id \<Rightarrow> account \<Rightarrow> staking \<Rightarrow> int result" where
  "compute_reward_at_index c nonce currency_id vault_id nominator_id s = (bindR (compute_stake_at_index c nonce vault_id nominator_id s) (\<lambda>stake_inner.
    bindR (ok_orR (fx_checked_from_integer (cfg_signed c) stake_inner)
      (StakingErr staking_error.TryIntoIntError)) (\<lambda>stake.
    let reward_per_token = st_reward_per_token s (currency_id, nonce, vault_id) in
    bindR (ok_orR (fx_checked_mul (cfg_signed c) stake reward_per_token) Overflow_err) (\<lambda>stake_mul_reward_per_token.
    let reward_tally = st_reward_tally s (currency_id, nonce, vault_id, nominator_id) in
    bindR (ok_orR (fx_checked_sub (cfg_signed c) stake_mul_reward_per_token reward_tally)
      Underflow_err) (\<lambda>difference.
    bindR (ok_orR (truncate_to_inner_signed (cfg_signed c) difference)
      (StakingErr staking_error.TryIntoIntError)) (\<lambda>reward.
    Inr (max 0 reward)))))))"

definition compute_reward ::
  "'l config \<Rightarrow> currency \<Rightarrow> vault_id \<Rightarrow> account \<Rightarrow> staking \<Rightarrow> int result" where
  "compute_reward c currency_id vault_id nominator_id s =
     compute_reward_at_index c (st_nonce s vault_id) currency_id vault_id nominator_id s"

definition get_all_reward_currencies :: "'l config \<Rightarrow> staking \<Rightarrow> currency list" where
  "get_all_reward_currencies c s = st_reward_currencies s @ [cfg_native_currency c]"

section \<open>Operations\<close>

definition apply_slash :: "'l config \<Rightarrow> vault_id \<Rightarrow> account \<Rightarrow> (staking, int) prog" where
  "apply_slash c vault_id nominator_id = (bindM (getM (\<lambda>s. st_nonce s vault_id)) (\<lambda>nonce.
    bindM (getM (\<lambda>s. st_stake s (nonce, vault_id, nominator_id))) (\<lambda>stake.
    bindM (getM (\<lambda>s. st_slash_per_token s (nonce, vault_id))) (\<lambda>slash_per_token.
    bindM (getM (\<lambda>s. st_slash_tally s (nonce, vault_id, nominator_id))) (\<lambda>slash_tally.
    bindM (liftM (compute_amount_to_slash c stake slash_per_token slash_tally)) (\<lambda>to_slash.
    bindM (checked_sub_mut (cfg_signed c) st_total_stake st_total_stake_update (nonce, vault_id) to_slash) (\<lambda>_.
    bindM (checked_sub_mut (cfg_signed c) st_stake st_stake_update
      (nonce, vault_id, nominator_id) to_slash) (\<lambda>stake'.
    bindM (ok_orM (fx_checked_mul (cfg_signed c) stake' slash_per_token) Overflow_err) (\<lambda>tally.
    bindM (modifyM (st_slash_tally_update (\<lambda>m. m((nonce, vault_id, nominator_id) := tally)))) (\<lambda>_.
    retM stake'))))))))))"

definition add_slash_tally ::
  "'l config \<Rightarrow> nonce \<Rightarrow> vault_id \<Rightarrow> account \<Rightarrow> int \<Rightarrow> (staking, unit) prog" where
  "add_slash_tally c nonce vault_id nominator_id amount = (bindM (getM (\<lambda>s. st_slash_per_token s (nonce, vault_id))) (\<lambda>slash_per_token.
    bindM (ok_orM (fx_checked_mul (cfg_signed c) slash_per_token amount) Overflow_err) (\<lambda>slash_per_token_mul_amount.
    bindM (checked_add_mut (cfg_signed c) st_slash_tally st_slash_tally_update
      (nonce, vault_id, nominator_id) slash_per_token_mul_amount) (\<lambda>_.
    retM ()))))"

definition sub_slash_tally ::
  "'l config \<Rightarrow> nonce \<Rightarrow> vault_id \<Rightarrow> account \<Rightarrow> int \<Rightarrow> (staking, unit) prog" where
  "sub_slash_tally c nonce vault_id nominator_id amount = (bindM (getM (\<lambda>s. st_slash_per_token s (nonce, vault_id))) (\<lambda>slash_per_token.
    bindM (ok_orM (fx_checked_mul (cfg_signed c) slash_per_token amount) Overflow_err) (\<lambda>slash_per_token_mul_amount.
    bindM (checked_sub_mut (cfg_signed c) st_slash_tally st_slash_tally_update
      (nonce, vault_id, nominator_id) slash_per_token_mul_amount) (\<lambda>_.
    retM ()))))"

definition add_reward_tally ::
  "'l config \<Rightarrow> nonce \<Rightarrow> vault_id \<Rightarrow> account \<Rightarrow> int \<Rightarrow> currency \<Rightarrow> (staking, unit) prog" where
  "add_reward_tally c nonce vault_id nominator_id amount currency_id = (bindM (getM (\<lambda>s. st_reward_per_token s (currency_id, nonce, vault_id))) (\<lambda>reward_per_token.
    bindM (ok_orM (fx_checked_mul (cfg_signed c) reward_per_token amount) Overflow_err) (\<lambda>reward_per_token_mul_amount.
    bindM (checked_add_mut (cfg_signed c) st_reward_tally st_reward_tally_update
      (currency_id, nonce, vault_id, nominator_id) reward_per_token_mul_amount) (\<lambda>_.
    retM ()))))"

definition sub_reward_tally ::
  "'l config \<Rightarrow> nonce \<Rightarrow> vault_id \<Rightarrow> account \<Rightarrow> int \<Rightarrow> currency \<Rightarrow> (staking, unit) prog" where
  "sub_reward_tally c nonce vault_id nominator_id amount currency_id = (bindM (getM (\<lambda>s. st_reward_per_token s (currency_id, nonce, vault_id))) (\<lambda>reward_per_token.
    bindM (ok_orM (fx_checked_mul (cfg_signed c) reward_per_token amount) Overflow_err) (\<lambda>reward_per_token_mul_amount.
    bindM (checked_sub_mut (cfg_signed c) st_reward_tally st_reward_tally_update
      (currency_id, nonce, vault_id, nominator_id) reward_per_token_mul_amount) (\<lambda>_.
    retM ()))))"

definition deposit_stake :: "'l config \<Rightarrow> vault_id \<Rightarrow> account \<Rightarrow> int \<Rightarrow> (staking, unit) prog" where
  "deposit_stake c vault_id nominator_id amount = (bindM (getM (\<lambda>s. st_nonce s vault_id)) (\<lambda>nonce.
    bindM (apply_slash c vault_id nominator_id) (\<lambda>_.
    bindM (checked_add_mut (cfg_signed c) st_stake st_stake_update (nonce, vault_id, nominator_id) amount) (\<lambda>_.
    bindM (checked_add_mut (cfg_signed c) st_total_stake st_total_stake_update (nonce, vault_id) amount) (\<lambda>_.
    bindM (checked_add_mut (cfg_signed c) st_total_current_stake st_total_current_stake_update
      (nonce, vault_id) amount) (\<lambda>_.
    bindM (add_slash_tally c nonce vault_id nominator_id amount) (\<lambda>_.
    bindM (getM (get_all_reward_currencies c)) (\<lambda>all_reward_currencies.
    bindM (forM all_reward_currencies (add_reward_tally c nonce vault_id nominator_id amount)) (\<lambda>_.
    staking_deposit_event (DepositStake vault_id nominator_id amount))))))))))"

definition increase_rewards ::
  "'l config \<Rightarrow> nonce \<Rightarrow> currency \<Rightarrow> vault_id \<Rightarrow> int \<Rightarrow> (staking, int) prog" where
  "increase_rewards c nonce currency_id vault_id reward = (bindM (getM (\<lambda>s. st_total_current_stake s (nonce, vault_id))) (\<lambda>total.
    (if total = 0 then retM 0
      else (bindM (ok_orM (fx_checked_div (cfg_signed c) reward total) Underflow_err) (\<lambda>reward_div_total_current_stake.
        bindM (checked_add_mut (cfg_signed c) st_reward_per_token st_reward_per_token_update
          (currency_id, nonce, vault_id) reward_div_total_current_stake) (\<lambda>_.
        retM reward))))))"

definition replenish_rewards ::
  "'l config \<Rightarrow> nonce \<Rightarrow> vault_id \<Rightarrow> int \<Rightarrow> currency \<Rightarrow> (staking, unit) prog" where
  "replenish_rewards c nonce vault_id amount currency_id = (bindM (getM (\<lambda>s. st_reward_per_token s (currency_id, nonce, vault_id))) (\<lambda>reward_per_token.
    bindM (ok_orM (fx_checked_mul (cfg_signed c) reward_per_token amount) Overflow_err) (\<lambda>lost.
    bindM (increase_rewards c nonce currency_id vault_id lost) (\<lambda>_.
    retM ()))))"

definition slash_stake :: "'l config \<Rightarrow> vault_id \<Rightarrow> int \<Rightarrow> (staking, unit) prog" where
  "slash_stake c vault_id amount = (bindM (getM (\<lambda>s. st_nonce s vault_id)) (\<lambda>nonce.
    bindM (getM (\<lambda>s. st_total_stake s (nonce, vault_id))) (\<lambda>total_stake.
    (if amount = 0 then retM ()
      else if total_stake = 0 then failM (StakingErr SlashZeroTotalStake)
      else (bindM (ok_orM (fx_checked_div (cfg_signed c) amount total_stake) Underflow_err) (\<lambda>amount_div_total_stake.
        bindM (checked_add_mut (cfg_signed c) st_slash_per_token st_slash_per_token_update
          (nonce, vault_id) amount_div_total_stake) (\<lambda>_.
        bindM (checked_sub_mut (cfg_signed c) st_total_current_stake st_total_current_stake_update
          (nonce, vault_id) amount) (\<lambda>_.
        bindM (getM (get_all_reward_currencies c)) (\<lambda>all_reward_currencies.
        forM all_reward_currencies (replenish_rewards c nonce vault_id amount))))))))))"

definition distribute_reward ::
  "'l config \<Rightarrow> currency \<Rightarrow> vault_id \<Rightarrow> int \<Rightarrow> (staking, int) prog" where
  "distribute_reward c currency_id vault_id reward = (bindM (getM (\<lambda>s. st_nonce s vault_id)) (\<lambda>nonce.
    bindM (increase_rewards c nonce currency_id vault_id reward) (\<lambda>reward'.
    (if reward' = 0 then retM 0
      else (bindM (checked_add_mut (cfg_signed c) st_total_rewards st_total_rewards_update
          (currency_id, nonce, vault_id) reward') (\<lambda>_.
        bindM (staking_deposit_event (DistributeReward currency_id vault_id reward')) (\<lambda>_.
        retM reward')))))))"

definition withdraw_stake ::
  "'l config \<Rightarrow> vault_id \<Rightarrow> account \<Rightarrow> int \<Rightarrow> nonce option \<Rightarrow> (staking, unit) prog" where
  "withdraw_stake c vault_id nominator_id amount index = (bindM (getM (\<lambda>s. case index of None \<Rightarrow> st_nonce s vault_id | Some i \<Rightarrow> i)) (\<lambda>nonce.
    bindM (apply_slash c vault_id nominator_id) (\<lambda>stake.
    (if amount = 0 then retM ()
      else if amount > stake then failM (StakingErr staking_error.InsufficientFunds)
      else (bindM (checked_sub_mut (cfg_signed c) st_stake st_stake_update (nonce, vault_id, nominator_id) amount) (\<lambda>_.
        bindM (checked_sub_mut (cfg_signed c) st_total_stake st_total_stake_update (nonce, vault_id) amount) (\<lambda>_.
        bindM (checked_sub_mut (cfg_signed c) st_total_current_stake st_total_current_stake_update
          (nonce, vault_id) amount) (\<lambda>_.
        bindM (sub_slash_tally c nonce vault_id nominator_id amount) (\<lambda>_.
        bindM (getM (get_all_reward_currencies c)) (\<lambda>all_reward_currencies.
        bindM (forM all_reward_currencies (sub_reward_tally c nonce vault_id nominator_id amount)) (\<lambda>_.
        staking_deposit_event (WithdrawStake vault_id nominator_id amount))))))))))))"

definition withdraw_reward_at_index ::
  "'l config \<Rightarrow> nonce \<Rightarrow> currency \<Rightarrow> vault_id \<Rightarrow> account \<Rightarrow> (staking, int) prog" where
  "withdraw_reward_at_index c nonce currency_id vault_id nominator_id = (bindM (apply_slash c vault_id nominator_id) (\<lambda>_.
    bindM (queryM (compute_reward_at_index c nonce currency_id vault_id nominator_id)) (\<lambda>reward.
    bindM (ok_orM (fx_checked_from_integer (cfg_signed c) reward)
      (StakingErr staking_error.TryIntoIntError)) (\<lambda>reward_as_fixed.
    bindM (checked_sub_mut (cfg_signed c) st_total_rewards st_total_rewards_update
      (currency_id, nonce, vault_id) reward_as_fixed) (\<lambda>_.
    bindM (getM (\<lambda>s. st_stake s (nonce, vault_id, nominator_id))) (\<lambda>stake.
    bindM (getM (\<lambda>s. st_reward_per_token s (currency_id, nonce, vault_id))) (\<lambda>reward_per_token.
    bindM (ok_orM (fx_checked_mul (cfg_signed c) stake reward_per_token) Overflow_err) (\<lambda>tally.
    bindM (modifyM (st_reward_tally_update (\<lambda>m. m((currency_id, nonce, vault_id, nominator_id) := tally)))) (\<lambda>_.
    bindM (staking_deposit_event (WithdrawReward nonce currency_id vault_id nominator_id reward_as_fixed)) (\<lambda>_.
    retM reward))))))))))"

definition withdraw_reward ::
  "'l config \<Rightarrow> currency \<Rightarrow> vault_id \<Rightarrow> account \<Rightarrow> (staking, int) prog" where
  "withdraw_reward c currency_id vault_id nominator_id = (bindM (getM (\<lambda>s. st_nonce s vault_id)) (\<lambda>nonce.
    withdraw_reward_at_index c nonce currency_id vault_id nominator_id))"

definition increment_nonce :: "vault_id \<Rightarrow> (staking, unit) prog" where
  "increment_nonce vault_id = (bindM (getM (\<lambda>s. st_nonce s vault_id)) (\<lambda>nonce.
    bindM (ok_orM (checked_add_w 32 nonce 1) Overflow_err) (\<lambda>nonce'.
    bindM (modifyM (st_nonce_update (\<lambda>m. m(vault_id := nonce')))) (\<lambda>_.
    staking_deposit_event (IncreaseNonce vault_id nonce')))))"

definition force_refund :: "'l config \<Rightarrow> vault_id \<Rightarrow> (staking, int) prog" where
  "force_refund c vault_id = (bindM (getM (\<lambda>s. st_nonce s vault_id)) (\<lambda>nonce.
    bindM (getM (\<lambda>s. st_total_current_stake s (nonce, vault_id))) (\<lambda>total.
    bindM (queryM (compute_stake_at_index c nonce vault_id (vid_account vault_id))) (\<lambda>stake_inner.
    bindM (ok_orM (fx_checked_from_integer (cfg_signed c) stake_inner)
      (StakingErr staking_error.TryIntoIntError)) (\<lambda>stake.
    bindM (withdraw_stake c vault_id (vid_account vault_id) stake (Some nonce)) (\<lambda>_.
    bindM (increment_nonce vault_id) (\<lambda>_.
    bindM (deposit_stake c vault_id (vid_account vault_id) stake) (\<lambda>_.
    bindM (staking_deposit_event (ForceRefund vault_id)) (\<lambda>_.
    bindM (ok_orM (fx_checked_sub (cfg_signed c) total stake) Underflow_err) (\<lambda>rest.
    ok_orM (truncate_to_inner_signed (cfg_signed c) rest)
      (StakingErr staking_error.TryIntoIntError)))))))))))"

definition add_reward_currency :: "'l config \<Rightarrow> currency \<Rightarrow> (staking, unit) prog" where
  "add_reward_currency c currency_id = (bindM (getM st_reward_currencies) (\<lambda>reward_currencies.
    bindM (ok_orM
      (bounded_set_insert (cfg_staking_max_reward_currencies c) currency_id reward_currencies)
      (StakingErr staking_error.MaxRewardCurrencies)) (\<lambda>reward_currencies'.
    modifyM (\<lambda>s. s\<lparr>st_reward_currencies := reward_currencies'\<rparr>))))"

section \<open>The trait implementation on balances\<close>

definition staking_to_fixed :: "'l config \<Rightarrow> balance \<Rightarrow> (staking, int) prog" where
  "staking_to_fixed c amount =
     ok_orM (to_fixed (cfg_signed c) amount) (StakingErr staking_error.TryIntoIntError)"

definition staking_try_into :: "int \<Rightarrow> balance result" where
  "staking_try_into x =
     (if 0 \<le> x then Inr (nat x) else Inl (StakingErr staking_error.TryIntoIntError))"

definition staking_deposit_stake ::
  "'l config \<Rightarrow> vault_id \<Rightarrow> account \<Rightarrow> balance \<Rightarrow> (staking, unit) prog" where
  "staking_deposit_stake c vault_id nominator_id amount = (bindM (staking_to_fixed c amount) (\<lambda>x.
    deposit_stake c vault_id nominator_id x))"

definition staking_slash_stake :: "'l config \<Rightarrow> vault_id \<Rightarrow> balance \<Rightarrow> (staking, unit) prog" where
  "staking_slash_stake c vault_id amount = (bindM (staking_to_fixed c amount) (\<lambda>x.
    slash_stake c vault_id x))"

definition staking_compute_stake ::
  "'l config \<Rightarrow> vault_id \<Rightarrow> account \<Rightarrow> staking \<Rightarrow> balance result" where
  "staking_compute_stake c vault_id nominator_id s = (bindR (compute_stake c vault_id nominator_id s) (\<lambda>x.
    staking_try_into x))"

definition staking_total_stake :: "'l config \<Rightarrow> vault_id \<Rightarrow> staking \<Rightarrow> balance result" where
  "staking_total_stake c vault_id s = (bindR (total_current_stake c vault_id s) (\<lambda>x.
    staking_try_into x))"

definition staking_distribute_reward ::
  "'l config \<Rightarrow> vault_id \<Rightarrow> balance \<Rightarrow> currency \<Rightarrow> (staking, balance) prog" where
  "staking_distribute_reward c vault_id amount currency_id = (bindM (staking_to_fixed c amount) (\<lambda>x.
    bindM (distribute_reward c currency_id vault_id x) (\<lambda>distributed.
    bindM (ok_orM (truncate_to_inner_signed (cfg_signed c) distributed)
      (StakingErr staking_error.TryIntoIntError)) (\<lambda>inner.
    liftM (staking_try_into inner)))))"

definition staking_compute_reward ::
  "'l config \<Rightarrow> vault_id \<Rightarrow> account \<Rightarrow> currency \<Rightarrow> staking \<Rightarrow> balance result" where
  "staking_compute_reward c vault_id nominator_id currency_id s = (bindR (compute_reward c currency_id vault_id nominator_id s) (\<lambda>x.
    staking_try_into x))"

definition staking_withdraw_stake ::
  "'l config \<Rightarrow> vault_id \<Rightarrow> account \<Rightarrow> balance \<Rightarrow> nonce option \<Rightarrow> (staking, unit) prog" where
  "staking_withdraw_stake c vault_id nominator_id amount index = (bindM (staking_to_fixed c amount) (\<lambda>x.
    withdraw_stake c vault_id nominator_id x index))"

definition staking_withdraw_reward ::
  "'l config \<Rightarrow> vault_id \<Rightarrow> account \<Rightarrow> nonce option \<Rightarrow> currency \<Rightarrow> (staking, balance) prog" where
  "staking_withdraw_reward c vault_id nominator_id index currency_id = (bindM (getM (\<lambda>s. case index of None \<Rightarrow> st_nonce s vault_id | Some i \<Rightarrow> i)) (\<lambda>nonce.
    bindM (withdraw_reward_at_index c nonce currency_id vault_id nominator_id) (\<lambda>x.
    liftM (staking_try_into x))))"

definition staking_force_refund :: "'l config \<Rightarrow> vault_id \<Rightarrow> (staking, balance) prog" where
  "staking_force_refund c vault_id = (bindM (force_refund c vault_id) (\<lambda>x.
    liftM (staking_try_into x)))"

section \<open>Totals\<close>

text \<open>
  The invariant: in every pool of every vault the total stake is the sum of the stakes, and the
  reward currencies are an ordered set within its bound.
\<close>

definition pool_stakes :: "staking \<Rightarrow> nonce \<times> vault_id \<Rightarrow> account \<Rightarrow> int" where
  "pool_stakes s = (\<lambda>(n, v) a. st_stake s (n, v, a))"

definition staking_inv :: "'l config \<Rightarrow> staking \<Rightarrow> bool" where
  "staking_inv c s \<longleftrightarrow>
     totals_ok (st_total_stake s) (pool_stakes s) \<and>
     sorted (st_reward_currencies s) \<and> distinct (st_reward_currencies s) \<and>
     length (st_reward_currencies s) \<le> cfg_staking_max_reward_currencies c"

definition stake_view where
  "stake_view s = (st_stake s, st_total_stake s, st_reward_currencies s)"

lemma staking_inv_view: "stake_view s = stake_view t \<Longrightarrow> staking_inv c s = staking_inv c t"
  by (simp add: stake_view_def staking_inv_def pool_stakes_def)

lemma pool_stakes_upd:
  "pool_stakes (st_stake_update (\<lambda>m. m((n, v, a) := x)) s) =
   (\<lambda>h i. if h = (n, v) \<and> i = a then x else pool_stakes s h i)"
  by (auto simp: pool_stakes_def fun_eq_iff)

lemmas staking_frames = add_slash_tally_def sub_slash_tally_def add_reward_tally_def
  sub_reward_tally_def increase_rewards_def replenish_rewards_def staking_deposit_event_def
  increment_nonce_def stake_view_def

lemma staking_view_frames:
  "frameM stake_view (add_slash_tally c n v a x)" "frameM stake_view (sub_slash_tally c n v a x)"
  "frameM stake_view (add_reward_tally c n v a x k)" "frameM stake_view (sub_reward_tally c n v a x k)"
  "frameM stake_view (increase_rewards c n k v x)" "frameM stake_view (replenish_rewards c n v x k)"
  "frameM stake_view (staking_deposit_event e)" "frameM stake_view (increment_nonce v)"
  unfolding staking_frames by (intro frame_intro; simp add: stake_view_def)+

lemma keeps_view: "frameM stake_view m \<Longrightarrow> keepsOkM (staking_inv c) m"
  by (rule keeps_frame [of stake_view]) (auto dest: staking_inv_view)

lemmas staking_keeps_view = staking_view_frames [THEN keeps_view]

lemma keeps_mut_view:
  "(\<And>f s. stake_view (u f s) = stake_view s) \<Longrightarrow> keepsOkM (staking_inv c) (checked_add_mut fx g u k x)"
  "(\<And>f s. stake_view (u f s) = stake_view s) \<Longrightarrow> keepsOkM (staking_inv c) (checked_sub_mut fx g u k x)"
  by (intro keeps_view frame_intro; simp)+

lemma keeps_pair:
  "keepsOkM P (bindM m (\<lambda>_. n)) \<Longrightarrow> (\<And>y. keepsOkM P (k y)) \<Longrightarrow>
   keepsOkM P (bindM m (\<lambda>_. bindM n k))"
  unfolding keepsOkM_def bindM_ok by metis

lemma keeps_stake_total_add:
  assumes "fixed_point_laws i128_ok (cfg_signed c)"
  shows "keepsOkM (staking_inv c)
    (bindM (checked_add_mut (cfg_signed c) st_stake st_stake_update (n, v, a) x)
      (\<lambda>_. checked_add_mut (cfg_signed c) st_total_stake st_total_stake_update (n, v) x))"
proof (rule keepsOkM_I)
  fix s r t
  assume inv: "staking_inv c s" and run: "bindM (checked_add_mut (cfg_signed c) st_stake st_stake_update (n, v, a) x)
      (\<lambda>_. checked_add_mut (cfg_signed c) st_total_stake st_total_stake_update (n, v) x) s = (Inr r, t)"
  have t: "t = st_total_stake_update (\<lambda>m. m((n, v) := st_total_stake s (n, v) + x))
            (st_stake_update (\<lambda>m. m((n, v, a) := st_stake s (n, v, a) + x)) s)"
    using run by (auto simp: ok_iff fixed_add [OF assms])
  have "pool_stakes t = (\<lambda>h i. if h = (n, v) \<and> i = a then pool_stakes s (n, v) a + x else pool_stakes s h i)"
    by (auto simp: t pool_stakes_def fun_eq_iff)
  then show "staking_inv c t"
    using inv totals_ok_upd [of "st_total_stake s" "pool_stakes s" "(n, v)" x a]
    by (simp add: staking_inv_def t)
qed

lemma keeps_stake_total_sub:
  assumes "fixed_point_laws i128_ok (cfg_signed c)"
  shows "keepsOkM (staking_inv c)
    (bindM (checked_sub_mut (cfg_signed c) st_stake st_stake_update (n, v, a) x)
      (\<lambda>_. checked_sub_mut (cfg_signed c) st_total_stake st_total_stake_update (n, v) x))"
proof (rule keepsOkM_I)
  fix s r t
  assume inv: "staking_inv c s" and run: "bindM (checked_sub_mut (cfg_signed c) st_stake st_stake_update (n, v, a) x)
      (\<lambda>_. checked_sub_mut (cfg_signed c) st_total_stake st_total_stake_update (n, v) x) s = (Inr r, t)"
  have t: "t = st_total_stake_update (\<lambda>m. m((n, v) := st_total_stake s (n, v) - x))
            (st_stake_update (\<lambda>m. m((n, v, a) := st_stake s (n, v, a) - x)) s)"
    using run by (auto simp: ok_iff fixed_sub [OF assms])
  have "pool_stakes t = (\<lambda>h i. if h = (n, v) \<and> i = a then pool_stakes s (n, v) a - x else pool_stakes s h i)"
    by (auto simp: t pool_stakes_def fun_eq_iff)
  then show "staking_inv c t"
    using inv totals_ok_sub [of "st_total_stake s" "pool_stakes s" "(n, v)" x a]
    by (simp add: staking_inv_def t)
qed

text \<open>The effect of settling the pending slash of a nominator.\<close>

lemma apply_slash_ok:
  assumes "fixed_point_laws i128_ok (cfg_signed c)" and "apply_slash c v a s = (Inr stake, t)"
  obtains d m where
    "compute_amount_to_slash c (st_stake s (st_nonce s v, v, a))
       (st_slash_per_token s (st_nonce s v, v)) (st_slash_tally s (st_nonce s v, v, a)) = Inr d"
    and "stake = st_stake s (st_nonce s v, v, a) - d" and "i128_ok stake"
    and "fx_checked_mul (cfg_signed c) stake (st_slash_per_token s (st_nonce s v, v)) = Some m"
    and "t = s\<lparr>st_total_stake := (st_total_stake s)
               ((st_nonce s v, v) := st_total_stake s (st_nonce s v, v) - d),
             st_stake := (st_stake s)((st_nonce s v, v, a) := stake),
             st_slash_tally := (st_slash_tally s)((st_nonce s v, v, a) := m)\<rparr>"
  using assms(2) by (auto simp: apply_slash_def ok_iff fixed_sub [OF assms(1)] intro!: that)

lemma apply_slash_keeps:
  assumes "fixed_point_laws i128_ok (cfg_signed c)"
  shows "keepsOkM (staking_inv c) (apply_slash c v a)"
proof (rule keepsOkM_I)
  fix s stake t
  assume inv: "staking_inv c s" and run: "apply_slash c v a s = (Inr stake, t)"
  obtain d m where d: "stake = st_stake s (st_nonce s v, v, a) - d"
    and t: "t = s\<lparr>st_total_stake := (st_total_stake s)
               ((st_nonce s v, v) := st_total_stake s (st_nonce s v, v) - d),
             st_stake := (st_stake s)((st_nonce s v, v, a) := stake),
             st_slash_tally := (st_slash_tally s)((st_nonce s v, v, a) := m)\<rparr>"
    using apply_slash_ok [OF assms run] by metis
  have "pool_stakes t = (\<lambda>h i. if h = (st_nonce s v, v) \<and> i = a
      then pool_stakes s (st_nonce s v, v) a - d else pool_stakes s h i)"
    by (auto simp: t d pool_stakes_def fun_eq_iff)
  then show "staking_inv c t"
    using inv totals_ok_sub [of "st_total_stake s" "pool_stakes s" "(st_nonce s v, v)" d a]
    by (simp add: staking_inv_def t)
qed

lemma staking_ops_keep:
  assumes laws: "fixed_point_laws i128_ok (cfg_signed c)"
  shows "keepsOkM (staking_inv c) (deposit_stake c v a x)"
    and "keepsOkM (staking_inv c) (slash_stake c v x)"
    and "keepsOkM (staking_inv c) (distribute_reward c k v x)"
    and "keepsOkM (staking_inv c) (withdraw_stake c v a x index)"
    and "keepsOkM (staking_inv c) (withdraw_reward_at_index c n k v a)"
  unfolding deposit_stake_def slash_stake_def distribute_reward_def withdraw_stake_def
    withdraw_reward_at_index_def
  by (intro keeps_pair [OF keeps_stake_total_add [OF laws]] keeps_pair [OF keeps_stake_total_sub [OF laws]]
        apply_slash_keeps [OF laws] staking_keeps_view keeps_intro keeps_mut_view keeps_modify;
      simp add: stake_view_def staking_inv_def pool_stakes_def)+

lemma force_refund_keeps:
  assumes laws: "fixed_point_laws i128_ok (cfg_signed c)"
  shows "keepsOkM (staking_inv c) (force_refund c v)"
  unfolding force_refund_def
  by (intro staking_ops_keep [OF laws] staking_keeps_view keeps_intro)

lemma add_reward_currency_keeps: "keepsOkM (staking_inv c) (add_reward_currency c k)"
  by (rule keepsOkM_I)
     (auto simp: add_reward_currency_def ok_iff staking_inv_def pool_stakes_def
       dest!: bounded_set_insert_Some)

section \<open>Steps of the pallet\<close>

inductive staking_step :: "'l config \<Rightarrow> staking \<Rightarrow> staking \<Rightarrow> bool" for c where
  stk_deposit: "staking_deposit_stake c v a n s = (Inr r, t) \<Longrightarrow> staking_step c s t"
| stk_slash: "staking_slash_stake c v n s = (Inr r, t) \<Longrightarrow> staking_step c s t"
| stk_distribute: "staking_distribute_reward c v n k s = (Inr b, t) \<Longrightarrow> staking_step c s t"
| stk_withdraw: "staking_withdraw_stake c v a n index s = (Inr r, t) \<Longrightarrow> staking_step c s t"
| stk_reward: "staking_withdraw_reward c v a index k s = (Inr b, t) \<Longrightarrow> staking_step c s t"
| stk_refund: "staking_force_refund c v s = (Inr b, t) \<Longrightarrow> staking_step c s t"
| stk_currency: "add_reward_currency c k s = (Inr r, t) \<Longrightarrow> staking_step c s t"

lemmas staking_api_defs = staking_deposit_stake_def staking_slash_stake_def
  staking_distribute_reward_def staking_withdraw_stake_def staking_withdraw_reward_def
  staking_force_refund_def staking_to_fixed_def

lemma staking_api_keeps:
  assumes laws: "fixed_point_laws i128_ok (cfg_signed c)"
  shows "keepsOkM (staking_inv c) (staking_deposit_stake c v a n)"
    and "keepsOkM (staking_inv c) (staking_slash_stake c v n)"
    and "keepsOkM (staking_inv c) (staking_distribute_reward c v n k)"
    and "keepsOkM (staking_inv c) (staking_withdraw_stake c v a n index)"
    and "keepsOkM (staking_inv c) (staking_withdraw_reward c v a index k)"
    and "keepsOkM (staking_inv c) (staking_force_refund c v)"
  unfolding staking_api_defs
  by (intro staking_ops_keep [OF laws] force_refund_keeps [OF laws] keeps_intro)+

lemma staking_step_keeps:
  assumes "fixed_point_laws i128_ok (cfg_signed c)" and "staking_step c s t" and "staking_inv c s"
  shows "staking_inv c t"
  using assms(2,3)
  by (cases rule: staking_step.cases)
     (blast dest: keepsOkM_D [OF staking_api_keeps(1) [OF assms(1)]]
       keepsOkM_D [OF staking_api_keeps(2) [OF assms(1)]] keepsOkM_D [OF staking_api_keeps(3) [OF assms(1)]]
       keepsOkM_D [OF staking_api_keeps(4) [OF assms(1)]] keepsOkM_D [OF staking_api_keeps(5) [OF assms(1)]]
       keepsOkM_D [OF staking_api_keeps(6) [OF assms(1)]] keepsOkM_D [OF add_reward_currency_keeps])+

definition staking_genesis :: staking where
  "staking_genesis = \<lparr>st_total_stake = (\<lambda>_. 0), st_total_current_stake = (\<lambda>_. 0),
     st_total_rewards = (\<lambda>_. 0), st_reward_per_token = (\<lambda>_. 0), st_slash_per_token = (\<lambda>_. 0),
     st_stake = (\<lambda>_. 0), st_reward_tally = (\<lambda>_. 0), st_slash_tally = (\<lambda>_. 0),
     st_nonce = (\<lambda>_. 0), st_reward_currencies = [], st_events = []\<rparr>"

lemma staking_genesis_inv: "staking_inv c staking_genesis"
  by (simp add: staking_inv_def staking_genesis_def totals_ok_def pool_stakes_def)

text \<open>
  C23: whatever sequence of deposits, withdrawals, slashes, reward distributions, reward
  withdrawals and forced refunds the pallet executes from its empty storage, in every pool of every vault the
  recorded total stake is the sum of the nominators' recorded stakes, and the reward currencies
  form an ordered set within the configured bound.
\<close>

theorem staking_totals:
  assumes "fixed_point_laws i128_ok (cfg_signed c)" and "(staking_step c)\<^sup>*\<^sup>* staking_genesis s"
  shows "staking_inv c s"
  using assms(2)
  by (induction rule: rtranclp_induct) (auto intro: staking_genesis_inv staking_step_keeps [OF assms(1)])

section \<open>Rewards are paid once\<close>

lemma compute_reward_settled:
  assumes laws: "fixed_point_laws i128_ok fx"
    and k: "0 \<le> k" "k * fx_accuracy fx \<le> stake"
    and tally: "fx_checked_mul fx stake rpt = Some tally" and rpt: "0 \<le> rpt"
    and x: "fx_checked_mul fx (k * fx_accuracy fx) rpt = Some x"
  shows "x = k * rpt" and "x \<le> tally" and "0 \<le> tally"
proof -
  let ?acc = "fx_accuracy fx"
  have acc: "0 < ?acc" by (rule fixed_accuracy_pos [OF laws])
  show x': "x = k * rpt" by (rule fixed_mul_integral [OF laws x])
  have "\<bar>tally * ?acc - stake * rpt\<bar> < ?acc" by (rule fixed_mul [OF laws tally])
  moreover have "k * ?acc * rpt \<le> stake * rpt" using k rpt by (intro mult_right_mono)
  ultimately have "(k * rpt - tally) * ?acc < 1 * ?acc" by (simp add: algebra_simps)
  then have "k * rpt - tally < 1" using acc by (simp only: mult_less_cancel_right)
  with x' show "x \<le> tally" by simp
  have "0 \<le> k * rpt" using k(1) rpt by simp
  with x' \<open>x \<le> tally\<close> show "0 \<le> tally" by simp
qed

lemma trunc_div_nonpos: "x \<le> 0 \<Longrightarrow> 0 < b \<Longrightarrow> trunc_div x b \<le> 0"
  by (auto simp: trunc_div_def pos_imp_zdiv_nonneg_iff)

lemma trunc_stake_le:
  fixes stake :: int
  assumes "0 \<le> stake" and "0 < b"
  shows "trunc_div stake b * b \<le> stake"
proof -
  have "stake div b * b + stake mod b = stake" "0 \<le> stake mod b"
    using assms by simp_all
  then have "stake div b * b \<le> stake" by linarith
  then show ?thesis using trunc_div_nonneg [OF assms] by simp
qed

lemma i128_ok_diff: "i128_ok x \<Longrightarrow> i128_ok y \<Longrightarrow> 0 \<le> x \<Longrightarrow> 0 \<le> y \<Longrightarrow> i128_ok (x - y)"
  by (auto simp: i128_ok_def)

lemma no_pending_slash:
  assumes laws: "fixed_point_laws i128_ok fx" and "cfg_signed c = fx"
    and "fx_checked_mul fx stake spt = Some tally"
  shows "compute_amount_to_slash c stake spt tally = Inr 0"
  using assms by (simp add: compute_amount_to_slash_def fixed_sub [OF laws] ok_iff i128_ok_def)

lemma compute_stake_settled:
  assumes laws: "fixed_point_laws i128_ok (cfg_signed c)"
    and tally: "fx_checked_mul (cfg_signed c) (st_stake s (n, v, a)) (st_slash_per_token s (n, v))
      = Some (st_slash_tally s (n, v, a))"
    and stake: "0 \<le> st_stake s (n, v, a)" "i128_ok (st_stake s (n, v, a))"
  shows "compute_stake_at_index c n v a s =
    Inr (st_stake s (n, v, a) div fx_accuracy (cfg_signed c))"
  using no_pending_slash [OF laws refl tally] stake fixed_accuracy_pos [OF laws]
  by (simp add: compute_stake_at_index_def Let_def fixed_sub [OF laws] ok_iff bindR_def ok_orR_def
      truncate_to_inner_signed_nonneg [OF laws] pos_imp_zdiv_nonneg_iff
      fixed_sub [OF laws, THEN iffD2, OF conjI])

text \<open>
  C28: withdrawing a nominator's reward from the current pool of a vault leaves nothing to
  withdraw: the reward computed from the resulting storage is zero, so a second withdrawal pays
  nothing until more reward is distributed.
\<close>

theorem reward_paid_once:
  assumes laws: "fixed_point_laws i128_ok (cfg_signed c)"
    and run: "withdraw_reward c k v a s = (Inr r, t)"
    and stake: "0 \<le> st_stake t (st_nonce t v, v, a)"
    and rpt: "0 \<le> st_reward_per_token t (k, st_nonce t v, v)"
  shows "compute_reward c k v a t = Inr 0"
proof -
  let ?n = "st_nonce s v" and ?fx = "cfg_signed c"
  obtain s1 stake1 rf m where slash: "apply_slash c v a s = (Inr stake1, s1)"
    and reward: "compute_reward_at_index c ?n k v a s1 = Inr r"
    and tally: "fx_checked_mul ?fx (st_stake s1 (?n, v, a)) (st_reward_per_token s1 (k, ?n, v)) = Some m"
    and t: "t = (st_reward_tally_update (\<lambda>f. f((k, ?n, v, a) := m))
        (st_total_rewards_update (\<lambda>f. f((k, ?n, v) := rf)) s1))
        \<lparr>st_events := WithdrawReward ?n k v a (r * fx_accuracy ?fx) # st_events s1\<rparr>"
    using run by (auto simp: withdraw_reward_def withdraw_reward_at_index_def staking_deposit_event_def
        ok_iff dest!: fixed_from_integer [OF laws])
  obtain d m1 where s1: "stake1 = st_stake s (?n, v, a) - d" "i128_ok stake1"
    "fx_checked_mul ?fx stake1 (st_slash_per_token s (?n, v)) = Some m1"
    "s1 = s\<lparr>st_total_stake := (st_total_stake s)((?n, v) := st_total_stake s (?n, v) - d),
       st_stake := (st_stake s)((?n, v, a) := stake1),
       st_slash_tally := (st_slash_tally s)((?n, v, a) := m1)\<rparr>"
    using apply_slash_ok [OF laws slash] by metis
  have n: "st_nonce t v = ?n" by (simp add: t s1)
  have nn: "0 \<le> stake1" using stake by (simp add: t s1)
  define j where "j = stake1 div fx_accuracy ?fx"
  have st: "compute_stake_at_index c ?n v a u = Inr j" if "u = s1 \<or> u = t" for u
    using that compute_stake_settled [OF laws, of u ?n v a] s1 nn by (auto simp: t j_def)
  obtain x y where x: "fx_checked_from_integer ?fx j = Some (j * fx_accuracy ?fx)"
    and y: "fx_checked_mul ?fx (j * fx_accuracy ?fx) (st_reward_per_token s (k, ?n, v)) = Some y"
    using reward st [of s1] by (auto simp: compute_reward_at_index_def ok_iff s1 Let_def
        dest: fixed_from_integer [OF laws])
  have j: "0 \<le> j" "j * fx_accuracy ?fx \<le> stake1"
    using nn fixed_accuracy_pos [OF laws] trunc_stake_le [of stake1] trunc_div_nonneg [of stake1]
    by (simp_all add: j_def pos_imp_zdiv_nonneg_iff)
  have m: "fx_checked_mul ?fx stake1 (st_reward_per_token s (k, ?n, v)) = Some m" "0 \<le> st_reward_per_token s (k, ?n, v)"
    using tally rpt by (simp_all add: s1 t)
  note le = compute_reward_settled [OF laws j m y]
  have "0 \<le> y" using le(1) j(1) m(2) by simp
  then have "fx_checked_sub ?fx y m = Some (y - m)"
    using i128_ok_diff [OF fixed_mul_range [OF laws y] fixed_mul_range [OF laws m(1)]] le
    by (simp add: fixed_sub [OF laws])
  then show ?thesis
    using st [of t] x y le fixed_accuracy_pos [OF laws] trunc_div_nonpos [of "y - m"]
    by (simp add: compute_reward_def compute_reward_at_index_def n t s1 truncate_to_inner_signed_def)
qed

section \<open>Slashing\<close>

lemma frame_stake_of_loop:
  "frameM (\<lambda>s. (st_stake s, st_slash_tally s, st_slash_per_token s, st_total_current_stake s, st_nonce s))
     (replenish_rewards c n v x k)"
  unfolding replenish_rewards_def increase_rewards_def by (intro frame_intro; simp)

text \<open>
  C25: slashing an amount from a vault's pool takes it off the pool's current stake and
  raises what is due from each nominator in proportion to the nominator's share of the total
  stake, up to a rounding error of at most two units in the last place plus one per whole token
  of stake; the recorded stakes themselves change only when a slash is settled.
\<close>

theorem slash_is_proportional:
  assumes laws: "fixed_point_laws i128_ok (cfg_signed c)"
    and run: "slash_stake c v x s = (Inr r, t)"
    and tot: "0 < st_total_stake s (st_nonce s v, v)" and stake: "0 \<le> st_stake s (st_nonce s v, v, a)"
    and before: "compute_amount_to_slash c (st_stake s (st_nonce s v, v, a))
      (st_slash_per_token s (st_nonce s v, v)) (st_slash_tally s (st_nonce s v, v, a)) = Inr d"
    and after: "compute_amount_to_slash c (st_stake t (st_nonce s v, v, a))
      (st_slash_per_token t (st_nonce s v, v)) (st_slash_tally t (st_nonce s v, v, a)) = Inr d'"
  shows "st_stake t = st_stake s \<and>
    st_total_current_stake t (st_nonce s v, v) = st_total_current_stake s (st_nonce s v, v) - x \<and>
    fx_accuracy (cfg_signed c) *
      \<bar>st_total_stake s (st_nonce s v, v) * (d' - d) - st_stake s (st_nonce s v, v, a) * x\<bar>
      \<le> st_total_stake s (st_nonce s v, v) *
        (2 * fx_accuracy (cfg_signed c) + st_stake s (st_nonce s v, v, a))"
proof (cases "x = 0")
  case True
  then have "t = s" using run by (simp add: slash_stake_def ok_iff)
  then show ?thesis
    using True before after tot stake fixed_accuracy_pos [OF laws] by simp
next
  case False
  let ?n = "st_nonce s v" and ?fx = "cfg_signed c"
  let ?S = "st_stake s (?n, v, a)" and ?P = "st_slash_per_token s (?n, v)"
  obtain q y u where q: "fx_checked_div ?fx x (st_total_stake s (?n, v)) = Some q"
    and u: "u = st_total_current_stake_update (\<lambda>m. m((?n, v) := st_total_current_stake s (?n, v) - x))
      (st_slash_per_token_update (\<lambda>m. m((?n, v) := ?P + q)) s)"
    and loop: "forM (get_all_reward_currencies c u) (replenish_rewards c ?n v x) u = (Inr r, t)"
    using run False tot by (auto simp: slash_stake_def ok_iff fixed_add [OF laws] fixed_sub [OF laws])
  have same: "st_stake t = st_stake s" "st_slash_tally t = st_slash_tally s"
    "st_slash_per_token t (?n, v) = ?P + q"
    "st_total_current_stake t (?n, v) = st_total_current_stake s (?n, v) - x"
    using frameM_D [OF frame_for [OF frame_stake_of_loop] loop] by (simp_all add: u)
  obtain m m' where m: "fx_checked_mul ?fx ?S ?P = Some m" "fx_checked_mul ?fx ?S (?P + q) = Some m'"
    and "d = m - st_slash_tally s (?n, v, a)" "d' = m' - st_slash_tally s (?n, v, a)"
    using before after by (auto simp: compute_amount_to_slash_def ok_iff same fixed_sub [OF laws])
  then have "d' - d = m' - m" by simp
  moreover have "\<bar>q * st_total_stake s (?n, v) - x * fx_accuracy ?fx\<bar> < st_total_stake s (?n, v)"
    using fixed_div [OF laws q] tot by simp
  ultimately show ?thesis
    using proportional_error [OF _ fixed_mul [OF laws m(1)] fixed_mul [OF laws m(2)] stake tot] same
    by simp
qed

section \<open>Forced refunds\<close>

definition account_view :: "vault_id \<Rightarrow> account \<Rightarrow> staking \<Rightarrow> (nonce \<Rightarrow> int) \<times> (nonce \<Rightarrow> int)" where
  "account_view v a s = ((\<lambda>n. st_stake s (n, v, a)), (\<lambda>n. st_slash_tally s (n, v, a)))"

lemmas staking_code = apply_slash_def add_slash_tally_def sub_slash_tally_def add_reward_tally_def
  sub_reward_tally_def staking_deposit_event_def

lemma account_view_frames:
  assumes "a \<noteq> b"
  shows "frameM (account_view v a) (withdraw_stake c v b x index)"
    and "frameM (account_view v a) (deposit_stake c v b x)"
    and "frameM (account_view v a) (increment_nonce v)"
    and "frameM (account_view v a) (staking_deposit_event e)"
  unfolding withdraw_stake_def deposit_stake_def increment_nonce_def staking_code
  using assms by (intro frame_intro; simp add: account_view_def)+

lemma nonce_frames:
  "frameM st_nonce (withdraw_stake c v b x index)" "frameM st_nonce (deposit_stake c v b x)"
  "frameM st_nonce (staking_deposit_event e)"
  unfolding withdraw_stake_def deposit_stake_def staking_code by (intro frame_intro; simp)+

lemma force_refund_ok:
  assumes "force_refund c v s = (Inr r, t)"
  obtains stake s1 s2 s3 where
    "withdraw_stake c v (vid_account v) stake (Some (st_nonce s v)) s = (Inr (), s1)"
    and "increment_nonce v s1 = (Inr (), s2)"
    and "deposit_stake c v (vid_account v) stake s2 = (Inr (), s3)"
    and "staking_deposit_event (ForceRefund v) s3 = (Inr (), t)"
  using assms by (auto simp: force_refund_def ok_iff intro!: that)

lemma increment_nonce_ok:
  "increment_nonce v s = (Inr r, t) \<Longrightarrow> st_nonce t = (st_nonce s)(v := st_nonce s v + 1)"
  by (auto simp: increment_nonce_def staking_deposit_event_def ok_iff)

lemma deposit_stake_total_ok:
  assumes laws: "fixed_point_laws i128_ok (cfg_signed c)" and run: "deposit_stake c v b x s = (Inr r, t)"
  shows "i128_ok (st_total_stake t (st_nonce s v, v))"
proof -
  obtain u p w z where run': "checked_add_mut (cfg_signed c) st_total_stake st_total_stake_update
        (st_nonce s v, v) x u = (Inr p, w)"
    and rest: "(bindM (checked_add_mut (cfg_signed c) st_total_current_stake st_total_current_stake_update
        (st_nonce s v, v) x) (\<lambda>_. bindM (add_slash_tally c (st_nonce s v) v b x) (\<lambda>_.
        bindM (getM (get_all_reward_currencies c)) (\<lambda>ks.
        bindM (forM ks (add_reward_tally c (st_nonce s v) v b x)) (\<lambda>_.
        staking_deposit_event (DepositStake v b x)))))) w = (Inr r, t)"
    using run by (auto simp: deposit_stake_def bindM_ok getM_ok)
  have "frameM st_total_stake (bindM (checked_add_mut (cfg_signed c) st_total_current_stake
      st_total_current_stake_update (st_nonce s v, v) x) (\<lambda>_. bindM (add_slash_tally c (st_nonce s v) v b x) (\<lambda>_.
        bindM (getM (get_all_reward_currencies c)) (\<lambda>ks.
        bindM (forM ks (add_reward_tally c (st_nonce s v) v b x)) (\<lambda>_.
        staking_deposit_event (DepositStake v b x))))))"
    unfolding staking_code by (intro frame_intro; simp)
  from frameM_D [OF this rest] run' show ?thesis
    by (auto simp: ok_iff fixed_add [OF laws])
qed

lemma withdraw_without_current_stake:
  assumes laws: "fixed_point_laws i128_ok (cfg_signed c)"
    and "st_stake s (st_nonce s v, v, a) = 0" and "st_slash_tally s (st_nonce s v, v, a) = 0"
    and "i128_ok (st_total_stake s (st_nonce s v, v))" and "0 < x"
  shows "fst (withdraw_stake c v a x index s) = Inl (StakingErr staking_error.InsufficientFunds)"
proof -
  have "fx_checked_sub (cfg_signed c) 0 0 = Some 0"
    and "fx_checked_sub (cfg_signed c) (st_total_stake s (st_nonce s v, v)) 0
      = Some (st_total_stake s (st_nonce s v, v))"
    using assms(4) by (simp_all add: fixed_sub [OF laws] i128_ok_def)
  then show ?thesis
    using assms(2,3,5) fixed_mul_zero [OF laws]
    by (simp add: withdraw_stake_def apply_slash_def compute_amount_to_slash_def checked_sub_mut_def
        run_defs)
qed

text \<open>
  C37: after a forced refund of a vault's nominators, the stake of a nominator stays recorded
  in the old pool, but every attempt to withdraw any of it by naming the old pool fails for lack
  of funds, because the amount is compared with the stake in the current pool, where the
  nominator has none.
\<close>

theorem stale_pool_locked:
  assumes laws: "fixed_point_laws i128_ok (cfg_signed c)"
    and run: "force_refund c v s = (Inr r, t)" and a: "a \<noteq> vid_account v"
    and fresh: "st_stake s (st_nonce s v + 1, v, a) = 0" "st_slash_tally s (st_nonce s v + 1, v, a) = 0"
    and x: "0 < x"
  shows "st_nonce t v = st_nonce s v + 1 \<and>
    st_stake t (st_nonce s v, v, a) = st_stake s (st_nonce s v, v, a) \<and>
    fst (withdraw_stake c v a x (Some (st_nonce s v)) t) = Inl (StakingErr staking_error.InsufficientFunds)"
proof -
  obtain stake s1 s2 s3 where
    steps: "withdraw_stake c v (vid_account v) stake (Some (st_nonce s v)) s = (Inr (), s1)"
      "increment_nonce v s1 = (Inr (), s2)" "deposit_stake c v (vid_account v) stake s2 = (Inr (), s3)"
      "staking_deposit_event (ForceRefund v) s3 = (Inr (), t)"
    using force_refund_ok [OF run] by metis
  have view: "account_view v a t = account_view v a s"
    using steps account_view_frames [OF a] by (metis frameM_D)
  have n: "st_nonce t v = st_nonce s v + 1" "st_nonce s2 v = st_nonce t v"
    using steps nonce_frames increment_nonce_ok [OF steps(2)] by (metis frameM_D fun_upd_same)+
  have "st_stake t (m, v, a) = st_stake s (m, v, a)" "st_slash_tally t (m, v, a) = st_slash_tally s (m, v, a)" for m
    using view by (auto simp: account_view_def fun_eq_iff)
  moreover have "i128_ok (st_total_stake t (st_nonce t v, v))"
    using deposit_stake_total_ok [OF laws steps(3)] steps(4) n
    by (auto simp: staking_deposit_event_def ok_iff)
  ultimately show ?thesis
    using withdraw_without_current_stake [OF laws, of t v a x] n fresh x by simp
qed

section \<open>A sample pool\<close>

lemmas staking_run = deposit_stake_def withdraw_stake_def force_refund_def increment_nonce_def
  slash_stake_def replenish_rewards_def increase_rewards_def withdraw_reward_def
  withdraw_reward_at_index_def compute_reward_at_index_def
  staking_code compute_amount_to_slash_def compute_stake_at_index_def
  checked_add_mut_def checked_sub_mut_def get_all_reward_currencies_def
  truncate_to_inner_signed_def checked_add_w_def

definition sample_pool :: staking where
  "sample_pool = staking_genesis\<lparr>
     st_stake := (\<lambda>_. 0)((0, sample_vault, 1) := 1000, (0, sample_vault, 2) := 500),
     st_total_stake := (\<lambda>_. 0)((0, sample_vault) := 1500),
     st_total_current_stake := (\<lambda>_. 0)((0, sample_vault) := 1500),
     st_total_rewards := (\<lambda>_. 0)((Native, 0, sample_vault) := 3000),
     st_reward_per_token := (\<lambda>_. 0)((Native, 0, sample_vault) := 200)\<rparr>"

lemmas sample_pool_run = sample_defs staking_run sample_pool_def staking_genesis_def

theorem staking_totals_witness:
  "st_total_stake (snd (staking_deposit_stake sample_config sample_vault 7 3 staking_genesis)) (0, sample_vault) =
   support_sum (pool_stakes (snd (staking_deposit_stake sample_config sample_vault 7 3 staking_genesis)) (0, sample_vault))"
proof -
  have "fst (staking_deposit_stake sample_config sample_vault 7 3 staking_genesis) = Inr ()"
    by (simp cong: bindM_weak_cong bindR_weak_cong add: sample_pool_run staking_deposit_stake_def staking_to_fixed_def to_fixed_def)
  then have "staking_step sample_config staking_genesis
      (snd (staking_deposit_stake sample_config sample_vault 7 3 staking_genesis))"
    by (rule stk_deposit [OF run_pair])
  then show ?thesis
    using staking_totals [OF sample_laws(1) r_into_rtranclp] by (simp add: staking_inv_def totals_ok_def)
qed

theorem reward_paid_once_witness:
  "fst (withdraw_reward sample_config Native sample_vault 2 sample_pool) = Inr 10 \<and>
   compute_reward sample_config Native sample_vault 2
     (snd (withdraw_reward sample_config Native sample_vault 2 sample_pool)) = Inr 0"
proof -
  have run: "fst (withdraw_reward sample_config Native sample_vault 2 sample_pool) = Inr 10"
    by (simp cong: bindM_weak_cong bindR_weak_cong add: sample_pool_run)
  then show ?thesis
    using reward_paid_once [OF sample_laws(1) run_pair [OF run]] by (simp cong: bindM_weak_cong bindR_weak_cong add: sample_pool_run)
qed

theorem slash_is_proportional_witness:
  "st_total_current_stake (snd (slash_stake sample_config sample_vault 300 sample_pool)) (0, sample_vault)
   = 1200"
proof -
  have run: "fst (slash_stake sample_config sample_vault 300 sample_pool) = Inr ()"
    by (simp cong: bindM_weak_cong bindR_weak_cong add: sample_pool_run)
  show ?thesis
    using slash_is_proportional [OF sample_laws(1) run_pair [OF run], of 2 0 100]
    by (simp cong: bindM_weak_cong bindR_weak_cong add: sample_pool_run)
qed

theorem stale_pool_locked_witness:
  "fst (withdraw_stake sample_config sample_vault 2 100 (Some 0)
     (snd (force_refund sample_config sample_vault sample_pool)))
   = Inl (StakingErr staking_error.InsufficientFunds)"
proof -
  have run: "fst (force_refund sample_config sample_vault sample_pool) = Inr 5"
    by (simp cong: bindM_weak_cong bindR_weak_cong add: sample_pool_run)
  have "st_nonce sample_pool sample_vault = 0" "(2::nat) \<noteq> vid_account sample_vault"
    "st_stake sample_pool (1, sample_vault, 2) = 0" "st_slash_tally sample_pool (1, sample_vault, 2) = 0"
    by (simp_all add: sample_pool_def staking_genesis_def)
  then show ?thesis
    using stale_pool_locked [OF sample_laws(1) run_pair [OF run], of 2 100] by simp
qed

end
