(* ===== verification/Stellar_Relay.thy ===== *)
theory Stellar_Relay
  imports Sample_Runtime
begin

text \<open>
  The Stellar relay pallet, \<^verbatim>\<open>pallets/stellar-relay/src\<close>: the validators and organisations of the
  Stellar network the chain trusts, and the check that a transaction was externalised by a quorum
  of them.
\<close>

record validator =
  val_name :: "byte list"
  val_public_key :: "byte list"
  val_organization_id :: nat

record organization =
  org_id :: nat
  org_name :: "byte list"

datatype relay_event = UpdateTier1ValidatorSet block_number

record relay =
  rl_organizations :: "organization list"
  rl_validators :: "validator list"
  rl_old_organizations :: "organization list"
  rl_old_validators :: "validator list"
  rl_enactment_block_height :: block_number
  rl_events :: "relay_event list"

text \<open>The fields of a validator and of an organisation hold at most 128 bytes.\<close>

definition FieldLength :: nat where "FieldLength = 128"

definition create_bounded_vec :: "string \<Rightarrow> byte list result" where
  "create_bounded_vec input =
     (if length input \<le> FieldLength then Inr (ascii_bytes input) else Inl Panic)"

definition relay_genesis ::
  "'l config \<Rightarrow> validator list \<Rightarrow> organization list \<Rightarrow> validator list \<Rightarrow> organization list \<Rightarrow>
   block_number \<Rightarrow> relay result" where
  "relay_genesis c old_validators old_organizations validators organizations enactment_block_height = (bindR (ensureR (length old_validators \<le> cfg_validator_limit c) Panic) (\<lambda>_.
    bindR (ensureR (length validators \<le> cfg_validator_limit c) Panic) (\<lambda>_.
    bindR (ensureR (length old_organizations \<le> cfg_organization_limit c) Panic) (\<lambda>_.
    bindR (ensureR (length organizations \<le> cfg_organization_limit c) Panic) (\<lambda>_.
    Inr \<lparr>rl_organizations = organizations, rl_validators = validators,
      rl_old_organizations = old_organizations, rl_old_validators = old_validators,
      rl_enactment_block_height = enactment_block_height, rl_events = []\<rparr>)))))"

section \<open>Updating the validators\<close>

text \<open>
  A \<^verbatim>\<open>BTreeMap\<close> from keys to counters, as an association list: the code only inserts, looks up and
  counts, which does not depend on the order.
\<close>

fun count_entry :: "'k \<Rightarrow> ('k \<times> nat) list \<Rightarrow> ('k \<times> nat) list" where
  "count_entry k [] = [(k, 1)]"
| "count_entry k ((k', n) # m) = (if k' = k then (k', n + 1) # m else (k', n) # count_entry k m)"

definition count_keys :: "'k list \<Rightarrow> ('k \<times> nat) list" where
  "count_keys ks = fold count_entry ks []"

definition update_tier_1_validator_set_internal ::
  "'l config \<Rightarrow> validator list \<Rightarrow> organization list \<Rightarrow> block_number \<Rightarrow> (relay, unit) prog" where
  "update_tier_1_validator_set_internal c validators organizations enactment_block_height = (bindM (ensureM (length validators mod 2 ^ 32 \<le> cfg_validator_limit c) (StellarRelayErr ValidatorLimitExceeded)) (\<lambda>_.
    bindM (ensureM (length organizations mod 2 ^ 32 \<le> cfg_organization_limit c)
      (StellarRelayErr OrganizationLimitExceeded)) (\<lambda>_.
    let organization_id_set = count_keys (map org_id organizations) in
    bindM (ensureM (length organizations = length organization_id_set) (StellarRelayErr DuplicateOrganizationId)) (\<lambda>_.
    let validators_public_key_set = count_keys (map val_public_key validators) in
    bindM (ensureM (length validators = length validators_public_key_set)
      (StellarRelayErr DuplicateValidatorPublicKey)) (\<lambda>_.
    bindM (getM rl_validators) (\<lambda>current_validators.
    bindM (getM rl_organizations) (\<lambda>current_organizations.
    bindM (ensureM (length validators \<le> cfg_validator_limit c) (StellarRelayErr BoundedVecCreationFailed)) (\<lambda>_.
    bindM (ensureM (length organizations \<le> cfg_organization_limit c) (StellarRelayErr BoundedVecCreationFailed)) (\<lambda>_.
    bindM (modifyM (\<lambda>s. s\<lparr>rl_enactment_block_height := enactment_block_height\<rparr>)) (\<lambda>_.
    bindM (whenM (organizations \<noteq> current_organizations \<or> validators \<noteq> current_validators)
      (modifyM (\<lambda>s. s\<lparr>rl_old_validators := current_validators,
         rl_old_organizations := current_organizations, rl_validators := validators,
         rl_organizations := organizations\<rparr>))) (\<lambda>_.
    modifyM (\<lambda>s. s\<lparr>rl_events := UpdateTier1ValidatorSet enactment_block_height # rl_events s\<rparr>))))))))))))"

definition update_tier_1_validator_set ::
  "'l config \<Rightarrow> origin \<Rightarrow> validator list \<Rightarrow> organization list \<Rightarrow> block_number \<Rightarrow> (relay, unit) prog" where
  "update_tier_1_validator_set c origin validators organizations enactment_block_height =
     transactionalM (bindM (liftM (ensure_root origin)) (\<lambda>_.
       update_tier_1_validator_set_internal c validators organizations enactment_block_height))"

section \<open>Decoding and memos\<close>

definition construct_from_raw_encoded_xdr ::
  "'l config \<Rightarrow> (byte list \<Rightarrow> 'v option) \<Rightarrow> byte list \<Rightarrow> 'v result" where
  "construct_from_raw_encoded_xdr c from_xdr raw_encoded_xdr = (bindR (ok_orR (rel_base64_decode (cfg_relay c) raw_encoded_xdr) (StellarRelayErr Base64DecodeError)) (\<lambda>value_xdr.
    ok_orR (from_xdr value_xdr) (StellarRelayErr InvalidXDR)))"

definition ensure_transaction_memo_matches :: "transaction_envelope \<Rightarrow> byte list \<Rightarrow> unit result" where
  "ensure_transaction_memo_matches transaction_envelope expected_memo =
     (case get_text_memo_from_tx_env transaction_envelope of
        Some included_memo \<Rightarrow>
          ensureR (included_memo = expected_memo) (StellarRelayErr TransactionMemoDoesNotMatch)
      | None \<Rightarrow> Inl (StellarRelayErr TransactionMemoDoesNotMatch))"

definition ensure_transaction_memo_matches_hash ::
  "'l config \<Rightarrow> transaction_envelope \<Rightarrow> byte list \<Rightarrow> unit result" where
  "ensure_transaction_memo_matches_hash c transaction_envelope expected_hash = (bindR (derive_shortened_request_id (cfg_to_base58 c) expected_hash) (\<lambda>expected_memo.
    ensure_transaction_memo_matches transaction_envelope expected_memo))"

definition get_tx_set_hash :: "'l config \<Rightarrow> byte list \<Rightarrow> byte list result" where
  "get_tx_set_hash c scp_value =
     ok_orR (rel_stellar_value_tx_set_hash (cfg_relay c) scp_value)
       (StellarRelayErr TransactionSetHashCreationFailed)"

section \<open>Validation of envelopes\<close>

text \<open>\<^verbatim>\<open>copy_from_slice\<close> panics if the signature does not have 64 bytes.\<close>

definition verify_signature :: "'l config \<Rightarrow> scp_envelope \<Rightarrow> byte list \<Rightarrow> byte list \<Rightarrow> bool result" where
  "verify_signature c envelope node_id network = (bindR (ensureR (length (env_signature envelope) = 64) Panic) (\<lambda>_.
    let envelope_type_scp = [0, 0, 0, 1] in
    let body = network @ envelope_type_scp @ rel_statement_to_xdr (cfg_relay c) (env_statement envelope) in
    Inr (rel_verify_signature (cfg_relay c) node_id body (env_signature envelope))))"

definition get_externalized_info :: "scp_envelope \<Rightarrow> (byte list \<times> nat) result" where
  "get_externalized_info envelope = (case stmt_pledges (env_statement envelope) of
     ScpStExternalize externalized_statement \<Rightarrow>
       Inr (ballot_value (externalize_commit externalized_statement), externalize_n_h externalized_statement)
   | ScpStConfirm confirmed_statement \<Rightarrow>
       Inr (ballot_value (confirm_ballot confirmed_statement), confirm_n_h confirmed_statement)
   | _ \<Rightarrow> Inl (StellarRelayErr InvalidScpPledge))"

definition is_node_id_exist :: "'l config \<Rightarrow> scp_envelope \<Rightarrow> validator list \<Rightarrow> byte list option" where
  "is_node_id_exist c envelope validators =
     (let node_id = stmt_node_id (env_statement envelope);
          node_id_found = list_ex (\<lambda>v. val_public_key v = rel_to_encoding (cfg_relay c) node_id) validators
      in if \<not> node_id_found then None else Some node_id)"

definition u32_max :: nat where "u32_max = 2 ^ 32 - 1"

text \<open>The loop of \<^verbatim>\<open>validate_envelopes\<close>: it returns the envelopes of known validators, in order.\<close>

fun validate_envelopes ::
  "'l config \<Rightarrow> validator list \<Rightarrow> byte list \<Rightarrow> byte list \<Rightarrow> nat \<Rightarrow> byte list \<Rightarrow> nat \<Rightarrow> scp_envelope list \<Rightarrow>
   scp_envelope list result" where
  "validate_envelopes c validators network externalized_value externalized_n_h expected_tx_set_hash slot_index [] =
     Inr []"
| "validate_envelopes c validators network externalized_value externalized_n_h expected_tx_set_hash slot_index
     (envelope # envelopes) =
     (case is_node_id_exist c envelope validators of
        None \<Rightarrow> validate_envelopes c validators network externalized_value externalized_n_h
          expected_tx_set_hash slot_index envelopes
      | Some node_id \<Rightarrow> (bindR (ensureR (slot_index = stmt_slot_index (env_statement envelope))
          (StellarRelayErr EnvelopeSlotIndexMismatch)) (\<lambda>_.
        bindR (verify_signature c envelope node_id network) (\<lambda>signature_valid.
        bindR (ensureR signature_valid (StellarRelayErr InvalidEnvelopeSignature)) (\<lambda>_.
        bindR (get_externalized_info envelope) (\<lambda>info.
        bindR (get_tx_set_hash c (fst info)) (\<lambda>tx_set_hash.
        bindR (ensureR (tx_set_hash = expected_tx_set_hash) (StellarRelayErr TransactionSetHashMismatch)) (\<lambda>_.
        bindR (ensureR (externalized_value = fst info) (StellarRelayErr ExternalizedValueMismatch)) (\<lambda>_.
        bindR (ensureR (externalized_n_h = u32_max \<or> snd info \<ge> u32_max \<or> externalized_n_h = snd info)
          (StellarRelayErr ExternalizedNHMismatch)) (\<lambda>_.
        bindR (validate_envelopes c validators network externalized_value
          (if externalized_n_h = u32_max then snd info else externalized_n_h)
          expected_tx_set_hash slot_index envelopes) (\<lambda>validated_envelopes.
        Inr (envelope # validated_envelopes))))))))))))"

section \<open>The quorum\<close>

definition validator_count_per_org :: "validator list \<Rightarrow> (nat \<times> nat) list" where
  "validator_count_per_org validators = count_keys (map val_organization_id validators)"

definition targeted_validators :: "'l config \<Rightarrow> scp_envelope list \<Rightarrow> validator list \<Rightarrow> validator list" where
  "targeted_validators c envelopes validators =
     filter (\<lambda>v. list_ex (\<lambda>e. rel_to_encoding (cfg_relay c) (stmt_node_id (env_statement e)) = val_public_key v)
       envelopes) validators"

definition targeted_organization_map ::
  "'l config \<Rightarrow> scp_envelope list \<Rightarrow> validator list \<Rightarrow> (nat \<times> nat) list" where
  "targeted_organization_map c envelopes validators =
     count_keys (map val_organization_id (targeted_validators c envelopes validators))"

fun requirement_reached :: "(nat \<times> nat) list \<Rightarrow> (nat \<times> nat) list \<Rightarrow> nat result" where
  "requirement_reached totals [] = Inr 0"
| "requirement_reached totals ((organization_id, count) # targeted) = (bindR (ok_orR (map_of totals organization_id) (StellarRelayErr NoOrganizationsRegistered)) (\<lambda>total.
  bindR (requirement_reached totals targeted) (\<lambda>n.
  Inr (if count * 2 > total then n + 1 else n))))"

definition check_for_valid_quorum_set ::
  "'l config \<Rightarrow> scp_envelope list \<Rightarrow> validator list \<Rightarrow> nat \<Rightarrow> unit result" where
  "check_for_valid_quorum_set c envelopes validators orgs_length = (let validator_count_per_organization_map = validator_count_per_org validators in
    let targeted = targeted_organization_map c envelopes validators in
    bindR (ensureR (length targeted * 3 > orgs_length * 2) (StellarRelayErr InvalidQuorumSetNotEnoughOrganizations)) (\<lambda>_.
    bindR (requirement_reached validator_count_per_organization_map targeted) (\<lambda>validator_requirement_reached_count.
    ensureR (validator_requirement_reached_count * 3 > orgs_length * 2)
      (StellarRelayErr InvalidQuorumSetNotEnoughValidators))))"

definition validators_and_orgs ::
  "block_number \<Rightarrow> relay \<Rightarrow> (validator list \<times> organization list) result" where
  "validators_and_orgs current_block s = (let should_use_new_validator_set = (current_block \<ge> rl_enactment_block_height s) in
    let validators = (if should_use_new_validator_set then rl_validators s else rl_old_validators s) in
    bindR (ensureR (validators \<noteq> []) (StellarRelayErr NoValidatorsRegistered)) (\<lambda>_.
    let organizations =
      (if should_use_new_validator_set then rl_organizations s else rl_old_organizations s) in
    bindR (ensureR (organizations \<noteq> []) (StellarRelayErr NoOrganizationsRegistered)) (\<lambda>_.
    Inr (validators, organizations))))"

text \<open>
  The first check applies the operator \<^verbatim>\<open>!\<close> to the length, which for an integer is the bitwise
  complement, here of the 32 bit \<^verbatim>\<open>usize\<close> of the runtime.
\<close>

definition envelope_set_check :: "scp_envelope list \<Rightarrow> bool" where
  "envelope_set_check envelopes \<longleftrightarrow> not (word_of_nat (length envelopes) :: 32 word) > 0"

definition is_externalize :: "scp_envelope \<Rightarrow> bool" where
  "is_externalize envelope =
     (case stmt_pledges (env_statement envelope) of ScpStExternalize _ \<Rightarrow> True | _ \<Rightarrow> False)"

definition validate_stellar_transaction ::
  "'l config \<Rightarrow> block_number \<Rightarrow> relay \<Rightarrow> transaction_envelope \<Rightarrow> scp_envelope list \<Rightarrow> transaction_set \<Rightarrow>
   unit result" where
  "validate_stellar_transaction c current_block s transaction_envelope envelopes transaction_set = (bindR (ensureR (envelope_set_check envelopes) (StellarRelayErr EmptyEnvelopeSet)) (\<lambda>_.
    let network = (if cfg_is_public_network c then rel_public_network (cfg_relay c)
      else rel_test_network (cfg_relay c)) in
    let tx_hash = rel_get_hash (cfg_relay c) network transaction_envelope in
    let tx_included = list_ex (\<lambda>tx. rel_get_hash (cfg_relay c) network tx = tx_hash)
      (rel_txes (cfg_relay c) transaction_set) in
    bindR (ensureR tx_included (StellarRelayErr TransactionNotInTransactionSet)) (\<lambda>_.
    bindR (validators_and_orgs current_block s) (\<lambda>validators_orgs.
    bindR (ok_orR (find is_externalize envelopes) (StellarRelayErr MissingExternalizedMessage)) (\<lambda>externalized_envelope.
    bindR ((case get_externalized_info externalized_envelope of
      Inl _ \<Rightarrow> Inl (StellarRelayErr MissingExternalizedMessage) | Inr i \<Rightarrow> Inr i)) (\<lambda>externalized_info.
    bindR (ok_orR (rel_get_tx_set_hash (cfg_relay c) transaction_set)
      (StellarRelayErr FailedToComputeNonGenericTxSetContentHash)) (\<lambda>expected_tx_set_hash.
    bindR (validate_envelopes c (fst validators_orgs) network (fst externalized_info)
      (snd externalized_info) expected_tx_set_hash (stmt_slot_index (env_statement externalized_envelope))
      envelopes) (\<lambda>validated_envelopes.
    check_for_valid_quorum_set c validated_envelopes (fst validators_orgs)
      (length (snd validators_orgs))))))))))"

section \<open>The default genesis\<close>

text \<open>
  The tier 1 organisations and validators of the public network, as \<^verbatim>\<open>GenesisConfig::default\<close> lists them.
\<close>

definition default_organization :: "string \<Rightarrow> nat \<Rightarrow> organization result" where
  "default_organization name i = (bindR (create_bounded_vec name) (\<lambda>n.
    Inr \<lparr>org_id = i, org_name = n\<rparr>))"

definition default_validator :: "string \<Rightarrow> string \<Rightarrow> nat \<Rightarrow> validator result" where
  "default_validator name key organization_id = (bindR (create_bounded_vec name) (\<lambda>n.
    bindR (create_bounded_vec key) (\<lambda>k.
    Inr \<lparr>val_name = n, val_public_key = k, val_organization_id = organization_id\<rparr>)))"

definition default_organization_data :: "(string \<times> nat) list" where
  "default_organization_data =
     [(''SatoshiPay'', 1),
      (''Stellar Development Foundation'', 0),
      (''Franklin Templeton'', 6),
      (''Whalestack'', 2),
      (''Blockdaemon'', 3),
      (''LOBSTR'', 4),
      (''Public Node'', 5)]"

definition default_validator_data :: "(string \<times> string \<times> nat) list" where
  "default_validator_data =
     [(''$sdf1'', ''GCGB2S2KGYARPVIA37HYZXVRM2YZUEXA6S33ZU5BUDC6THSB62LZSTYH'', 0),
      (''$sdf2'', ''GCM6QMP3DLRPTAZW2UZPCPX2LF3SXWXKPMP3GKFZBDSF3QZGV2G5QSTK'', 0),
      (''$sdf3'', ''GABMKJM6I25XI4K7U6XWMULOUQIQ27BCTMLS6BYYSOWKTBUXVRJSXHYQ'', 0),
      (''$satoshipay-us'', ''GAK6Z5UVGUVSEK6PEOCAYJISTT5EJBB34PN3NOLEQG2SUKXRVV2F6HZY'', 1),
      (''$satoshipay-de'', ''GC5SXLNAM3C4NMGK2PXK4R34B5GNZ47FYQ24ZIBFDFOCU6D4KBN4POAE'', 1),
      (''$satoshipay-sg'', ''GBJQUIXUO4XSNPAUT6ODLZUJRV2NPXYASKUBY4G5MYP3M47PCVI55MNT'', 1),
      (''$whalestack-germany'', ''GD6SZQV3WEJUH352NTVLKEV2JM2RH266VPEM7EH5QLLI7ZZAALMLNUVN'', 2),
      (''$whalestack-finland'', ''GADLA6BJK6VK33EM2IDQM37L5KGVCY5MSHSHVJA4SCNGNUIEOTCR6J5T'', 2),
      (''$whalestack-hongkong'', ''GAZ437J46SCFPZEDLVGDMKZPLFO77XJ4QVAURSJVRZK2T5S7XUFHXI2Z'', 2),
      (''$blockdaemon1'', ''GAAV2GCVFLNN522ORUYFV33E76VPC22E72S75AQ6MBR5V45Z5DWVPWEU'', 3),
      (''$blockdaemon2'', ''GAVXB7SBJRYHSG6KSQHY74N7JAFRL4PFVZCNWW2ARI6ZEKNBJSMSKW7C'', 3),
      (''$blockdaemon3'', ''GAYXZ4PZ7P6QOX7EBHPIZXNWY4KCOBYWJCA4WKWRKC7XIUS3UJPT6EZ4'', 3),
      (''$lobstr1'', ''GCFONE23AB7Y6C5YZOMKUKGETPIAJA4QOYLS5VNS4JHBGKRZCPYHDLW7'', 4),
      (''$lobstr2'', ''GCB2VSADESRV2DDTIVTFLBDI562K6KE3KMKILBHUHUWFXCUBHGQDI7VL'', 4),
      (''$lobstr3'', ''GD5QWEVV4GZZTQP46BRXV5CUMMMLP4JTGFD7FWYJJWRL54CELY6JGQ63'', 4),
      (''$lobstr4'', ''GA7TEPCBDQKI7JQLQ34ZURRMK44DVYCIGVXQQWNSWAEQR6KB4FMCBT7J'', 4),
      (''$lobstr5'', ''GA5STBMV6QDXFDGD62MEHLLHZTPDI77U3PFOD2SELU5RJDHQWBR5NNK7'', 4),
      (''$hercules'', ''GBLJNN3AVZZPG2FYAYTYQKECNWTQYYUUY2KVFN2OUKZKBULXIXBZ4FCT'', 5),
      (''$bootes'', ''GCVJ4Z6TI6Z2SOGENSPXDQ2U4RKH3CNQKYUHNSSPYFPNWTLGS6EBH7I2'', 5),
      (''$lyra'', ''GCIXVKNFPKWVMKJKVK2V4NK7D4TC6W3BUMXSIJ365QUAXWBRPPJXIR2Z'', 5),
      (''FTSCV1'', ''GARYGQ5F2IJEBCZJCBNPWNWVDOFK7IBOHLJKKSG2TMHDQKEEC6P4PE4V'', 6),
      (''FTSCV2'', ''GCMSM2VFZGRPTZKPH5OABHGH4F3AVS6XTNJXDGCZ3MKCOSUBH3FL6DOB'', 6),
      (''FTSCV3'', ''GA7DV63PBUUWNUFAF4GAZVXU2OZMYRATDLKTC7VTCG7AU4XUPN5VRX4A'', 6)]"

definition default_relay_genesis :: "'l config \<Rightarrow> relay result" where
  "default_relay_genesis c = (bindR (mapR (\<lambda>(name, key, i). default_validator name key i) default_validator_data) (\<lambda>validators.
    bindR (mapR (\<lambda>(name, i). default_organization name i) default_organization_data) (\<lambda>organizations.
    relay_genesis c [] [] validators organizations 0)))"

section \<open>Counting\<close>

lemma count_entry_keys: "fst ` set (count_entry k m) = insert k (fst ` set m)"
  by (induction k m rule: count_entry.induct) auto

lemma count_entry_distinct: "distinct (map fst m) \<Longrightarrow> distinct (map fst (count_entry k m))"
proof (induction k m rule: count_entry.induct)
  case (2 k k' n m)
  moreover have "k' \<notin> fst ` set (count_entry k m) \<longleftrightarrow> k' \<noteq> k \<and> k' \<notin> fst ` set m"
    by (simp add: count_entry_keys)
  ultimately show ?case by auto
qed simp

lemma count_entry_lookup:
  "map_of (count_entry k m) j =
   (if j = k then Some (case map_of m k of None \<Rightarrow> 1 | Some n \<Rightarrow> n + 1) else map_of m j)"
  by (induction k m rule: count_entry.induct) auto

lemma fold_count_entry:
  "distinct (map fst m) \<Longrightarrow> distinct (map fst (fold count_entry ks m))"
  "fst ` set (fold count_entry ks m) = set ks \<union> fst ` set m"
  by (induction ks arbitrary: m) (auto simp: count_entry_keys count_entry_distinct)

lemma fold_count_entry_lookup:
  "map_of (fold count_entry ks m) j =
   (if j \<in> set ks then Some (count_list ks j + (case map_of m j of None \<Rightarrow> 0 | Some n \<Rightarrow> n)) else map_of m j)"
  by (induction ks arbitrary: m) (auto simp: count_entry_lookup split: option.splits)

lemma count_keys_distinct: "distinct (map fst (count_keys ks))"
  by (simp add: count_keys_def fold_count_entry)

lemma count_keys_keys: "fst ` set (count_keys ks) = set ks"
  by (simp add: count_keys_def fold_count_entry)

lemma count_keys_lookup: "map_of (count_keys ks) k = (if k \<in> set ks then Some (count_list ks k) else None)"
  by (simp add: count_keys_def fold_count_entry_lookup)

lemma count_keys_length: "length (count_keys ks) = card (set ks)"
proof -
  have "length (count_keys ks) = length (map fst (count_keys ks))" by simp
  also have "\<dots> = card (set (map fst (count_keys ks)))"
    using distinct_card [OF count_keys_distinct [of ks]] by simp
  finally show ?thesis by (simp add: count_keys_keys)
qed

lemma count_keys_length_distinct: "length ks = length (count_keys ks) \<longleftrightarrow> distinct ks"
  by (metis card_distinct count_keys_length distinct_card)

lemma count_list_filter: "count_list ks k = length (filter (\<lambda>x. x = k) ks)"
  by (induction ks) auto

lemma requirement_reached_card:
  assumes "requirement_reached totals targeted = Inr n" and "distinct (map fst targeted)"
  shows "n = card {k. \<exists>count total. map_of targeted k = Some count \<and> map_of totals k = Some total \<and> count * 2 > total}"
  using assms
proof (induction totals targeted arbitrary: n rule: requirement_reached.induct)
  case (2 totals k count targeted)
  let ?ok = "\<lambda>m k. \<exists>count total. map_of m k = Some count \<and> map_of totals k = Some total \<and> count * 2 > total"
  obtain total m where total: "map_of totals k = Some total" and m: "requirement_reached totals targeted = Inr m"
    and n: "n = (if count * 2 > total then m + 1 else m)"
    using 2(2) by (auto simp: ok_iff)
  have fresh: "map_of targeted k = None" using 2(3) by (simp add: map_of_eq_None_iff)
  have "{j. ?ok ((k, count) # targeted) j} =
      (if count * 2 > total then insert k {j. ?ok targeted j} else {j. ?ok targeted j})"
    using total fresh by auto
  moreover have "finite {j. ?ok targeted j}"
    by (rule finite_subset [OF _ finite_dom_map_of [of targeted]]) auto
  moreover have "k \<notin> {j. ?ok targeted j}" using fresh by simp
  moreover have "m = card {j. ?ok targeted j}" using 2 m total by simp
  ultimately show ?case using n by simp
qed simp

section \<open>What a successful validation shows\<close>

text \<open>
  An envelope vouches for a transaction set if it externalises or confirms, in the given slot, a
  value with the hash of that set, and carries a valid signature of its node.
\<close>

definition vouches :: "'l config \<Rightarrow> byte list \<Rightarrow> nat \<Rightarrow> byte list \<Rightarrow> scp_envelope \<Rightarrow> bool" where
  "vouches c network slot tx_set_hash e \<longleftrightarrow>
     stmt_slot_index (env_statement e) = slot \<and>
     verify_signature c e (stmt_node_id (env_statement e)) network = Inr True \<and>
     (case get_externalized_info e of
        Inl _ \<Rightarrow> False
      | Inr (value, n_h) \<Rightarrow> get_tx_set_hash c value = Inr tx_set_hash)"

definition vouched_for ::
  "'l config \<Rightarrow> byte list \<Rightarrow> nat \<Rightarrow> byte list \<Rightarrow> scp_envelope list \<Rightarrow> validator \<Rightarrow> bool" where
  "vouched_for c network slot tx_set_hash envelopes v \<longleftrightarrow>
     list_ex (\<lambda>e. rel_to_encoding (cfg_relay c) (stmt_node_id (env_statement e)) = val_public_key v \<and>
       vouches c network slot tx_set_hash e) envelopes"

definition validators_of :: "nat \<Rightarrow> validator list \<Rightarrow> validator list" where
  "validators_of i validators = filter (\<lambda>v. val_organization_id v = i) validators"

lemma validate_envelopes_sound:
  assumes "validate_envelopes c validators network val n_h tx_set_hash slot envelopes = Inr es"
  shows "set es \<subseteq> set envelopes \<and> (\<forall>e\<in>set es. vouches c network slot tx_set_hash e)"
  using assms
proof (induction c validators network val n_h tx_set_hash slot envelopes arbitrary: es rule: validate_envelopes.induct)
  case (2 c validators network val n_h tx_set_hash slot e envelopes)
  show ?case
  proof (cases "is_node_id_exist c e validators")
    case None
    then show ?thesis using 2 by auto
  next
    case (Some node)
    have node: "node = stmt_node_id (env_statement e)"
      using Some by (auto simp: is_node_id_exist_def Let_def split: if_splits)
    obtain info n es' where "verify_signature c e node network = Inr True" "get_externalized_info e = Inr info"
      "get_tx_set_hash c (fst info) = Inr tx_set_hash" "slot = stmt_slot_index (env_statement e)"
      and es: "es = e # es'"
      and rest: "validate_envelopes c validators network val n tx_set_hash slot envelopes = Inr es'"
      and n: "n = (if n_h = u32_max then snd info else n_h)"
      using 2(3) Some by (auto simp: ok_iff)
    then have "vouches c network slot tx_set_hash e"
      by (cases info) (simp add: vouches_def node)
    moreover have "set es' \<subseteq> set envelopes \<and> (\<forall>e\<in>set es'. vouches c network slot tx_set_hash e)"
      using 2(3) Some rest n by (intro 2(2) [OF Some]) (auto simp: ok_iff)
    ultimately show ?thesis using es by auto
  qed
qed simp

lemma targeted_count:
  "map_of (targeted_organization_map c es validators) i = Some count \<Longrightarrow>
   count = length (filter (\<lambda>v. val_organization_id v = i) (targeted_validators c es validators))"
  by (auto simp: targeted_organization_map_def count_keys_lookup count_list_filter filter_map comp_def
      split: if_splits)

lemma total_count:
  "map_of (validator_count_per_org validators) i = Some n \<Longrightarrow> n = length (validators_of i validators)"
  by (auto simp: validator_count_per_org_def count_keys_lookup count_list_filter filter_map comp_def
      validators_of_def split: if_splits)

lemma quorum_card:
  assumes ok: "check_for_valid_quorum_set c es validators orgs = Inr ()"
    and sub: "\<And>v. v \<in> set (targeted_validators c es validators) \<Longrightarrow> good v"
  shows "3 * card {i. 2 * length (filter good (validators_of i validators)) > length (validators_of i validators)}
      > 2 * orgs"
proof -
  let ?T = "targeted_organization_map c es validators" and ?V = "validator_count_per_org validators"
  let ?G = "{i. 2 * length (filter good (validators_of i validators)) > length (validators_of i validators)}"
  obtain n where n: "requirement_reached ?V ?T = Inr n" and many: "n * 3 > orgs * 2"
    using ok by (auto simp: check_for_valid_quorum_set_def ok_iff Let_def)
  have "distinct (map fst ?T)" by (simp add: targeted_organization_map_def count_keys_distinct)
  note n_card = requirement_reached_card [OF n this]
  have fin: "finite ?G"
  proof (rule finite_subset)
    have "validators_of i validators \<noteq> []" if "i \<in> ?G" for i using that by auto
    then show "?G \<subseteq> val_organization_id ` set validators"
      by (fastforce simp: validators_of_def filter_empty_conv)
  qed simp
  have "length (filter (\<lambda>v. val_organization_id v = i) (targeted_validators c es validators))
      \<le> length (filter good (validators_of i validators))" for i
    using sub by (auto simp: targeted_validators_def validators_of_def filter_filter length_filter_conv_card
        intro!: card_mono)
  then have "n \<le> card ?G"
    unfolding n_card using targeted_count total_count fin
    by (intro card_mono) (force simp: mult.commute intro: le_less_trans less_le_trans)+
  then show ?thesis using many by linarith
qed

text \<open>
  C7: if a transaction is accepted, then it is in the given transaction set, and for more than two
  thirds of the registered organisations more than half of the organisation's validators signed,
  for one and the same slot, a statement that externalises or confirms a value with the hash of
  that transaction set.
\<close>

theorem quorum_sound:
  assumes "validate_stellar_transaction c n s tx envelopes ts = Inr ()"
  shows "\<exists>validators organizations slot tx_set_hash.
    (let network = (if cfg_is_public_network c then rel_public_network (cfg_relay c) else rel_test_network (cfg_relay c)) in
     validators_and_orgs n s = Inr (validators, organizations) \<and>
     rel_get_tx_set_hash (cfg_relay c) ts = Some tx_set_hash \<and>
     list_ex (\<lambda>t. rel_get_hash (cfg_relay c) network t = rel_get_hash (cfg_relay c) network tx)
       (rel_txes (cfg_relay c) ts) \<and>
     3 * card {i. 2 * length (filter (vouched_for c network slot tx_set_hash envelopes) (validators_of i validators))
                  > length (validators_of i validators)}
       > 2 * length organizations)"
proof -
  let ?network = "if cfg_is_public_network c then rel_public_network (cfg_relay c) else rel_test_network (cfg_relay c)"
  obtain vo and e :: scp_envelope and info hash es where
    vo: "validators_and_orgs n s = Inr vo"
    and hash: "rel_get_tx_set_hash (cfg_relay c) ts = Some hash"
    and incl: "list_ex (\<lambda>t. rel_get_hash (cfg_relay c) ?network t = rel_get_hash (cfg_relay c) ?network tx)
       (rel_txes (cfg_relay c) ts)"
    and es: "validate_envelopes c (fst vo) ?network (fst info) (snd info) hash
      (stmt_slot_index (env_statement e)) envelopes = Inr es"
    and quorum: "check_for_valid_quorum_set c es (fst vo) (length (snd vo)) = Inr ()"
    using assms unfolding validate_stellar_transaction_def Let_def ok_iff by (elim exE conjE) (rule that)
  have "vouched_for c ?network (stmt_slot_index (env_statement e)) hash envelopes v"
    if "v \<in> set (targeted_validators c es (fst vo))" for v
    using that validate_envelopes_sound [OF es]
    by (auto simp: targeted_validators_def vouched_for_def list_ex_iff)
  from quorum_card [OF quorum, of "vouched_for c ?network (stmt_slot_index (env_statement e)) hash envelopes", OF this]
  show ?thesis
    unfolding Let_def using vo hash incl by (intro exI [of _ "fst vo"] exI [of _ "snd vo"] exI conjI) simp_all
qed

lemma error_iff:
  "bindR m f = Inl e \<longleftrightarrow> m = Inl e \<or> (\<exists>x. m = Inr x \<and> f x = Inl e)"
  "ensureR b e' = Inl e \<longleftrightarrow> \<not> b \<and> e = e'"
  "ok_orR y e' = Inl e \<longleftrightarrow> y = None \<and> e = e'"
  by (auto simp: bindR_def ensureR_def ok_orR_def split: sum.splits option.splits)

lemma envelope_set_check_holds: "length envelopes < 2 ^ 32 - 1 \<Longrightarrow> envelope_set_check envelopes"
proof -
  let ?w = "word_of_nat (length envelopes) :: 32 word"
  assume less: "length envelopes < 2 ^ 32 - 1"
  have "not ?w \<noteq> 0"
  proof
    assume "not ?w = 0"
    then have "?w = - 1" using bit.double_compl [of ?w] by simp
    then have "unat ?w = unat (- 1 :: 32 word)" by simp
    then show False using less by (simp add: unat_of_nat unsigned_minus_1_eq_mask mask_eq_exp_minus_1)
  qed
  then show ?thesis unfolding envelope_set_check_def by (simp add: word_neq_0_conv)
qed

lemma validate_envelopes_error:
  "validate_envelopes c validators network val n_h tx_set_hash slot envelopes
     \<noteq> Inl (StellarRelayErr EmptyEnvelopeSet)"
  by (induction c validators network val n_h tx_set_hash slot envelopes rule: validate_envelopes.induct)
     (auto simp: error_iff verify_signature_def get_externalized_info_def get_tx_set_hash_def
       split: option.splits scp_pledges.splits)

lemma requirement_reached_error:
  "requirement_reached totals targeted \<noteq> Inl (StellarRelayErr EmptyEnvelopeSet)"
  by (induction totals targeted rule: requirement_reached.induct) (auto simp: error_iff)

lemma validators_and_orgs_error: "validators_and_orgs n s \<noteq> Inl (StellarRelayErr EmptyEnvelopeSet)"
  by (auto simp: validators_and_orgs_def error_iff Let_def)

lemma check_quorum_error:
  "check_for_valid_quorum_set c es validators k \<noteq> Inl (StellarRelayErr EmptyEnvelopeSet)"
  using requirement_reached_error by (auto simp: check_for_valid_quorum_set_def error_iff Let_def)

text \<open>
  The check for an empty set of envelopes never fires, since the bitwise
  complement of a length is zero only for the largest 32 bit number; an empty set is rejected all
  the same, by a later check.
\<close>

theorem empty_envelope_set_unreachable:
  assumes "length envelopes < 2 ^ 32 - 1"
  shows "validate_stellar_transaction c n s tx envelopes ts \<noteq> Inl (StellarRelayErr EmptyEnvelopeSet) \<and>
    validate_stellar_transaction c n s tx [] ts \<noteq> Inr ()"
proof
  show "validate_stellar_transaction c n s tx envelopes ts \<noteq> Inl (StellarRelayErr EmptyEnvelopeSet)"
    unfolding validate_stellar_transaction_def Let_def error_iff
    by (auto simp: envelope_set_check_holds [OF assms] validate_envelopes_error validators_and_orgs_error
        check_quorum_error split: sum.splits)
  show "validate_stellar_transaction c n s tx [] ts \<noteq> Inr ()"
    by (simp add: validate_stellar_transaction_def ok_iff Let_def)
qed

section \<open>Updates of the validator set\<close>

lemma update_ok:
  assumes "update_tier_1_validator_set_internal c vs os h s = (Inr r, t)"
  shows "rl_enactment_block_height t = h \<and> rl_validators t = vs \<and> rl_organizations t = os \<and>
    (if os \<noteq> rl_organizations s \<or> vs \<noteq> rl_validators s
     then rl_old_validators t = rl_validators s \<and> rl_old_organizations t = rl_organizations s
     else rl_old_validators t = rl_old_validators s \<and> rl_old_organizations t = rl_old_organizations s) \<and>
    distinct (map val_public_key vs) \<and> distinct (map org_id os) \<and>
    length vs \<le> cfg_validator_limit c \<and> length os \<le> cfg_organization_limit c"
proof -
  let ?changed = "os \<noteq> rl_organizations s \<or> vs \<noteq> rl_validators s"
  have "distinct (map val_public_key vs)" "distinct (map org_id os)"
    "length vs \<le> cfg_validator_limit c" "length os \<le> cfg_organization_limit c"
    and t: "t = (if ?changed then s\<lparr>rl_enactment_block_height := h, rl_old_validators := rl_validators s,
              rl_old_organizations := rl_organizations s, rl_validators := vs, rl_organizations := os,
              rl_events := UpdateTier1ValidatorSet h # rl_events s\<rparr>
            else s\<lparr>rl_enactment_block_height := h, rl_events := UpdateTier1ValidatorSet h # rl_events s\<rparr>)"
    using assms count_keys_length_distinct [of "map val_public_key vs"] count_keys_length_distinct [of "map org_id os"]
    unfolding update_tier_1_validator_set_internal_def Let_def ok_iff by (simp_all split: if_splits) blast
  then show ?thesis by simp
qed

text \<open>
  C39: an accepted update of the validators is made by the root origin and has
  distinct keys and organisations within the limits; blocks before the given height use the
  validators that were current before it, and blocks from that height on the new ones.
\<close>

theorem update_takes_effect_at_height:
  assumes "update_tier_1_validator_set c ori vs os h s = (Inr r, t)"
    and changed: "os \<noteq> rl_organizations s \<or> vs \<noteq> rl_validators s"
  shows "ori = Root \<and> distinct (map val_public_key vs) \<and> distinct (map org_id os) \<and>
    length vs \<le> cfg_validator_limit c \<and> length os \<le> cfg_organization_limit c \<and>
    validators_and_orgs n t =
      (let new = (if h \<le> n then (vs, os) else (rl_validators s, rl_organizations s)) in
       if fst new = [] then Inl (StellarRelayErr NoValidatorsRegistered)
       else if snd new = [] then Inl (StellarRelayErr NoOrganizationsRegistered) else Inr new)"
proof -
  have "ori = Root" and "update_tier_1_validator_set_internal c vs os h s = (Inr r, t)"
    using assms(1) by (auto simp: update_tier_1_validator_set_def ok_iff)
  then show ?thesis
    using update_ok [of c vs os h s r t] changed
    by (auto simp: validators_and_orgs_def Let_def ensureR_def)
qed

text \<open>
  C40: if a second update is made before the first one has come into effect, blocks before
  both heights are checked against the validators of the first update, and no longer against those
  in effect when it was made.
\<close>

theorem unenacted_set_in_use:
  assumes "update_tier_1_validator_set c ori vs1 os1 h1 s = (Inr r1, t)"
    and "update_tier_1_validator_set c ori vs2 os2 h2 t = (Inr r2, u)"
    and "os1 \<noteq> rl_organizations s \<or> vs1 \<noteq> rl_validators s" and "os2 \<noteq> os1 \<or> vs2 \<noteq> vs1"
    and "n < h1" and "n < h2" and "vs1 \<noteq> []" and "os1 \<noteq> []"
    and "rl_validators s \<noteq> []" and "rl_organizations s \<noteq> []"
  shows "validators_and_orgs n t = Inr (rl_validators s, rl_organizations s) \<and>
    validators_and_orgs n u = Inr (vs1, os1)"
  using assms update_ok [of c vs1 os1 h1 s r1 t] update_ok [of c vs2 os2 h2 t r2 u]
  by (auto simp: update_tier_1_validator_set_def ok_iff validators_and_orgs_def Let_def)

section \<open>The default validators\<close>

lemma ascii_bytes_inj: "ascii_bytes x = ascii_bytes y \<longleftrightarrow> x = y"
proof -
  have "unat (of_nat (of_char ch) :: byte) = of_char ch" for ch :: char
    by (simp add: unat_of_nat)
  then have "inj (\<lambda>ch. of_nat (of_char ch) :: byte)"
    by (intro injI) (metis of_char_eq_iff)
  then show ?thesis by (simp add: ascii_bytes_def inj_map_eq_map)
qed

lemma mapR_total: "(\<And>x. x \<in> set xs \<Longrightarrow> f x = Inr (g x)) \<Longrightarrow> mapR f xs = Inr (map g xs)"
  by (induction xs) simp_all

definition to_validator :: "string \<times> string \<times> nat \<Rightarrow> validator" where
  "to_validator = (\<lambda>(name, key, i).
     \<lparr>val_name = ascii_bytes name, val_public_key = ascii_bytes key, val_organization_id = i\<rparr>)"

definition to_organization :: "string \<times> nat \<Rightarrow> organization" where
  "to_organization = (\<lambda>(name, i). \<lparr>org_id = i, org_name = ascii_bytes name\<rparr>)"

lemma default_validators_built:
  "mapR (\<lambda>(name, key, i). default_validator name key i) default_validator_data =
   Inr (map to_validator default_validator_data)"
proof (rule mapR_total)
  have "list_all (\<lambda>(name, key, i). length name \<le> FieldLength \<and> length key \<le> FieldLength) default_validator_data"
    by (simp add: default_validator_data_def FieldLength_def)
  then show "(case x of (name, key, i) \<Rightarrow> default_validator name key i) = Inr (to_validator x)"
    if "x \<in> set default_validator_data" for x
    using that by (auto simp: list_all_iff to_validator_def default_validator_def create_bounded_vec_def)
qed

lemma default_organizations_built:
  "mapR (\<lambda>(name, i). default_organization name i) default_organization_data =
   Inr (map to_organization default_organization_data)"
proof (rule mapR_total)
  have "list_all (\<lambda>(name, i). length name \<le> FieldLength) default_organization_data"
    by (simp add: default_organization_data_def FieldLength_def)
  then show "(case x of (name, i) \<Rightarrow> default_organization name i) = Inr (to_organization x)"
    if "x \<in> set default_organization_data" for x
    using that by (auto simp: list_all_iff to_organization_def default_organization_def create_bounded_vec_def)
qed

lemma default_keys_distinct: "distinct (map val_public_key (map to_validator default_validator_data))"
proof -
  have "map val_public_key (map to_validator default_validator_data) =
      map ascii_bytes (map (\<lambda>(name, key, i). key) default_validator_data)"
    by (simp add: to_validator_def case_prod_unfold)
  moreover have "distinct (map (\<lambda>(name, key, i). key) default_validator_data)"
    by (simp add: default_validator_data_def)
  moreover have "inj ascii_bytes" by (simp add: inj_def ascii_bytes_inj)
  ultimately show ?thesis by (simp only: distinct_map) (metis inj_on_subset subset_UNIV distinct_map)
qed

lemma default_organization_ids: "map org_id (map to_organization default_organization_data) = [1, 0, 6, 2, 3, 4, 5]"
  by (simp add: default_organization_data_def to_organization_def)

lemma default_validator_ids:
  "map val_organization_id (map to_validator default_validator_data) =
   [0, 0, 0, 1, 1, 1, 2, 2, 2, 3, 3, 3, 4, 4, 4, 4, 4, 5, 5, 5, 6, 6, 6]"
  by (simp add: default_validator_data_def to_validator_def)

lemma default_org_sizes: "length (validators_of i (map to_validator default_validator_data)) =
   count_list (map val_organization_id (map to_validator default_validator_data)) i"
  by (simp add: validators_of_def count_list_filter filter_map comp_def)

text \<open>
  The default genesis is built without a panic wherever the limits admit 23
  validators and 7 organisations; its keys and organisations are distinct, every validator belongs
  to a listed organisation, every organisation has at least three validators, and they are in use
  from the first block on.
\<close>

theorem default_genesis_valid:
  assumes "23 \<le> cfg_validator_limit c" and "7 \<le> cfg_organization_limit c"
  shows "\<exists>g. default_relay_genesis c = Inr g \<and>
    distinct (map val_public_key (rl_validators g)) \<and> distinct (map org_id (rl_organizations g)) \<and>
    val_organization_id ` set (rl_validators g) = org_id ` set (rl_organizations g) \<and>
    list_all (\<lambda>i. length (validators_of i (rl_validators g)) \<ge> 3) (map org_id (rl_organizations g)) \<and>
    validators_and_orgs n g = Inr (rl_validators g, rl_organizations g)"
proof -
  let ?V = "map to_validator default_validator_data" and ?O = "map to_organization default_organization_data"
  have len: "length ?V = 23" "length ?O = 7"
    by (simp_all add: default_validator_data_def default_organization_data_def)
  then have nonempty: "?V \<noteq> []" "?O \<noteq> []" by (metis list.size(3) zero_neq_numeral)+
  have g: "default_relay_genesis c = Inr \<lparr>rl_organizations = ?O, rl_validators = ?V, rl_old_organizations = [],
      rl_old_validators = [], rl_enactment_block_height = 0, rl_events = []\<rparr>"
    using assms len
    by (simp add: default_relay_genesis_def default_validators_built default_organizations_built relay_genesis_def)
  have ids: "val_organization_id ` set ?V = org_id ` set ?O"
    using arg_cong [OF default_validator_ids, of set] arg_cong [OF default_organization_ids, of set]
    unfolding set_map [of val_organization_id] set_map [of org_id] by auto
  have sizes: "list_all (\<lambda>i. length (validators_of i ?V) \<ge> 3) (map org_id ?O)"
    unfolding default_organization_ids default_org_sizes default_validator_ids by simp
  show ?thesis
    unfolding g using default_keys_distinct default_organization_ids ids sizes nonempty
    by (simp add: validators_and_orgs_def)
qed

theorem default_genesis_valid_witness:
  "\<exists>g. default_relay_genesis sample_config = Inr g \<and>
    distinct (map val_public_key (rl_validators g)) \<and> distinct (map org_id (rl_organizations g)) \<and>
    val_organization_id ` set (rl_validators g) = org_id ` set (rl_organizations g) \<and>
    list_all (\<lambda>i. length (validators_of i (rl_validators g)) \<ge> 3) (map org_id (rl_organizations g)) \<and>
    validators_and_orgs 5 g = Inr (rl_validators g, rl_organizations g)"
  by (rule default_genesis_valid) (simp_all add: sample_config_def)

section \<open>Instances\<close>

text \<open>Two organisations, the first with two validators; both organisations vouch for the set of one transaction.\<close>

definition sample_relay_state :: relay where
  "sample_relay_state =
     \<lparr>rl_organizations = [\<lparr>org_id = 0, org_name = []\<rparr>, \<lparr>org_id = 1, org_name = []\<rparr>],
      rl_validators =
        [\<lparr>val_name = [], val_public_key = [1], val_organization_id = 0\<rparr>,
         \<lparr>val_name = [], val_public_key = [2], val_organization_id = 0\<rparr>,
         \<lparr>val_name = [], val_public_key = [3], val_organization_id = 1\<rparr>],
      rl_old_organizations = [], rl_old_validators = [], rl_enactment_block_height = 0, rl_events = []\<rparr>"

definition sample_envelope :: "byte \<Rightarrow> scp_envelope" where
  "sample_envelope k =
     \<lparr>env_statement = \<lparr>stmt_node_id = [k], stmt_slot_index = 7,
        stmt_pledges = ScpStExternalize \<lparr>externalize_commit = \<lparr>ballot_counter = 0, ballot_value = [9]\<rparr>,
          externalize_n_h = 1\<rparr>\<rparr>,
      env_signature = replicate 64 k\<rparr>"

lemmas sample_relay_defs = sample_config_def sample_relay_def sample_relay_state_def sample_envelope_def
  sample_transaction_def

lemma sample_validation:
  "validate_stellar_transaction sample_config 3 sample_relay_state (sample_transaction [9])
     [sample_envelope 1, sample_envelope 2, sample_envelope 3] [9] = Inr ()"
  by (simp add: validate_stellar_transaction_def envelope_set_check_holds validators_and_orgs_def
      is_externalize_def get_externalized_info_def check_for_valid_quorum_set_def validator_count_per_org_def
      targeted_organization_map_def targeted_validators_def count_keys_def is_node_id_exist_def verify_signature_def
      get_tx_set_hash_def u32_max_def sample_relay_defs Let_def)

theorem quorum_sound_witness:
  "\<exists>validators organizations slot tx_set_hash.
    (let network = (if cfg_is_public_network sample_config then rel_public_network (cfg_relay sample_config)
        else rel_test_network (cfg_relay sample_config)) in
     validators_and_orgs 3 sample_relay_state = Inr (validators, organizations) \<and>
     rel_get_tx_set_hash (cfg_relay sample_config) [9] = Some tx_set_hash \<and>
     list_ex (\<lambda>t. rel_get_hash (cfg_relay sample_config) network t =
         rel_get_hash (cfg_relay sample_config) network (sample_transaction [9]))
       (rel_txes (cfg_relay sample_config) [9]) \<and>
     3 * card {i. 2 * length (filter (vouched_for sample_config network slot tx_set_hash
                    [sample_envelope 1, sample_envelope 2, sample_envelope 3]) (validators_of i validators))
                  > length (validators_of i validators)}
       > 2 * length organizations)"
  by (rule quorum_sound [OF sample_validation])

theorem empty_envelope_set_unreachable_witness:
  "validate_stellar_transaction sample_config 3 sample_relay_state (sample_transaction [9]) [sample_envelope 1] [9]
     \<noteq> Inl (StellarRelayErr EmptyEnvelopeSet) \<and>
   validate_stellar_transaction sample_config 3 sample_relay_state (sample_transaction [9]) [] [9] \<noteq> Inr ()"
  by (rule empty_envelope_set_unreachable) simp

definition sample_validator :: "byte \<Rightarrow> validator" where
  "sample_validator k = \<lparr>val_name = [], val_public_key = [k], val_organization_id = 1\<rparr>"

definition sample_organization :: organization where
  "sample_organization = \<lparr>org_id = 1, org_name = []\<rparr>"

lemmas sample_update_defs = update_tier_1_validator_set_def update_tier_1_validator_set_internal_def count_keys_def
  sample_validator_def sample_organization_def sample_relay_defs run_defs ensure_root_def Let_def

theorem update_takes_effect_at_height_witness:
  "validators_and_orgs 9 (snd (update_tier_1_validator_set sample_config Root [sample_validator 4]
       [sample_organization] 10 sample_relay_state)) =
     Inr (rl_validators sample_relay_state, rl_organizations sample_relay_state)"
proof -
  have run: "fst (update_tier_1_validator_set sample_config Root [sample_validator 4]
       [sample_organization] 10 sample_relay_state) = Inr ()"
    by (simp add: sample_update_defs)
  show ?thesis
    using update_takes_effect_at_height [OF run_pair [OF run], of 9] by (simp add: sample_relay_defs)
qed

theorem unenacted_set_in_use_witness:
  "let t = snd (update_tier_1_validator_set sample_config Root [sample_validator 4] [sample_organization] 10
       sample_relay_state);
     u = snd (update_tier_1_validator_set sample_config Root [sample_validator 5] [sample_organization] 20 t)
   in validators_and_orgs 9 t = Inr (rl_validators sample_relay_state, rl_organizations sample_relay_state) \<and>
      validators_and_orgs 9 u = Inr ([sample_validator 4], [sample_organization])"
proof -
  let ?p = "update_tier_1_validator_set sample_config Root [sample_validator 4] [sample_organization] 10
       sample_relay_state"
  have run: "fst ?p = Inr ()" "fst (update_tier_1_validator_set sample_config Root [sample_validator 5]
      [sample_organization] 20 (snd ?p)) = Inr ()"
    by (simp_all add: sample_update_defs)
  show ?thesis
    unfolding Let_def using unenacted_set_in_use [OF run_pair [OF run(1)] run_pair [OF run(2)], of 9]
    by (simp add: sample_relay_defs sample_validator_def sample_organization_def)
qed

end
