(* ===== verification/Clients_Info.thy ===== *)
theory Clients_Info
  imports Runtime_Config
begin

text \<open>
  The clients-info pallet, \<^verbatim>\<open>pallets/clients-info/src/lib.rs\<close>: the current and pending releases of the
  client programs, set by the root origin and by authorised accounts.
\<close>

record client_release =
  cr_uri :: "byte list"
  cr_checksum :: "byte list"

datatype clients_event =
    NotifyClientRelease client_release
  | ApplyClientRelease client_release
  | AccountIdAuthorized account
  | AccountIdDeauthorized account

record clients_info =
  ci_current :: "byte list \<rightharpoonup> client_release"
  ci_pending :: "byte list \<rightharpoonup> client_release"
  ci_authorized :: "account set"
  ci_events :: "clients_event list"

definition clients_deposit_event :: "clients_event \<Rightarrow> (clients_info, unit) prog" where
  "clients_deposit_event e = modifyM (\<lambda>s. s\<lparr>ci_events := e # ci_events s\<rparr>)"

definition check_non_root_rights :: "origin \<Rightarrow> (clients_info, account) prog" where
  "check_non_root_rights origin = (bindM (liftM (ensure_signed origin)) (\<lambda>origin_account_id.
    bindM (getM (\<lambda>s. origin_account_id \<in> ci_authorized s)) (\<lambda>authorized.
    bindM (ensureM authorized (ClientsInfoErr ThisAccountIdIsNotAuthorized)) (\<lambda>_.
    retM origin_account_id))))"

definition check_origin_rights :: "origin \<Rightarrow> (clients_info, unit) prog" where
  "check_origin_rights origin =
     (case ensure_root origin of
        Inl _ \<Rightarrow> (bindM (check_non_root_rights origin) (\<lambda>_.
          retM ()))
      | Inr _ \<Rightarrow> retM ())"

definition set_current_client_release :: "origin \<Rightarrow> byte list \<Rightarrow> client_release \<Rightarrow> (clients_info, unit) prog" where
  "set_current_client_release origin client_name release = transactionalM (bindM (check_origin_rights origin) (\<lambda>_.
    bindM (modifyM (ci_current_update (\<lambda>m. m(client_name \<mapsto> release)))) (\<lambda>_.
    clients_deposit_event (ApplyClientRelease release))))"

definition set_pending_client_release :: "origin \<Rightarrow> byte list \<Rightarrow> client_release \<Rightarrow> (clients_info, unit) prog" where
  "set_pending_client_release origin client_name release = transactionalM (bindM (check_origin_rights origin) (\<lambda>_.
    bindM (modifyM (ci_pending_update (\<lambda>m. m(client_name \<mapsto> release)))) (\<lambda>_.
    clients_deposit_event (NotifyClientRelease release))))"

definition authorize_account :: "origin \<Rightarrow> account \<Rightarrow> (clients_info, unit) prog" where
  "authorize_account origin account_id = transactionalM (bindM (check_origin_rights origin) (\<lambda>_.
    bindM (getM (\<lambda>s. account_id \<in> ci_authorized s)) (\<lambda>present.
    whenM (\<not> present) (bindM (clients_deposit_event (AccountIdAuthorized account_id)) (\<lambda>_.
      modifyM (ci_authorized_update (insert account_id)))))))"

definition deauthorize_account :: "origin \<Rightarrow> account \<Rightarrow> (clients_info, unit) prog" where
  "deauthorize_account origin account_id = transactionalM (bindM ((case ensure_root origin of
        Inl _ \<Rightarrow> (bindM (check_non_root_rights origin) (\<lambda>origin_account_id.
          ensureM (account_id \<noteq> origin_account_id) (ClientsInfoErr UserUnableToDeauthorizeThemself)))
      | Inr _ \<Rightarrow> retM ())) (\<lambda>_.
    bindM (getM (\<lambda>s. account_id \<in> ci_authorized s)) (\<lambda>present.
    whenM present (bindM (clients_deposit_event (AccountIdDeauthorized account_id)) (\<lambda>_.
      modifyM (ci_authorized_update (\<lambda>a. a - {account_id})))))))"

text \<open>Draining the pending releases visits their keys in the order of the storage, an argument here.\<close>

primrec try_upgrade_current_client_releases :: "byte list list \<Rightarrow> clients_info \<Rightarrow> clients_info" where
  "try_upgrade_current_client_releases [] s = s"
| "try_upgrade_current_client_releases (key # keys) s = try_upgrade_current_client_releases keys
     (case ci_pending s key of
        None \<Rightarrow> s
      | Some release \<Rightarrow> s\<lparr>ci_pending := (ci_pending s)(key := None),
            ci_current := (ci_current s)(key \<mapsto> release),
            ci_events := ApplyClientRelease release # ci_events s\<rparr>)"

end
