(* ===== verification/Chain.thy ===== *)
theory Chain
  imports Oracle Pooled_Rewards Staking Stellar_Relay Clients_Info
begin

text \<open>
  The state of the chain: the storage of every pallet side by side, as \<^verbatim>\<open>construct_runtime!\<close> puts
  them together, with the block environment, the price feed and the token ledger.  The storage
  records of the pallets whose operations span several others (reward distribution, fee, vault
  registry, issue, redeem, replace, nomination) are declared here; their operations are in theories
  of their own.
\<close>

section \<open>Reward distribution and fees\<close>

datatype distribution_event = RewardPerBlockAdapted balance

record distribution =
  rd_reward_per_block :: "balance option"
  rd_rewards_adapted_at :: "block_number option"
  rd_native_liability :: "balance option"
  rd_events :: "distribution_event list"

record fee_state =
  fee_issue_fee :: int
  fee_issue_griefing_collateral :: int
  fee_redeem_fee :: int
  fee_premium_redeem_fee :: int
  fee_punishment_fee :: int
  fee_replace_griefing_collateral :: int

section \<open>Vaults\<close>

datatype vault_status = VaultActive bool | VaultLiquidatedStatus

record vault =
  v_id :: vault_id
  v_status :: vault_status
  v_banned_until :: "block_number option"
  v_secure_threshold :: "int option"
  v_to_be_issued :: balance
  v_issued :: balance
  v_to_be_redeemed :: balance
  v_to_be_replaced :: balance
  v_replace_collateral :: balance
  v_active_replace_collateral :: balance
  v_liquidated_collateral :: balance

record system_vault =
  sv_to_be_issued :: balance
  sv_issued :: balance
  sv_to_be_redeemed :: balance
  sv_collateral :: balance
  sv_currency_pair :: vault_currency_pair

datatype registry_event =
    RegisterVault vault_id balance
  | VrDepositCollateral vault_id balance balance balance
  | VrWithdrawCollateral vault_id balance balance
  | IncreaseLockedCollateral vault_currency_pair balance balance
  | DecreaseLockedCollateral vault_currency_pair balance balance
  | UpdatePublicKey account "byte list"
  | IncreaseToBeIssuedTokens vault_id balance
  | DecreaseToBeIssuedTokens vault_id balance
  | IssueTokens vault_id balance
  | IncreaseToBeRedeemedTokens vault_id balance
  | DecreaseToBeRedeemedTokens vault_id balance
  | IncreaseToBeReplacedTokens vault_id balance
  | DecreaseToBeReplacedTokens vault_id balance
  | DecreaseTokens vault_id account balance
  | RedeemTokens vault_id balance
  | RedeemTokensPremium vault_id balance balance account
  | RedeemTokensLiquidatedVault vault_id balance balance
  | RedeemTokensLiquidation account balance balance
  | ReplaceTokens vault_id vault_id balance balance
  | LiquidateVault vault_id balance balance balance balance balance vault_status balance
  | BanVault vault_id block_number

record registry =
  vr_minimum_collateral :: "currency \<rightharpoonup> balance"
  vr_punishment_delay :: block_number
  vr_collateral_ceiling :: "vault_currency_pair \<rightharpoonup> balance"
  vr_secure_threshold :: "vault_currency_pair \<rightharpoonup> int"
  vr_premium_threshold :: "vault_currency_pair \<rightharpoonup> int"
  vr_liquidation_threshold :: "vault_currency_pair \<rightharpoonup> int"
  vr_liquidation_vault :: "vault_currency_pair \<rightharpoonup> system_vault"
  vr_vaults :: "vault_id \<rightharpoonup> vault"
  vr_public_keys :: "account \<rightharpoonup> byte list"
  vr_total_collateral :: "vault_currency_pair \<Rightarrow> balance"
  vr_events :: "registry_event list"

section \<open>Requests\<close>

type_synonym request_id = "byte list"

text \<open>The volume limit that the issue and the redeem pallet each keep.\<close>

record volume_limit =
  vl_limit_amount :: "balance option"
  vl_limit_currency :: currency
  vl_current_amount :: balance
  vl_interval_length :: block_number
  vl_last_interval_index :: block_number

datatype issue_event =
    RequestIssue request_id account balance currency balance balance vault_id "byte list"
  | IssueAmountChange request_id balance currency balance balance
  | ExecuteIssue request_id account vault_id balance currency balance
  | CancelIssue request_id account balance
  | IssuePeriodChange block_number
  | IssueRateLimitUpdate "balance option" currency block_number
  | IssueMinimumTransferAmountUpdate balance

record issue_state =
  is_requests :: "request_id \<rightharpoonup> issue_request"
  is_period :: block_number
  is_minimum_transfer :: balance
  is_volume :: volume_limit
  is_events :: "issue_event list"

datatype redeem_event =
    RequestRedeem request_id account vault_id balance currency balance balance "byte list" balance
  | LiquidationRedeem account balance currency
  | ExecuteRedeem request_id account vault_id balance currency balance balance
  | CancelRedeem request_id account vault_id balance redeem_request_status
  | MintTokensForReimbursedRedeem request_id vault_id balance
  | RedeemPeriodChange block_number
  | SelfRedeem vault_id balance balance
  | RedeemRateLimitUpdate "balance option" currency block_number
  | RedeemMinimumTransferAmountUpdate balance

record redeem_state =
  re_requests :: "request_id \<rightharpoonup> redeem_request"
  re_period :: block_number
  re_minimum_transfer :: balance
  re_volume :: volume_limit
  re_cancelled_amount :: "request_id \<rightharpoonup> balance \<times> currency"
  re_events :: "redeem_event list"

datatype replace_event =
    RequestReplace vault_id balance currency balance
  | WithdrawReplace vault_id balance currency balance
  | AcceptReplace request_id vault_id vault_id balance currency balance "byte list"
  | ExecuteReplace request_id vault_id vault_id
  | CancelReplace request_id vault_id vault_id balance
  | ReplacePeriodChange block_number
  | ReplaceMinimumTransferAmountUpdate balance

record replace_state =
  rp_requests :: "request_id \<rightharpoonup> replace_request"
  rp_replace_period :: block_number
  rp_minimum_transfer :: balance
  rp_events :: "replace_event list"

datatype nomination_event =
    NominationOptIn vault_id
  | NominationOptOut vault_id
  | NomDepositCollateral vault_id account balance
  | NomWithdrawCollateral vault_id account balance

record nomination_state =
  nm_enabled :: bool
  nm_vaults :: "vault_id \<rightharpoonup> bool"
  nm_events :: "nomination_event list"

section \<open>The chain\<close>

record 'l chain =
  ch_env :: block_env
  ch_feed :: price_feed
  ch_ledger :: 'l
  ch_security :: security
  ch_oracle :: oracle_state
  ch_relay :: relay
  ch_staking :: staking
  ch_pooled :: pooled_rewards
  ch_dist :: distribution
  ch_fee :: fee_state
  ch_registry :: registry
  ch_issue :: issue_state
  ch_redeem :: redeem_state
  ch_replace :: replace_state
  ch_nomination :: nomination_state
  ch_clients :: clients_info

text \<open>Each field is a store of its own: an operation of a pallet runs on its part of the state.\<close>

interpretation ledger_store: pallet_store ch_ledger ch_ledger_update
  by unfold_locales simp_all

interpretation security_store: pallet_store ch_security ch_security_update
  by unfold_locales simp_all

interpretation oracle_store: pallet_store ch_oracle ch_oracle_update
  by unfold_locales simp_all

interpretation relay_store: pallet_store ch_relay ch_relay_update
  by unfold_locales simp_all

interpretation staking_store: pallet_store ch_staking ch_staking_update
  by unfold_locales simp_all

interpretation pooled_store: pallet_store ch_pooled ch_pooled_update
  by unfold_locales simp_all

interpretation registry_store: pallet_store ch_registry ch_registry_update
  by unfold_locales simp_all

interpretation clients_store: pallet_store ch_clients ch_clients_update
  by unfold_locales simp_all

abbreviation on_ledger :: "('l, 'a) prog \<Rightarrow> ('l chain, 'a) prog" where
  "on_ledger \<equiv> zoomM ch_ledger ch_ledger_update"

abbreviation on_security :: "(security, 'a) prog \<Rightarrow> ('l chain, 'a) prog" where
  "on_security \<equiv> zoomM ch_security ch_security_update"

abbreviation on_oracle :: "(oracle_state, 'a) prog \<Rightarrow> ('l chain, 'a) prog" where
  "on_oracle \<equiv> zoomM ch_oracle ch_oracle_update"

abbreviation on_relay :: "(relay, 'a) prog \<Rightarrow> ('l chain, 'a) prog" where
  "on_relay \<equiv> zoomM ch_relay ch_relay_update"

abbreviation on_staking :: "(staking, 'a) prog \<Rightarrow> ('l chain, 'a) prog" where
  "on_staking \<equiv> zoomM ch_staking ch_staking_update"

abbreviation on_pooled :: "(pooled_rewards, 'a) prog \<Rightarrow> ('l chain, 'a) prog" where
  "on_pooled \<equiv> zoomM ch_pooled ch_pooled_update"

abbreviation on_registry :: "(registry, 'a) prog \<Rightarrow> ('l chain, 'a) prog" where
  "on_registry \<equiv> zoomM ch_registry ch_registry_update"

abbreviation on_clients :: "(clients_info, 'a) prog \<Rightarrow> ('l chain, 'a) prog" where
  "on_clients \<equiv> zoomM ch_clients ch_clients_update"

section \<open>What every handler uses of the chain\<close>

definition convert_to :: "'l config \<Rightarrow> amount \<Rightarrow> currency \<Rightarrow> 'l chain \<Rightarrow> amount result" where
  "convert_to c a currency_id s = convert c (ch_feed s) (ch_security s) a currency_id"

definition active_block :: "'l chain \<Rightarrow> block_number" where
  "active_block s = active_block_number (ch_security s)"

definition block_expired :: "block_number \<Rightarrow> block_number \<Rightarrow> 'l chain \<Rightarrow> bool result" where
  "block_expired opentime period s = parachain_block_expired opentime period (ch_security s)"

definition ensure_running :: "'l chain \<Rightarrow> unit result" where
  "ensure_running s = ensure_parachain_status_running (ch_security s)"

definition secure_id :: "'l config \<Rightarrow> ('l chain, request_id) prog" where
  "secure_id c s = (case get_secure_id c (ch_env s) (ch_security s) of
     (i, sec) \<Rightarrow> (Inr i, s\<lparr>ch_security := sec\<rparr>))"

definition free_balance :: "'l config \<Rightarrow> currency \<Rightarrow> account \<Rightarrow> 'l chain \<Rightarrow> amount" where
  "free_balance c currency_id account s = get_free_balance c (ch_ledger s) currency_id account"

definition reserved_balance :: "'l config \<Rightarrow> currency \<Rightarrow> account \<Rightarrow> 'l chain \<Rightarrow> amount" where
  "reserved_balance c currency_id account s = get_reserved_balance c (ch_ledger s) currency_id account"

lemma convert_to_cur: "convert_to c a k s = Inr r \<Longrightarrow> cur r = k"
  by (auto simp: convert_to_def convert_def ok_iff)

end
