(* ===== verification/Reward_Distribution.thy ===== *)
theory Reward_Distribution
  imports Chain
begin

text \<open>
  The reward-distribution pallet, \<^verbatim>\<open>pallets/reward-distribution/src/lib.rs\<close>: the reward of each block
  and the collected fees are divided among the collateral pools by their value, and a nominator
  collects the share of its vault.
\<close>

definition dist_deposit_event :: "distribution_event \<Rightarrow> ('l chain, unit) prog" where
  "dist_deposit_event e = modifyM (ch_dist_update (\<lambda>d. d\<lparr>rd_events := e # rd_events d\<rparr>))"

section \<open>Distribution to the pools\<close>

fun stakes_in_usd ::
  "'l config \<Rightarrow> 'l chain \<Rightarrow> balance \<Rightarrow> (currency \<times> balance) list \<Rightarrow> (balance \<times> balance list) result" where
  "stakes_in_usd c s total_stake_in_usd [] = Inr (total_stake_in_usd, [])"
| "stakes_in_usd c s total_stake_in_usd ((currency_id, stake) # total_stakes) = (bindR (currency_to_usd c (ch_feed s) (ch_security s) stake currency_id) (\<lambda>stake_in_usd.
  bindR (ok_orR (checked_add_128 total_stake_in_usd stake_in_usd) Panic) (\<lambda>new_total.
  bindR (stakes_in_usd c s new_total total_stakes) (\<lambda>rest.
  Inr (fst rest, stake_in_usd # snd rest)))))"

fun distribute_to_pools ::
  "'l config \<Rightarrow> balance \<Rightarrow> currency \<Rightarrow> balance \<Rightarrow> balance \<Rightarrow> (currency \<times> balance) list \<Rightarrow> balance list \<Rightarrow>
   ('l chain, balance) prog" where
  "distribute_to_pools c reward_amount reward_currency total_stake_in_usd error_reward_accum [] iter =
     retM error_reward_accum"
| "distribute_to_pools c reward_amount reward_currency total_stake_in_usd error_reward_accum
       ((currency_id, stake) # total_stakes) [] =
     failM (RewardDistributionErr InconsistentRewardCurrencies)"
| "distribute_to_pools c reward_amount reward_currency total_stake_in_usd error_reward_accum
       ((currency_id, stake) # total_stakes) (stake_in_usd # iter) = (let percentage = cfg_perquintill_from_rational c stake_in_usd total_stake_in_usd in
         let reward_for_pool = cfg_perquintill_mul_floor c percentage reward_amount in
         bindM (attemptM (on_pooled (api_distribute_reward c currency_id reward_currency reward_for_pool))) (\<lambda>outcome.
         bindM ((case outcome of
             Inl _ \<Rightarrow> ok_orM (checked_add_128 error_reward_accum reward_for_pool)
               (RewardDistributionErr reward_distribution_error.Overflow)
           | Inr _ \<Rightarrow> retM error_reward_accum)) (\<lambda>accum.
         distribute_to_pools c reward_amount reward_currency total_stake_in_usd accum total_stakes iter)))"

definition distribute_rewards :: "'l config \<Rightarrow> balance \<Rightarrow> currency \<Rightarrow> ('l chain, balance) prog" where
  "distribute_rewards c reward_amount reward_currency = (bindM (queryM (\<lambda>s. get_total_stake_all_pools c (ch_pooled s))) (\<lambda>total_stakes.
    bindM (queryM (\<lambda>s. stakes_in_usd c s 0 total_stakes)) (\<lambda>usd.
    distribute_to_pools c reward_amount reward_currency (fst usd) 0 total_stakes (snd usd))))"

definition withdraw_all_rewards_from_vault :: "'l config \<Rightarrow> vault_id \<Rightarrow> ('l chain, unit) prog" where
  "withdraw_all_rewards_from_vault c vault_id = (bindM (getM (\<lambda>s. get_all_reward_currencies c (ch_staking s))) (\<lambda>all_reward_currencies.
    forM all_reward_currencies (\<lambda>currency_id. (bindM (on_pooled (api_withdraw_reward c (collateral_currency vault_id) vault_id currency_id)) (\<lambda>reward.
      bindM (on_staking (staking_distribute_reward c vault_id reward currency_id)) (\<lambda>_.
      retM ()))))))"

section \<open>The start of a block\<close>

text \<open>The sum of the liability and the reward wraps at 128 bits; a panic ends the block.\<close>

definition execute_on_init :: "'l config \<Rightarrow> ('l chain, unit) prog" where
  "execute_on_init c = (bindM (getM ensure_running) (\<lambda>running.
    (case running of Inl _ \<Rightarrow> retM () | Inr _ \<Rightarrow> (bindM (getM (\<lambda>s. rd_reward_per_block (ch_dist s))) (\<lambda>reward.
      (case reward of None \<Rightarrow> retM () | Some reward_per_block \<Rightarrow> (bindM (getM (\<lambda>s. rd_rewards_adapted_at (ch_dist s))) (\<lambda>adapted.
        (case adapted of None \<Rightarrow> retM () | Some rewards_adapted_at \<Rightarrow> (bindM (getM (block_expired rewards_adapted_at (saturating_sub_n (cfg_decay_interval c) 1))) (\<lambda>expired.
          let reward_this_block = (if expired = Inr True
            then cfg_perquintill_mul_floor c (cfg_perquintill_left_from_one c (cfg_decay_rate c)) reward_per_block
            else reward_per_block) in
          bindM (whenM (expired = Inr True) (modifyM (\<lambda>s. s\<lparr>ch_dist := (ch_dist s)
            \<lparr>rd_reward_per_block := Some reward_this_block,
             rd_rewards_adapted_at := Some (active_block s)\<rparr>\<rparr>))) (\<lambda>_.
          bindM (modifyM (ch_dist_update (rd_native_liability_update (\<lambda>current_liability. case current_liability of
              Some liability \<Rightarrow> Some (wrapping_add_w 128 liability reward_this_block)
            | None \<Rightarrow> Some reward_this_block)))) (\<lambda>_.
          bindM (attemptM (distribute_rewards c reward_this_block (cfg_native_currency c))) (\<lambda>outcome.
          (if outcome = Inl Panic then failM Panic else retM ())))))))))))))))"

section \<open>Calls\<close>

definition set_reward_per_block :: "origin \<Rightarrow> balance \<Rightarrow> ('l chain, unit) prog" where
  "set_reward_per_block origin new_reward_per_block = transactionalM (bindM (liftM (ensure_root origin)) (\<lambda>_.
    bindM (modifyM (ch_dist_update (rd_reward_per_block_update (\<lambda>_. Some new_reward_per_block)))) (\<lambda>_.
    bindM (modifyM (\<lambda>s. s\<lparr>ch_dist := (ch_dist s)\<lparr>rd_rewards_adapted_at := Some (active_block s)\<rparr>\<rparr>)) (\<lambda>_.
    dist_deposit_event (RewardPerBlockAdapted new_reward_per_block)))))"

definition transfer_reward :: "'l config \<Rightarrow> currency \<Rightarrow> balance \<Rightarrow> account \<Rightarrow> ('l chain, unit) prog" where
  "transfer_reward c reward_currency_id reward beneficiary =
     (if reward_currency_id = cfg_native_currency c then (bindM (getM (\<lambda>s. amt (free_balance c (cfg_native_currency c) (cfg_fee_account c) s))) (\<lambda>available_native_funds.
       (case checked_sub_n reward available_native_funds of
           None \<Rightarrow> on_ledger (transfer c (new_amount reward reward_currency_id) (cfg_fee_account c) beneficiary)
         | Some remaining \<Rightarrow> (bindM (getM (\<lambda>s. rd_native_liability (ch_dist s))) (\<lambda>stored.
           bindM (ok_orM stored (RewardDistributionErr NotEnoughRewardsRegistered)) (\<lambda>liability.
           (if liability < remaining then failM (RewardDistributionErr NotEnoughRewardsRegistered)
             else (bindM (on_ledger (transfer c (new_amount available_native_funds reward_currency_id)
                 (cfg_fee_account c) beneficiary)) (\<lambda>_.
               bindM (modifyM (ch_ledger_update (led_deposit_creating (cfg_ledger c) beneficiary remaining))) (\<lambda>_.
               bindM (ok_orM (checked_sub_n liability remaining)
                 (RewardDistributionErr reward_distribution_error.Underflow)) (\<lambda>rest.
               modifyM (ch_dist_update (rd_native_liability_update (\<lambda>_. Some rest))))))))))))))
      else on_ledger (transfer c (new_amount reward reward_currency_id) (cfg_fee_account c) beneficiary))"

definition collect_reward ::
  "'l config \<Rightarrow> origin \<Rightarrow> vault_id \<Rightarrow> currency \<Rightarrow> nonce option \<Rightarrow> ('l chain, unit) prog" where
  "collect_reward c origin vault_id reward_currency_id index = transactionalM (bindM (liftM (ensure_signed origin)) (\<lambda>caller.
    bindM (on_pooled (api_withdraw_reward c (collateral_currency vault_id) vault_id reward_currency_id)) (\<lambda>reward.
    bindM (on_staking (staking_distribute_reward c vault_id reward reward_currency_id)) (\<lambda>_.
    let minimum_transfer_amount = cfg_existential_deposit c reward_currency_id in
    bindM (queryM (\<lambda>s. staking_compute_reward c vault_id caller reward_currency_id (ch_staking s))) (\<lambda>expected_rewards.
    bindM ((if expected_rewards = 0 then failM (RewardDistributionErr NoRewardsForAccount) else retM ())) (\<lambda>_.
    bindM ((if expected_rewards < minimum_transfer_amount then failM (RewardDistributionErr CollectAmountTooSmall)
      else retM ())) (\<lambda>_.
    bindM (on_staking (staking_withdraw_reward c vault_id caller index reward_currency_id)) (\<lambda>caller_rewards.
    bindM ((if caller_rewards = 0 then failM (RewardDistributionErr NoRewardsForAccount) else retM ())) (\<lambda>_.
    transfer_reward c reward_currency_id caller_rewards caller)))))))))"

end
