(* ===== verification/Fee.thy ===== *)
theory Fee
  imports Reward_Distribution
begin

text \<open>
  The fee pallet, \<^verbatim>\<open>pallets/fee/src/lib.rs\<close>: the rates set by the root origin, the fees and griefing
  collaterals computed from them, and the distribution of collected fees to the pools.
\<close>

section \<open>Calls\<close>

definition set_fee ::
  "'l config \<Rightarrow> ((int \<Rightarrow> int) \<Rightarrow> fee_state \<Rightarrow> fee_state) \<Rightarrow> origin \<Rightarrow> int \<Rightarrow> ('l chain, unit) prog" where
  "set_fee c storage_update origin fee = transactionalM (bindM (liftM (ensure_root origin)) (\<lambda>_.
    bindM (ensureM (fee \<le> cfg_max_expected_value c) (FeeErr AboveMaxExpectedValue)) (\<lambda>_.
    modifyM (ch_fee_update (storage_update (\<lambda>_. fee))))))"

definition set_issue_fee :: "'l config \<Rightarrow> origin \<Rightarrow> int \<Rightarrow> ('l chain, unit) prog" where
  "set_issue_fee c = set_fee c fee_issue_fee_update"

definition set_issue_griefing_collateral :: "'l config \<Rightarrow> origin \<Rightarrow> int \<Rightarrow> ('l chain, unit) prog" where
  "set_issue_griefing_collateral c = set_fee c fee_issue_griefing_collateral_update"

definition set_redeem_fee :: "'l config \<Rightarrow> origin \<Rightarrow> int \<Rightarrow> ('l chain, unit) prog" where
  "set_redeem_fee c = set_fee c fee_redeem_fee_update"

definition set_premium_redeem_fee :: "'l config \<Rightarrow> origin \<Rightarrow> int \<Rightarrow> ('l chain, unit) prog" where
  "set_premium_redeem_fee c = set_fee c fee_premium_redeem_fee_update"

definition set_punishment_fee :: "'l config \<Rightarrow> origin \<Rightarrow> int \<Rightarrow> ('l chain, unit) prog" where
  "set_punishment_fee c = set_fee c fee_punishment_fee_update"

definition set_replace_griefing_collateral :: "'l config \<Rightarrow> origin \<Rightarrow> int \<Rightarrow> ('l chain, unit) prog" where
  "set_replace_griefing_collateral c = set_fee c fee_replace_griefing_collateral_update"

section \<open>Fees of an amount\<close>

definition get_issue_fee :: "'l config \<Rightarrow> amount \<Rightarrow> 'l chain \<Rightarrow> amount result" where
  "get_issue_fee c a s = rounded_mul c a (fee_issue_fee (ch_fee s))"

definition get_issue_griefing_collateral :: "'l config \<Rightarrow> amount \<Rightarrow> 'l chain \<Rightarrow> amount result" where
  "get_issue_griefing_collateral c a s = rounded_mul c a (fee_issue_griefing_collateral (ch_fee s))"

definition get_redeem_fee :: "'l config \<Rightarrow> amount \<Rightarrow> 'l chain \<Rightarrow> amount result" where
  "get_redeem_fee c a s = rounded_mul c a (fee_redeem_fee (ch_fee s))"

definition get_premium_redeem_fee :: "'l config \<Rightarrow> amount \<Rightarrow> 'l chain \<Rightarrow> amount result" where
  "get_premium_redeem_fee c a s = rounded_mul c a (fee_premium_redeem_fee (ch_fee s))"

definition get_punishment_fee :: "'l config \<Rightarrow> amount \<Rightarrow> 'l chain \<Rightarrow> amount result" where
  "get_punishment_fee c a s = rounded_mul c a (fee_punishment_fee (ch_fee s))"

definition get_replace_griefing_collateral :: "'l config \<Rightarrow> amount \<Rightarrow> 'l chain \<Rightarrow> amount result" where
  "get_replace_griefing_collateral c a s = rounded_mul c a (fee_replace_griefing_collateral (ch_fee s))"

section \<open>Distribution\<close>

definition distribute :: "'l config \<Rightarrow> amount \<Rightarrow> ('l chain, amount) prog" where
  "distribute c reward = (bindM (Reward_Distribution.distribute_rewards c (amt reward) (cur reward)) (\<lambda>undistributed_balance.
    retM (new_amount undistributed_balance (cur reward))))"

definition fee_distribute_rewards :: "'l config \<Rightarrow> amount \<Rightarrow> ('l chain, unit) prog" where
  "fee_distribute_rewards c a = (bindM (distribute c a) (\<lambda>remaining.
    whenM (\<not> is_zero remaining) (on_ledger (on_sweep c (cfg_fee_account c) remaining))))"

definition fee_genesis :: "int \<Rightarrow> int \<Rightarrow> int \<Rightarrow> int \<Rightarrow> int \<Rightarrow> int \<Rightarrow> fee_state" where
  "fee_genesis issue_fee issue_griefing_collateral redeem_fee premium_redeem_fee punishment_fee
     replace_griefing_collateral =
     \<lparr>fee_issue_fee = issue_fee, fee_issue_griefing_collateral = issue_griefing_collateral,
      fee_redeem_fee = redeem_fee, fee_premium_redeem_fee = premium_redeem_fee,
      fee_punishment_fee = punishment_fee,
      fee_replace_griefing_collateral = replace_griefing_collateral\<rparr>"

end
