(* ===== verification/Vault_Store.thy ===== *)
theory Vault_Store
  imports Fee
begin

text \<open>
  The vaults of \<^verbatim>\<open>pallets/vault-registry/src/types.rs\<close>: a vault, the liquidation vault of a currency
  pair, and the operations on their token counts.  As in the code, an operation works on a copy of
  the vault read earlier and writes the whole copy back; it returns the updated copy.
\<close>

definition registry_deposit_event :: "registry_event \<Rightarrow> ('l chain, unit) prog" where
  "registry_deposit_event e = modifyM (ch_registry_update (\<lambda>r. r\<lparr>vr_events := e # vr_events r\<rparr>))"

section \<open>Reading vaults\<close>

definition new_vault :: "vault_id \<Rightarrow> vault" where
  "new_vault i =
     \<lparr>v_id = i, v_status = VaultActive True, v_banned_until = None, v_secure_threshold = None,
      v_to_be_issued = 0, v_issued = 0, v_to_be_redeemed = 0, v_to_be_replaced = 0,
      v_replace_collateral = 0, v_active_replace_collateral = 0, v_liquidated_collateral = 0\<rparr>"

definition is_liquidated :: "vault \<Rightarrow> bool" where
  "is_liquidated v \<longleftrightarrow> v_status v = VaultLiquidatedStatus"

definition accepts_new_issues :: "vault \<Rightarrow> bool" where
  "accepts_new_issues v \<longleftrightarrow> v_status v = VaultActive True"

definition get_vault_from_id :: "vault_id \<Rightarrow> 'l chain \<Rightarrow> vault result" where
  "get_vault_from_id i s = ok_orR (vr_vaults (ch_registry s) i) (VaultRegistryErr vault_registry_error.VaultNotFound)"

definition get_active_vault_from_id :: "vault_id \<Rightarrow> 'l chain \<Rightarrow> vault result" where
  "get_active_vault_from_id i s = (bindR (get_vault_from_id i s) (\<lambda>v.
    (case v_status v of
        VaultActive _ \<Rightarrow> Inr v
      | VaultLiquidatedStatus \<Rightarrow> Inl (VaultRegistryErr VaultLiquidated))))"

definition empty_system_vault :: "vault_currency_pair \<Rightarrow> system_vault" where
  "empty_system_vault currency_pair =
     \<lparr>sv_to_be_issued = 0, sv_issued = 0, sv_to_be_redeemed = 0, sv_collateral = 0,
      sv_currency_pair = currency_pair\<rparr>"

definition get_liquidation_vault :: "vault_currency_pair \<Rightarrow> 'l chain \<Rightarrow> system_vault" where
  "get_liquidation_vault currency_pair s =
     (case vr_liquidation_vault (ch_registry s) currency_pair of
        Some liquidation_vault \<Rightarrow> liquidation_vault
      | None \<Rightarrow> empty_system_vault currency_pair)"

definition issued_tokens :: "vault \<Rightarrow> amount" where
  "issued_tokens v = new_amount (v_issued v) (wrapped_currency (v_id v))"

definition to_be_issued_tokens :: "vault \<Rightarrow> amount" where
  "to_be_issued_tokens v = new_amount (v_to_be_issued v) (wrapped_currency (v_id v))"

definition to_be_redeemed_tokens :: "vault \<Rightarrow> amount" where
  "to_be_redeemed_tokens v = new_amount (v_to_be_redeemed v) (wrapped_currency (v_id v))"

definition to_be_replaced_tokens :: "vault \<Rightarrow> amount" where
  "to_be_replaced_tokens v = new_amount (v_to_be_replaced v) (wrapped_currency (v_id v))"

definition liquidated_collateral :: "vault \<Rightarrow> amount" where
  "liquidated_collateral v = new_amount (v_liquidated_collateral v) (cp_collateral (vid_currencies (v_id v)))"

definition backed_tokens :: "vault \<Rightarrow> amount result" where
  "backed_tokens v = (bindR (ok_orR (checked_add_128 (v_issued v) (v_to_be_issued v)) Overflow_err) (\<lambda>n.
    Inr (new_amount n (wrapped_currency (v_id v)))))"

definition freely_redeemable_tokens :: "vault \<Rightarrow> amount result" where
  "freely_redeemable_tokens v = checked_sub (issued_tokens v) (to_be_redeemed_tokens v)"

definition lv_issued_tokens :: "system_vault \<Rightarrow> amount" where
  "lv_issued_tokens lv = new_amount (sv_issued lv) (cp_wrapped (sv_currency_pair lv))"

definition lv_to_be_issued_tokens :: "system_vault \<Rightarrow> amount" where
  "lv_to_be_issued_tokens lv = new_amount (sv_to_be_issued lv) (cp_wrapped (sv_currency_pair lv))"

definition lv_to_be_redeemed_tokens :: "system_vault \<Rightarrow> amount" where
  "lv_to_be_redeemed_tokens lv = new_amount (sv_to_be_redeemed lv) (cp_wrapped (sv_currency_pair lv))"

definition lv_collateral :: "system_vault \<Rightarrow> amount" where
  "lv_collateral lv = new_amount (sv_collateral lv) (cp_collateral (sv_currency_pair lv))"

definition lv_redeemable_tokens :: "system_vault \<Rightarrow> amount result" where
  "lv_redeemable_tokens lv = checked_sub (lv_issued_tokens lv) (lv_to_be_redeemed_tokens lv)"

definition lv_to_be_backed_tokens :: "system_vault \<Rightarrow> amount result" where
  "lv_to_be_backed_tokens lv = (bindR (checked_add (lv_issued_tokens lv) (lv_to_be_issued_tokens lv)) (\<lambda>sum.
    checked_sub sum (lv_to_be_redeemed_tokens lv)))"

section \<open>The liquidation vault\<close>

definition put_liquidation_vault :: "system_vault \<Rightarrow> 'l chain \<Rightarrow> 'l chain" where
  "put_liquidation_vault lv =
     ch_registry_update (vr_liquidation_vault_update (\<lambda>m. m(sv_currency_pair lv \<mapsto> lv)))"

definition lv_update :: "(system_vault \<Rightarrow> system_vault) \<Rightarrow> system_vault \<Rightarrow> ('l chain, system_vault) prog" where
  "lv_update func lv = (let new = func lv in
    bindM (modifyM (put_liquidation_vault new)) (\<lambda>_.
    retM new))"

definition lv_increase_issued :: "system_vault \<Rightarrow> amount \<Rightarrow> ('l chain, system_vault) prog" where
  "lv_increase_issued lv tokens = (bindM (liftM (checked_add (lv_issued_tokens lv) tokens)) (\<lambda>new_value.
    lv_update (sv_issued_update (\<lambda>_. amt new_value)) lv))"

definition lv_increase_to_be_issued :: "system_vault \<Rightarrow> amount \<Rightarrow> ('l chain, system_vault) prog" where
  "lv_increase_to_be_issued lv tokens = (bindM (liftM (checked_add (lv_to_be_issued_tokens lv) tokens)) (\<lambda>new_value.
    lv_update (sv_to_be_issued_update (\<lambda>_. amt new_value)) lv))"

definition lv_increase_to_be_redeemed :: "system_vault \<Rightarrow> amount \<Rightarrow> ('l chain, system_vault) prog" where
  "lv_increase_to_be_redeemed lv tokens = (bindM (liftM (checked_add (lv_to_be_redeemed_tokens lv) tokens)) (\<lambda>new_value.
    lv_update (sv_to_be_redeemed_update (\<lambda>_. amt new_value)) lv))"

definition lv_decrease_issued :: "system_vault \<Rightarrow> amount \<Rightarrow> ('l chain, system_vault) prog" where
  "lv_decrease_issued lv tokens = (bindM (liftM (checked_sub (lv_issued_tokens lv) tokens)) (\<lambda>new_value.
    lv_update (sv_issued_update (\<lambda>_. amt new_value)) lv))"

definition lv_decrease_to_be_issued :: "system_vault \<Rightarrow> amount \<Rightarrow> ('l chain, system_vault) prog" where
  "lv_decrease_to_be_issued lv tokens = (bindM (liftM (checked_sub (lv_to_be_issued_tokens lv) tokens)) (\<lambda>new_value.
    lv_update (sv_to_be_issued_update (\<lambda>_. amt new_value)) lv))"

definition lv_decrease_to_be_redeemed :: "system_vault \<Rightarrow> amount \<Rightarrow> ('l chain, system_vault) prog" where
  "lv_decrease_to_be_redeemed lv tokens = (bindM (liftM (checked_sub (lv_to_be_redeemed_tokens lv) tokens)) (\<lambda>new_value.
    lv_update (sv_to_be_redeemed_update (\<lambda>_. amt new_value)) lv))"

definition lv_increase_collateral :: "system_vault \<Rightarrow> amount \<Rightarrow> ('l chain, system_vault) prog" where
  "lv_increase_collateral lv a = (bindM (liftM (checked_add (lv_collateral lv) a)) (\<lambda>new_value.
    lv_update (sv_collateral_update (\<lambda>_. amt new_value)) lv))"

definition lv_decrease_collateral :: "system_vault \<Rightarrow> amount \<Rightarrow> ('l chain, system_vault) prog" where
  "lv_decrease_collateral lv a = (bindM (liftM (checked_sub (lv_collateral lv) a)) (\<lambda>new_value.
    lv_update (sv_collateral_update (\<lambda>_. amt new_value)) lv))"

definition lv_burn_issued :: "system_vault \<Rightarrow> amount \<Rightarrow> ('l chain, system_vault) prog" where
  "lv_burn_issued lv tokens = lv_decrease_issued lv tokens"

section \<open>A vault's token counts\<close>

definition put_vault :: "vault \<Rightarrow> 'l chain \<Rightarrow> 'l chain" where
  "put_vault v = ch_registry_update (vr_vaults_update (\<lambda>m. m(v_id v \<mapsto> v)))"

definition rv_update :: "(vault \<Rightarrow> vault result) \<Rightarrow> vault \<Rightarrow> ('l chain, vault) prog" where
  "rv_update func v = (bindM (liftM (func v)) (\<lambda>new.
    bindM (modifyM (put_vault new)) (\<lambda>_.
    retM new)))"

definition rv_increase_issued :: "vault \<Rightarrow> amount \<Rightarrow> ('l chain, vault) prog" where
  "rv_increase_issued v tokens =
     (if is_liquidated v then (bindM (getM (get_liquidation_vault (vid_currencies (v_id v)))) (\<lambda>lv.
       bindM (lv_increase_issued lv tokens) (\<lambda>_.
       retM v)))
      else (bindM (liftM (checked_add (issued_tokens v) tokens)) (\<lambda>new_value.
        rv_update (\<lambda>v. Inr (v\<lparr>v_issued := amt new_value\<rparr>)) v)))"

definition rv_increase_to_be_issued :: "vault \<Rightarrow> amount \<Rightarrow> ('l chain, vault) prog" where
  "rv_increase_to_be_issued v tokens = (bindM (ensureM (\<not> is_liquidated v) (VaultRegistryErr vault_registry_error.VaultNotFound)) (\<lambda>_.
    bindM (liftM (checked_add (to_be_issued_tokens v) tokens)) (\<lambda>new_value.
    rv_update (\<lambda>v. Inr (v\<lparr>v_to_be_issued := amt new_value\<rparr>)) v)))"

definition rv_increase_to_be_redeemed :: "vault \<Rightarrow> amount \<Rightarrow> ('l chain, vault) prog" where
  "rv_increase_to_be_redeemed v tokens = (bindM (ensureM (\<not> is_liquidated v) (VaultRegistryErr vault_registry_error.VaultNotFound)) (\<lambda>_.
    bindM (liftM (checked_add (to_be_redeemed_tokens v) tokens)) (\<lambda>new_value.
    rv_update (\<lambda>v. Inr (v\<lparr>v_to_be_redeemed := amt new_value\<rparr>)) v)))"

definition rv_decrease_issued :: "vault \<Rightarrow> amount \<Rightarrow> ('l chain, vault) prog" where
  "rv_decrease_issued v tokens =
     (if is_liquidated v then (bindM (getM (get_liquidation_vault (vid_currencies (v_id v)))) (\<lambda>lv.
       bindM (lv_decrease_issued lv tokens) (\<lambda>_.
       retM v)))
      else (bindM (liftM (checked_sub (issued_tokens v) tokens)) (\<lambda>new_value.
        rv_update (\<lambda>v. Inr (v\<lparr>v_issued := amt new_value\<rparr>)) v)))"

definition rv_decrease_to_be_issued :: "vault \<Rightarrow> amount \<Rightarrow> ('l chain, vault) prog" where
  "rv_decrease_to_be_issued v tokens =
     (if is_liquidated v then (bindM (getM (get_liquidation_vault (vid_currencies (v_id v)))) (\<lambda>lv.
       bindM (lv_decrease_to_be_issued lv tokens) (\<lambda>_.
       retM v)))
      else (bindM (liftM (checked_sub (to_be_issued_tokens v) tokens)) (\<lambda>new_value.
        rv_update (\<lambda>v. Inr (v\<lparr>v_to_be_issued := amt new_value\<rparr>)) v)))"

definition rv_decrease_to_be_redeemed :: "vault \<Rightarrow> amount \<Rightarrow> ('l chain, vault) prog" where
  "rv_decrease_to_be_redeemed v tokens = (bindM ((if is_liquidated v then (bindM (getM (get_liquidation_vault (vid_currencies (v_id v)))) (\<lambda>lv.
       bindM (lv_decrease_to_be_redeemed lv tokens) (\<lambda>_.
       retM ())))
      else retM ())) (\<lambda>_.
    bindM (liftM (checked_sub (to_be_redeemed_tokens v) tokens)) (\<lambda>new_value.
    rv_update (\<lambda>v. Inr (v\<lparr>v_to_be_redeemed := amt new_value\<rparr>)) v)))"

definition rv_execute_issue_tokens :: "vault \<Rightarrow> amount \<Rightarrow> ('l chain, vault) prog" where
  "rv_execute_issue_tokens v tokens = (bindM (rv_decrease_to_be_issued v tokens) (\<lambda>v1.
    rv_increase_issued v1 tokens))"

definition rv_execute_redeem_tokens :: "vault \<Rightarrow> amount \<Rightarrow> ('l chain, vault) prog" where
  "rv_execute_redeem_tokens v tokens = (bindM (rv_decrease_to_be_redeemed v tokens) (\<lambda>v1.
    rv_decrease_issued v1 tokens))"

section \<open>A vault's other fields\<close>

definition rv_set_to_be_replaced_amount :: "vault \<Rightarrow> amount \<Rightarrow> ('l chain, vault) prog" where
  "rv_set_to_be_replaced_amount v tokens = rv_update (\<lambda>v. Inr (v\<lparr>v_to_be_replaced := amt tokens\<rparr>)) v"

definition rv_increase_available_replace_collateral :: "vault \<Rightarrow> amount \<Rightarrow> ('l chain, vault) prog" where
  "rv_increase_available_replace_collateral v a = rv_update (\<lambda>v. (bindR (ok_orR (checked_add_128 (v_replace_collateral v) (amt a)) Overflow_err) (\<lambda>n.
    Inr (v\<lparr>v_replace_collateral := n\<rparr>)))) v"

definition rv_decrease_available_replace_collateral :: "vault \<Rightarrow> amount \<Rightarrow> ('l chain, vault) prog" where
  "rv_decrease_available_replace_collateral v a = rv_update (\<lambda>v. (bindR (ok_orR (checked_sub_n (v_replace_collateral v) (amt a)) Underflow_err) (\<lambda>n.
    Inr (v\<lparr>v_replace_collateral := n\<rparr>)))) v"

definition rv_increase_active_replace_collateral :: "vault \<Rightarrow> amount \<Rightarrow> ('l chain, vault) prog" where
  "rv_increase_active_replace_collateral v a = rv_update (\<lambda>v. (bindR (ok_orR (checked_add_128 (v_active_replace_collateral v) (amt a)) Overflow_err) (\<lambda>n.
    Inr (v\<lparr>v_active_replace_collateral := n\<rparr>)))) v"

definition rv_decrease_active_replace_collateral :: "vault \<Rightarrow> amount \<Rightarrow> ('l chain, vault) prog" where
  "rv_decrease_active_replace_collateral v a = rv_update (\<lambda>v. (bindR (ok_orR (checked_sub_n (v_active_replace_collateral v) (amt a)) Underflow_err) (\<lambda>n.
    Inr (v\<lparr>v_active_replace_collateral := n\<rparr>)))) v"

definition rv_set_custom_secure_threshold :: "vault \<Rightarrow> int option \<Rightarrow> ('l chain, vault) prog" where
  "rv_set_custom_secure_threshold v threshold = rv_update (\<lambda>v. Inr (v\<lparr>v_secure_threshold := threshold\<rparr>)) v"

definition rv_set_accept_new_issues :: "vault \<Rightarrow> bool \<Rightarrow> ('l chain, vault) prog" where
  "rv_set_accept_new_issues v accept_new_issues =
     rv_update (\<lambda>v. Inr (v\<lparr>v_status := VaultActive accept_new_issues\<rparr>)) v"

definition rv_increase_liquidated_collateral :: "vault \<Rightarrow> amount \<Rightarrow> ('l chain, vault) prog" where
  "rv_increase_liquidated_collateral v a = rv_update (\<lambda>v. (bindR (ok_orR (checked_add_128 (v_liquidated_collateral v) (amt a)) Overflow_err) (\<lambda>n.
    Inr (v\<lparr>v_liquidated_collateral := n\<rparr>)))) v"

definition rv_decrease_liquidated_collateral :: "vault \<Rightarrow> amount \<Rightarrow> ('l chain, vault) prog" where
  "rv_decrease_liquidated_collateral v a = rv_update (\<lambda>v. (bindR (ok_orR (checked_sub_n (v_liquidated_collateral v) (amt a)) Underflow_err) (\<lambda>n.
    Inr (v\<lparr>v_liquidated_collateral := n\<rparr>)))) v"

definition is_banned :: "vault \<Rightarrow> 'l chain \<Rightarrow> bool" where
  "is_banned v s = (case v_banned_until v of None \<Rightarrow> False | Some until \<Rightarrow> active_block s \<le> until)"

definition rv_ensure_not_banned :: "vault \<Rightarrow> 'l chain \<Rightarrow> unit result" where
  "rv_ensure_not_banned v s = (if is_banned v s then Inl (VaultRegistryErr VaultBanned) else Inr ())"

definition rv_ban_until :: "vault \<Rightarrow> block_number \<Rightarrow> ('l chain, vault) prog" where
  "rv_ban_until v height = rv_update (\<lambda>v. Inr (v\<lparr>v_banned_until := Some height\<rparr>)) v"

definition redeemable_tokens :: "vault \<Rightarrow> 'l chain \<Rightarrow> amount result" where
  "redeemable_tokens v s =
     (if is_banned v s then Inr (zero_amount (wrapped_currency (v_id v)))
      else checked_sub (issued_tokens v) (to_be_redeemed_tokens v))"

end
