(* ===== verification/Vault_Collateral.thy ===== *)
theory Vault_Collateral
  imports Vault_Store
begin

text \<open>
  Collateral of the vaults, \<^verbatim>\<open>pallets/vault-registry/src\<close>: the pool manager that keeps the staking and
  reward pools in step, the collateral totals and thresholds, and the movement of funds between
  the places in which a currency is held.
\<close>

section \<open>The pool manager\<close>

definition update_reward_stake :: "'l config \<Rightarrow> vault_id \<Rightarrow> ('l chain, unit) prog" where
  "update_reward_stake c i = (bindM (queryM (get_vault_from_id i)) (\<lambda>v.
    bindM ((if \<not> accepts_new_issues v then retM (zero_amount (collateral_currency i))
      else (bindM (queryM (\<lambda>s. staking_total_stake c i (ch_staking s))) (\<lambda>total_stake.
        retM (new_amount total_stake (collateral_currency i)))))) (\<lambda>new_reward_stake.
    on_pooled (api_set_stake c (collateral_currency i) i (amt new_reward_stake)))))"

definition pool_deposit_collateral :: "'l config \<Rightarrow> vault_id \<Rightarrow> account \<Rightarrow> amount \<Rightarrow> ('l chain, unit) prog" where
  "pool_deposit_collateral c i nominator_id a = (bindM (withdraw_all_rewards_from_vault c i) (\<lambda>_.
    bindM (on_staking (staking_deposit_stake c i nominator_id (amt a))) (\<lambda>_.
    update_reward_stake c i)))"

definition pool_withdraw_collateral ::
  "'l config \<Rightarrow> vault_id \<Rightarrow> account \<Rightarrow> amount \<Rightarrow> nonce option \<Rightarrow> ('l chain, unit) prog" where
  "pool_withdraw_collateral c i nominator_id a nonce = (bindM (withdraw_all_rewards_from_vault c i) (\<lambda>_.
    bindM (on_staking (staking_withdraw_stake c i nominator_id (amt a) nonce)) (\<lambda>_.
    update_reward_stake c i)))"

definition pool_slash_collateral :: "'l config \<Rightarrow> vault_id \<Rightarrow> amount \<Rightarrow> ('l chain, unit) prog" where
  "pool_slash_collateral c i a = (bindM (withdraw_all_rewards_from_vault c i) (\<lambda>_.
    bindM (on_staking (staking_slash_stake c i (amt a))) (\<lambda>_.
    update_reward_stake c i)))"

definition pool_kick_nominators :: "'l config \<Rightarrow> vault_id \<Rightarrow> ('l chain, balance) prog" where
  "pool_kick_nominators c i = (bindM (withdraw_all_rewards_from_vault c i) (\<lambda>_.
    bindM (on_staking (staking_force_refund c i)) (\<lambda>ret.
    bindM (update_reward_stake c i) (\<lambda>_.
    retM ret))))"

definition on_vault_settings_change :: "'l config \<Rightarrow> vault_id \<Rightarrow> ('l chain, unit) prog" where
  "on_vault_settings_change c i = (bindM (withdraw_all_rewards_from_vault c i) (\<lambda>_.
    update_reward_stake c i))"

section \<open>Totals and thresholds\<close>

definition get_backing_collateral :: "'l config \<Rightarrow> vault_id \<Rightarrow> 'l chain \<Rightarrow> amount result" where
  "get_backing_collateral c i s = (bindR (staking_total_stake c i (ch_staking s)) (\<lambda>stake.
    Inr (new_amount stake (cp_collateral (vid_currencies i)))))"

definition compute_collateral :: "'l config \<Rightarrow> vault_id \<Rightarrow> 'l chain \<Rightarrow> amount result" where
  "compute_collateral c i s = (bindR (staking_compute_stake c i (vid_account i) (ch_staking s)) (\<lambda>n.
    Inr (new_amount n (cp_collateral (vid_currencies i)))))"

definition get_secure_threshold :: "vault \<Rightarrow> 'l chain \<Rightarrow> int result" where
  "get_secure_threshold v s = (bindR (ok_orR (vr_secure_threshold (ch_registry s) (vid_currencies (v_id v)))
      (VaultRegistryErr GlobalThresholdNotSet)) (\<lambda>global_threshold.
    Inr (max (case v_secure_threshold v of None \<Rightarrow> 0 | Some t \<Rightarrow> t) global_threshold)))"

definition get_used_collateral :: "'l config \<Rightarrow> vault \<Rightarrow> int \<Rightarrow> 'l chain \<Rightarrow> amount result" where
  "get_used_collateral c v threshold s = (bindR (backed_tokens v) (\<lambda>issued.
    bindR (convert_to c issued (cp_collateral (vid_currencies (v_id v))) s) (\<lambda>issued_tokens_in_collateral.
    bindR (checked_fixed_point_mul c issued_tokens_in_collateral threshold) (\<lambda>used_collateral.
    bindR (get_backing_collateral c (v_id v) s) (\<lambda>total_collateral.
    amount_min total_collateral used_collateral)))))"

definition get_free_collateral :: "'l config \<Rightarrow> vault \<Rightarrow> 'l chain \<Rightarrow> amount result" where
  "get_free_collateral c v s = (bindR (get_secure_threshold v s) (\<lambda>threshold.
    bindR (get_used_collateral c v threshold s) (\<lambda>used_collateral.
    bindR (get_backing_collateral c (v_id v) s) (\<lambda>total_collateral.
    checked_sub total_collateral used_collateral))))"

definition calculate_max_wrapped_from_collateral_for_threshold ::
  "'l config \<Rightarrow> amount \<Rightarrow> currency \<Rightarrow> int \<Rightarrow> 'l chain \<Rightarrow> amount result" where
  "calculate_max_wrapped_from_collateral_for_threshold c collateral wrapped threshold s = (bindR (convert_to c collateral wrapped s) (\<lambda>converted.
    checked_div c converted threshold))"

definition is_collateral_below_threshold ::
  "'l config \<Rightarrow> amount \<Rightarrow> amount \<Rightarrow> int \<Rightarrow> 'l chain \<Rightarrow> bool result" where
  "is_collateral_below_threshold c collateral wrapped_amount threshold s = (bindR (calculate_max_wrapped_from_collateral_for_threshold c collateral (cur wrapped_amount) threshold s) (\<lambda>max_tokens.
    amount_lt max_tokens wrapped_amount))"

definition is_vault_below_threshold :: "'l config \<Rightarrow> vault_id \<Rightarrow> int \<Rightarrow> 'l chain \<Rightarrow> bool result" where
  "is_vault_below_threshold c i threshold s = (bindR (get_vault_from_id i s) (\<lambda>v.
    bindR (get_backing_collateral c i s) (\<lambda>collateral.
    is_collateral_below_threshold c collateral (issued_tokens v) threshold s)))"

definition is_vault_below_secure_threshold :: "'l config \<Rightarrow> vault_id \<Rightarrow> 'l chain \<Rightarrow> bool result" where
  "is_vault_below_secure_threshold c i s = (bindR (get_vault_from_id i s) (\<lambda>v.
    bindR (get_secure_threshold v s) (\<lambda>threshold.
    is_vault_below_threshold c i threshold s)))"

definition is_vault_below_premium_threshold :: "'l config \<Rightarrow> vault_id \<Rightarrow> 'l chain \<Rightarrow> bool result" where
  "is_vault_below_premium_threshold c i s = (bindR (ok_orR (vr_premium_threshold (ch_registry s) (vid_currencies i))
      (VaultRegistryErr PremiumRedeemThresholdNotSet)) (\<lambda>threshold.
    is_vault_below_threshold c i threshold s))"

definition is_vault_below_liquidation_threshold :: "'l config \<Rightarrow> vault \<Rightarrow> int \<Rightarrow> 'l chain \<Rightarrow> bool result" where
  "is_vault_below_liquidation_threshold c v liquidation_threshold s = (bindR (get_backing_collateral c (v_id v) s) (\<lambda>collateral.
    is_collateral_below_threshold c collateral (new_amount (v_issued v) (wrapped_currency (v_id v)))
      liquidation_threshold s))"

definition is_collateral_below_vault_secure_threshold ::
  "'l config \<Rightarrow> amount \<Rightarrow> amount \<Rightarrow> vault \<Rightarrow> 'l chain \<Rightarrow> bool result" where
  "is_collateral_below_vault_secure_threshold c collateral wrapped_amount v s = (bindR (get_secure_threshold v s) (\<lambda>threshold.
    is_collateral_below_threshold c collateral wrapped_amount threshold s))"

definition issuable_tokens :: "'l config \<Rightarrow> vault \<Rightarrow> 'l chain \<Rightarrow> amount result" where
  "issuable_tokens c v s =
     (if is_banned v s then Inr (zero_amount (wrapped_currency (v_id v)))
      else (bindR (get_free_collateral c v s) (\<lambda>free_collateral.
        bindR (get_secure_threshold v s) (\<lambda>secure_threshold.
        calculate_max_wrapped_from_collateral_for_threshold c free_collateral (wrapped_currency (v_id v))
          secure_threshold s))))"

definition get_max_nomination_ratio :: "'l config \<Rightarrow> vault_currency_pair \<Rightarrow> 'l chain \<Rightarrow> int result" where
  "get_max_nomination_ratio c currency_pair s = (bindR (ok_orR (vr_secure_threshold (ch_registry s) currency_pair)
      (VaultRegistryErr SecureCollateralThresholdNotSet)) (\<lambda>secure.
    bindR (ok_orR (vr_premium_threshold (ch_registry s) currency_pair)
      (VaultRegistryErr PremiumRedeemThresholdNotSet)) (\<lambda>premium.
    bindR (ok_orR (fx_checked_div (cfg_unsigned c) secure premium) Underflow_err) (\<lambda>quotient.
    ok_orR (fx_checked_sub (cfg_unsigned c) quotient (fx_accuracy (cfg_unsigned c))) Underflow_err))))"

definition get_max_nominatable_collateral ::
  "'l config \<Rightarrow> amount \<Rightarrow> vault_currency_pair \<Rightarrow> 'l chain \<Rightarrow> amount result" where
  "get_max_nominatable_collateral c vault_collateral currency_pair s = (bindR (get_max_nomination_ratio c currency_pair s) (\<lambda>nomination_ratio.
    rounded_mul c vault_collateral nomination_ratio))"

definition is_max_nomination_ratio_preserved ::
  "'l config \<Rightarrow> vault_id \<Rightarrow> amount \<Rightarrow> 'l chain \<Rightarrow> bool result" where
  "is_max_nomination_ratio_preserved c i a s = (bindR (compute_collateral c i s) (\<lambda>vault_collateral.
    bindR (get_backing_collateral c i s) (\<lambda>backing_collateral.
    bindR (checked_sub backing_collateral vault_collateral) (\<lambda>current_nomination.
    bindR (checked_sub vault_collateral a) (\<lambda>new_vault_collateral.
    bindR (get_max_nominatable_collateral c new_vault_collateral (vid_currencies i) s) (\<lambda>max_nomination_after_withdrawal.
    amount_le current_nomination max_nomination_after_withdrawal))))))"

definition is_allowed_to_withdraw_collateral ::
  "'l config \<Rightarrow> vault_id \<Rightarrow> amount \<Rightarrow> 'l chain \<Rightarrow> bool result" where
  "is_allowed_to_withdraw_collateral c i a s = (bindR (get_vault_from_id i s) (\<lambda>v.
    bindR (get_backing_collateral c i s) (\<lambda>backing_collateral.
    (case checked_sub backing_collateral a of
        Inl x \<Rightarrow> if x = Underflow_err then Inr False else Inl x
      | Inr new_collateral \<Rightarrow> (bindR (backed_tokens v) (\<lambda>backed.
        bindR (is_collateral_below_vault_secure_threshold c new_collateral backed v s) (\<lambda>is_below_threshold.
        Inr (\<not> is_below_threshold))))))))"

definition calculate_collateral :: "amount \<Rightarrow> amount \<Rightarrow> amount \<Rightarrow> amount result" where
  "calculate_collateral collateral numerator denominator =
     (if is_zero numerator \<and> is_zero denominator then Inr collateral
      else (bindR (ok_orR (checked_mul_w 256 (amt collateral) (amt numerator)) Overflow_err) (\<lambda>product.
        bindR (ok_orR (checked_div_n product (amt denominator)) Underflow_err) (\<lambda>quotient.
        bindR (ensureR (quotient < 2 ^ 128) (VaultRegistryErr vault_registry_error.TryIntoIntError)) (\<lambda>_.
        Inr (new_amount quotient (cur collateral)))))))"

section \<open>The collateral of a currency pair\<close>

definition get_total_user_vault_collateral :: "vault_currency_pair \<Rightarrow> 'l chain \<Rightarrow> amount" where
  "get_total_user_vault_collateral currency_pair s =
     new_amount (vr_total_collateral (ch_registry s) currency_pair) (cp_collateral currency_pair)"

definition get_collateral_ceiling :: "vault_currency_pair \<Rightarrow> 'l chain \<Rightarrow> amount result" where
  "get_collateral_ceiling currency_pair s = (bindR (ok_orR (vr_collateral_ceiling (ch_registry s) currency_pair)
      (VaultRegistryErr CeilingNotSet)) (\<lambda>ceiling_amount.
    Inr (new_amount ceiling_amount (cp_collateral currency_pair))))"

definition put_total_collateral :: "vault_currency_pair \<Rightarrow> balance \<Rightarrow> 'l chain \<Rightarrow> 'l chain" where
  "put_total_collateral currency_pair n =
     ch_registry_update (vr_total_collateral_update (\<lambda>m. m(currency_pair := n)))"

definition try_increase_total_backing_collateral ::
  "vault_currency_pair \<Rightarrow> amount \<Rightarrow> ('l chain, unit) prog" where
  "try_increase_total_backing_collateral currency_pair a = (bindM (getM (get_total_user_vault_collateral currency_pair)) (\<lambda>current.
    bindM (liftM (checked_add current a)) (\<lambda>new.
    bindM (queryM (get_collateral_ceiling currency_pair)) (\<lambda>limit.
    bindM (liftM (amount_le new limit)) (\<lambda>within.
    bindM (ensureM within (VaultRegistryErr CurrencyCeilingExceeded)) (\<lambda>_.
    bindM (modifyM (put_total_collateral currency_pair (amt new))) (\<lambda>_.
    registry_deposit_event (IncreaseLockedCollateral currency_pair (amt a) (amt new)))))))))"

definition decrease_total_backing_collateral ::
  "vault_currency_pair \<Rightarrow> amount \<Rightarrow> ('l chain, unit) prog" where
  "decrease_total_backing_collateral currency_pair a = (bindM (getM (get_total_user_vault_collateral currency_pair)) (\<lambda>current.
    bindM (liftM (checked_sub current a)) (\<lambda>new.
    bindM (modifyM (put_total_collateral currency_pair (amt new))) (\<lambda>_.
    registry_deposit_event (DecreaseLockedCollateral currency_pair (amt a) (amt new))))))"

section \<open>Deposit, withdrawal and slashing\<close>

definition try_deposit_collateral :: "'l config \<Rightarrow> vault_id \<Rightarrow> amount \<Rightarrow> ('l chain, unit) prog" where
  "try_deposit_collateral c i a = (bindM (queryM (get_active_vault_from_id i)) (\<lambda>_.
    bindM (try_increase_total_backing_collateral (vid_currencies i) a) (\<lambda>_.
    bindM (on_ledger (lock_on c a (vid_account i))) (\<lambda>_.
    pool_deposit_collateral c i (vid_account i) a))))"

definition force_withdraw_collateral :: "'l config \<Rightarrow> vault_id \<Rightarrow> amount \<Rightarrow> ('l chain, unit) prog" where
  "force_withdraw_collateral c i a = (bindM (on_ledger (unlock_on c a (vid_account i))) (\<lambda>_.
    bindM (decrease_total_backing_collateral (vid_currencies i) a) (\<lambda>_.
    pool_withdraw_collateral c i (vid_account i) a None)))"

definition try_withdraw_collateral :: "'l config \<Rightarrow> vault_id \<Rightarrow> amount \<Rightarrow> ('l chain, unit) prog" where
  "try_withdraw_collateral c i a = (bindM (queryM (is_allowed_to_withdraw_collateral c i a)) (\<lambda>allowed.
    bindM (ensureM allowed (VaultRegistryErr InsufficientCollateral)) (\<lambda>_.
    bindM (queryM (is_max_nomination_ratio_preserved c i a)) (\<lambda>preserved.
    bindM (ensureM preserved (VaultRegistryErr MaxNominationRatioViolation)) (\<lambda>_.
    force_withdraw_collateral c i a)))))"

definition slash_backing_collateral :: "'l config \<Rightarrow> vault_id \<Rightarrow> amount \<Rightarrow> ('l chain, unit) prog" where
  "slash_backing_collateral c i a = (bindM (on_ledger (unlock_on c a (vid_account i))) (\<lambda>_.
    bindM (decrease_total_backing_collateral (vid_currencies i) a) (\<lambda>_.
    pool_slash_collateral c i a)))"

section \<open>Funds\<close>

datatype currency_source =
    Collateral vault_id
  | AvailableReplaceCollateral vault_id
  | ActiveReplaceCollateral vault_id
  | UserGriefing account
  | FreeBalance account
  | LiquidatedCollateral vault_id
  | LiquidationVault vault_currency_pair

fun source_account_id :: "'l config \<Rightarrow> currency_source \<Rightarrow> account" where
  "source_account_id c (Collateral i) = vid_account i"
| "source_account_id c (AvailableReplaceCollateral i) = vid_account i"
| "source_account_id c (ActiveReplaceCollateral i) = vid_account i"
| "source_account_id c (UserGriefing x) = x"
| "source_account_id c (FreeBalance x) = x"
| "source_account_id c (LiquidatedCollateral i) = vid_account i"
| "source_account_id c (LiquidationVault _) = cfg_liquidation_account c"

fun current_balance :: "'l config \<Rightarrow> currency_source \<Rightarrow> currency \<Rightarrow> 'l chain \<Rightarrow> amount result" where
  "current_balance c (Collateral i) currency_id s = get_backing_collateral c i s"
| "current_balance c (AvailableReplaceCollateral i) currency_id s = (bindR (get_vault_from_id i s) (\<lambda>v.
  Inr (new_amount (v_replace_collateral v) (cfg_griefing_currency c))))"
| "current_balance c (ActiveReplaceCollateral i) currency_id s = (bindR (get_vault_from_id i s) (\<lambda>v.
  Inr (new_amount (v_active_replace_collateral v) (cfg_griefing_currency c))))"
| "current_balance c (UserGriefing x) currency_id s = Inr (reserved_balance c currency_id x s)"
| "current_balance c (FreeBalance x) currency_id s = Inr (free_balance c currency_id x s)"
| "current_balance c (LiquidatedCollateral i) currency_id s = (bindR (get_vault_from_id i s) (\<lambda>v.
  Inr (new_amount (v_liquidated_collateral v) (collateral_currency i))))"
| "current_balance c (LiquidationVault currency_pair) currency_id s =
     Inr (new_amount (sv_collateral (get_liquidation_vault currency_pair s)) (cp_collateral currency_pair))"

fun take_funds :: "'l config \<Rightarrow> currency_source \<Rightarrow> amount \<Rightarrow> ('l chain, unit) prog" where
  "take_funds c (Collateral i) a = (bindM (ensureM (cp_collateral (vid_currencies i) = cur a) (VaultRegistryErr vault_registry_error.InvalidCurrency)) (\<lambda>_.
    slash_backing_collateral c i a))"
| "take_funds c (AvailableReplaceCollateral i) a = (bindM (queryM (get_active_vault_from_id i)) (\<lambda>v.
  bindM (rv_decrease_available_replace_collateral v a) (\<lambda>_.
  on_ledger (unlock_on c a (vid_account i)))))"
| "take_funds c (ActiveReplaceCollateral i) a = (bindM (queryM (get_vault_from_id i)) (\<lambda>v.
  bindM (rv_decrease_active_replace_collateral v a) (\<lambda>_.
  on_ledger (unlock_on c a (vid_account i)))))"
| "take_funds c (UserGriefing x) a = on_ledger (unlock_on c a x)"
| "take_funds c (LiquidatedCollateral i) a = (bindM (decrease_total_backing_collateral (vid_currencies i) a) (\<lambda>_.
  on_ledger (unlock_on c a (vid_account i))))"
| "take_funds c (LiquidationVault currencies) a = (bindM (getM (get_liquidation_vault currencies)) (\<lambda>lv.
  bindM (lv_decrease_collateral lv a) (\<lambda>_.
  bindM (decrease_total_backing_collateral currencies a) (\<lambda>_.
  on_ledger (unlock_on c a (cfg_liquidation_account c))))))"
| "take_funds c (FreeBalance x) a = retM ()"

fun put_funds :: "'l config \<Rightarrow> currency_source \<Rightarrow> amount \<Rightarrow> ('l chain, unit) prog" where
  "put_funds c (Collateral i) a = (bindM (ensureM (cp_collateral (vid_currencies i) = cur a) (VaultRegistryErr vault_registry_error.InvalidCurrency)) (\<lambda>_.
    try_deposit_collateral c i a))"
| "put_funds c (AvailableReplaceCollateral i) a = (bindM (queryM (get_active_vault_from_id i)) (\<lambda>v.
  bindM (rv_increase_available_replace_collateral v a) (\<lambda>_.
  on_ledger (lock_on c a (vid_account i)))))"
| "put_funds c (ActiveReplaceCollateral i) a = (bindM (queryM (get_vault_from_id i)) (\<lambda>v.
  bindM (rv_increase_active_replace_collateral v a) (\<lambda>_.
  on_ledger (lock_on c a (vid_account i)))))"
| "put_funds c (UserGriefing x) a = on_ledger (lock_on c a x)"
| "put_funds c (LiquidatedCollateral i) a = (bindM (try_increase_total_backing_collateral (vid_currencies i) a) (\<lambda>_.
  on_ledger (lock_on c a (vid_account i))))"
| "put_funds c (LiquidationVault currencies) a = (bindM (try_increase_total_backing_collateral currencies a) (\<lambda>_.
  bindM (getM (get_liquidation_vault currencies)) (\<lambda>lv.
  bindM (lv_increase_collateral lv a) (\<lambda>_.
  on_ledger (lock_on c a (cfg_liquidation_account c))))))"
| "put_funds c (FreeBalance x) a = retM ()"

definition transfer_funds ::
  "'l config \<Rightarrow> currency_source \<Rightarrow> currency_source \<Rightarrow> amount \<Rightarrow> ('l chain, unit) prog" where
  "transfer_funds c source destination a = (bindM (take_funds c source a) (\<lambda>_.
    bindM (on_ledger (transfer c a (source_account_id c source) (source_account_id c destination))) (\<lambda>_.
    put_funds c destination a)))"

definition transfer_funds_saturated ::
  "'l config \<Rightarrow> currency_source \<Rightarrow> currency_source \<Rightarrow> amount \<Rightarrow> ('l chain, amount) prog" where
  "transfer_funds_saturated c source destination a = (bindM (queryM (current_balance c source (cur a))) (\<lambda>available_amount.
    bindM (liftM (amount_lt available_amount a)) (\<lambda>less.
    let actual = (if less then available_amount else a) in
    bindM (transfer_funds c source destination actual) (\<lambda>_.
    retM actual))))"

end
