(* ===== verification/Vault_Registry.thy ===== *)
theory Vault_Registry
  imports Vault_Collateral
begin

text \<open>
  The vault registry, \<^verbatim>\<open>pallets/vault-registry/src/lib.rs\<close>: the token operations that the issue,
  redeem and replace pallets call, liquidation, the calls of the pallet itself, and the queries
  answered over RPC.
\<close>

section \<open>Queries\<close>

definition vault_exists :: "vault_id \<Rightarrow> 'l chain \<Rightarrow> bool" where
  "vault_exists i s \<longleftrightarrow> vr_vaults (ch_registry s) i \<noteq> None"

definition is_vault_liquidated :: "vault_id \<Rightarrow> 'l chain \<Rightarrow> bool result" where
  "is_vault_liquidated i s = (bindR (get_vault_from_id i s) (\<lambda>v.
    Inr (is_liquidated v)))"

definition get_stellar_public_key :: "account \<Rightarrow> 'l chain \<Rightarrow> byte list result" where
  "get_stellar_public_key account_id s =
     ok_orR (vr_public_keys (ch_registry s) account_id) (VaultRegistryErr NoStellarPublicKey)"

definition get_minimum_collateral_vault :: "currency \<Rightarrow> 'l chain \<Rightarrow> amount" where
  "get_minimum_collateral_vault currency_id s =
     new_amount (case vr_minimum_collateral (ch_registry s) currency_id of None \<Rightarrow> 0 | Some n \<Rightarrow> n) currency_id"

definition get_liquidated_collateral :: "vault_id \<Rightarrow> 'l chain \<Rightarrow> amount result" where
  "get_liquidated_collateral i s = (bindR (get_vault_from_id i s) (\<lambda>v.
    Inr (new_amount (v_liquidated_collateral v) (cp_collateral (vid_currencies i)))))"

definition get_free_redeemable_tokens :: "vault_id \<Rightarrow> 'l chain \<Rightarrow> amount result" where
  "get_free_redeemable_tokens i s = (bindR (get_vault_from_id i s) (\<lambda>v.
    freely_redeemable_tokens v))"

definition get_vault_secure_threshold :: "vault_id \<Rightarrow> 'l chain \<Rightarrow> int result" where
  "get_vault_secure_threshold i s = (bindR (get_vault_from_id i s) (\<lambda>v.
    get_secure_threshold v s))"

definition ensure_not_banned :: "vault_id \<Rightarrow> 'l chain \<Rightarrow> unit result" where
  "ensure_not_banned i s = (bindR (get_active_vault_from_id i s) (\<lambda>v.
    rv_ensure_not_banned v s))"

definition ensure_accepting_new_issues :: "vault_id \<Rightarrow> 'l chain \<Rightarrow> unit result" where
  "ensure_accepting_new_issues i s = (bindR (get_active_vault_from_id i s) (\<lambda>v.
    ensureR (v_status v = VaultActive True) (VaultRegistryErr VaultNotAcceptingIssueRequests)))"

definition get_issuable_tokens_from_vault :: "'l config \<Rightarrow> vault_id \<Rightarrow> 'l chain \<Rightarrow> amount result" where
  "get_issuable_tokens_from_vault c i s = (bindR (get_active_vault_from_id i s) (\<lambda>v.
    (if v_status v \<noteq> VaultActive True then Inr (zero_amount (cp_collateral (vid_currencies i)))
      else issuable_tokens c v s)))"

definition requestable_to_be_replaced_tokens :: "vault_id \<Rightarrow> 'l chain \<Rightarrow> amount result" where
  "requestable_to_be_replaced_tokens i s = (bindR (get_active_vault_from_id i s) (\<lambda>v.
    bindR (checked_sub (issued_tokens v) (to_be_replaced_tokens v)) (\<lambda>d.
    checked_sub d (to_be_redeemed_tokens v))))"

section \<open>Token operations\<close>

definition try_increase_to_be_issued_tokens :: "'l config \<Rightarrow> vault_id \<Rightarrow> amount \<Rightarrow> ('l chain, unit) prog" where
  "try_increase_to_be_issued_tokens c i tokens = (bindM (queryM (get_active_vault_from_id i)) (\<lambda>v.
    bindM (queryM (issuable_tokens c v)) (\<lambda>issuable.
    bindM (liftM (amount_ge issuable tokens)) (\<lambda>enough.
    bindM (ensureM enough (VaultRegistryErr ExceedingVaultLimit)) (\<lambda>_.
    bindM (rv_increase_to_be_issued v tokens) (\<lambda>v1.
    registry_deposit_event (IncreaseToBeIssuedTokens (v_id v1) (amt tokens))))))))"

definition try_increase_to_be_replaced_tokens :: "vault_id \<Rightarrow> amount \<Rightarrow> ('l chain, amount) prog" where
  "try_increase_to_be_replaced_tokens i tokens = (bindM (queryM (get_active_vault_from_id i)) (\<lambda>v.
    bindM (liftM (checked_add (to_be_replaced_tokens v) tokens)) (\<lambda>new_to_be_replaced.
    bindM (liftM (checked_add new_to_be_replaced (to_be_redeemed_tokens v))) (\<lambda>total_decreasing_tokens.
    bindM (liftM (amount_le total_decreasing_tokens (issued_tokens v))) (\<lambda>enough.
    bindM (ensureM enough (VaultRegistryErr InsufficientTokensCommitted)) (\<lambda>_.
    bindM (rv_set_to_be_replaced_amount v new_to_be_replaced) (\<lambda>v1.
    bindM (registry_deposit_event (IncreaseToBeReplacedTokens (v_id v1) (amt tokens))) (\<lambda>_.
    retM new_to_be_replaced))))))))"

definition decrease_to_be_replaced_tokens ::
  "'l config \<Rightarrow> vault_id \<Rightarrow> amount \<Rightarrow> ('l chain, amount \<times> amount) prog" where
  "decrease_to_be_replaced_tokens c i tokens = (bindM (queryM (get_vault_from_id i)) (\<lambda>v.
    let initial_to_be_replaced = new_amount (v_to_be_replaced v) (wrapped_currency i) in
    let initial_griefing_collateral = new_amount (v_replace_collateral v) (cfg_griefing_currency c) in
    bindM (liftM (amount_min tokens initial_to_be_replaced)) (\<lambda>used_tokens.
    bindM (liftM (calculate_collateral initial_griefing_collateral used_tokens initial_to_be_replaced)) (\<lambda>share.
    bindM (liftM (amount_min share initial_griefing_collateral)) (\<lambda>used_collateral.
    bindM (liftM (checked_sub initial_to_be_replaced used_tokens)) (\<lambda>new_to_be_replaced.
    bindM (rv_set_to_be_replaced_amount v new_to_be_replaced) (\<lambda>v1.
    bindM (registry_deposit_event (DecreaseToBeReplacedTokens (v_id v1) (amt tokens))) (\<lambda>_.
    retM (used_tokens, used_collateral)))))))))"

definition decrease_to_be_issued_tokens :: "vault_id \<Rightarrow> amount \<Rightarrow> ('l chain, unit) prog" where
  "decrease_to_be_issued_tokens i tokens = (bindM (queryM (get_vault_from_id i)) (\<lambda>v.
    bindM (rv_decrease_to_be_issued v tokens) (\<lambda>_.
    registry_deposit_event (DecreaseToBeIssuedTokens i (amt tokens)))))"

definition issue_tokens :: "vault_id \<Rightarrow> amount \<Rightarrow> ('l chain, unit) prog" where
  "issue_tokens i tokens = (bindM (queryM (get_vault_from_id i)) (\<lambda>v.
    bindM (rv_execute_issue_tokens v tokens) (\<lambda>v1.
    registry_deposit_event (IssueTokens (v_id v1) (amt tokens)))))"

definition try_increase_to_be_redeemed_tokens :: "vault_id \<Rightarrow> amount \<Rightarrow> ('l chain, unit) prog" where
  "try_increase_to_be_redeemed_tokens i tokens = (bindM (queryM (get_active_vault_from_id i)) (\<lambda>v.
    bindM (liftM (checked_sub (issued_tokens v) (to_be_redeemed_tokens v))) (\<lambda>redeemable.
    bindM (liftM (amount_ge redeemable tokens)) (\<lambda>enough.
    bindM (ensureM enough (VaultRegistryErr InsufficientTokensCommitted)) (\<lambda>_.
    bindM (rv_increase_to_be_redeemed v tokens) (\<lambda>v1.
    registry_deposit_event (IncreaseToBeRedeemedTokens (v_id v1) (amt tokens))))))))"

definition decrease_to_be_redeemed_tokens :: "vault_id \<Rightarrow> amount \<Rightarrow> ('l chain, unit) prog" where
  "decrease_to_be_redeemed_tokens i tokens = (bindM (queryM (get_vault_from_id i)) (\<lambda>v.
    bindM (rv_decrease_to_be_redeemed v tokens) (\<lambda>v1.
    registry_deposit_event (DecreaseToBeRedeemedTokens (v_id v1) (amt tokens)))))"

definition decrease_tokens :: "vault_id \<Rightarrow> account \<Rightarrow> amount \<Rightarrow> ('l chain, unit) prog" where
  "decrease_tokens i user_id tokens = (bindM (queryM (get_vault_from_id i)) (\<lambda>v.
    bindM (rv_execute_redeem_tokens v tokens) (\<lambda>v1.
    registry_deposit_event (DecreaseTokens (v_id v1) user_id (amt tokens)))))"

definition decrease_liquidated_collateral :: "vault_id \<Rightarrow> amount \<Rightarrow> ('l chain, unit) prog" where
  "decrease_liquidated_collateral i a = (bindM (queryM (get_vault_from_id i)) (\<lambda>v.
    bindM (rv_decrease_liquidated_collateral v a) (\<lambda>_.
    retM ())))"

definition redeem_tokens :: "'l config \<Rightarrow> vault_id \<Rightarrow> amount \<Rightarrow> amount \<Rightarrow> account \<Rightarrow> ('l chain, unit) prog" where
  "redeem_tokens c i tokens premium redeemer_id = (bindM (queryM (get_vault_from_id i)) (\<lambda>v.
    let initial_to_be_redeemed = to_be_redeemed_tokens v in
    bindM (rv_execute_redeem_tokens v tokens) (\<lambda>v1.
    (if \<not> is_liquidated v1 then
        (if is_zero premium then registry_deposit_event (RedeemTokens (v_id v1) (amt tokens))
         else (bindM (transfer_funds c (Collateral i) (FreeBalance redeemer_id) premium) (\<lambda>_.
           registry_deposit_event (RedeemTokensPremium i (amt tokens) (amt premium) redeemer_id))))
      else (bindM (liftM (calculate_collateral (liquidated_collateral v1) tokens initial_to_be_redeemed)) (\<lambda>to_be_released.
        bindM (decrease_total_backing_collateral (vid_currencies i) to_be_released) (\<lambda>_.
        bindM (rv_decrease_liquidated_collateral v1 to_be_released) (\<lambda>_.
        bindM (on_ledger (unlock_on c to_be_released (vid_account i))) (\<lambda>_.
        registry_deposit_event (RedeemTokensLiquidatedVault i (amt tokens) (amt to_be_released)))))))))))"

definition redeem_tokens_liquidation :: "'l config \<Rightarrow> currency \<Rightarrow> account \<Rightarrow> amount \<Rightarrow> ('l chain, unit) prog" where
  "redeem_tokens_liquidation c currency_id redeemer_id amount_wrapped = (let currency_pair = \<lparr>cp_collateral = currency_id, cp_wrapped = cur amount_wrapped\<rparr> in
    bindM (getM (get_liquidation_vault currency_pair)) (\<lambda>lv.
    bindM (liftM (lv_redeemable_tokens lv)) (\<lambda>redeemable.
    bindM (liftM (amount_ge redeemable amount_wrapped)) (\<lambda>enough.
    bindM (ensureM enough (VaultRegistryErr InsufficientTokensCommitted)) (\<lambda>_.
    bindM (queryM (current_balance c (LiquidationVault currency_pair) currency_id)) (\<lambda>balance.
    bindM (liftM (lv_to_be_backed_tokens lv)) (\<lambda>to_be_backed.
    bindM (liftM (calculate_collateral balance amount_wrapped to_be_backed)) (\<lambda>to_transfer.
    bindM (transfer_funds c (LiquidationVault currency_pair) (FreeBalance redeemer_id) to_transfer) (\<lambda>_.
    bindM (getM (get_liquidation_vault currency_pair)) (\<lambda>lv1.
    bindM (lv_burn_issued lv1 amount_wrapped) (\<lambda>_.
    registry_deposit_event (RedeemTokensLiquidation redeemer_id (amt amount_wrapped) (amt to_transfer)))))))))))))"

definition replace_tokens :: "'l config \<Rightarrow> vault_id \<Rightarrow> vault_id \<Rightarrow> amount \<Rightarrow> amount \<Rightarrow> ('l chain, unit) prog" where
  "replace_tokens c old_id new_id tokens collateral = (bindM (queryM (get_vault_from_id old_id)) (\<lambda>old.
    bindM (queryM (get_vault_from_id new_id)) (\<lambda>new.
    bindM ((if is_liquidated old then (bindM (liftM (calculate_collateral (liquidated_collateral old) tokens (to_be_redeemed_tokens old))) (\<lambda>to_be_released.
      bindM (rv_decrease_liquidated_collateral old to_be_released) (\<lambda>o1.
      bindM (pool_deposit_collateral c old_id (vid_account old_id) to_be_released) (\<lambda>_.
      retM o1))))
      else retM old)) (\<lambda>old1.
    bindM (rv_execute_redeem_tokens old1 tokens) (\<lambda>_.
    bindM (rv_execute_issue_tokens new tokens) (\<lambda>_.
    registry_deposit_event (ReplaceTokens old_id new_id (amt tokens) (amt collateral))))))))"

definition cancel_replace_tokens :: "'l config \<Rightarrow> vault_id \<Rightarrow> vault_id \<Rightarrow> amount \<Rightarrow> ('l chain, unit) prog" where
  "cancel_replace_tokens c old_id new_id tokens = (bindM (queryM (get_vault_from_id old_id)) (\<lambda>old.
    bindM (queryM (get_vault_from_id new_id)) (\<lambda>new.
    bindM ((if is_liquidated old then (bindM (liftM (calculate_collateral (liquidated_collateral old) tokens (to_be_redeemed_tokens old))) (\<lambda>to_be_transferred.
      bindM (rv_decrease_liquidated_collateral old to_be_transferred) (\<lambda>o1.
      bindM (transfer_funds c (LiquidatedCollateral old_id) (LiquidationVault (vid_currencies old_id))
        to_be_transferred) (\<lambda>_.
      retM o1))))
      else retM old)) (\<lambda>old1.
    bindM (rv_decrease_to_be_redeemed old1 tokens) (\<lambda>_.
    bindM (rv_decrease_to_be_issued new tokens) (\<lambda>_.
    retM ()))))))"

definition withdraw_replace_request :: "'l config \<Rightarrow> vault_id \<Rightarrow> amount \<Rightarrow> ('l chain, amount \<times> amount) prog" where
  "withdraw_replace_request c i a = (bindM (decrease_to_be_replaced_tokens c i a) (\<lambda>withdrawn.
    bindM (transfer_funds c (AvailableReplaceCollateral i) (FreeBalance (vid_account i)) (snd withdrawn)) (\<lambda>_.
    retM withdrawn)))"

text \<open>The end of a ban wraps at 32 bits.\<close>

definition ban_vault :: "vault_id \<Rightarrow> ('l chain, unit) prog" where
  "ban_vault i = (bindM (getM active_block) (\<lambda>height.
    bindM (queryM (get_active_vault_from_id i)) (\<lambda>v.
    bindM (getM (\<lambda>s. vr_punishment_delay (ch_registry s))) (\<lambda>punishment_delay.
    let banned_until = wrapping_add_w 32 height punishment_delay in
    bindM (rv_ban_until v banned_until) (\<lambda>v1.
    registry_deposit_event (BanVault (v_id v1) banned_until))))))"

section \<open>Liquidation\<close>

definition slash_for_to_be_redeemed :: "'l config \<Rightarrow> vault \<Rightarrow> amount \<Rightarrow> ('l chain, vault) prog" where
  "slash_for_to_be_redeemed c v a = (bindM (queryM (compute_collateral c (v_id v))) (\<lambda>vault_collateral.
    bindM (liftM (amount_min vault_collateral a)) (\<lambda>collateral.
    bindM (pool_withdraw_collateral c (v_id v) (vid_account (v_id v)) collateral None) (\<lambda>_.
    rv_increase_liquidated_collateral v collateral))))"

definition slash_to_liquidation_vault :: "'l config \<Rightarrow> vault \<Rightarrow> amount \<Rightarrow> ('l chain, unit) prog" where
  "slash_to_liquidation_vault c v a = (bindM (queryM (compute_collateral c (v_id v))) (\<lambda>collateral.
    let split = (case checked_sub a collateral of
        Inr leftover \<Rightarrow> (collateral, Some leftover)
      | Inl _ \<Rightarrow> (a, None)) in
    bindM (pool_withdraw_collateral c (v_id v) (vid_account (v_id v)) (fst split) None) (\<lambda>_.
    bindM ((case snd split of
        Some to_slash \<Rightarrow> on_staking (staking_slash_stake c (v_id v) (amt to_slash))
      | None \<Rightarrow> retM ())) (\<lambda>_.
    transfer_funds c (LiquidatedCollateral (v_id v)) (LiquidationVault (vid_currencies (v_id v))) a))))"

definition rv_liquidate :: "'l config \<Rightarrow> vault \<Rightarrow> ('l chain, amount) prog" where
  "rv_liquidate c v0 = (let i = v_id v0 in
    bindM (queryM (\<lambda>s. ok_orR (vr_liquidation_threshold (ch_registry s) (vid_currencies i))
      (VaultRegistryErr LiquidationCollateralThresholdNotSet))) (\<lambda>threshold.
    bindM (queryM (get_used_collateral c v0 threshold)) (\<lambda>liquidated.
    bindM (withdraw_replace_request c i (to_be_replaced_tokens v0)) (\<lambda>_.
    bindM (queryM (get_vault_from_id i)) (\<lambda>v1.
    bindM (liftM (backed_tokens v1)) (\<lambda>collateral_tokens.
    bindM (liftM (checked_sub collateral_tokens (to_be_redeemed_tokens v1))) (\<lambda>tokens_excluding_to_be_redeemed.
    bindM (liftM (calculate_collateral liquidated tokens_excluding_to_be_redeemed collateral_tokens)) (\<lambda>liquidated_excluding_to_be_redeemed.
    bindM (liftM (saturating_sub liquidated liquidated_excluding_to_be_redeemed)) (\<lambda>collateral_for_to_be_redeemed.
    bindM (slash_for_to_be_redeemed c v1 collateral_for_to_be_redeemed) (\<lambda>v2.
    bindM (slash_to_liquidation_vault c v2 liquidated_excluding_to_be_redeemed) (\<lambda>_.
    bindM (getM (get_liquidation_vault (vid_currencies (v_id v2)))) (\<lambda>lv.
    bindM (lv_increase_issued lv (issued_tokens v2)) (\<lambda>lv1.
    bindM (lv_increase_to_be_issued lv1 (to_be_issued_tokens v2)) (\<lambda>lv2.
    bindM (lv_increase_to_be_redeemed lv2 (to_be_redeemed_tokens v2)) (\<lambda>_.
    bindM (rv_update (\<lambda>v. Inr (v\<lparr>v_to_be_issued := 0, v_issued := 0, v_status := VaultLiquidatedStatus\<rparr>)) v2) (\<lambda>_.
    retM liquidated_excluding_to_be_redeemed))))))))))))))))"

definition liquidate_vault :: "'l config \<Rightarrow> vault_id \<Rightarrow> ('l chain, amount) prog" where
  "liquidate_vault c i = (bindM (queryM (get_active_vault_from_id i)) (\<lambda>v.
    bindM (queryM (get_backing_collateral c (v_id v))) (\<lambda>backing_collateral.
    bindM (rv_liquidate c v) (\<lambda>to_slash.
    bindM (registry_deposit_event (LiquidateVault i (v_issued v) (v_to_be_issued v) (v_to_be_redeemed v)
      (v_to_be_replaced v) (amt backing_collateral) VaultLiquidatedStatus (v_replace_collateral v))) (\<lambda>_.
    retM to_slash)))))"

section \<open>Calls\<close>

definition register_vault_internal :: "'l config \<Rightarrow> vault_id \<Rightarrow> balance \<Rightarrow> ('l chain, unit) prog" where
  "register_vault_internal c i collateral = (bindM (getM ch_registry) (\<lambda>reg.
    bindM (ensureM (vr_secure_threshold reg (vid_currencies i) \<noteq> None)
      (VaultRegistryErr SecureCollateralThresholdNotSet)) (\<lambda>_.
    bindM (ensureM (vr_premium_threshold reg (vid_currencies i) \<noteq> None) (VaultRegistryErr PremiumRedeemThresholdNotSet)) (\<lambda>_.
    bindM (ensureM (vr_liquidation_threshold reg (vid_currencies i) \<noteq> None)
      (VaultRegistryErr LiquidationCollateralThresholdNotSet)) (\<lambda>_.
    bindM (ensureM (vr_minimum_collateral reg (collateral_currency i) \<noteq> None) (VaultRegistryErr MinimumCollateralNotSet)) (\<lambda>_.
    bindM (ensureM (vr_collateral_ceiling reg (vid_currencies i) \<noteq> None) (VaultRegistryErr CeilingNotSet)) (\<lambda>_.
    bindM (queryM (get_stellar_public_key (vid_account i))) (\<lambda>_.
    let a = new_amount collateral (cp_collateral (vid_currencies i)) in
    bindM (getM (get_minimum_collateral_vault (cp_collateral (vid_currencies i)))) (\<lambda>minimum.
    bindM (liftM (amount_ge a minimum)) (\<lambda>enough.
    bindM (ensureM enough (VaultRegistryErr InsufficientVaultCollateralAmount)) (\<lambda>_.
    bindM (getM (vault_exists i)) (\<lambda>exists.
    bindM (ensureM (\<not> exists) (VaultRegistryErr VaultAlreadyRegistered)) (\<lambda>_.
    bindM (modifyM (ch_registry_update (vr_vaults_update (\<lambda>m. m(i \<mapsto> new_vault i))))) (\<lambda>_.
    bindM (try_deposit_collateral c i a) (\<lambda>_.
    registry_deposit_event (RegisterVault i collateral))))))))))))))))"

definition register_vault ::
  "'l config \<Rightarrow> origin \<Rightarrow> vault_currency_pair \<Rightarrow> balance \<Rightarrow> ('l chain, unit) prog" where
  "register_vault c origin currency_pair collateral = transactionalM (bindM (liftM (ensure_signed origin)) (\<lambda>account_id.
    register_vault_internal c (new_vault_id account_id (cp_collateral currency_pair) (cp_wrapped currency_pair))
      collateral))"

definition deposit_collateral ::
  "'l config \<Rightarrow> origin \<Rightarrow> vault_currency_pair \<Rightarrow> balance \<Rightarrow> ('l chain, unit) prog" where
  "deposit_collateral c origin currency_pair n = transactionalM (bindM (liftM (ensure_signed origin)) (\<lambda>account_id.
    let i = new_vault_id account_id (cp_collateral currency_pair) (cp_wrapped currency_pair) in
    bindM (queryM (get_active_vault_from_id i)) (\<lambda>v.
    let a = new_amount n (cp_collateral currency_pair) in
    bindM (try_deposit_collateral c i a) (\<lambda>_.
    bindM (queryM (get_backing_collateral c (v_id v))) (\<lambda>total_collateral.
    bindM (queryM (get_free_collateral c v)) (\<lambda>free_collateral.
    registry_deposit_event (VrDepositCollateral (v_id v) (amt a) (amt total_collateral) (amt free_collateral))))))))"

definition withdraw_collateral ::
  "'l config \<Rightarrow> origin \<Rightarrow> vault_currency_pair \<Rightarrow> balance \<Rightarrow> ('l chain, unit) prog" where
  "withdraw_collateral c origin currency_pair n = transactionalM (bindM (liftM (ensure_signed origin)) (\<lambda>account_id.
    let i = new_vault_id account_id (cp_collateral currency_pair) (cp_wrapped currency_pair) in
    bindM (queryM (get_vault_from_id i)) (\<lambda>v.
    let a = new_amount n (cp_collateral currency_pair) in
    bindM (try_withdraw_collateral c i a) (\<lambda>_.
    bindM (queryM (get_backing_collateral c (v_id v))) (\<lambda>total_collateral.
    registry_deposit_event (VrWithdrawCollateral (v_id v) (amt a) (amt total_collateral)))))))"

definition register_public_key :: "origin \<Rightarrow> byte list \<Rightarrow> ('l chain, unit) prog" where
  "register_public_key origin public_key = transactionalM (bindM (liftM (ensure_signed origin)) (\<lambda>account_id.
    bindM (getM (\<lambda>s. vr_public_keys (ch_registry s) account_id)) (\<lambda>registered.
    bindM (ensureM (registered = None) (VaultRegistryErr PublicKeyAlreadyRegistered)) (\<lambda>_.
    bindM (modifyM (ch_registry_update (vr_public_keys_update (\<lambda>m. m(account_id \<mapsto> public_key))))) (\<lambda>_.
    registry_deposit_event (UpdatePublicKey account_id public_key))))))"

definition accept_new_issues ::
  "'l config \<Rightarrow> origin \<Rightarrow> vault_currency_pair \<Rightarrow> bool \<Rightarrow> ('l chain, unit) prog" where
  "accept_new_issues c origin currency_pair accept = transactionalM (bindM (liftM (ensure_signed origin)) (\<lambda>account_id.
    let i = new_vault_id account_id (cp_collateral currency_pair) (cp_wrapped currency_pair) in
    bindM (queryM (get_active_vault_from_id i)) (\<lambda>v.
    bindM (rv_set_accept_new_issues v accept) (\<lambda>_.
    on_vault_settings_change c i))))"

definition try_set_vault_custom_secure_threshold :: "vault_id \<Rightarrow> int option \<Rightarrow> ('l chain, unit) prog" where
  "try_set_vault_custom_secure_threshold i new_threshold = (bindM ((case new_threshold of
        Some some_new_threshold \<Rightarrow> (bindM (queryM (\<lambda>s. ok_orR (vr_secure_threshold (ch_registry s) (vid_currencies i))
            (VaultRegistryErr GlobalThresholdNotSet))) (\<lambda>global_threshold.
          ensureM (some_new_threshold > global_threshold) (VaultRegistryErr ThresholdNotAboveGlobalThreshold)))
      | None \<Rightarrow> retM ())) (\<lambda>_.
    bindM (queryM (get_vault_from_id i)) (\<lambda>v.
    bindM (rv_set_custom_secure_threshold v new_threshold) (\<lambda>_.
    retM ()))))"

definition set_custom_secure_threshold ::
  "origin \<Rightarrow> vault_currency_pair \<Rightarrow> int option \<Rightarrow> ('l chain, unit) prog" where
  "set_custom_secure_threshold origin currency_pair custom_threshold = transactionalM (bindM (liftM (ensure_signed origin)) (\<lambda>account_id.
    try_set_vault_custom_secure_threshold
      (new_vault_id account_id (cp_collateral currency_pair) (cp_wrapped currency_pair)) custom_threshold))"

definition report_undercollateralized_vault ::
  "'l config \<Rightarrow> origin \<Rightarrow> vault_id \<Rightarrow> ('l chain, unit) prog" where
  "report_undercollateralized_vault c origin i = transactionalM (bindM (queryM (get_vault_from_id i)) (\<lambda>v.
    bindM (queryM (\<lambda>s. ok_orR (vr_liquidation_threshold (ch_registry s) (vid_currencies i))
      (VaultRegistryErr LiquidationCollateralThresholdNotSet))) (\<lambda>liquidation_threshold.
    bindM (queryM (is_vault_below_liquidation_threshold c v liquidation_threshold)) (\<lambda>below.
    (if below then (bindM (liquidate_vault c i) (\<lambda>_.
       retM ()))
      else failM (VaultRegistryErr VaultNotBelowLiquidationThreshold))))))"

definition set_minimum_collateral :: "origin \<Rightarrow> currency \<Rightarrow> balance \<Rightarrow> ('l chain, unit) prog" where
  "set_minimum_collateral origin currency_id minimum = transactionalM (bindM (liftM (ensure_root origin)) (\<lambda>_.
    modifyM (ch_registry_update (vr_minimum_collateral_update (\<lambda>m. m(currency_id \<mapsto> minimum))))))"

definition set_system_collateral_ceiling :: "origin \<Rightarrow> vault_currency_pair \<Rightarrow> balance \<Rightarrow> ('l chain, unit) prog" where
  "set_system_collateral_ceiling origin currency_pair ceiling = transactionalM (bindM (liftM (ensure_root origin)) (\<lambda>_.
    modifyM (ch_registry_update (vr_collateral_ceiling_update (\<lambda>m. m(currency_pair \<mapsto> ceiling))))))"

definition set_secure_collateral_threshold ::
  "'l config \<Rightarrow> origin \<Rightarrow> vault_currency_pair \<Rightarrow> int \<Rightarrow> ('l chain, unit) prog" where
  "set_secure_collateral_threshold c origin currency_pair threshold = transactionalM (bindM (liftM (ensure_root origin)) (\<lambda>_.
    bindM (modifyM (ch_registry_update (vr_secure_threshold_update (\<lambda>m. m(currency_pair \<mapsto> threshold))))) (\<lambda>_.
    on_staking (add_reward_currency c (cp_wrapped currency_pair)))))"

definition set_premium_redeem_threshold :: "origin \<Rightarrow> vault_currency_pair \<Rightarrow> int \<Rightarrow> ('l chain, unit) prog" where
  "set_premium_redeem_threshold origin currency_pair threshold = transactionalM (bindM (liftM (ensure_root origin)) (\<lambda>_.
    modifyM (ch_registry_update (vr_premium_threshold_update (\<lambda>m. m(currency_pair \<mapsto> threshold))))))"

definition set_liquidation_collateral_threshold ::
  "origin \<Rightarrow> vault_currency_pair \<Rightarrow> int \<Rightarrow> ('l chain, unit) prog" where
  "set_liquidation_collateral_threshold origin currency_pair threshold = transactionalM (bindM (liftM (ensure_root origin)) (\<lambda>_.
    modifyM (ch_registry_update (vr_liquidation_threshold_update (\<lambda>m. m(currency_pair \<mapsto> threshold))))))"

definition recover_vault_id :: "origin \<Rightarrow> vault_currency_pair \<Rightarrow> ('l chain, unit) prog" where
  "recover_vault_id origin currency_pair = transactionalM (bindM (liftM (ensure_signed origin)) (\<lambda>account_id.
    let i = new_vault_id account_id (cp_collateral currency_pair) (cp_wrapped currency_pair) in
    bindM (queryM (is_vault_liquidated i)) (\<lambda>liquidated.
    bindM (ensureM liquidated (VaultRegistryErr VaultNotRecoverable)) (\<lambda>_.
    bindM (queryM (get_vault_from_id i)) (\<lambda>v.
    bindM (ensureM (is_zero (to_be_redeemed_tokens v)) (VaultRegistryErr VaultNotRecoverable)) (\<lambda>_.
    bindM (rv_set_accept_new_issues v True) (\<lambda>_.
    retM ())))))))"

definition set_punishment_delay :: "origin \<Rightarrow> block_number \<Rightarrow> ('l chain, unit) prog" where
  "set_punishment_delay origin punishment_delay = transactionalM (bindM (liftM (ensure_root origin)) (\<lambda>_.
    modifyM (ch_registry_update (vr_punishment_delay_update (\<lambda>_. punishment_delay)))))"

section \<open>Genesis\<close>

definition registry_genesis ::
  "(currency \<times> balance) list \<Rightarrow> block_number \<Rightarrow> (vault_currency_pair \<times> balance) list \<Rightarrow>
   (vault_currency_pair \<times> int) list \<Rightarrow> (vault_currency_pair \<times> int) list \<Rightarrow> (vault_currency_pair \<times> int) list \<Rightarrow>
   registry" where
  "registry_genesis minimum_collateral punishment_delay collateral_ceiling secure_threshold premium_threshold
     liquidation_threshold =
     \<lparr>vr_minimum_collateral = map_of (rev minimum_collateral), vr_punishment_delay = punishment_delay,
      vr_collateral_ceiling = map_of (rev collateral_ceiling),
      vr_secure_threshold = map_of (rev secure_threshold),
      vr_premium_threshold = map_of (rev premium_threshold),
      vr_liquidation_threshold = map_of (rev liquidation_threshold),
      vr_liquidation_vault = Map.empty, vr_vaults = Map.empty, vr_public_keys = Map.empty,
      vr_total_collateral = (\<lambda>_. 0), vr_events = []\<rparr>"

section \<open>The off-chain worker and queries over RPC\<close>

text \<open>Iteration over the vaults visits the keys of the map in the order of the storage, an argument here.\<close>

definition undercollateralized_vaults :: "'l config \<Rightarrow> vault_id list \<Rightarrow> 'l chain \<Rightarrow> vault_id list" where
  "undercollateralized_vaults c keys s = filter (\<lambda>i.
     case vr_vaults (ch_registry s) i of
       None \<Rightarrow> False
     | Some v \<Rightarrow>
         (case vr_liquidation_threshold (ch_registry s) (vid_currencies (v_id v)) of
            None \<Rightarrow> False
          | Some liquidation_threshold \<Rightarrow>
              is_vault_below_liquidation_threshold c v liquidation_threshold s = Inr True)) keys"

definition get_vaults_by_account_id :: "vault_id list \<Rightarrow> account \<Rightarrow> 'l chain \<Rightarrow> vault_id list" where
  "get_vaults_by_account_id keys account_id s =
     filter (\<lambda>i. vr_vaults (ch_registry s) i \<noteq> None \<and> vid_account i = account_id) keys"

definition sort_by_amount :: "(vault_id \<times> amount) list \<Rightarrow> (vault_id \<times> amount) list" where
  "sort_by_amount = sort_key (\<lambda>(i, a). - int (amt a))"

definition with_tokens :: "(vault_id \<Rightarrow> vault \<Rightarrow> amount option) \<Rightarrow> vault_id list \<Rightarrow> 'l chain \<Rightarrow>
    (vault_id \<times> amount) list" where
  "with_tokens f keys s = List.map_filter (\<lambda>i.
     case vr_vaults (ch_registry s) i of
       None \<Rightarrow> None
     | Some v \<Rightarrow> (case f i v of None \<Rightarrow> None | Some a \<Rightarrow> if is_zero a then None else Some (i, a))) keys"

definition result_option :: "'a result \<Rightarrow> 'a option" where
  "result_option r = (case r of Inl _ \<Rightarrow> None | Inr x \<Rightarrow> Some x)"

definition get_premium_redeem_vaults ::
  "'l config \<Rightarrow> vault_id list \<Rightarrow> 'l chain \<Rightarrow> (vault_id \<times> amount) list result" where
  "get_premium_redeem_vaults c keys s =
     (let suitable_vaults = with_tokens (\<lambda>i v.
        case result_option (redeemable_tokens v s) of
          None \<Rightarrow> None
        | Some a \<Rightarrow> if is_vault_below_premium_threshold c i s = Inr True then Some a else None) keys s
      in if suitable_vaults = [] then Inl (VaultRegistryErr NoVaultUnderThePremiumRedeemThreshold)
         else Inr (sort_by_amount suitable_vaults))"

definition get_vaults_with_issuable_tokens ::
  "'l config \<Rightarrow> vault_id list \<Rightarrow> 'l chain \<Rightarrow> (vault_id \<times> amount) list" where
  "get_vaults_with_issuable_tokens c keys s =
     sort_by_amount (with_tokens (\<lambda>i v. result_option (get_issuable_tokens_from_vault c i s)) keys s)"

definition get_vaults_with_redeemable_tokens :: "vault_id list \<Rightarrow> 'l chain \<Rightarrow> (vault_id \<times> amount) list" where
  "get_vaults_with_redeemable_tokens keys s =
     sort_by_amount (with_tokens (\<lambda>i v. result_option (redeemable_tokens v s)) keys s)"

definition get_to_be_issued_tokens_from_vault :: "vault_id \<Rightarrow> 'l chain \<Rightarrow> amount result" where
  "get_to_be_issued_tokens_from_vault i s = (bindR (get_active_vault_from_id i s) (\<lambda>v.
    Inr (to_be_issued_tokens v)))"

definition get_collateralization :: "'l config \<Rightarrow> amount \<Rightarrow> amount \<Rightarrow> int result" where
  "get_collateralization c collateral_in_wrapped issued = ratio c collateral_in_wrapped issued"

definition get_collateralization_from_vault_and_collateral ::
  "'l config \<Rightarrow> vault_id \<Rightarrow> amount \<Rightarrow> bool \<Rightarrow> 'l chain \<Rightarrow> int result" where
  "get_collateralization_from_vault_and_collateral c i collateral only_issued s = (bindR (get_active_vault_from_id i s) (\<lambda>v.
    bindR ((if only_issued then Inr (issued_tokens v) else backed_tokens v)) (\<lambda>issued.
    bindR (ensureR (\<not> is_zero issued) (VaultRegistryErr NoTokensIssued)) (\<lambda>_.
    bindR (convert_to c collateral (wrapped_currency i) s) (\<lambda>collateral_in_wrapped.
    get_collateralization c collateral_in_wrapped issued)))))"

definition get_collateralization_from_vault :: "'l config \<Rightarrow> vault_id \<Rightarrow> bool \<Rightarrow> 'l chain \<Rightarrow> int result" where
  "get_collateralization_from_vault c i only_issued s = (bindR (get_active_vault_from_id i s) (\<lambda>v.
    bindR (get_backing_collateral c (v_id v) s) (\<lambda>collateral.
    get_collateralization_from_vault_and_collateral c i collateral only_issued s)))"

definition get_required_collateral_for_wrapped_with_threshold ::
  "'l config \<Rightarrow> amount \<Rightarrow> int \<Rightarrow> currency \<Rightarrow> 'l chain \<Rightarrow> amount result" where
  "get_required_collateral_for_wrapped_with_threshold c wrapped threshold currency_id s = (bindR (checked_fixed_point_mul_rounded_up c wrapped threshold) (\<lambda>product.
    convert_to c product currency_id s))"

definition get_required_collateral_for_wrapped ::
  "'l config \<Rightarrow> amount \<Rightarrow> currency \<Rightarrow> 'l chain \<Rightarrow> amount result" where
  "get_required_collateral_for_wrapped c amount_wrapped currency_id s = (bindR (ok_orR (vr_secure_threshold (ch_registry s)
        \<lparr>cp_collateral = currency_id, cp_wrapped = cur amount_wrapped\<rparr>)
      (VaultRegistryErr SecureCollateralThresholdNotSet)) (\<lambda>threshold.
    get_required_collateral_for_wrapped_with_threshold c amount_wrapped threshold currency_id s))"

definition get_required_collateral_for_vault :: "'l config \<Rightarrow> vault_id \<Rightarrow> 'l chain \<Rightarrow> amount result" where
  "get_required_collateral_for_vault c i s = (bindR (get_active_vault_from_id i s) (\<lambda>v.
    bindR (backed_tokens v) (\<lambda>issued.
    bindR (get_secure_threshold v s) (\<lambda>threshold.
    get_required_collateral_for_wrapped_with_threshold c issued threshold (cp_collateral (vid_currencies i)) s))))"

end
