(* ===== verification/Token_Accounting.thy ===== *)
theory Token_Accounting
  imports Vault_Registry
begin

text \<open>
  Accounting of the wrapped tokens.  Every operation of the vault registry is shown to keep the
  invariant of the token counts, and its effect on the difference between the issuance on the
  ledger and the tokens that the vaults account for is stated exactly: the operations that issue
  or redeem change the second by the amount that their callers mint or burn, all others keep both.
\<close>

section \<open>What the accounting looks at\<close>

text \<open>
  The ledger, the vaults and the liquidation vaults.  Most operations leave all three alone, also
  when they fail.
\<close>

definition core :: "'l chain \<Rightarrow> 'l \<times> (vault_id \<rightharpoonup> vault) \<times> (vault_currency_pair \<rightharpoonup> system_vault)" where
  "core s = (ch_ledger s, vr_vaults (ch_registry s), vr_liquidation_vault (ch_registry s))"

lemma core_simps [simp]:
  "core (ch_env_update f1 s) = core s" "core (ch_feed_update f2 s) = core s"
  "core (ch_security_update f3 s) = core s" "core (ch_oracle_update f4 s) = core s"
  "core (ch_relay_update f5 s) = core s" "core (ch_staking_update f6 s) = core s"
  "core (ch_pooled_update f7 s) = core s" "core (ch_dist_update f8 s) = core s"
  "core (ch_fee_update f9 s) = core s" "core (ch_issue_update f10 s) = core s"
  "core (ch_redeem_update f11 s) = core s" "core (ch_replace_update f12 s) = core s"
  "core (ch_nomination_update f13 s) = core s" "core (ch_clients_update f14 s) = core s"
  "core (ch_registry_update (vr_events_update g1) s) = core s"
  "core (ch_registry_update (vr_total_collateral_update g2) s) = core s"
  "core (ch_registry_update (vr_minimum_collateral_update g3) s) = core s"
  "core (ch_registry_update (vr_collateral_ceiling_update g4) s) = core s"
  "core (ch_registry_update (vr_secure_threshold_update g5) s) = core s"
  "core (ch_registry_update (vr_premium_threshold_update g6) s) = core s"
  "core (ch_registry_update (vr_liquidation_threshold_update g7) s) = core s"
  "core (ch_registry_update (vr_punishment_delay_update g8) s) = core s"
  "core (ch_registry_update (vr_public_keys_update g9) s) = core s"
  by (simp_all add: core_def)

lemma frame_core_zoom [frame_intro]:
  "frameM core (on_staking m1)" "frameM core (on_pooled m2)" "frameM core (on_security m3)"
  "frameM core (on_oracle m4)" "frameM core (on_relay m5)" "frameM core (on_clients m6)"
  by (rule frame_zoom, simp)+

lemma frame_core_registry_event [frame_intro]: "frameM core (registry_deposit_event e)"
  unfolding registry_deposit_event_def by (rule frame_modify) (simp add: core_def)

lemma frame_core_secure_id [frame_intro]: "frameM core (secure_id c)"
  by (simp add: frameM_def secure_id_def core_def split: prod.splits)

lemma frame_core_withdraw_all [frame_intro]: "frameM core (withdraw_all_rewards_from_vault c i)"
  unfolding withdraw_all_rewards_from_vault_def by (intro frame_intro)

lemma frame_core_update_reward_stake [frame_intro]: "frameM core (update_reward_stake c i)"
  unfolding update_reward_stake_def by (intro frame_intro)

lemma frame_core_pool [frame_intro]:
  "frameM core (pool_deposit_collateral c i x a)" "frameM core (pool_withdraw_collateral c i x a n)"
  "frameM core (pool_slash_collateral c i a)" "frameM core (pool_kick_nominators c i)"
  "frameM core (on_vault_settings_change c i)"
  unfolding pool_deposit_collateral_def pool_withdraw_collateral_def pool_slash_collateral_def
    pool_kick_nominators_def on_vault_settings_change_def
  by (intro frame_intro)+

lemma frame_core_total_collateral [frame_intro]:
  "frameM core (try_increase_total_backing_collateral p a)" "frameM core (decrease_total_backing_collateral p a)"
  unfolding try_increase_total_backing_collateral_def decrease_total_backing_collateral_def put_total_collateral_def
  by (intro frame_intro, simp)+

lemma frame_core_distribute_to_pools [frame_intro]:
  "frameM core (distribute_to_pools c n k tot acc ps ss)"
proof (induction ps arbitrary: acc ss)
  case Nil
  then show ?case by (simp add: frame_basic)
next
  case (Cons p ps)
  show ?case
    by (cases p; cases ss) (simp_all only: distribute_to_pools.simps, (intro frame_intro Cons.IH)+)
qed

lemma frame_core_distribute [frame_intro]:
  "frameM core (distribute_rewards c n k)" "frameM core (distribute c a)"
  unfolding distribute_rewards_def distribute_def by (intro frame_intro)+

section \<open>Tokens\<close>

text \<open>A sum over all vaults.\<close>

definition vault_total :: "(vault \<Rightarrow> int) \<Rightarrow> 'l chain \<Rightarrow> int" where
  "vault_total w s = map_sum w (vr_vaults (ch_registry s))"

definition lv_total :: "(system_vault \<Rightarrow> int) \<Rightarrow> 'l chain \<Rightarrow> int" where
  "lv_total w s = map_sum w (vr_liquidation_vault (ch_registry s))"

definition vault_issued :: "currency \<Rightarrow> vault \<Rightarrow> int" where
  "vault_issued k v = (if wrapped_currency (v_id v) = k then int (v_issued v) else 0)"

definition lv_issued :: "currency \<Rightarrow> system_vault \<Rightarrow> int" where
  "lv_issued k lv = (if cp_wrapped (sv_currency_pair lv) = k then int (sv_issued lv) else 0)"

text \<open>The tokens of a currency that some vault or liquidation vault accounts for as issued.\<close>

definition issued_total :: "currency \<Rightarrow> 'l chain \<Rightarrow> int" where
  "issued_total k s = vault_total (vault_issued k) s + lv_total (lv_issued k) s"

definition token_gap :: "'l config \<Rightarrow> currency \<Rightarrow> 'l chain \<Rightarrow> int" where
  "token_gap c k s = led_issuance (cfg_ledger c) (ch_ledger s) k - issued_total k s"

text \<open>The tokens that a liquidated vault of a pair still has to redeem.\<close>

definition liquidated_to_be_redeemed :: "vault_currency_pair \<Rightarrow> vault \<Rightarrow> int" where
  "liquidated_to_be_redeemed p v =
     (if vid_currencies (v_id v) = p \<and> is_liquidated v then int (v_to_be_redeemed v) else 0)"

definition vault_ok :: "vault \<Rightarrow> bool" where
  "vault_ok v \<longleftrightarrow> (if is_liquidated v then v_issued v = 0 \<and> v_to_be_issued v = 0
                  else v_to_be_redeemed v \<le> v_issued v)"

definition keys_ok :: "'l chain \<Rightarrow> bool" where
  "keys_ok s \<longleftrightarrow> finite (dom (vr_vaults (ch_registry s))) \<and> finite (dom (vr_liquidation_vault (ch_registry s))) \<and>
     (\<forall>i v. vr_vaults (ch_registry s) i = Some v \<longrightarrow> v_id v = i) \<and>
     (\<forall>p lv. vr_liquidation_vault (ch_registry s) p = Some lv \<longrightarrow> sv_currency_pair lv = p)"

text \<open>
  The invariant of the token counts: an active vault never has more tokens to redeem than it has
  issued, a liquidated one has handed its issued and to-be-issued tokens over to the liquidation
  vault of its pair, and that one has exactly the tokens to redeem that the liquidated vaults of
  the pair still have, which are among those it counts as issued.
\<close>

definition tokens_ok :: "'l chain \<Rightarrow> bool" where
  "tokens_ok s \<longleftrightarrow> keys_ok s \<and>
     (\<forall>i v. vr_vaults (ch_registry s) i = Some v \<longrightarrow> vault_ok v) \<and>
     (\<forall>p. sv_to_be_redeemed (get_liquidation_vault p s) \<le> sv_issued (get_liquidation_vault p s)) \<and>
     (\<forall>p. int (sv_to_be_redeemed (get_liquidation_vault p s)) = vault_total (liquidated_to_be_redeemed p) s)"

definition accounted :: "'l config \<Rightarrow> currency \<Rightarrow> int \<Rightarrow> 'l chain \<Rightarrow> bool" where
  "accounted c k x s \<longleftrightarrow> tokens_ok s \<and> token_gap c k s = x"
lemma accounted_core:
  assumes "core s = core t"
  shows "accounted c k x s = accounted c k x t"
  using assms
  by (simp add: core_def accounted_def tokens_ok_def keys_ok_def token_gap_def issued_total_def vault_total_def
      lv_total_def get_liquidation_vault_def)

lemma keeps_core: "frameM core m \<Longrightarrow> keepsOkM (accounted c k x) m"
  by (erule keeps_frame) (rule accounted_core)

section \<open>Writing a vault and a liquidation vault\<close>

definition stored :: "vault \<Rightarrow> 'l chain \<Rightarrow> bool" where
  "stored v s \<longleftrightarrow> vr_vaults (ch_registry s) (v_id v) = Some v"

definition of_currency :: "currency \<Rightarrow> amount \<Rightarrow> int" where
  "of_currency k a = (if cur a = k then int (amt a) else 0)"

lemma put_vault_simps [simp]:
  "ch_ledger (put_vault v s) = ch_ledger s"
  "vr_vaults (ch_registry (put_vault v s)) = (vr_vaults (ch_registry s))(v_id v \<mapsto> v)"
  "vr_liquidation_vault (ch_registry (put_vault v s)) = vr_liquidation_vault (ch_registry s)"
  "get_liquidation_vault p (put_vault v s) = get_liquidation_vault p s"
  "lv_total w (put_vault v s) = lv_total w s"
  by (simp_all add: put_vault_def get_liquidation_vault_def lv_total_def)

lemma put_liquidation_vault_simps [simp]:
  "ch_ledger (put_liquidation_vault lv s) = ch_ledger s"
  "vr_vaults (ch_registry (put_liquidation_vault lv s)) = vr_vaults (ch_registry s)"
  "vr_liquidation_vault (ch_registry (put_liquidation_vault lv s)) =
     (vr_liquidation_vault (ch_registry s))(sv_currency_pair lv \<mapsto> lv)"
  "get_liquidation_vault p (put_liquidation_vault lv s) =
     (if p = sv_currency_pair lv then lv else get_liquidation_vault p s)"
  "vault_total w' (put_liquidation_vault lv s) = vault_total w' s"
  by (simp_all add: put_liquidation_vault_def get_liquidation_vault_def vault_total_def)

lemma stored_put [simp]: "stored v (put_vault v s)" "stored v (put_liquidation_vault lv s) \<longleftrightarrow> stored v s"
  by (simp_all add: stored_def)

lemma put_put:
  "put_vault v (put_vault v' s) = put_vault v s" if "v_id v' = v_id v"
  using that by (simp add: put_vault_def)

lemma put_liquidation_put:
  "put_liquidation_vault lv (put_liquidation_vault lv' s) = put_liquidation_vault lv s"
  if "sv_currency_pair lv' = sv_currency_pair lv"
  using that by (simp add: put_liquidation_vault_def)

lemma vault_total_put:
  assumes "keys_ok s" and "vr_vaults (ch_registry s) (v_id v') = Some v"
  shows "vault_total w (put_vault v' s) = vault_total w s - w v + w v'"
  using map_sum_upd [of "vr_vaults (ch_registry s)" w "v_id v'" v'] assms
  by (simp add: vault_total_def keys_ok_def)

lemma lv_total_put:
  assumes "keys_ok s" and "w (empty_system_vault (sv_currency_pair lv)) = 0"
  shows "lv_total w (put_liquidation_vault lv s) =
    lv_total w s - w (get_liquidation_vault (sv_currency_pair lv) s) + w lv"
  using map_sum_upd [of "vr_liquidation_vault (ch_registry s)" w "sv_currency_pair lv" lv] assms
  by (simp add: lv_total_def keys_ok_def get_liquidation_vault_def split: option.splits)

lemma lv_issued_empty [simp]: "lv_issued k (empty_system_vault p) = 0"
  by (simp add: lv_issued_def empty_system_vault_def)

lemma lv_pair: "keys_ok s \<Longrightarrow> sv_currency_pair (get_liquidation_vault p s) = p"
  by (auto simp: keys_ok_def get_liquidation_vault_def empty_system_vault_def split: option.splits)

lemma keys_ok_put: "keys_ok s \<Longrightarrow> keys_ok (put_vault v s)"
  by (simp add: keys_ok_def)

lemma keys_ok_put_lv: "keys_ok s \<Longrightarrow> keys_ok (put_liquidation_vault lv s)"
  by (auto simp: keys_ok_def)

lemma gap_put_vault:
  assumes "keys_ok s" and "vr_vaults (ch_registry s) (v_id v') = Some v"
  shows "token_gap c k (put_vault v' s) = token_gap c k s + vault_issued k v - vault_issued k v'"
  using vault_total_put [OF assms] by (simp add: token_gap_def issued_total_def)

lemma gap_put_liquidation_vault:
  assumes "keys_ok s"
  shows "token_gap c k (put_liquidation_vault lv s) =
    token_gap c k s + lv_issued k (get_liquidation_vault (sv_currency_pair lv) s) - lv_issued k lv"
  using lv_total_put [OF assms, of "lv_issued k" lv] by (simp add: token_gap_def issued_total_def)

lemma tokens_ok_put_vault:
  assumes s: "tokens_ok s" and v: "vr_vaults (ch_registry s) (v_id v') = Some v" and "vault_ok v'"
    and same: "\<And>p. liquidated_to_be_redeemed p v' = liquidated_to_be_redeemed p v"
  shows "tokens_ok (put_vault v' s)"
proof -
  have k: "keys_ok s" using s by (simp add: tokens_ok_def)
  show ?thesis
    using s assms(3) keys_ok_put [OF k] by (simp add: tokens_ok_def vault_total_put [OF k v] same)
qed

lemma tokens_ok_put_lv:
  assumes s: "tokens_ok s"
    and same: "sv_to_be_redeemed lv = sv_to_be_redeemed (get_liquidation_vault (sv_currency_pair lv) s)"
    and le: "sv_to_be_redeemed lv \<le> sv_issued lv"
  shows "tokens_ok (put_liquidation_vault lv s)"
  using s le keys_ok_put_lv [of s lv] by (simp add: tokens_ok_def same)

lemma tokens_ok_put_both:
  assumes s: "tokens_ok s" and v: "vr_vaults (ch_registry s) (v_id v') = Some v" and "vault_ok v'"
    and pair: "sv_currency_pair lv = vid_currencies (v_id v')"
    and le: "sv_to_be_redeemed lv \<le> sv_issued lv"
    and moved: "int (sv_to_be_redeemed lv) =
      int (sv_to_be_redeemed (get_liquidation_vault (sv_currency_pair lv) s))
      - liquidated_to_be_redeemed (sv_currency_pair lv) v + liquidated_to_be_redeemed (sv_currency_pair lv) v'"
  shows "tokens_ok (put_vault v' (put_liquidation_vault lv s))"
proof -
  have k: "keys_ok s" using s by (simp add: tokens_ok_def)
  then have k': "keys_ok (put_liquidation_vault lv s)" by (rule keys_ok_put_lv)
  have v': "vr_vaults (ch_registry (put_liquidation_vault lv s)) (v_id v') = Some v" using v by simp
  have id: "v_id v = v_id v'" using k v by (auto simp: keys_ok_def)
  have other: "liquidated_to_be_redeemed p v' = 0" "liquidated_to_be_redeemed p v = 0"
    if "p \<noteq> sv_currency_pair lv" for p
    using that pair id by (auto simp: liquidated_to_be_redeemed_def)
  show ?thesis
    using s assms(3) le moved keys_ok_put [OF k'] other by (simp add: tokens_ok_def vault_total_put [OF k' v'])
qed
section \<open>Operations on a vault\<close>

text \<open>
  The state in which an operation works on its copy of a vault: the copy is the stored one, and so
  are the copies of other vaults that the caller holds.
\<close>

definition holding :: "'l config \<Rightarrow> currency \<Rightarrow> int \<Rightarrow> vault set \<Rightarrow> vault \<Rightarrow> 'l chain \<Rightarrow> bool" where
  "holding c k x W v s \<longleftrightarrow> accounted c k x s \<and> stored v s \<and> (\<forall>w\<in>W. v_id w \<noteq> v_id v \<and> stored w s)"

definition token_view :: "vault \<Rightarrow> vault_id \<times> bool \<times> nat \<times> nat \<times> nat" where
  "token_view v = (v_id v, is_liquidated v, v_issued v, v_to_be_issued v, v_to_be_redeemed v)"

lemma rv_update_ok [ok_iff]: "rv_update f v s = (Inr v', t) \<longleftrightarrow> f v = Inr v' \<and> t = put_vault v' s"
  by (auto simp: rv_update_def ok_iff)

lemma lv_update_ok [ok_iff]: "lv_update f lv s = (Inr lv', t) \<longleftrightarrow> lv' = f lv \<and> t = put_liquidation_vault lv' s"
  by (auto simp: lv_update_def ok_iff Let_def)

lemma holding_core: "core s = core t \<Longrightarrow> holding c k x W v s = holding c k x W v t"
  using accounted_core [of s t c k x] by (simp add: holding_def stored_def core_def)

lemma keeps_holding_core: "frameM core m \<Longrightarrow> keepsOkM (holding c k x W v) m"
  by (erule keeps_frame) (rule holding_core)

lemma holding_focus: "holding c k x {w} v s \<Longrightarrow> holding c k x {v} w s"
  by (auto simp: holding_def)

lemma holding_accounted: "holding c k x W v s \<Longrightarrow> accounted c k x s"
  by (simp add: holding_def)

lemma holding_put:
  assumes h: "holding c k x W v s" and "v_id v' = v_id v"
    and t: "accounted c k y (put_vault v' s')" and vs: "vr_vaults (ch_registry s') = vr_vaults (ch_registry s)"
  shows "holding c k y W v' (put_vault v' s')"
  using h t vs assms(2) by (auto simp: holding_def stored_def)

lemma holding_stored:
  "holding c k x W v s \<Longrightarrow> vr_vaults (ch_registry s) (v_id v) = Some v"
  "holding c k x W v s \<Longrightarrow> keys_ok s" "holding c k x W v s \<Longrightarrow> tokens_ok s"
  "holding c k x W v s \<Longrightarrow> token_gap c k s = x" "holding c k x W v s \<Longrightarrow> vault_ok v"
  by (auto simp: holding_def stored_def accounted_def tokens_ok_def)

lemma holding_same_tokens:
  assumes h: "holding c k x W v s" and same: "token_view v' = token_view v"
  shows "holding c k x W v' (put_vault v' s)"
proof (rule holding_put [OF h])
  show id: "v_id v' = v_id v" using same by (simp add: token_view_def)
  have v: "vr_vaults (ch_registry s) (v_id v') = Some v" using holding_stored(1) [OF h] id by simp
  have "tokens_ok (put_vault v' s)"
    using holding_stored [OF h] same
    by (intro tokens_ok_put_vault [OF _ v]) (auto simp: token_view_def vault_ok_def liquidated_to_be_redeemed_def)
  moreover have "token_gap c k (put_vault v' s) = x"
    using gap_put_vault [OF holding_stored(2) [OF h] v, of c k] holding_stored(4) [OF h] same
    by (simp add: token_view_def vault_issued_def)
  ultimately show "accounted c k x (put_vault v' s)" by (simp add: accounted_def)
qed simp

lemma triple_rv_update:
  assumes "\<And>v'. f v = Inr v' \<Longrightarrow> token_view v' = token_view v"
  shows "tripleM (holding c k x W v) (rv_update f v) (holding c k x W)"
  using assms by (auto intro!: tripleI holding_same_tokens simp: ok_iff)

lemma triple_rv_fields:
  "tripleM (holding c k x W v) (rv_set_to_be_replaced_amount v a) (holding c k x W)"
  "tripleM (holding c k x W v) (rv_increase_available_replace_collateral v a) (holding c k x W)"
  "tripleM (holding c k x W v) (rv_decrease_available_replace_collateral v a) (holding c k x W)"
  "tripleM (holding c k x W v) (rv_increase_active_replace_collateral v a) (holding c k x W)"
  "tripleM (holding c k x W v) (rv_decrease_active_replace_collateral v a) (holding c k x W)"
  "tripleM (holding c k x W v) (rv_set_custom_secure_threshold v th) (holding c k x W)"
  "tripleM (holding c k x W v) (rv_increase_liquidated_collateral v a) (holding c k x W)"
  "tripleM (holding c k x W v) (rv_decrease_liquidated_collateral v a) (holding c k x W)"
  "tripleM (holding c k x W v) (rv_ban_until v h) (holding c k x W)"
  unfolding rv_set_to_be_replaced_amount_def rv_increase_available_replace_collateral_def
    rv_decrease_available_replace_collateral_def rv_increase_active_replace_collateral_def
    rv_decrease_active_replace_collateral_def rv_set_custom_secure_threshold_def
    rv_increase_liquidated_collateral_def rv_decrease_liquidated_collateral_def rv_ban_until_def
  by (rule triple_rv_update, auto simp: token_view_def is_liquidated_def ok_iff)+

lemma triple_rv_set_accept:
  "\<not> is_liquidated v \<Longrightarrow> tripleM (holding c k x W v) (rv_set_accept_new_issues v b) (holding c k x W)"
  unfolding rv_set_accept_new_issues_def
  by (rule triple_rv_update) (auto simp: token_view_def is_liquidated_def)

lemma holding_put_active:
  assumes h: "holding c k x W v s" and "\<not> is_liquidated v" and "v_id v' = v_id v" and "\<not> is_liquidated v'"
    and "v_to_be_redeemed v' \<le> v_issued v'"
  shows "holding c k (x + vault_issued k v - vault_issued k v') W v' (put_vault v' s)"
proof (rule holding_put [OF h])
  have v: "vr_vaults (ch_registry s) (v_id v') = Some v" using holding_stored(1) [OF h] assms(3) by simp
  have "tokens_ok (put_vault v' s)"
    using holding_stored [OF h] assms(2,4,5)
    by (intro tokens_ok_put_vault [OF _ v]) (simp_all add: vault_ok_def liquidated_to_be_redeemed_def)
  then show "accounted c k (x + vault_issued k v - vault_issued k v') (put_vault v' s)"
    using gap_put_vault [OF holding_stored(2) [OF h] v, of c k] holding_stored(4) [OF h]
    by (simp add: accounted_def)
qed (simp_all add: assms(3))

lemma holding_put_lv:
  assumes h: "holding c k x W v s"
    and "sv_to_be_redeemed lv = sv_to_be_redeemed (get_liquidation_vault (sv_currency_pair lv) s)"
    and "sv_to_be_redeemed lv \<le> sv_issued lv"
  shows "holding c k (x + lv_issued k (get_liquidation_vault (sv_currency_pair lv) s) - lv_issued k lv) W v
    (put_liquidation_vault lv s)"
  using h tokens_ok_put_lv [OF holding_stored(3) [OF h] assms(2,3)]
    gap_put_liquidation_vault [OF holding_stored(2) [OF h], of c k lv]
  by (simp add: holding_def accounted_def)

lemma lv_le: "tokens_ok s \<Longrightarrow> sv_to_be_redeemed (get_liquidation_vault p s) \<le> sv_issued (get_liquidation_vault p s)"
  by (simp add: tokens_ok_def)
section \<open>Token counts of a vault\<close>

lemma token_amounts [simp]:
  "cur (issued_tokens v) = wrapped_currency (v_id v)" "amt (issued_tokens v) = v_issued v"
  "cur (to_be_issued_tokens v) = wrapped_currency (v_id v)" "amt (to_be_issued_tokens v) = v_to_be_issued v"
  "cur (to_be_redeemed_tokens v) = wrapped_currency (v_id v)" "amt (to_be_redeemed_tokens v) = v_to_be_redeemed v"
  "cur (to_be_replaced_tokens v) = wrapped_currency (v_id v)" "amt (to_be_replaced_tokens v) = v_to_be_replaced v"
  "cur (lv_issued_tokens lv) = cp_wrapped (sv_currency_pair lv)" "amt (lv_issued_tokens lv) = sv_issued lv"
  "cur (lv_to_be_issued_tokens lv) = cp_wrapped (sv_currency_pair lv)"
  "amt (lv_to_be_issued_tokens lv) = sv_to_be_issued lv"
  "cur (lv_to_be_redeemed_tokens lv) = cp_wrapped (sv_currency_pair lv)"
  "amt (lv_to_be_redeemed_tokens lv) = sv_to_be_redeemed lv"
  "cur (lv_collateral lv) = cp_collateral (sv_currency_pair lv)" "amt (lv_collateral lv) = sv_collateral lv"
  by (simp_all add: issued_tokens_def to_be_issued_tokens_def to_be_redeemed_tokens_def to_be_replaced_tokens_def
      lv_issued_tokens_def lv_to_be_issued_tokens_def lv_to_be_redeemed_tokens_def lv_collateral_def)

lemma is_liquidated_update [simp]:
  "is_liquidated (v\<lparr>v_issued := n\<rparr>) = is_liquidated v"
  "is_liquidated (v\<lparr>v_to_be_issued := n\<rparr>) = is_liquidated v"
  "is_liquidated (v\<lparr>v_to_be_redeemed := n\<rparr>) = is_liquidated v"
  by (simp_all add: is_liquidated_def)

lemma issued_update [simp]:
  "vault_issued k (v\<lparr>v_to_be_issued := n\<rparr>) = vault_issued k v"
  "vault_issued k (v\<lparr>v_to_be_redeemed := n\<rparr>) = vault_issued k v"
  "lv_issued k (lv\<lparr>sv_to_be_issued := n\<rparr>) = lv_issued k lv"
  "lv_issued k (lv\<lparr>sv_to_be_redeemed := n\<rparr>) = lv_issued k lv"
  "lv_issued k (lv\<lparr>sv_collateral := n\<rparr>) = lv_issued k lv"
  by (simp_all add: vault_issued_def lv_issued_def cong: if_weak_cong)

lemma triple_rv_increase_to_be_issued:
  "tripleM (holding c k x W v) (rv_increase_to_be_issued v n) (holding c k x W)"
proof (rule tripleI)
  fix s v' t
  assume h: "holding c k x W v s" and "rv_increase_to_be_issued v n s = (Inr v', t)"
  then obtain m where "\<not> is_liquidated v" "v' = v\<lparr>v_to_be_issued := m\<rparr>" "t = put_vault v' s"
    by (auto simp: rv_increase_to_be_issued_def ok_iff)
  then show "holding c k x W v' t"
    using holding_put_active [OF h, of v'] holding_stored(5) [OF h] by (simp add: vault_ok_def)
qed

lemma holding_lv_to_be_issued:
  assumes h: "holding c k x W v s" and p: "sv_currency_pair lv = p" and lv: "get_liquidation_vault p s = lv"
  shows "holding c k x W v (put_liquidation_vault (lv\<lparr>sv_to_be_issued := m\<rparr>) s)"
  using holding_put_lv [OF h, of "lv\<lparr>sv_to_be_issued := m\<rparr>"] lv_le [OF holding_stored(3) [OF h], of p] p lv
  by simp

lemma triple_rv_decrease_to_be_issued:
  "tripleM (holding c k x W v) (rv_decrease_to_be_issued v n) (holding c k x W)"
proof (rule tripleI)
  fix s v' t
  assume h: "holding c k x W v s" and run: "rv_decrease_to_be_issued v n s = (Inr v', t)"
  show "holding c k x W v' t"
  proof (cases "is_liquidated v")
    case True
    then obtain m where "v' = v" "t = put_liquidation_vault
        ((get_liquidation_vault (vid_currencies (v_id v)) s)\<lparr>sv_to_be_issued := m\<rparr>) s"
      using run by (auto simp: rv_decrease_to_be_issued_def lv_decrease_to_be_issued_def ok_iff)
    then show ?thesis
      using holding_lv_to_be_issued [OF h lv_pair [OF holding_stored(2) [OF h]] refl] by simp
  next
    case False
    then obtain m where "v' = v\<lparr>v_to_be_issued := m\<rparr>" "t = put_vault v' s"
      using run by (auto simp: rv_decrease_to_be_issued_def ok_iff)
    then show ?thesis
      using holding_put_active [OF h False, of v'] holding_stored(5) [OF h] False
      by (simp add: vault_ok_def)
  qed
qed

lemma vault_issued_change:
  assumes "cur n = wrapped_currency (v_id v)"
  shows "vault_issued k (v\<lparr>v_issued := v_issued v + amt n\<rparr>) = vault_issued k v + of_currency k n"
    and "amt n \<le> v_issued v \<Longrightarrow>
      vault_issued k (v\<lparr>v_issued := v_issued v - amt n\<rparr>) = vault_issued k v - of_currency k n"
  using assms by (auto simp: vault_issued_def of_currency_def)

lemma lv_issued_change:
  assumes "cur n = cp_wrapped (sv_currency_pair lv)"
  shows "lv_issued k (lv\<lparr>sv_issued := sv_issued lv + amt n\<rparr>) = lv_issued k lv + of_currency k n"
    and "amt n \<le> sv_issued lv \<Longrightarrow>
      lv_issued k (lv\<lparr>sv_issued := sv_issued lv - amt n\<rparr>) = lv_issued k lv - of_currency k n"
  using assms by (auto simp: lv_issued_def of_currency_def)

lemma triple_rv_increase_issued:
  "tripleM (holding c k x W v) (rv_increase_issued v n) (holding c k (x - of_currency k n) W)"
proof (rule tripleI)
  fix s v' t
  assume h: "holding c k x W v s" and run: "rv_increase_issued v n s = (Inr v', t)"
  let ?lv = "get_liquidation_vault (vid_currencies (v_id v)) s"
  show "holding c k (x - of_currency k n) W v' t"
  proof (cases "is_liquidated v")
    case True
    then have "v' = v" "cur n = cp_wrapped (sv_currency_pair ?lv)"
        "t = put_liquidation_vault (?lv\<lparr>sv_issued := sv_issued ?lv + amt n\<rparr>) s"
      using run by (auto simp: rv_increase_issued_def lv_increase_issued_def ok_iff)
    then show ?thesis
      using holding_put_lv [OF h, of "?lv\<lparr>sv_issued := sv_issued ?lv + amt n\<rparr>"]
        lv_pair [OF holding_stored(2) [OF h], of "vid_currencies (v_id v)"]
        lv_le [OF holding_stored(3) [OF h], of "vid_currencies (v_id v)"] lv_issued_change(1) [of n ?lv k]
      by simp
  next
    case False
    then have "v' = v\<lparr>v_issued := v_issued v + amt n\<rparr>" "t = put_vault v' s" "cur n = wrapped_currency (v_id v)"
      using run by (auto simp: rv_increase_issued_def ok_iff)
    then show ?thesis
      using holding_put_active [OF h False, of v'] holding_stored(5) [OF h] False vault_issued_change(1) [of n v k]
      by (simp add: vault_ok_def)
  qed
qed
lemma holding_put_both:
  assumes h: "holding c k x W v s" and id: "v_id v' = v_id v" and ok: "vault_ok v'"
    and pair: "sv_currency_pair lv = vid_currencies (v_id v)"
    and le: "sv_to_be_redeemed lv \<le> sv_issued lv"
    and moved: "int (sv_to_be_redeemed lv) = int (sv_to_be_redeemed (get_liquidation_vault (sv_currency_pair lv) s))
      - liquidated_to_be_redeemed (sv_currency_pair lv) v + liquidated_to_be_redeemed (sv_currency_pair lv) v'"
  shows "holding c k (x + vault_issued k v - vault_issued k v'
      + lv_issued k (get_liquidation_vault (sv_currency_pair lv) s) - lv_issued k lv) W v'
    (put_vault v' (put_liquidation_vault lv s))"
proof (rule holding_put [OF h id])
  note hs = holding_stored [OF h]
  have v: "vr_vaults (ch_registry s) (v_id v') = Some v" using hs(1) id by simp
  have "tokens_ok (put_vault v' (put_liquidation_vault lv s))"
    using pair id by (intro tokens_ok_put_both [OF hs(3) v ok _ le moved]) simp
  moreover have "token_gap c k (put_vault v' (put_liquidation_vault lv s)) = token_gap c k s
      + lv_issued k (get_liquidation_vault (sv_currency_pair lv) s) - lv_issued k lv
      + vault_issued k v - vault_issued k v'"
    using gap_put_vault [OF keys_ok_put_lv [OF hs(2)], of lv v' v c k] v gap_put_liquidation_vault [OF hs(2)]
    by simp
  ultimately show "accounted c k (x + vault_issued k v - vault_issued k v'
      + lv_issued k (get_liquidation_vault (sv_currency_pair lv) s) - lv_issued k lv)
    (put_vault v' (put_liquidation_vault lv s))"
    using hs(4) by (simp add: accounted_def)
qed simp

lemma rv_decrease_to_be_redeemed_ok:
  assumes "rv_decrease_to_be_redeemed v n s = (Inr v', t)"
  shows "cur n = wrapped_currency (v_id v) \<and> amt n \<le> v_to_be_redeemed v \<and>
    v' = v\<lparr>v_to_be_redeemed := v_to_be_redeemed v - amt n\<rparr> \<and>
    (if is_liquidated v then
       (let lv = get_liquidation_vault (vid_currencies (v_id v)) s in
        amt n \<le> sv_to_be_redeemed lv \<and>
        t = put_vault v' (put_liquidation_vault (lv\<lparr>sv_to_be_redeemed := sv_to_be_redeemed lv - amt n\<rparr>) s))
     else t = put_vault v' s)"
  using assms
  by (auto simp: rv_decrease_to_be_redeemed_def lv_decrease_to_be_redeemed_def ok_iff Let_def split: if_splits)

lemma triple_rv_decrease_to_be_redeemed:
  "tripleM (holding c k x W v) (rv_decrease_to_be_redeemed v n) (holding c k x W)"
proof (rule tripleI)
  fix s v' t
  assume h: "holding c k x W v s" and run: "rv_decrease_to_be_redeemed v n s = (Inr v', t)"
  note ok = rv_decrease_to_be_redeemed_ok [OF run] and hs = holding_stored [OF h]
  show "holding c k x W v' t"
  proof (cases "is_liquidated v")
    case True
    let ?lv = "get_liquidation_vault (vid_currencies (v_id v)) s"
    let ?lv' = "?lv\<lparr>sv_to_be_redeemed := sv_to_be_redeemed ?lv - amt n\<rparr>"
    have p: "sv_currency_pair ?lv = vid_currencies (v_id v)" by (rule lv_pair [OF hs(2)])
    show ?thesis
      using holding_put_both [OF h, of v' ?lv'] ok True p lv_le [OF hs(3), of "vid_currencies (v_id v)"] hs(5)
      by (simp add: vault_ok_def liquidated_to_be_redeemed_def Let_def)
  next
    case False
    then show ?thesis
      using holding_put_active [OF h False, of v'] ok hs(5) by (simp add: vault_ok_def)
  qed
qed

lemma triple_rv_execute_redeem_tokens:
  "tripleM (holding c k x W v) (rv_execute_redeem_tokens v n) (holding c k (x + of_currency k n) W)"
proof (rule tripleI)
  fix s v' t
  assume h: "holding c k x W v s" and run: "rv_execute_redeem_tokens v n s = (Inr v', t)"
  obtain v1 u where dec: "rv_decrease_to_be_redeemed v n s = (Inr v1, u)"
    and iss: "rv_decrease_issued v1 n u = (Inr v', t)"
    using run by (auto simp: rv_execute_redeem_tokens_def ok_iff)
  note ok = rv_decrease_to_be_redeemed_ok [OF dec] and hs = holding_stored [OF h]
  have h1: "holding c k x W v1 u" by (rule tripleD [OF triple_rv_decrease_to_be_redeemed h dec])
  let ?p = "vid_currencies (v_id v)"
  let ?lv = "get_liquidation_vault ?p s"
  show "holding c k (x + of_currency k n) W v' t"
  proof (cases "is_liquidated v")
    case True
    let ?lv1 = "get_liquidation_vault ?p u"
    have p: "sv_currency_pair ?lv1 = ?p" by (rule lv_pair [OF holding_stored(2) [OF h1]])
    have lv1: "?lv1 = ?lv\<lparr>sv_to_be_redeemed := sv_to_be_redeemed ?lv - amt n\<rparr>" "amt n \<le> sv_to_be_redeemed ?lv"
      using ok True lv_pair [OF hs(2), of ?p] by (simp_all add: Let_def)
    have t: "v' = v1" "t = put_liquidation_vault (?lv1\<lparr>sv_issued := sv_issued ?lv1 - amt n\<rparr>) u"
      "amt n \<le> sv_issued ?lv1" "cur n = cp_wrapped (sv_currency_pair ?lv1)"
      using iss ok True by (auto simp: rv_decrease_issued_def lv_decrease_issued_def ok_iff)
    have "sv_to_be_redeemed ?lv1 \<le> sv_issued ?lv1 - amt n"
      using lv1 lv_le [OF hs(3), of ?p] by simp
    then show ?thesis
      using holding_put_lv [OF h1, of "?lv1\<lparr>sv_issued := sv_issued ?lv1 - amt n\<rparr>"] t p
        lv_issued_change(2) [of n ?lv1 k] by simp
  next
    case False
    then have v1: "\<not> is_liquidated v1" "v_to_be_redeemed v1 = v_to_be_redeemed v - amt n" "v_issued v1 = v_issued v"
      "amt n \<le> v_to_be_redeemed v"
      using ok by simp_all
    then have t: "v' = v1\<lparr>v_issued := v_issued v1 - amt n\<rparr>" "t = put_vault v' u" "amt n \<le> v_issued v1"
      "cur n = wrapped_currency (v_id v1)"
      using iss by (auto simp: rv_decrease_issued_def ok_iff)
    then show ?thesis
      using holding_put_active [OF h1 v1(1), of v'] v1 vault_issued_change(2) [of n v1 k] hs(5) False
      by (simp add: vault_ok_def)
  qed
qed

lemma triple_rv_execute_issue_tokens:
  "tripleM (holding c k x W v) (rv_execute_issue_tokens v n) (holding c k (x - of_currency k n) W)"
  unfolding rv_execute_issue_tokens_def
  by (rule triple_bind [OF triple_rv_decrease_to_be_issued triple_rv_increase_issued])
section \<open>The ledger\<close>

lemma ledger_update_simps [simp]:
  "tokens_ok (ch_ledger_update f s) = tokens_ok s" "stored v (ch_ledger_update f s) = stored v s"
  "token_gap c k (ch_ledger_update f s) =
     token_gap c k s + led_issuance (cfg_ledger c) (f (ch_ledger s)) k - led_issuance (cfg_ledger c) (ch_ledger s) k"
  by (simp_all add: tokens_ok_def keys_ok_def get_liquidation_vault_def vault_total_def stored_def token_gap_def
      issued_total_def lv_total_def)

lemma triple_on_ledger:
  assumes "\<And>l r l'. m l = (Inr r, l') \<Longrightarrow>
    led_issuance (cfg_ledger c) l' k = led_issuance (cfg_ledger c) l k + d"
  shows "tripleM (accounted c k x) (on_ledger m) (\<lambda>_. accounted c k (x + d))"
    and "tripleM (holding c k x W v) (on_ledger m) (\<lambda>_. holding c k (x + d) W v)"
  using assms by (auto intro!: tripleI simp: ok_iff accounted_def holding_def)

lemma keeps_on_ledger:
  assumes "\<And>l r l'. m l = (Inr r, l') \<Longrightarrow> led_issuance (cfg_ledger c) l' k = led_issuance (cfg_ledger c) l k"
  shows "keepsOkM (accounted c k x) (on_ledger m)" and "keepsOkM (holding c k x W v) (on_ledger m)"
  using triple_on_ledger [where d = 0, of m c k] assms by (auto intro!: keeps_triple)

lemma keeps_ledger [keeps_intro]:
  assumes "ledger_laws (cfg_ledger c)"
  shows "keepsOkM (accounted c k x) (on_ledger (transfer c a y z))"
    and "keepsOkM (accounted c k x) (on_ledger (lock_on c a y))"
    and "keepsOkM (accounted c k x) (on_ledger (unlock_on c a y))"
    and "keepsOkM (holding c k x W v) (on_ledger (transfer c a y z))"
    and "keepsOkM (holding c k x W v) (on_ledger (lock_on c a y))"
    and "keepsOkM (holding c k x W v) (on_ledger (unlock_on c a y))"
    and "keepsOkM (accounted c k x) (on_ledger (on_sweep c y a))"
  unfolding on_sweep_def
  by (auto intro!: keeps_on_ledger simp: transfer_ok(2) [OF assms] lock_on_ok(2) [OF assms]
      unlock_on_ok(2) [OF assms])

lemma triple_mint:
  assumes "ledger_laws (cfg_ledger c)"
  shows "tripleM (accounted c k x) (on_ledger (mint_to c a y)) (\<lambda>_. accounted c k (x + of_currency k a))"
  by (rule triple_on_ledger) (simp add: mint_to_ok(1) [OF assms] of_currency_def)

lemma triple_burn:
  assumes "ledger_laws (cfg_ledger c)"
  shows "tripleM (accounted c k x) (on_ledger (burn_from c a y)) (\<lambda>_. accounted c k (x - of_currency k a))"
  using triple_on_ledger(1) [where d = "- of_currency k a", of "burn_from c a y" c k]
  by (simp add: burn_from_ok(2) [OF assms] of_currency_def)

section \<open>Funds\<close>

lemma accounted_put_lv:
  assumes "accounted c k x s"
    and "sv_to_be_redeemed lv = sv_to_be_redeemed (get_liquidation_vault (sv_currency_pair lv) s)"
    and "sv_to_be_redeemed lv \<le> sv_issued lv"
  shows "accounted c k (x + lv_issued k (get_liquidation_vault (sv_currency_pair lv) s) - lv_issued k lv)
    (put_liquidation_vault lv s)"
  using assms tokens_ok_put_lv [of s lv] gap_put_liquidation_vault [of s c k lv]
  by (simp add: accounted_def tokens_ok_def)

lemma triple_get_lv:
  assumes "\<And>lv. tripleM (\<lambda>s. accounted c k x s \<and> get_liquidation_vault p s = lv) (f lv) R"
  shows "tripleM (accounted c k x) (bindM (getM (get_liquidation_vault p)) f) R"
  by (rule triple_get) (rule assms)

lemma accounted_lv_collateral:
  assumes "accounted c k x s"
  shows "accounted c k x (put_liquidation_vault ((get_liquidation_vault p s)\<lparr>sv_collateral := m\<rparr>) s)"
  using accounted_put_lv [OF assms, of "(get_liquidation_vault p s)\<lparr>sv_collateral := m\<rparr>"] assms
    lv_pair [of s p] lv_le [of s p]
  by (simp add: accounted_def tokens_ok_def)

lemma holding_lv_collateral:
  assumes "holding c k x W v s"
  shows "holding c k x W v (put_liquidation_vault ((get_liquidation_vault p s)\<lparr>sv_collateral := m\<rparr>) s)"
  using accounted_lv_collateral [of c k x s m p] assms by (simp add: holding_def)

lemma keeps_lv_collateral [keeps_intro]:
  "keepsOkM (accounted c k x) (bindM (getM (get_liquidation_vault p)) (\<lambda>lv. bindM (lv_decrease_collateral lv a) g))"
  if "\<And>lv. keepsOkM (accounted c k x) (g lv)"
  using that accounted_lv_collateral [of c k x _ _ p]
  by (auto simp: keepsOkM_def lv_decrease_collateral_def ok_iff)

lemma keeps_lv_increase_collateral [keeps_intro]:
  "keepsOkM (accounted c k x) (bindM (getM (get_liquidation_vault p)) (\<lambda>lv. bindM (lv_increase_collateral lv a) g))"
  if "\<And>lv. keepsOkM (accounted c k x) (g lv)"
  using that accounted_lv_collateral [of c k x _ _ p]
  by (auto simp: keepsOkM_def lv_increase_collateral_def ok_iff)

lemma keeps_holding_lv_increase_collateral [keeps_intro]:
  "keepsOkM (holding c k x W v) (bindM (getM (get_liquidation_vault p)) (\<lambda>lv. bindM (lv_increase_collateral lv a) g))"
  if "\<And>lv. keepsOkM (holding c k x W v) (g lv)"
  using that holding_lv_collateral [of c k x W v _ _ p]
  by (auto simp: keepsOkM_def lv_increase_collateral_def ok_iff)
lemma get_vault_holding:
  "get_vault_from_id i s = Inr v \<Longrightarrow> accounted c k x s \<Longrightarrow> holding c k x {} v s \<and> v_id v = i"
  by (auto simp: get_vault_from_id_def ok_iff holding_def stored_def accounted_def tokens_ok_def keys_ok_def)

lemma get_active_vault_ok [ok_iff]:
  "get_active_vault_from_id i s = Inr v \<longleftrightarrow> get_vault_from_id i s = Inr v \<and> \<not> is_liquidated v"
proof -
  have "(case v_status w of VaultActive _ \<Rightarrow> Inr w | VaultLiquidatedStatus \<Rightarrow> Inl e) = Inr v \<longleftrightarrow>
      w = v \<and> \<not> is_liquidated w" for w and e :: dispatch_error
    by (cases "v_status w") (auto simp: is_liquidated_def)
  then show ?thesis by (auto simp: get_active_vault_from_id_def ok_iff)
qed

lemma triple_read_vault:
  assumes "\<And>v. v_id v = i \<Longrightarrow> tripleM (holding c k x {} v) (f v) R"
  shows "tripleM (accounted c k x) (bindM (queryM (get_vault_from_id i)) f) R"
  using assms get_vault_holding unfolding tripleM_def bindM_ok queryM_ok by blast

lemma triple_read_active_vault:
  assumes "\<And>v. v_id v = i \<Longrightarrow> \<not> is_liquidated v \<Longrightarrow> tripleM (holding c k x {} v) (f v) R"
  shows "tripleM (accounted c k x) (bindM (queryM (get_active_vault_from_id i)) f) R"
  using assms get_vault_holding unfolding tripleM_def bindM_ok queryM_ok get_active_vault_ok by blast

lemma triple_drop: "keepsOkM (accounted c k x) m \<Longrightarrow> tripleM (holding c k x W v) m (\<lambda>_. accounted c k x)"
  by (auto simp: keepsOkM_def tripleM_def holding_def)

lemma keeps_core_frames [keeps_intro]:
  "keepsOkM (accounted c k x) (registry_deposit_event e)"
  "keepsOkM (accounted c k x) (pool_deposit_collateral c' i y a)"
  "keepsOkM (accounted c k x) (pool_withdraw_collateral c' i y a n)"
  "keepsOkM (accounted c k x) (pool_slash_collateral c' i a)"
  "keepsOkM (accounted c k x) (pool_kick_nominators c' i)"
  "keepsOkM (accounted c k x) (on_vault_settings_change c' i)"
  "keepsOkM (accounted c k x) (try_increase_total_backing_collateral p a)"
  "keepsOkM (accounted c k x) (decrease_total_backing_collateral p a)"
  "keepsOkM (accounted c k x) (on_staking m)" "keepsOkM (accounted c k x) (on_pooled m')"
  "keepsOkM (accounted c k x) (distribute c' a)" "keepsOkM (accounted c k x) (secure_id c')"
  by (rule keeps_core, rule frame_intro)+

lemma keeps_holding_frames [keeps_intro]:
  "keepsOkM (holding c k x W v) (registry_deposit_event e)"
  "keepsOkM (holding c k x W v) (pool_deposit_collateral c' i y a)"
  "keepsOkM (holding c k x W v) (pool_withdraw_collateral c' i y a n)"
  "keepsOkM (holding c k x W v) (try_increase_total_backing_collateral p a)"
  "keepsOkM (holding c k x W v) (decrease_total_backing_collateral p a)"
  "keepsOkM (holding c k x W v) (on_staking m)"
  by (rule keeps_holding_core, rule frame_intro)+

lemma keeps_collateral [keeps_intro]:
  assumes "ledger_laws (cfg_ledger c)"
  shows "keepsOkM (accounted c k x) (try_deposit_collateral c i a)"
    and "keepsOkM (accounted c k x) (force_withdraw_collateral c i a)"
    and "keepsOkM (accounted c k x) (try_withdraw_collateral c i a)"
    and "keepsOkM (accounted c k x) (slash_backing_collateral c i a)"
  unfolding try_deposit_collateral_def force_withdraw_collateral_def try_withdraw_collateral_def
    slash_backing_collateral_def
  by (intro keeps_intro assms)+

lemma keeps_take_funds [keeps_intro]:
  assumes "ledger_laws (cfg_ledger c)"
  shows "keepsOkM (accounted c k x) (take_funds c src a)"
proof (cases src)
  case (AvailableReplaceCollateral i)
  then show ?thesis
    by (simp only: take_funds.simps) (rule keeps_triple, rule triple_read_active_vault, rule triple_bind, rule triple_rv_fields(3),
        rule triple_drop, intro keeps_intro assms)
next
  case (ActiveReplaceCollateral i)
  then show ?thesis
    by (simp only: take_funds.simps) (rule keeps_triple, rule triple_read_vault, rule triple_bind, rule triple_rv_fields(5),
        rule triple_drop, intro keeps_intro assms)
qed (simp_all, (intro keeps_intro assms)+)

lemma keeps_put_funds [keeps_intro]:
  assumes "ledger_laws (cfg_ledger c)"
  shows "keepsOkM (accounted c k x) (put_funds c dest a)"
proof (cases dest)
  case (AvailableReplaceCollateral i)
  then show ?thesis
    by (simp only: put_funds.simps) (rule keeps_triple, rule triple_read_active_vault, rule triple_bind, rule triple_rv_fields(2),
        rule triple_drop, intro keeps_intro assms)
next
  case (ActiveReplaceCollateral i)
  then show ?thesis
    by (simp only: put_funds.simps) (rule keeps_triple, rule triple_read_vault, rule triple_bind, rule triple_rv_fields(4),
        rule triple_drop, intro keeps_intro assms)
qed (simp_all, (intro keeps_intro assms)+)

lemma keeps_transfer_funds [keeps_intro]:
  assumes "ledger_laws (cfg_ledger c)"
  shows "keepsOkM (accounted c k x) (transfer_funds c src dest a)"
    and "keepsOkM (accounted c k x) (transfer_funds_saturated c src dest a)"
  unfolding transfer_funds_def transfer_funds_saturated_def by (intro keeps_intro assms)+

lemma keeps_holding_transfer_liquidated [keeps_intro]:
  assumes "ledger_laws (cfg_ledger c)"
  shows "keepsOkM (holding c k x W v) (transfer_funds c (LiquidatedCollateral i) (LiquidationVault p) a)"
  unfolding transfer_funds_def take_funds.simps put_funds.simps by (intro keeps_intro assms)
section \<open>Token operations of the registry\<close>

lemma keeps_try_increase_to_be_issued [keeps_intro]:
  "keepsOkM (accounted c k x) (try_increase_to_be_issued_tokens c' i n)"
  unfolding try_increase_to_be_issued_tokens_def
  by (intro keeps_triple triple_read_active_vault triple_queryM triple_lift triple_ensure
      triple_finish [OF triple_rv_increase_to_be_issued] keeps_intro) (rule holding_accounted)

lemma keeps_to_be_replaced [keeps_intro]:
  "keepsOkM (accounted c k x) (try_increase_to_be_replaced_tokens i n)"
  "keepsOkM (accounted c k x) (decrease_to_be_replaced_tokens c' i n)"
  unfolding try_increase_to_be_replaced_tokens_def decrease_to_be_replaced_tokens_def Let_def
  by (rule keeps_triple, (rule triple_read_active_vault triple_read_vault triple_lift triple_ensure)+,
      rule triple_finish, rule triple_rv_fields(1), intro keeps_intro, erule holding_accounted)+

lemma keeps_decrease_to_be_issued [keeps_intro]:
  "keepsOkM (accounted c k x) (decrease_to_be_issued_tokens i n)"
  unfolding decrease_to_be_issued_tokens_def
  by (intro keeps_triple triple_read_vault triple_finish [OF triple_rv_decrease_to_be_issued] keeps_intro)
     (rule holding_accounted)

lemma keeps_decrease_to_be_redeemed [keeps_intro]:
  "keepsOkM (accounted c k x) (decrease_to_be_redeemed_tokens i n)"
  unfolding decrease_to_be_redeemed_tokens_def
  by (intro keeps_triple triple_read_vault triple_finish [OF triple_rv_decrease_to_be_redeemed] keeps_intro)
     (rule holding_accounted)

lemma keeps_decrease_liquidated_collateral [keeps_intro]:
  "keepsOkM (accounted c k x) (decrease_liquidated_collateral i a)"
  unfolding decrease_liquidated_collateral_def
  by (intro keeps_triple triple_read_vault triple_finish [OF triple_rv_fields(8)] keeps_intro)
     (rule holding_accounted)

lemma keeps_ban_vault [keeps_intro]: "keepsOkM (accounted c k x) (ban_vault i)"
  unfolding ban_vault_def Let_def
  by (intro keeps_triple triple_getM triple_read_active_vault triple_finish [OF triple_rv_fields(9)] keeps_intro)
     (rule holding_accounted)

lemma triple_rv_increase_to_be_redeemed:
  assumes "v_to_be_redeemed v + amt n \<le> v_issued v"
  shows "tripleM (holding c k x W v) (rv_increase_to_be_redeemed v n) (holding c k x W)"
proof (rule tripleI)
  fix s v' t
  assume h: "holding c k x W v s" and "rv_increase_to_be_redeemed v n s = (Inr v', t)"
  then have "\<not> is_liquidated v" "v' = v\<lparr>v_to_be_redeemed := v_to_be_redeemed v + amt n\<rparr>" "t = put_vault v' s"
    by (auto simp: rv_increase_to_be_redeemed_def ok_iff)
  then show "holding c k x W v' t"
    using holding_put_active [OF h, of v'] assms by simp
qed

lemma keeps_try_increase_to_be_redeemed [keeps_intro]:
  "keepsOkM (accounted c k x) (try_increase_to_be_redeemed_tokens i n)"
  unfolding try_increase_to_be_redeemed_tokens_def
  by (intro keeps_triple triple_read_active_vault triple_lift triple_ensure
      triple_finish [OF triple_rv_increase_to_be_redeemed] keeps_intro)
     (auto simp: ok_iff intro: holding_accounted)

lemma triple_issue_tokens:
  "tripleM (accounted c k x) (issue_tokens i n) (\<lambda>_. accounted c k (x - of_currency k n))"
  unfolding issue_tokens_def
  by (intro triple_read_vault triple_finish [OF triple_rv_execute_issue_tokens] keeps_intro)
     (rule holding_accounted)

lemma triple_decrease_tokens:
  "tripleM (accounted c k x) (decrease_tokens i y n) (\<lambda>_. accounted c k (x + of_currency k n))"
  unfolding decrease_tokens_def
  by (intro triple_read_vault triple_finish [OF triple_rv_execute_redeem_tokens] keeps_intro)
     (rule holding_accounted)

lemma keeps_withdraw_replace_request [keeps_intro]:
  assumes "ledger_laws (cfg_ledger c)"
  shows "keepsOkM (accounted c k x) (withdraw_replace_request c i a)"
  unfolding withdraw_replace_request_def by (intro keeps_intro assms)

lemma triple_redeem_tokens:
  assumes "ledger_laws (cfg_ledger c)"
  shows "tripleM (accounted c k x) (redeem_tokens c i n premium y) (\<lambda>_. accounted c k (x + of_currency k n))"
  unfolding redeem_tokens_def Let_def
proof (rule triple_read_vault, rule triple_bind, rule triple_rv_execute_redeem_tokens, rule triple_if)
  fix v v1 :: vault
  let ?y = "x + of_currency k n"
  show "tripleM (holding c k ?y {} v1)
      (if is_zero premium then registry_deposit_event (RedeemTokens (v_id v1) (amt n))
       else bindM (transfer_funds c (Collateral i) (FreeBalance y) premium)
         (\<lambda>_. registry_deposit_event (RedeemTokensPremium i (amt n) (amt premium) y)))
      (\<lambda>_. accounted c k ?y)"
    by (intro triple_drop keeps_intro assms)
  show "tripleM (holding c k ?y {} v1)
      (bindM (liftM (calculate_collateral (liquidated_collateral v1) n (to_be_redeemed_tokens v)))
        (\<lambda>to_be_released. bindM (decrease_total_backing_collateral (vid_currencies i) to_be_released)
          (\<lambda>_. bindM (rv_decrease_liquidated_collateral v1 to_be_released)
            (\<lambda>_. bindM (on_ledger (unlock_on c to_be_released (vid_account i)))
              (\<lambda>_. registry_deposit_event (RedeemTokensLiquidatedVault i (amt n) (amt to_be_released)))))))
      (\<lambda>_. accounted c k ?y)"
    by (rule triple_lift, rule triple_then, rule keeps_holding_frames, rule triple_finish,
        rule triple_rv_fields(8), intro keeps_intro assms, rule holding_accounted)
qed
lemma redeem_tokens_liquidation_ok:
  fixes s t :: "'l chain"
  assumes run: "redeem_tokens_liquidation c cu y n s = (Inr r, t)"
    and lv: "get_liquidation_vault \<lparr>cp_collateral = cu, cp_wrapped = cur n\<rparr> s = lv"
  obtains a1 z u lv' w e where
    "transfer_funds c (LiquidationVault \<lparr>cp_collateral = cu, cp_wrapped = cur n\<rparr>) (FreeBalance y) a1 s = (Inr z, u)"
    and "lv_burn_issued (get_liquidation_vault \<lparr>cp_collateral = cu, cp_wrapped = cur n\<rparr> u) n u = (Inr lv', w)"
    and "registry_deposit_event e w = (Inr r, t)" and "amt n + sv_to_be_redeemed lv \<le> sv_issued lv"
  using run unfolding redeem_tokens_liquidation_def Let_def ok_iff lv_redeemable_tokens_def lv
  by (elim exE conjE, hypsubst) (rule that, assumption+, simp)

lemma transfer_from_lv_issued:
  assumes "transfer_funds c (LiquidationVault p) (FreeBalance y) a s = (Inr r, u)"
    and "sv_currency_pair (get_liquidation_vault p s) = p"
  shows "sv_issued (get_liquidation_vault p u) = sv_issued (get_liquidation_vault p s) \<and>
    sv_to_be_redeemed (get_liquidation_vault p u) = sv_to_be_redeemed (get_liquidation_vault p s)"
proof -
  obtain lv1 u1 u2 u3 where 1: "lv_decrease_collateral (get_liquidation_vault p s) a s = (Inr lv1, u1)"
    and 2: "decrease_total_backing_collateral p a u1 = (Inr (), u2)"
    and 3: "on_ledger (unlock_on c a (cfg_liquidation_account c)) u2 = (Inr (), u3)"
    and 4: "on_ledger (transfer c a (cfg_liquidation_account c) y) u3 = (Inr (), u)"
    using assms(1) unfolding transfer_funds_def take_funds.simps put_funds.simps source_account_id.simps ok_iff
    by auto
  have "vr_liquidation_vault (ch_registry u2) = vr_liquidation_vault (ch_registry u1)"
    using frameM_D [OF frame_core_total_collateral(2) 2] by (simp add: core_def)
  moreover have "vr_liquidation_vault (ch_registry u3) = vr_liquidation_vault (ch_registry u2)"
    "vr_liquidation_vault (ch_registry u) = vr_liquidation_vault (ch_registry u3)"
    using 3 4 by (auto simp: zoomM_ok)
  ultimately have "get_liquidation_vault p u = get_liquidation_vault p u1"
    by (simp add: get_liquidation_vault_def)
  then show ?thesis
    using 1 assms(2) by (auto simp: lv_decrease_collateral_def ok_iff)
qed

lemma triple_redeem_tokens_liquidation:
  assumes "ledger_laws (cfg_ledger c)"
  shows "tripleM (accounted c k x) (redeem_tokens_liquidation c cu y n) (\<lambda>_. accounted c k (x + of_currency k n))"
proof (rule tripleI)
  fix s r t
  assume a: "accounted c k x s" and run: "redeem_tokens_liquidation c cu y n s = (Inr r, t)"
  let ?p = "\<lparr>cp_collateral = cu, cp_wrapped = cur n\<rparr>"
  let ?lv = "get_liquidation_vault ?p s"
  obtain a1 z u lv' w e where
    move: "transfer_funds c (LiquidationVault ?p) (FreeBalance y) a1 s = (Inr z, u)"
    and burn: "lv_burn_issued (get_liquidation_vault ?p u) n u = (Inr lv', w)"
    and ev: "registry_deposit_event e w = (Inr r, t)" and red: "amt n + sv_to_be_redeemed ?lv \<le> sv_issued ?lv"
    by (rule redeem_tokens_liquidation_ok [OF run refl])
  let ?lu = "get_liquidation_vault ?p u"
  have au: "accounted c k x u" by (rule keepsOkM_D [OF keeps_transfer_funds(1) [OF assms] a move])
  have p: "sv_currency_pair ?lu = ?p" "sv_currency_pair ?lv = ?p"
    using au a lv_pair [of u ?p] lv_pair [of s ?p] by (simp_all add: accounted_def tokens_ok_def)
  note same = transfer_from_lv_issued [OF move p(2)]
  have w: "w = put_liquidation_vault (?lu\<lparr>sv_issued := sv_issued ?lu - amt n\<rparr>) u"
    and n: "amt n \<le> sv_issued ?lu" "cur n = cp_wrapped (sv_currency_pair ?lu)"
    using burn by (auto simp: lv_burn_issued_def lv_decrease_issued_def ok_iff)
  have "accounted c k (x + of_currency k n) w"
    using accounted_put_lv [OF au, of "?lu\<lparr>sv_issued := sv_issued ?lu - amt n\<rparr>"] p red same
      lv_issued_change(2) [OF n(2,1), of k] by (simp add: w)
  then show "accounted c k (x + of_currency k n) t"
    by (rule keepsOkM_D [OF keeps_core_frames(1)]) (rule ev)
qed

lemma triple_read_two_vaults:
  assumes "i \<noteq> j"
    and "\<And>v w. v_id v = i \<Longrightarrow> v_id w = j \<Longrightarrow> tripleM (holding c k x {w} v) (f v w) R"
  shows "tripleM (accounted c k x)
    (bindM (queryM (get_vault_from_id i)) (\<lambda>v. bindM (queryM (get_vault_from_id j)) (f v))) R"
proof (rule tripleI)
  fix s r t
  assume a: "accounted c k x s"
    and "bindM (queryM (get_vault_from_id i)) (\<lambda>v. bindM (queryM (get_vault_from_id j)) (f v)) s = (Inr r, t)"
  then obtain v w where v: "get_vault_from_id i s = Inr v" and w: "get_vault_from_id j s = Inr w"
    and run: "f v w s = (Inr r, t)"
    by (auto simp: ok_iff)
  have "holding c k x {w} v s" "v_id v = i" "v_id w = j"
    using get_vault_holding [OF v a] get_vault_holding [OF w a] assms(1) by (auto simp: holding_def)
  then show "R r t" using tripleD [OF assms(2)] run by blast
qed

lemma triple_switch: "tripleM (holding c k x {v} w) m Q \<Longrightarrow> tripleM (holding c k x {w} v) m Q"
  by (erule triple_pre [rotated]) (rule holding_focus)

lemma triple_release_old:
  assumes "\<And>v' a. keepsOkM (holding c k x W v') (m a)"
  shows "tripleM (holding c k x W v)
    (if is_liquidated v then bindM (liftM q) (\<lambda>a. bindM (rv_decrease_liquidated_collateral v a)
       (\<lambda>v1. bindM (m a) (\<lambda>_. retM v1))) else retM v) (holding c k x W)"
proof (rule triple_if)
  show "tripleM (holding c k x W v) (bindM (liftM q) (\<lambda>a. bindM (rv_decrease_liquidated_collateral v a)
       (\<lambda>v1. bindM (m a) (\<lambda>_. retM v1)))) (holding c k x W)"
    by (rule triple_lift, rule triple_bind, rule triple_rv_fields(8), rule triple_then, rule assms)
       (auto simp: tripleM_def ok_iff)
qed (auto simp: tripleM_def ok_iff)

lemma keeps_replace_tokens:
  assumes "i \<noteq> j"
  shows "keepsOkM (accounted c k x) (replace_tokens c' i j n a)"
  unfolding replace_tokens_def
  by (rule keeps_triple, rule triple_read_two_vaults [OF assms], rule triple_bind, rule triple_release_old,
      rule keeps_intro, rule triple_bind, rule triple_rv_execute_redeem_tokens, rule triple_switch,
      rule triple_finish, rule triple_rv_execute_issue_tokens, rule keeps_intro)
     (auto dest: holding_accounted)

lemma keeps_cancel_replace_tokens:
  assumes "i \<noteq> j" and "ledger_laws (cfg_ledger c)"
  shows "keepsOkM (accounted c k x) (cancel_replace_tokens c i j n)"
  unfolding cancel_replace_tokens_def
  by (rule keeps_triple, rule triple_read_two_vaults [OF assms(1)], rule triple_bind, rule triple_release_old,
      rule keeps_holding_transfer_liquidated [OF assms(2)], rule triple_bind, rule triple_rv_decrease_to_be_redeemed,
      rule triple_switch, rule triple_finish, rule triple_rv_decrease_to_be_issued, rule keeps_intro)
     (rule holding_accounted)
section \<open>Liquidation\<close>

lemma withdraw_replace_request_active:
  assumes "withdraw_replace_request c i a s = (Inr r, t)" and "get_vault_from_id i t = Inr v" and "accounted c k x s"
  shows "\<not> is_liquidated v"
proof -
  obtain w u z where dec: "decrease_to_be_replaced_tokens c i a s = (Inr w, u)"
    and move: "transfer_funds c (AvailableReplaceCollateral i) (FreeBalance (vid_account i)) (snd w) u = (Inr z, t)"
    using assms(1) by (auto simp: withdraw_replace_request_def ok_iff)
  have u: "accounted c k x u" by (rule keepsOkM_D [OF keeps_to_be_replaced(2) assms(3) dec])
  obtain v1 m u1 u2 where v1: "get_active_vault_from_id i u = Inr v1"
    and "u1 = put_vault (v1\<lparr>v_replace_collateral := m\<rparr>) u"
    and "on_ledger (unlock_on c (snd w) (vid_account i)) u1 = (Inr (), u2)"
    and "on_ledger (transfer c (snd w) (vid_account i) (vid_account i)) u2 = (Inr (), t)"
    using move unfolding transfer_funds_def take_funds.simps put_funds.simps source_account_id.simps
      rv_decrease_available_replace_collateral_def ok_iff
    by auto
  then have "vr_vaults (ch_registry t) = (vr_vaults (ch_registry u))(v_id v1 \<mapsto> v1\<lparr>v_replace_collateral := m\<rparr>)"
    "\<not> is_liquidated v1"
    by (auto simp: zoomM_ok ok_iff)
  then show ?thesis
    using assms(2) get_vault_holding [OF _ u, of i v1] v1
    by (auto simp: get_vault_from_id_def [of i t] ok_iff is_liquidated_def)
qed

lemma triple_slash_for_to_be_redeemed:
  "tripleM (holding c k x W v) (slash_for_to_be_redeemed c' v a)
     (\<lambda>v' s. token_view v' = token_view v \<and> holding c k x W v' s)"
  unfolding slash_for_to_be_redeemed_def
proof (rule triple_queryM, rule triple_lift, rule triple_then, rule keeps_holding_frames)
  show "tripleM (holding c k x W v) (rv_increase_liquidated_collateral v b)
     (\<lambda>v' s. token_view v' = token_view v \<and> holding c k x W v' s)" for b
    using triple_rv_fields(7) [of c k x W v b]
    by (auto simp: tripleM_def rv_increase_liquidated_collateral_def ok_iff token_view_def is_liquidated_def)
qed

lemma keeps_slash_to_liquidation_vault:
  assumes "ledger_laws (cfg_ledger c)"
  shows "keepsOkM (holding c k x W v) (slash_to_liquidation_vault c v' a)"
  unfolding slash_to_liquidation_vault_def by (intro keeps_intro assms)

text \<open>The last part of a liquidation: the vault's tokens move to the liquidation vault.\<close>

lemma holding_liquidated:
  assumes h: "holding c k x W v s" and act: "\<not> is_liquidated v"
    and lv: "lv = get_liquidation_vault (vid_currencies (v_id v)) s"
    and v': "v' = v\<lparr>v_to_be_issued := 0, v_issued := 0, v_status := VaultLiquidatedStatus\<rparr>"
    and lv': "lv' = lv\<lparr>sv_issued := sv_issued lv + v_issued v, sv_to_be_issued := m,
      sv_to_be_redeemed := sv_to_be_redeemed lv + v_to_be_redeemed v\<rparr>"
  shows "holding c k x W v' (put_vault v' (put_liquidation_vault lv' s))"
proof -
  note hs = holding_stored [OF h]
  have p: "sv_currency_pair lv = vid_currencies (v_id v)" unfolding lv by (rule lv_pair [OF hs(2)])
  have sum: "vault_issued k v + lv_issued k lv = vault_issued k v' + lv_issued k lv'"
    using p by (simp add: vault_issued_def lv_issued_def wrapped_currency_def v' lv' cong: if_weak_cong)
  have "liquidated_to_be_redeemed (vid_currencies (v_id v)) v = 0"
    "liquidated_to_be_redeemed (vid_currencies (v_id v)) v' = int (v_to_be_redeemed v)"
    using act by (simp_all add: liquidated_to_be_redeemed_def v' is_liquidated_def)
  moreover have "sv_to_be_redeemed lv' \<le> sv_issued lv'"
    using lv_le [OF hs(3), of "vid_currencies (v_id v)"] hs(5) act by (simp add: lv' lv vault_ok_def)
  moreover have get: "get_liquidation_vault (sv_currency_pair lv') s = lv" using p lv by (simp add: lv')
  ultimately have "holding c k (x + vault_issued k v - vault_issued k v' + lv_issued k lv - lv_issued k lv') W v'
      (put_vault v' (put_liquidation_vault lv' s))"
    using holding_put_both [OF h, of v' lv'] p unfolding get
    by (simp add: v' lv' vault_ok_def is_liquidated_def)
  moreover have "x + vault_issued k v - vault_issued k v' + lv_issued k lv - lv_issued k lv' = x"
    using sum by linarith
  ultimately show ?thesis by (simp only:)
qed

lemma triple_hand_over:
  assumes act: "\<not> is_liquidated v"
  shows "tripleM (holding c k x W v)
    (bindM (getM (get_liquidation_vault (vid_currencies (v_id v)))) (\<lambda>lv.
     bindM (lv_increase_issued lv (issued_tokens v)) (\<lambda>lv1.
     bindM (lv_increase_to_be_issued lv1 (to_be_issued_tokens v)) (\<lambda>lv2.
     bindM (lv_increase_to_be_redeemed lv2 (to_be_redeemed_tokens v)) (\<lambda>_.
     bindM (rv_update (\<lambda>v. Inr (v\<lparr>v_to_be_issued := 0, v_issued := 0, v_status := VaultLiquidatedStatus\<rparr>)) v)
       (\<lambda>_. retM a)))))) (\<lambda>_. accounted c k x)"
proof (rule tripleI, goal_cases)
  case (1 s r t)
  let ?lv = "get_liquidation_vault (vid_currencies (v_id v)) s"
  let ?lv' = "?lv\<lparr>sv_issued := sv_issued ?lv + v_issued v, sv_to_be_issued := sv_to_be_issued ?lv + v_to_be_issued v,
      sv_to_be_redeemed := sv_to_be_redeemed ?lv + v_to_be_redeemed v\<rparr>"
  let ?v' = "v\<lparr>v_to_be_issued := 0, v_issued := 0, v_status := VaultLiquidatedStatus\<rparr>"
  have "t = put_vault ?v' (put_liquidation_vault ?lv' s)"
    using 1(2) unfolding lv_increase_issued_def lv_increase_to_be_issued_def lv_increase_to_be_redeemed_def ok_iff
    by (auto simp: put_liquidation_put)
  then show ?case
    using holding_accounted [OF holding_liquidated [OF 1(1) act refl refl refl]] by simp
qed

lemma triple_withdraw_and_read:
  assumes laws: "ledger_laws (cfg_ledger c)"
    and f: "\<And>v. v_id v = i \<Longrightarrow> \<not> is_liquidated v \<Longrightarrow> tripleM (holding c k x {} v) (f v) R"
  shows "tripleM (accounted c k x)
    (bindM (withdraw_replace_request c i a) (\<lambda>_. bindM (queryM (get_vault_from_id i)) f)) R"
proof (rule tripleI)
  fix s r t
  assume s: "accounted c k x s"
    and "bindM (withdraw_replace_request c i a) (\<lambda>_. bindM (queryM (get_vault_from_id i)) f) s = (Inr r, t)"
  then obtain w u v where req: "withdraw_replace_request c i a s = (Inr w, u)"
    and v: "get_vault_from_id i u = Inr v" and run: "f v u = (Inr r, t)"
    by (auto simp: ok_iff)
  have u: "accounted c k x u" by (rule keepsOkM_D [OF keeps_withdraw_replace_request [OF laws] s req])
  then show "R r t"
    using tripleD [OF f _ run] get_vault_holding [OF v u] withdraw_replace_request_active [OF req v s] by blast
qed

lemma keeps_rv_liquidate:
  assumes laws: "ledger_laws (cfg_ledger c)"
  shows "keepsOkM (accounted c k x) (rv_liquidate c v0)"
  unfolding rv_liquidate_def Let_def
  by (rule keeps_triple, (rule triple_queryM)+, rule triple_withdraw_and_read [OF laws], (rule triple_lift)+,
      rule triple_bind, rule triple_slash_for_to_be_redeemed, rule triple_fact, rule triple_then,
      rule keeps_slash_to_liquidation_vault [OF laws], rule triple_hand_over) (simp add: token_view_def)

lemma keeps_liquidate_vault [keeps_intro]:
  assumes "ledger_laws (cfg_ledger c)"
  shows "keepsOkM (accounted c k x) (liquidate_vault c i)"
  unfolding liquidate_vault_def by (intro keeps_intro keeps_rv_liquidate assms)
section \<open>The calls of the registry\<close>

lemma accounted_new_vault:
  assumes a: "accounted c k x s" and "vr_vaults (ch_registry s) i = None"
  shows "accounted c k x (ch_registry_update (vr_vaults_update (\<lambda>m. m(i \<mapsto> new_vault i))) s)"
proof -
  let ?t = "ch_registry_update (vr_vaults_update (\<lambda>m. m(i \<mapsto> new_vault i))) s"
  have fin: "finite (dom (vr_vaults (ch_registry s)))" and ok: "tokens_ok s"
    using a by (simp_all add: accounted_def tokens_ok_def keys_ok_def)
  have tot: "w (new_vault i) = 0 \<Longrightarrow> vault_total w ?t = vault_total w s" for w :: "vault \<Rightarrow> int"
    using map_sum_upd [OF fin, of w i "new_vault i"] assms(2) by (simp add: vault_total_def)
  have zero: "vault_issued j (new_vault i) = 0" "liquidated_to_be_redeemed p (new_vault i) = 0"
    "vault_ok (new_vault i)" "v_id (new_vault i) = i" for j p
    by (simp_all add: vault_issued_def liquidated_to_be_redeemed_def new_vault_def vault_ok_def is_liquidated_def)
  have "get_liquidation_vault p ?t = get_liquidation_vault p s" "lv_total w' ?t = lv_total w' s"
    "ch_ledger ?t = ch_ledger s" for p w'
    by (simp_all add: get_liquidation_vault_def lv_total_def)
  then show ?thesis
    using a tot [of "vault_issued k"] tot [of "liquidated_to_be_redeemed p" for p] zero
    by (simp add: accounted_def tokens_ok_def keys_ok_def token_gap_def issued_total_def)
qed

lemma keeps_insert_new_vault [keeps_intro]:
  assumes "\<And>y. keepsOkM (accounted c k x) (f y)"
  shows "keepsOkM (accounted c k x) (bindM (getM (vault_exists i)) (\<lambda>ex. bindM (ensureM (\<not> ex) e)
    (\<lambda>_. bindM (modifyM (ch_registry_update (vr_vaults_update (\<lambda>m. m(i \<mapsto> new_vault i))))) f)))"
  using assms accounted_new_vault [of c k x _ i] by (auto simp: keepsOkM_def ok_iff vault_exists_def)

lemma keeps_modify_core: "(\<And>s. core (f s) = core s) \<Longrightarrow> keepsOkM (accounted c k x) (modifyM f)"
  by (intro keeps_core frame_intro)

lemma keeps_registry_settings [keeps_intro]:
  "keepsOkM (accounted c k x) (set_minimum_collateral ori cu n)"
  "keepsOkM (accounted c k x) (set_system_collateral_ceiling ori p n)"
  "keepsOkM (accounted c k x) (set_secure_collateral_threshold c' ori p th)"
  "keepsOkM (accounted c k x) (set_premium_redeem_threshold ori p th)"
  "keepsOkM (accounted c k x) (set_liquidation_collateral_threshold ori p th)"
  "keepsOkM (accounted c k x) (set_punishment_delay ori d)"
  "keepsOkM (accounted c k x) (register_public_key ori key)"
  unfolding set_minimum_collateral_def set_system_collateral_ceiling_def set_secure_collateral_threshold_def
    set_premium_redeem_threshold_def set_liquidation_collateral_threshold_def set_punishment_delay_def
    register_public_key_def
  by (intro keeps_intro keeps_modify_core, simp)+

lemma keeps_register_vault [keeps_intro]:
  assumes "ledger_laws (cfg_ledger c)"
  shows "keepsOkM (accounted c k x) (register_vault c ori p n)"
  unfolding register_vault_def register_vault_internal_def by (intro keeps_intro assms)

lemma keeps_registry_collateral [keeps_intro]:
  assumes "ledger_laws (cfg_ledger c)"
  shows "keepsOkM (accounted c k x) (deposit_collateral c ori p n)"
    and "keepsOkM (accounted c k x) (withdraw_collateral c ori p n)"
    and "keepsOkM (accounted c k x) (report_undercollateralized_vault c ori i)"
  unfolding deposit_collateral_def withdraw_collateral_def report_undercollateralized_vault_def
  by (intro keeps_intro assms)+

lemma keeps_accept_new_issues [keeps_intro]: "keepsOkM (accounted c k x) (accept_new_issues c' ori p b)"
  unfolding accept_new_issues_def Let_def
proof (rule keeps_triple, rule triple_transactional, rule triple_lift, rule triple_read_active_vault)
  fix v :: vault and y
  assume "\<not> is_liquidated v"
  then show "tripleM (holding c k x {} v) (bindM (rv_set_accept_new_issues v b)
      (\<lambda>_. on_vault_settings_change c' (new_vault_id y (cp_collateral p) (cp_wrapped p)))) (\<lambda>_. accounted c k x)"
    by (intro triple_finish [OF triple_rv_set_accept] keeps_intro) (auto dest: holding_accounted)
qed

lemma keeps_custom_threshold [keeps_intro]:
  "keepsOkM (accounted c k x) (set_custom_secure_threshold ori p th)"
  unfolding set_custom_secure_threshold_def try_set_vault_custom_secure_threshold_def
  by (rule keeps_triple, rule triple_transactional, rule triple_lift, rule triple_then, intro keeps_intro,
      rule triple_read_vault, rule triple_finish, rule triple_rv_fields(6), rule keeps_basic, erule holding_accounted)

lemma triple_rv_recover:
  assumes "v_to_be_redeemed v = 0"
  shows "tripleM (holding c k x W v) (rv_set_accept_new_issues v b) (holding c k x W)"
proof (cases "is_liquidated v")
  case True
  show ?thesis
  proof (rule tripleI)
    fix s v' t
    assume h: "holding c k x W v s" and "rv_set_accept_new_issues v b s = (Inr v', t)"
    then have v': "v' = v\<lparr>v_status := VaultActive b\<rparr>" and t: "t = put_vault v' s"
      by (auto simp: rv_set_accept_new_issues_def ok_iff)
    have st: "vr_vaults (ch_registry s) (v_id v') = Some v" using holding_stored(1) [OF h] v' by simp
    have "tokens_ok (put_vault v' s)"
      using holding_stored [OF h] assms True
      by (intro tokens_ok_put_vault [OF _ st])
         (auto simp: v' vault_ok_def liquidated_to_be_redeemed_def is_liquidated_def)
    moreover have "token_gap c k (put_vault v' s) = x"
      using gap_put_vault [OF holding_stored(2) [OF h] st, of c k] holding_stored(4) [OF h]
      by (simp add: v' vault_issued_def cong: if_weak_cong)
    ultimately show "holding c k x W v' t"
      unfolding t by (intro holding_put [OF h]) (simp_all add: v' accounted_def)
  qed
qed (rule triple_rv_set_accept)

lemma keeps_recover_vault_id [keeps_intro]: "keepsOkM (accounted c k x) (recover_vault_id ori p)"
  unfolding recover_vault_id_def Let_def
proof (rule keeps_triple, rule triple_transactional, rule triple_lift, rule triple_queryM, rule triple_ensure,
    rule triple_read_vault, rule triple_ensure)
  fix v :: vault
  assume "is_zero (to_be_redeemed_tokens v)"
  then show "tripleM (holding c k x {} v) (bindM (rv_set_accept_new_issues v True) (\<lambda>_. retM ()))
      (\<lambda>_. accounted c k x)"
    by (intro triple_finish [OF triple_rv_recover] keeps_intro) (auto simp: is_zero_def dest: holding_accounted)
qed

end
