(* ===== verification/Volume_Limit.thy ===== *)
theory Volume_Limit
  imports Vault_Registry
begin

text \<open>
  What the request pallets share: the volume limit per interval, which the issue and the redeem
  pallet each keep in a storage of their own, and the proof that a Stellar transaction with a
  given memo was externalised.
\<close>

section \<open>The volume of an interval\<close>

definition convert_into_limit_currency_id_amount ::
  "'l config \<Rightarrow> currency \<Rightarrow> amount \<Rightarrow> 'l chain \<Rightarrow> amount result" where
  "convert_into_limit_currency_id_amount c limit_currency a s =
     (case convert_to c a limit_currency s of
        Inl _ \<Rightarrow> Inl (Other ''Missing Exchange Rate'')
      | Inr volume \<Rightarrow> Inr volume)"

definition increase_interval_volume ::
  "'l config \<Rightarrow> ('l chain \<Rightarrow> volume_limit) \<Rightarrow> ((volume_limit \<Rightarrow> volume_limit) \<Rightarrow> 'l chain \<Rightarrow> 'l chain) \<Rightarrow>
   amount \<Rightarrow> ('l chain, unit) prog" where
  "increase_interval_volume c vol vol_update a = (bindM (getM vol) (\<lambda>vl.
    (case vl_limit_amount vl of
        None \<Rightarrow> retM ()
      | Some limit_volume \<Rightarrow> (bindM (queryM (convert_into_limit_currency_id_amount c (vl_limit_currency vl) a)) (\<lambda>volume.
        let new_volume = saturating_add_w 128 (vl_current_amount vl) (amt volume) in
        modifyM (vol_update (vl_current_amount_update (\<lambda>_. new_volume))))))))"

definition check_volume ::
  "'l config \<Rightarrow> ('l chain \<Rightarrow> volume_limit) \<Rightarrow> ((volume_limit \<Rightarrow> volume_limit) \<Rightarrow> 'l chain \<Rightarrow> 'l chain) \<Rightarrow>
   dispatch_error \<Rightarrow> amount \<Rightarrow> ('l chain, unit) prog" where
  "check_volume c vol vol_update err amount_requested = (bindM (getM vol) (\<lambda>vl.
    (case vl_limit_amount vl of
        None \<Rightarrow> retM ()
      | Some limit_volume \<Rightarrow> (bindM (getM (\<lambda>s. env_number (ch_env s))) (\<lambda>current_block.
        let current_index = checked_div_n current_block (vl_interval_length vl) in
        let new_interval = (current_index \<noteq> Some (vl_last_interval_index vl)) in
        bindM (whenM new_interval (modifyM (vol_update (\<lambda>v. v\<lparr>vl_last_interval_index :=
          (case current_index of None \<Rightarrow> 0 | Some i \<Rightarrow> i), vl_current_amount := 0\<rparr>)))) (\<lambda>_.
        let current_volume = (if new_interval then 0 else vl_current_amount vl) in
        bindM (queryM (convert_into_limit_currency_id_amount c (vl_limit_currency vl) amount_requested)) (\<lambda>requested.
        ensureM (saturating_add_w 128 (amt requested) current_volume \<le> limit_volume) err)))))))"

definition update_rate_limit ::
  "balance option \<Rightarrow> currency \<Rightarrow> block_number \<Rightarrow> volume_limit \<Rightarrow> volume_limit" where
  "update_rate_limit limit_volume_amount limit_volume_currency_id interval_length v =
     v\<lparr>vl_limit_amount := limit_volume_amount, vl_limit_currency := limit_volume_currency_id,
       vl_interval_length := interval_length\<rparr>"

section \<open>Proofs of payment\<close>

definition decode_payment_proof ::
  "'l config \<Rightarrow> byte list \<Rightarrow> byte list \<Rightarrow> byte list \<Rightarrow> (transaction_envelope \<times> scp_envelope list \<times> transaction_set) result" where
  "decode_payment_proof c transaction_envelope_xdr_encoded externalized_envelopes_encoded transaction_set_encoded = (bindR (construct_from_raw_encoded_xdr c (rel_transaction_envelope_from_xdr (cfg_relay c))
      transaction_envelope_xdr_encoded) (\<lambda>transaction_envelope.
    bindR (construct_from_raw_encoded_xdr c (rel_scp_envelopes_from_xdr (cfg_relay c))
      externalized_envelopes_encoded) (\<lambda>envelopes.
    bindR (construct_from_raw_encoded_xdr c (rel_transaction_set_from_xdr (cfg_relay c))
      transaction_set_encoded) (\<lambda>transaction_set.
    Inr (transaction_envelope, envelopes, transaction_set)))))"

definition validate_on_chain ::
  "'l config \<Rightarrow> transaction_envelope \<Rightarrow> scp_envelope list \<Rightarrow> transaction_set \<Rightarrow> 'l chain \<Rightarrow> unit result" where
  "validate_on_chain c transaction_envelope envelopes transaction_set s =
     validate_stellar_transaction c (env_number (ch_env s)) (ch_relay s) transaction_envelope envelopes transaction_set"

text \<open>The checks that redeem and replace make before they accept a payment.\<close>

definition validated_payment ::
  "'l config \<Rightarrow> request_id \<Rightarrow> byte list \<Rightarrow> byte list \<Rightarrow> byte list \<Rightarrow> 'l chain \<Rightarrow> transaction_envelope result" where
  "validated_payment c request_id envelope_encoded envelopes_encoded set_encoded s = (bindR (decode_payment_proof c envelope_encoded envelopes_encoded set_encoded) (\<lambda>proof_data.
    bindR (ensure_transaction_memo_matches_hash c (fst proof_data) request_id) (\<lambda>_.
    bindR (validate_on_chain c (fst proof_data) (fst (snd proof_data)) (snd (snd proof_data)) s) (\<lambda>_.
    Inr (fst proof_data)))))"

end
