(* ===== verification/Issue.thy ===== *)
theory Issue
  imports Volume_Limit
begin

text \<open>
  The issue pallet, \<^verbatim>\<open>pallets/issue/src\<close>: a request locks griefing collateral and reserves tokens of
  a vault; a proven payment on Stellar mints the wrapped tokens; an unpaid request is cancelled.
\<close>

definition issue_deposit_event :: "issue_event \<Rightarrow> ('l chain, unit) prog" where
  "issue_deposit_event e = modifyM (ch_issue_update (\<lambda>r. r\<lparr>is_events := e # is_events r\<rparr>))"

abbreviation issue_volume :: "'l chain \<Rightarrow> volume_limit" where
  "issue_volume s \<equiv> is_volume (ch_issue s)"

abbreviation issue_volume_update :: "(volume_limit \<Rightarrow> volume_limit) \<Rightarrow> 'l chain \<Rightarrow> 'l chain" where
  "issue_volume_update f \<equiv> ch_issue_update (is_volume_update f)"

section \<open>Requests\<close>

definition issue_amount :: "issue_request \<Rightarrow> amount" where
  "issue_amount r = new_amount (ir_amount r) (ir_asset r)"

definition issue_fee :: "issue_request \<Rightarrow> amount" where
  "issue_fee r = new_amount (ir_fee r) (ir_asset r)"

definition issue_griefing_collateral :: "'l config \<Rightarrow> issue_request \<Rightarrow> amount" where
  "issue_griefing_collateral c r = new_amount (ir_griefing_collateral r) (cfg_griefing_currency c)"

definition insert_issue_request :: "request_id \<Rightarrow> issue_request \<Rightarrow> ('l chain, unit) prog" where
  "insert_issue_request key request = modifyM (ch_issue_update (is_requests_update (\<lambda>m. m(key \<mapsto> request))))"

definition mutate_issue_request :: "request_id \<Rightarrow> (issue_request \<Rightarrow> issue_request) \<Rightarrow> ('l chain, unit) prog" where
  "mutate_issue_request key f =
     modifyM (ch_issue_update (is_requests_update (\<lambda>m. m(key := map_option f (m key)))))"

definition set_issue_status :: "request_id \<Rightarrow> issue_request_status \<Rightarrow> ('l chain, unit) prog" where
  "set_issue_status key status = mutate_issue_request key (\<lambda>r. r\<lparr>ir_status := status\<rparr>)"

definition get_issue_request :: "request_id \<Rightarrow> 'l chain \<Rightarrow> issue_request result" where
  "get_issue_request issue_id s = ok_orR (is_requests (ch_issue s) issue_id) (IssueErr IssueIdNotFound)"

definition get_executable_issue_request_from_id :: "request_id \<Rightarrow> 'l chain \<Rightarrow> issue_request result" where
  "get_executable_issue_request_from_id issue_id s = (bindR (get_issue_request issue_id s) (\<lambda>request.
    (case ir_status request of
        IssueStatusCompleted \<Rightarrow> Inl (IssueErr IssueCompleted)
      | IssueStatusCancelled \<Rightarrow> (bindR (ensure_accepting_new_issues (ir_vault request) s) (\<lambda>_.
        Inr request))
      | IssuePending \<Rightarrow> Inr request)))"

definition get_pending_issue :: "request_id \<Rightarrow> 'l chain \<Rightarrow> issue_request result" where
  "get_pending_issue issue_id s = (bindR (get_issue_request issue_id s) (\<lambda>request.
    (case ir_status request of
        IssueStatusCompleted \<Rightarrow> Inl (IssueErr IssueCompleted)
      | IssueStatusCancelled \<Rightarrow> Inl (IssueErr IssueCancelled)
      | IssuePending \<Rightarrow> Inr request)))"

definition issue_minimum_transfer_amount :: "currency \<Rightarrow> 'l chain \<Rightarrow> amount" where
  "issue_minimum_transfer_amount currency_id s = new_amount (is_minimum_transfer (ch_issue s)) currency_id"

definition get_issue_requests_for_account :: "request_id list \<Rightarrow> account \<Rightarrow> 'l chain \<Rightarrow> request_id list" where
  "get_issue_requests_for_account keys account_id s = filter (\<lambda>key.
     case is_requests (ch_issue s) key of None \<Rightarrow> False | Some r \<Rightarrow> ir_requester r = account_id) keys"

definition get_issue_requests_for_vault :: "request_id list \<Rightarrow> account \<Rightarrow> 'l chain \<Rightarrow> request_id list" where
  "get_issue_requests_for_vault keys vault_account s = filter (\<lambda>key.
     case is_requests (ch_issue s) key of None \<Rightarrow> False | Some r \<Rightarrow> vid_account (ir_vault r) = vault_account) keys"

section \<open>Requesting\<close>

definition request_issue_internal ::
  "'l config \<Rightarrow> account \<Rightarrow> balance \<Rightarrow> vault_id \<Rightarrow> ('l chain, request_id) prog" where
  "request_issue_internal c requester n i = (let amount_requested = new_amount n (wrapped_currency i) in
    bindM (liftM (ensure_is_compatible_with_target_chain amount_requested)) (\<lambda>_.
    bindM (check_volume c issue_volume issue_volume_update (IssueErr ExceedLimitVolumeForIssueRequest) amount_requested) (\<lambda>_.
    bindM (queryM (get_active_vault_from_id i)) (\<lambda>v.
    bindM (ensureM (v_status v = VaultActive True) (IssueErr VaultNotAcceptingNewIssues)) (\<lambda>_.
    bindM (queryM (ensure_not_banned i)) (\<lambda>_.
    bindM (queryM (convert_to c amount_requested (cfg_griefing_currency c))) (\<lambda>amount_collateral.
    bindM (queryM (get_issue_griefing_collateral c amount_collateral)) (\<lambda>griefing.
    let griefing_collateral = new_amount (amt griefing) (cfg_griefing_currency c) in
    bindM (on_ledger (lock_on c griefing_collateral requester)) (\<lambda>_.
    bindM (getM (issue_minimum_transfer_amount (wrapped_currency i))) (\<lambda>minimum.
    bindM (liftM (amount_ge amount_requested minimum)) (\<lambda>enough.
    bindM (ensureM enough (IssueErr issue_error.AmountBelowMinimumTransferAmount)) (\<lambda>_.
    bindM (try_increase_to_be_issued_tokens c i amount_requested) (\<lambda>_.
    bindM (queryM (get_issue_fee c amount_requested)) (\<lambda>unrounded_fee.
    bindM (liftM (round_to_target_chain c unrounded_fee)) (\<lambda>fee.
    bindM (liftM (checked_sub amount_requested fee)) (\<lambda>amount_user.
    bindM (secure_id c) (\<lambda>issue_id.
    bindM (queryM (get_stellar_public_key (vid_account i))) (\<lambda>stellar_public_key.
    bindM (getM active_block) (\<lambda>opentime.
    bindM (getM (\<lambda>s. is_period (ch_issue s))) (\<lambda>period.
    bindM (insert_issue_request issue_id
      \<lparr>ir_vault = i, ir_opentime = opentime, ir_period = period,
       ir_griefing_collateral = amt griefing_collateral, ir_amount = amt amount_user, ir_asset = cur amount_user,
       ir_fee = amt fee, ir_requester = requester, ir_stellar_address = stellar_public_key,
       ir_status = IssuePending\<rparr>) (\<lambda>_.
    bindM (issue_deposit_event (RequestIssue issue_id requester (amt amount_user) (cur amount_user) (amt fee)
      (amt griefing_collateral) i stellar_public_key)) (\<lambda>_.
    retM issue_id))))))))))))))))))))))"

definition request_issue :: "'l config \<Rightarrow> origin \<Rightarrow> balance \<Rightarrow> vault_id \<Rightarrow> ('l chain, unit) prog" where
  "request_issue c origin n i = transactionalM (bindM (liftM (ensure_signed origin)) (\<lambda>requester.
    bindM (request_issue_internal c requester n i) (\<lambda>_.
    retM ())))"

section \<open>Executing\<close>

definition issue_validate_stellar_transaction ::
  "'l config \<Rightarrow> request_id \<Rightarrow> byte list \<Rightarrow> byte list \<Rightarrow> byte list \<Rightarrow> 'l chain \<Rightarrow> transaction_envelope result" where
  "issue_validate_stellar_transaction c issue_id envelope_encoded envelopes_encoded set_encoded s = (bindR (decode_payment_proof c envelope_encoded envelopes_encoded set_encoded) (\<lambda>proof_data.
    bindR (derive_shortened_request_id (cfg_to_base58 c) issue_id) (\<lambda>shortened_request_id.
    bindR (ensure_transaction_memo_matches (fst proof_data) shortened_request_id) (\<lambda>_.
    bindR (validate_on_chain c (fst proof_data) (fst (snd proof_data)) (snd (snd proof_data)) s) (\<lambda>_.
    Inr (fst proof_data))))))"

text \<open>The request is updated in the handler's copy; of the stored request only the amount changes.\<close>

definition set_issue_amount ::
  "'l config \<Rightarrow> request_id \<Rightarrow> issue_request \<Rightarrow> amount \<Rightarrow> amount \<Rightarrow> ('l chain, issue_request) prog" where
  "set_issue_amount c issue_id issue transferred_amount confiscated_griefing_collateral = (bindM (queryM (get_issue_fee c transferred_amount)) (\<lambda>fee.
    let issue1 = issue\<lparr>ir_fee := amt fee\<rparr> in
    bindM (liftM (checked_sub transferred_amount (issue_fee issue1))) (\<lambda>rest.
    let issue2 = issue1\<lparr>ir_amount := amt rest\<rparr> in
    bindM (mutate_issue_request issue_id (\<lambda>r. r\<lparr>ir_amount := ir_amount issue2\<rparr>)) (\<lambda>_.
    bindM (issue_deposit_event (IssueAmountChange issue_id (ir_amount issue2) (ir_asset issue2) (ir_fee issue2)
      (amt confiscated_griefing_collateral))) (\<lambda>_.
    retM issue2)))))"

definition decrease_issue_amount ::
  "'l config \<Rightarrow> request_id \<Rightarrow> issue_request \<Rightarrow> amount \<Rightarrow> amount \<Rightarrow> ('l chain, issue_request \<times> amount) prog" where
  "decrease_issue_amount c issue_id issue amount_transferred expected_total_amount = (bindM (liftM (checked_sub expected_total_amount amount_transferred)) (\<lambda>deficit.
    bindM (decrease_to_be_issued_tokens (ir_vault issue) deficit) (\<lambda>_.
    bindM (liftM (calculate_collateral (issue_griefing_collateral c issue) amount_transferred
      expected_total_amount)) (\<lambda>to_release_collateral.
    bindM (liftM (checked_sub (issue_griefing_collateral c issue) to_release_collateral)) (\<lambda>slashed_collateral.
    bindM (transfer_funds c (UserGriefing (ir_requester issue)) (FreeBalance (vid_account (ir_vault issue)))
      slashed_collateral) (\<lambda>_.
    bindM (set_issue_amount c issue_id issue amount_transferred slashed_collateral) (\<lambda>issue1.
    retM (issue1, to_release_collateral))))))))"

definition try_increase_issue_amount ::
  "'l config \<Rightarrow> request_id \<Rightarrow> issue_request \<Rightarrow> amount \<Rightarrow> amount \<Rightarrow> ('l chain, issue_request) prog" where
  "try_increase_issue_amount c issue_id issue amount_transferred expected_total_amount = (bindM (liftM (checked_sub amount_transferred expected_total_amount)) (\<lambda>surplus_amount.
    bindM (queryM (get_issuable_tokens_from_vault c (ir_vault issue))) (\<lambda>max_allowed.
    bindM (liftM (amount_min surplus_amount max_allowed)) (\<lambda>additional.
    bindM (attemptM (try_increase_to_be_issued_tokens c (ir_vault issue) additional)) (\<lambda>outcome.
    (case outcome of
        Inr _ \<Rightarrow> (bindM (liftM (checked_add expected_total_amount additional)) (\<lambda>total_amount.
          set_issue_amount c issue_id issue total_amount (zero_amount (cfg_griefing_currency c))))
      | Inl _ \<Rightarrow> retM issue))))))"

definition handle_issue_requests ::
  "'l config \<Rightarrow> account \<Rightarrow> request_id \<Rightarrow> issue_request \<Rightarrow> amount \<Rightarrow> ('l chain, issue_request) prog" where
  "handle_issue_requests c executor issue_id issue amount_transferred = (let requester = ir_requester issue in
    bindM (liftM (checked_add (issue_amount issue) (issue_fee issue))) (\<lambda>expected_total_amount.
    (case ir_status issue of
        IssueStatusCompleted \<Rightarrow> failM (IssueErr IssueCompleted)
      | IssueStatusCancelled \<Rightarrow> (bindM (try_increase_to_be_issued_tokens c (ir_vault issue) amount_transferred) (\<lambda>_.
        bindM (liftM (amount_lt amount_transferred expected_total_amount)) (\<lambda>less.
        bindM (whenM less (ensureM (requester = executor) (IssueErr InvalidExecutor))) (\<lambda>_.
        bindM (liftM (amount_ne amount_transferred expected_total_amount)) (\<lambda>different.
        (if different then set_issue_amount c issue_id issue amount_transferred (zero_amount (cfg_griefing_currency c))
          else retM issue))))))
      | IssuePending \<Rightarrow> (bindM (liftM (amount_lt amount_transferred expected_total_amount)) (\<lambda>less.
        bindM ((if less then (bindM (ensureM (requester = executor) (IssueErr InvalidExecutor)) (\<lambda>_.
          decrease_issue_amount c issue_id issue amount_transferred expected_total_amount))
          else (bindM (liftM (amount_gt amount_transferred expected_total_amount)) (\<lambda>greater.
            bindM ((if greater then (bindM (queryM (is_vault_liquidated (ir_vault issue))) (\<lambda>liquidated.
              (if \<not> liquidated then try_increase_issue_amount c issue_id issue amount_transferred expected_total_amount
                else retM issue)))
              else retM issue)) (\<lambda>issue1.
            retM (issue1, issue_griefing_collateral c issue1)))))) (\<lambda>released.
        bindM (on_ledger (unlock_on c (snd released) requester)) (\<lambda>_.
        retM (fst released))))))))"

definition execute_issue_internal ::
  "'l config \<Rightarrow> account \<Rightarrow> request_id \<Rightarrow> byte list \<Rightarrow> byte list \<Rightarrow> byte list \<Rightarrow> ('l chain, unit) prog" where
  "execute_issue_internal c executor issue_id envelope_encoded envelopes_encoded set_encoded = (bindM (queryM (get_executable_issue_request_from_id issue_id)) (\<lambda>issue.
    let requester = ir_requester issue in
    bindM (queryM (issue_validate_stellar_transaction c issue_id envelope_encoded
      envelopes_encoded set_encoded)) (\<lambda>transaction_envelope.
    bindM (liftM (get_amount_from_transaction_envelope transaction_envelope
      (ir_stellar_address issue) (ir_asset issue))) (\<lambda>amount_transferred.
    bindM (handle_issue_requests c executor issue_id issue amount_transferred) (\<lambda>issue1.
    bindM (liftM (checked_add (issue_amount issue1) (issue_fee issue1))) (\<lambda>total_amount.
    bindM (issue_tokens (ir_vault issue1) total_amount) (\<lambda>_.
    bindM (on_ledger (mint_to c (issue_amount issue1) requester)) (\<lambda>_.
    bindM (increase_interval_volume c issue_volume issue_volume_update (issue_amount issue1)) (\<lambda>_.
    bindM (on_ledger (mint_to c (issue_fee issue1) (cfg_fee_account c))) (\<lambda>_.
    bindM (fee_distribute_rewards c (issue_fee issue1)) (\<lambda>_.
    bindM (set_issue_status issue_id IssueStatusCompleted) (\<lambda>_.
    issue_deposit_event (ExecuteIssue issue_id requester (ir_vault issue1) (amt total_amount) (cur total_amount)
      (ir_fee issue1))))))))))))))"

definition execute_issue ::
  "'l config \<Rightarrow> origin \<Rightarrow> request_id \<Rightarrow> byte list \<Rightarrow> byte list \<Rightarrow> byte list \<Rightarrow> ('l chain, unit) prog" where
  "execute_issue c origin issue_id envelope_encoded envelopes_encoded set_encoded = transactionalM (bindM (liftM (ensure_signed origin)) (\<lambda>executor.
    execute_issue_internal c executor issue_id envelope_encoded envelopes_encoded set_encoded))"

section \<open>Cancelling\<close>

definition cancel_issue_internal :: "'l config \<Rightarrow> account \<Rightarrow> request_id \<Rightarrow> ('l chain, unit) prog" where
  "cancel_issue_internal c requester issue_id = (bindM (queryM (get_pending_issue issue_id)) (\<lambda>issue.
    bindM (getM (\<lambda>s. is_period (ch_issue s))) (\<lambda>global_period.
    let issue_period = max global_period (ir_period issue) in
    bindM (queryM (block_expired (ir_opentime issue) issue_period)) (\<lambda>expired.
    bindM ((if expired then retM (issue_griefing_collateral c issue)
       else if ir_requester issue = requester then (bindM (getM active_block) (\<lambda>current.
         let blocks_elapsed = saturating_sub_n current (ir_opentime issue) in
         let griefing = issue_griefing_collateral c issue in
         bindM (liftM (calculate_collateral griefing
           (new_amount (cfg_block_number_to_balance c blocks_elapsed) (cur griefing))
           (new_amount (cfg_block_number_to_balance c issue_period) (cur griefing)))) (\<lambda>share.
         bindM (liftM (amount_min share griefing)) (\<lambda>slashed_collateral.
         bindM (liftM (saturating_sub griefing slashed_collateral)) (\<lambda>released_collateral.
         bindM (on_ledger (unlock_on c released_collateral requester)) (\<lambda>_.
         retM slashed_collateral))))))
       else failM (IssueErr issue_error.TimeNotExpired))) (\<lambda>to_be_slashed_collateral.
    bindM (queryM (is_vault_liquidated (ir_vault issue))) (\<lambda>liquidated.
    bindM ((if liquidated then on_ledger (unlock_on c to_be_slashed_collateral (ir_requester issue))
      else transfer_funds c (UserGriefing (ir_requester issue)) (FreeBalance (vid_account (ir_vault issue)))
        to_be_slashed_collateral)) (\<lambda>_.
    bindM (liftM (checked_add (issue_amount issue) (issue_fee issue))) (\<lambda>full_amount.
    bindM (decrease_to_be_issued_tokens (ir_vault issue) full_amount) (\<lambda>_.
    bindM (set_issue_status issue_id IssueStatusCancelled) (\<lambda>_.
    issue_deposit_event (CancelIssue issue_id requester (amt to_be_slashed_collateral))))))))))))"

definition cancel_issue :: "'l config \<Rightarrow> origin \<Rightarrow> request_id \<Rightarrow> ('l chain, unit) prog" where
  "cancel_issue c origin issue_id = transactionalM (bindM (liftM (ensure_signed origin)) (\<lambda>requester.
    cancel_issue_internal c requester issue_id))"

section \<open>Settings\<close>

definition set_issue_period :: "origin \<Rightarrow> block_number \<Rightarrow> ('l chain, unit) prog" where
  "set_issue_period origin period = transactionalM (bindM (liftM (ensure_root origin)) (\<lambda>_.
    bindM (modifyM (ch_issue_update (is_period_update (\<lambda>_. period)))) (\<lambda>_.
    issue_deposit_event (IssuePeriodChange period))))"

definition issue_rate_limit_update ::
  "origin \<Rightarrow> balance option \<Rightarrow> currency \<Rightarrow> block_number \<Rightarrow> ('l chain, unit) prog" where
  "issue_rate_limit_update origin limit_volume_amount limit_volume_currency_id interval_length = transactionalM (bindM (liftM (ensure_root origin)) (\<lambda>_.
    bindM (modifyM (issue_volume_update (update_rate_limit limit_volume_amount limit_volume_currency_id interval_length))) (\<lambda>_.
    issue_deposit_event (IssueRateLimitUpdate limit_volume_amount limit_volume_currency_id interval_length))))"

definition issue_minimum_transfer_amount_update :: "origin \<Rightarrow> balance \<Rightarrow> ('l chain, unit) prog" where
  "issue_minimum_transfer_amount_update origin new_minimum_amount = transactionalM (bindM (liftM (ensure_root origin)) (\<lambda>_.
    bindM (modifyM (ch_issue_update (is_minimum_transfer_update (\<lambda>_. new_minimum_amount)))) (\<lambda>_.
    issue_deposit_event (IssueMinimumTransferAmountUpdate new_minimum_amount))))"

definition issue_genesis :: "block_number \<Rightarrow> balance \<Rightarrow> volume_limit \<Rightarrow> issue_state" where
  "issue_genesis period minimum_transfer_amount volume =
     \<lparr>is_requests = Map.empty, is_period = period, is_minimum_transfer = minimum_transfer_amount,
      is_volume = volume, is_events = []\<rparr>"

end
