(* ===== verification/Redeem.thy ===== *)
theory Redeem
  imports Volume_Limit
begin

text \<open>
  The redeem pallet, \<^verbatim>\<open>pallets/redeem/src\<close>: a user locks wrapped tokens and asks a vault for the asset
  on Stellar; a proven payment burns the tokens; an expired request is cancelled, with the vault
  punished and the user either reimbursed in collateral or given back the tokens.
\<close>

definition redeem_deposit_event :: "redeem_event \<Rightarrow> ('l chain, unit) prog" where
  "redeem_deposit_event e = modifyM (ch_redeem_update (\<lambda>r. r\<lparr>re_events := e # re_events r\<rparr>))"

abbreviation redeem_volume :: "'l chain \<Rightarrow> volume_limit" where
  "redeem_volume s \<equiv> re_volume (ch_redeem s)"

abbreviation redeem_volume_update :: "(volume_limit \<Rightarrow> volume_limit) \<Rightarrow> 'l chain \<Rightarrow> 'l chain" where
  "redeem_volume_update f \<equiv> ch_redeem_update (re_volume_update f)"

section \<open>Requests\<close>

definition redeem_amount :: "redeem_request \<Rightarrow> amount" where
  "redeem_amount r = new_amount (rr_amount r) (rr_asset r)"

definition redeem_fee :: "redeem_request \<Rightarrow> amount" where
  "redeem_fee r = new_amount (rr_fee r) (rr_asset r)"

definition redeem_premium :: "redeem_request \<Rightarrow> amount" where
  "redeem_premium r = new_amount (rr_premium r) (collateral_currency (rr_vault r))"

definition redeem_transfer_fee :: "redeem_request \<Rightarrow> amount" where
  "redeem_transfer_fee r = new_amount (rr_transfer_fee r) (rr_asset r)"

definition insert_redeem_request :: "request_id \<Rightarrow> redeem_request \<Rightarrow> ('l chain, unit) prog" where
  "insert_redeem_request key request = modifyM (ch_redeem_update (re_requests_update (\<lambda>m. m(key \<mapsto> request))))"

definition set_redeem_status ::
  "request_id \<Rightarrow> redeem_request_status \<Rightarrow> ('l chain, redeem_request_status) prog" where
  "set_redeem_status key status = (bindM (modifyM (ch_redeem_update (re_requests_update
      (\<lambda>m. m(key := map_option (\<lambda>r. r\<lparr>rr_status := status\<rparr>) (m key)))))) (\<lambda>_.
    retM status))"

definition get_redeem_request :: "request_id \<Rightarrow> 'l chain \<Rightarrow> redeem_request result" where
  "get_redeem_request redeem_id s = ok_orR (re_requests (ch_redeem s) redeem_id) (RedeemErr RedeemIdNotFound)"

definition get_open_redeem_request_from_id :: "request_id \<Rightarrow> 'l chain \<Rightarrow> redeem_request result" where
  "get_open_redeem_request_from_id redeem_id s = (bindR (get_redeem_request redeem_id s) (\<lambda>request.
    (case rr_status request of
        RedeemPending \<Rightarrow> Inr request
      | RedeemStatusCompleted \<Rightarrow> Inl (RedeemErr RedeemCompleted)
      | RedeemReimbursed _ \<Rightarrow> Inl (RedeemErr RedeemCancelled)
      | RedeemRetried \<Rightarrow> Inl (RedeemErr RedeemCancelled))))"

definition get_open_or_completed_redeem_request_from_id :: "request_id \<Rightarrow> 'l chain \<Rightarrow> redeem_request result" where
  "get_open_or_completed_redeem_request_from_id redeem_id s = (bindR (get_redeem_request redeem_id s) (\<lambda>request.
    bindR (ensureR (rr_status request = RedeemPending \<or> rr_status request = RedeemStatusCompleted)
      (RedeemErr RedeemCancelled)) (\<lambda>_.
    Inr request)))"

definition get_current_inclusion_fee :: "currency \<Rightarrow> amount result" where
  "get_current_inclusion_fee wrapped = Inr (new_amount 0 wrapped)"

definition redeem_minimum_transfer_amount :: "currency \<Rightarrow> 'l chain \<Rightarrow> amount" where
  "redeem_minimum_transfer_amount currency_id s = new_amount (re_minimum_transfer (ch_redeem s)) currency_id"

definition get_redeem_requests_for_account :: "request_id list \<Rightarrow> account \<Rightarrow> 'l chain \<Rightarrow> request_id list" where
  "get_redeem_requests_for_account keys account_id s = filter (\<lambda>key.
     case re_requests (ch_redeem s) key of None \<Rightarrow> False | Some r \<Rightarrow> rr_redeemer r = account_id) keys"

definition get_redeem_requests_for_vault :: "request_id list \<Rightarrow> account \<Rightarrow> 'l chain \<Rightarrow> request_id list" where
  "get_redeem_requests_for_vault keys vault_account s = filter (\<lambda>key.
     case re_requests (ch_redeem s) key of None \<Rightarrow> False | Some r \<Rightarrow> vid_account (rr_vault r) = vault_account) keys"

section \<open>Requesting\<close>

definition release_replace_collateral :: "'l config \<Rightarrow> vault_id \<Rightarrow> amount \<Rightarrow> ('l chain, unit) prog" where
  "release_replace_collateral c i burned_tokens = (bindM (decrease_to_be_replaced_tokens c i burned_tokens) (\<lambda>used.
    whenM (\<not> is_zero (snd used))
      (transfer_funds c (AvailableReplaceCollateral i) (FreeBalance (vid_account i)) (snd used))))"

definition request_redeem_internal ::
  "'l config \<Rightarrow> account \<Rightarrow> balance \<Rightarrow> byte list \<Rightarrow> vault_id \<Rightarrow> ('l chain, request_id) prog" where
  "request_redeem_internal c redeemer n stellar_address i = (let amount_wrapped = new_amount n (wrapped_currency i) in
    bindM (liftM (ensure_is_compatible_with_target_chain amount_wrapped)) (\<lambda>_.
    bindM (check_volume c redeem_volume redeem_volume_update (RedeemErr ExceedLimitVolumeForRedeemRequest) amount_wrapped) (\<lambda>_.
    bindM (queryM ensure_running) (\<lambda>_.
    bindM (getM (free_balance c (wrapped_currency i) redeemer)) (\<lambda>redeemer_balance.
    bindM (liftM (amount_le amount_wrapped redeemer_balance)) (\<lambda>affordable.
    bindM (ensureM affordable (RedeemErr AmountExceedsUserBalance)) (\<lambda>_.
    bindM ((if redeemer = vid_account i then retM (zero_amount (wrapped_currency i))
      else queryM (get_redeem_fee c amount_wrapped))) (\<lambda>unrounded_fee.
    bindM (liftM (get_current_inclusion_fee (wrapped_currency i))) (\<lambda>inclusion_fee.
    bindM (liftM (round_to_target_chain c unrounded_fee)) (\<lambda>fee_wrapped.
    bindM (liftM (checked_sub amount_wrapped fee_wrapped)) (\<lambda>vault_to_be_burned_tokens.
    bindM (liftM (case checked_sub vault_to_be_burned_tokens inclusion_fee of
      Inl _ \<Rightarrow> Inl (RedeemErr redeem_error.AmountBelowMinimumTransferAmount) | Inr a \<Rightarrow> Inr a)) (\<lambda>user_to_be_received.
    bindM (queryM (ensure_not_banned i)) (\<lambda>_.
    bindM (getM (redeem_minimum_transfer_amount (wrapped_currency i))) (\<lambda>minimum.
    bindM (liftM (amount_ge user_to_be_received minimum)) (\<lambda>enough.
    bindM (ensureM enough (RedeemErr redeem_error.AmountBelowMinimumTransferAmount)) (\<lambda>_.
    bindM (try_increase_to_be_redeemed_tokens i vault_to_be_burned_tokens) (\<lambda>_.
    bindM (on_ledger (lock_on c amount_wrapped redeemer)) (\<lambda>_.
    bindM (secure_id c) (\<lambda>redeem_id.
    bindM (queryM (is_vault_below_premium_threshold c i)) (\<lambda>below_premium_redeem.
    let currency_id = collateral_currency i in
    bindM ((if below_premium_redeem then (bindM (queryM (convert_to c user_to_be_received currency_id)) (\<lambda>in_collateral.
      queryM (get_premium_redeem_fee c in_collateral)))
      else retM (zero_amount currency_id))) (\<lambda>premium_collateral.
    bindM (release_replace_collateral c i vault_to_be_burned_tokens) (\<lambda>_.
    bindM (getM active_block) (\<lambda>opentime.
    bindM (getM (\<lambda>s. re_period (ch_redeem s))) (\<lambda>period.
    bindM (insert_redeem_request redeem_id
      \<lparr>rr_vault = i, rr_opentime = opentime, rr_period = period, rr_fee = amt fee_wrapped,
       rr_transfer_fee = amt inclusion_fee, rr_amount = amt user_to_be_received,
       rr_asset = cur user_to_be_received, rr_premium = amt premium_collateral, rr_redeemer = redeemer,
       rr_stellar_address = stellar_address, rr_status = RedeemPending\<rparr>) (\<lambda>_.
    bindM (redeem_deposit_event (RequestRedeem redeem_id redeemer i (amt user_to_be_received) (cur user_to_be_received)
      (amt fee_wrapped) (amt premium_collateral) stellar_address (amt inclusion_fee))) (\<lambda>_.
    retM redeem_id))))))))))))))))))))))))))"

definition request_redeem ::
  "'l config \<Rightarrow> origin \<Rightarrow> balance \<Rightarrow> byte list \<Rightarrow> vault_id \<Rightarrow> ('l chain, unit) prog" where
  "request_redeem c origin n stellar_address i = transactionalM (bindM (liftM (ensure_signed origin)) (\<lambda>redeemer.
    bindM (request_redeem_internal c redeemer n stellar_address i) (\<lambda>_.
    retM ())))"

section \<open>Redeeming from the liquidation vault\<close>

definition liquidation_redeem_internal ::
  "'l config \<Rightarrow> account \<Rightarrow> vault_currency_pair \<Rightarrow> balance \<Rightarrow> ('l chain, unit) prog" where
  "liquidation_redeem_internal c redeemer currencies n = (let amount_wrapped = new_amount n (cp_wrapped currencies) in
    bindM (getM (free_balance c (cp_wrapped currencies) redeemer)) (\<lambda>redeemer_balance.
    bindM (liftM (amount_le amount_wrapped redeemer_balance)) (\<lambda>affordable.
    bindM (ensureM affordable (RedeemErr AmountExceedsUserBalance)) (\<lambda>_.
    bindM (on_ledger (lock_on c amount_wrapped redeemer)) (\<lambda>_.
    bindM (on_ledger (burn_from c amount_wrapped redeemer)) (\<lambda>_.
    bindM (redeem_tokens_liquidation c (cp_collateral currencies) redeemer amount_wrapped) (\<lambda>_.
    redeem_deposit_event (LiquidationRedeem redeemer (amt amount_wrapped) (cp_wrapped currencies)))))))))"

definition liquidation_redeem ::
  "'l config \<Rightarrow> origin \<Rightarrow> vault_currency_pair \<Rightarrow> balance \<Rightarrow> ('l chain, unit) prog" where
  "liquidation_redeem c origin currencies n = transactionalM (bindM (liftM (ensure_signed origin)) (\<lambda>redeemer.
    liquidation_redeem_internal c redeemer currencies n))"

section \<open>Executing\<close>

definition execute_redeem_internal ::
  "'l config \<Rightarrow> request_id \<Rightarrow> byte list \<Rightarrow> byte list \<Rightarrow> byte list \<Rightarrow> ('l chain, unit) prog" where
  "execute_redeem_internal c redeem_id envelope_encoded envelopes_encoded set_encoded = (bindM (queryM (get_open_redeem_request_from_id redeem_id)) (\<lambda>redeem.
    bindM (queryM (validated_payment c redeem_id envelope_encoded envelopes_encoded set_encoded)) (\<lambda>transaction_envelope.
    bindM (liftM (get_amount_from_transaction_envelope transaction_envelope (rr_stellar_address redeem)
      (rr_asset redeem))) (\<lambda>paid_amount.
    bindM (liftM (amount_ge paid_amount (redeem_amount redeem))) (\<lambda>enough.
    bindM (ensureM enough (RedeemErr redeem_error.InvalidPaymentAmount)) (\<lambda>_.
    bindM (liftM (checked_add (redeem_amount redeem) (redeem_transfer_fee redeem))) (\<lambda>burn_amount.
    bindM (on_ledger (burn_from c burn_amount (rr_redeemer redeem))) (\<lambda>_.
    bindM (increase_interval_volume c redeem_volume redeem_volume_update burn_amount) (\<lambda>_.
    let fee = redeem_fee redeem in
    bindM (on_ledger (unlock_on c fee (rr_redeemer redeem))) (\<lambda>_.
    bindM (on_ledger (transfer c fee (rr_redeemer redeem) (cfg_fee_account c))) (\<lambda>_.
    bindM (fee_distribute_rewards c fee) (\<lambda>_.
    bindM (redeem_tokens c (rr_vault redeem) burn_amount (redeem_premium redeem) (rr_redeemer redeem)) (\<lambda>_.
    bindM (set_redeem_status redeem_id RedeemStatusCompleted) (\<lambda>_.
    redeem_deposit_event (ExecuteRedeem redeem_id (rr_redeemer redeem) (rr_vault redeem) (rr_amount redeem)
      (rr_asset redeem) (rr_fee redeem) (rr_transfer_fee redeem))))))))))))))))"

definition execute_redeem ::
  "'l config \<Rightarrow> origin \<Rightarrow> request_id \<Rightarrow> byte list \<Rightarrow> byte list \<Rightarrow> byte list \<Rightarrow> ('l chain, unit) prog" where
  "execute_redeem c origin redeem_id envelope_encoded envelopes_encoded set_encoded = transactionalM (bindM (liftM (ensure_signed origin)) (\<lambda>_.
    execute_redeem_internal c redeem_id envelope_encoded envelopes_encoded set_encoded))"

section \<open>Cancelling\<close>

text \<open>The collateral taken from the vault, by whether the vault is liquidated.\<close>

definition confiscate_collateral ::
  "'l config \<Rightarrow> account \<Rightarrow> redeem_request \<Rightarrow> vault \<Rightarrow> amount \<Rightarrow> bool \<Rightarrow> ('l chain, amount) prog" where
  "confiscate_collateral c redeemer redeem v vault_to_be_burned_tokens reimburse = (let i = rr_vault redeem in
    bindM (queryM (get_liquidated_collateral i)) (\<lambda>available.
    bindM (liftM (calculate_collateral available vault_to_be_burned_tokens
      (new_amount (v_to_be_redeemed v) (wrapped_currency i)))) (\<lambda>confiscated_collateral.
    let slashing_destination = (if reimburse then FreeBalance redeemer else LiquidationVault (vid_currencies i)) in
    bindM (decrease_liquidated_collateral i confiscated_collateral) (\<lambda>_.
    bindM (transfer_funds c (LiquidatedCollateral i) slashing_destination confiscated_collateral) (\<lambda>_.
    retM confiscated_collateral)))))"

definition punish_vault ::
  "'l config \<Rightarrow> account \<Rightarrow> request_id \<Rightarrow> vault_id \<Rightarrow> amount \<Rightarrow> bool \<Rightarrow> ('l chain, amount) prog" where
  "punish_vault c redeemer redeem_id i amount_wrapped_in_collateral reimburse = (bindM (queryM (get_punishment_fee c amount_wrapped_in_collateral)) (\<lambda>punishment_fee_in_collateral.
    bindM (liftM (if reimburse
      then checked_add amount_wrapped_in_collateral punishment_fee_in_collateral
      else Inr punishment_fee_in_collateral)) (\<lambda>amount_to_slash.
    bindM (transfer_funds_saturated c (Collateral i) (FreeBalance redeemer) amount_to_slash) (\<lambda>transferred_amount.
    bindM (liftM (saturating_sub transferred_amount punishment_fee_in_collateral)) (\<lambda>retrievable_amount_in_collateral.
    bindM (queryM (convert_to c retrievable_amount_in_collateral (wrapped_currency i))) (\<lambda>retrievable_amount_in_wrapped.
    bindM (modifyM (ch_redeem_update (re_cancelled_amount_update (\<lambda>m. m(redeem_id \<mapsto>
      (amt retrievable_amount_in_wrapped, cur retrievable_amount_in_wrapped)))))) (\<lambda>_.
    bindM (attemptM (ban_vault i)) (\<lambda>_.
    retM amount_to_slash))))))))"

definition settle_reimbursed ::
  "'l config \<Rightarrow> account \<Rightarrow> request_id \<Rightarrow> redeem_request \<Rightarrow> amount \<Rightarrow> ('l chain, redeem_request_status) prog" where
  "settle_reimbursed c redeemer redeem_id redeem vault_to_be_burned_tokens = (let fee = redeem_fee redeem in
    bindM (on_ledger (unlock_on c fee (rr_redeemer redeem))) (\<lambda>_.
    bindM (on_ledger (transfer c fee (rr_redeemer redeem) (cfg_fee_account c))) (\<lambda>_.
    bindM (fee_distribute_rewards c fee) (\<lambda>_.
    bindM (queryM (is_vault_below_secure_threshold c (rr_vault redeem))) (\<lambda>below.
    (if below then (bindM (on_ledger (burn_from c vault_to_be_burned_tokens redeemer)) (\<lambda>_.
       bindM (decrease_tokens (rr_vault redeem) (rr_redeemer redeem) vault_to_be_burned_tokens) (\<lambda>_.
       set_redeem_status redeem_id (RedeemReimbursed False))))
      else (bindM (on_ledger (unlock_on c vault_to_be_burned_tokens (rr_redeemer redeem))) (\<lambda>_.
        bindM (on_ledger (transfer c vault_to_be_burned_tokens (rr_redeemer redeem) (vid_account (rr_vault redeem)))) (\<lambda>_.
        bindM (decrease_to_be_redeemed_tokens (rr_vault redeem) vault_to_be_burned_tokens) (\<lambda>_.
        set_redeem_status redeem_id (RedeemReimbursed True)))))))))))"

definition settle_retried ::
  "'l config \<Rightarrow> account \<Rightarrow> request_id \<Rightarrow> redeem_request \<Rightarrow> amount \<Rightarrow> ('l chain, redeem_request_status) prog" where
  "settle_retried c redeemer redeem_id redeem vault_to_be_burned_tokens = (bindM (liftM (checked_add (redeem_amount redeem) (redeem_fee redeem))) (\<lambda>with_fee.
    bindM (liftM (checked_add with_fee (redeem_transfer_fee redeem))) (\<lambda>total_wrapped.
    bindM (on_ledger (unlock_on c total_wrapped redeemer)) (\<lambda>_.
    bindM (decrease_to_be_redeemed_tokens (rr_vault redeem) vault_to_be_burned_tokens) (\<lambda>_.
    set_redeem_status redeem_id RedeemRetried)))))"

definition cancel_redeem_internal ::
  "'l config \<Rightarrow> account \<Rightarrow> request_id \<Rightarrow> bool \<Rightarrow> ('l chain, unit) prog" where
  "cancel_redeem_internal c redeemer redeem_id reimburse = (bindM (queryM ensure_running) (\<lambda>_.
    bindM (queryM (get_open_redeem_request_from_id redeem_id)) (\<lambda>redeem.
    bindM (ensureM (redeemer = rr_redeemer redeem) (RedeemErr UnauthorizedRedeemer)) (\<lambda>_.
    bindM (getM (\<lambda>s. re_period (ch_redeem s))) (\<lambda>global_period.
    bindM (queryM (block_expired (rr_opentime redeem) (max global_period (rr_period redeem)))) (\<lambda>expired.
    bindM (ensureM expired (RedeemErr redeem_error.TimeNotExpired)) (\<lambda>_.
    bindM (queryM (get_vault_from_id (rr_vault redeem))) (\<lambda>v.
    bindM (liftM (checked_add (redeem_amount redeem) (redeem_transfer_fee redeem))) (\<lambda>vault_to_be_burned_tokens.
    bindM (queryM (convert_to c vault_to_be_burned_tokens (collateral_currency (rr_vault redeem)))) (\<lambda>amount_wrapped_in_collateral.
    bindM ((if is_liquidated v
      then confiscate_collateral c redeemer redeem v vault_to_be_burned_tokens reimburse
      else punish_vault c redeemer redeem_id (rr_vault redeem) amount_wrapped_in_collateral reimburse)) (\<lambda>slashed_amount.
    bindM ((if reimburse then settle_reimbursed c redeemer redeem_id redeem vault_to_be_burned_tokens
      else settle_retried c redeemer redeem_id redeem vault_to_be_burned_tokens)) (\<lambda>new_status.
    redeem_deposit_event (CancelRedeem redeem_id redeemer (rr_vault redeem) (amt slashed_amount) new_status)))))))))))))"

definition cancel_redeem :: "'l config \<Rightarrow> origin \<Rightarrow> request_id \<Rightarrow> bool \<Rightarrow> ('l chain, unit) prog" where
  "cancel_redeem c origin redeem_id reimburse = transactionalM (bindM (liftM (ensure_signed origin)) (\<lambda>redeemer.
    cancel_redeem_internal c redeemer redeem_id reimburse))"

section \<open>Minting for a reimbursed redeem\<close>

definition mint_tokens_for_reimbursed_redeem_internal ::
  "'l config \<Rightarrow> vault_id \<Rightarrow> request_id \<Rightarrow> ('l chain, unit) prog" where
  "mint_tokens_for_reimbursed_redeem_internal c i redeem_id = (bindM (queryM ensure_running) (\<lambda>_.
    bindM (queryM (get_redeem_request redeem_id)) (\<lambda>redeem.
    bindM (ensureM (rr_status redeem = RedeemReimbursed False) (RedeemErr RedeemCancelled)) (\<lambda>_.
    bindM (ensureM (rr_vault redeem = i) (RedeemErr redeem_error.UnauthorizedVault)) (\<lambda>_.
    bindM (getM (\<lambda>s. re_cancelled_amount (ch_redeem s) redeem_id)) (\<lambda>taken.
    bindM (modifyM (ch_redeem_update (re_cancelled_amount_update (\<lambda>m. m(redeem_id := None))))) (\<lambda>_.
    bindM (liftM (checked_add (redeem_amount redeem) (redeem_transfer_fee redeem))) (\<lambda>full_amount.
    let reimbursed_amount = (case taken of Some (n, currency_id) \<Rightarrow> new_amount n currency_id | None \<Rightarrow> full_amount) in
    bindM (try_increase_to_be_issued_tokens c i reimbursed_amount) (\<lambda>_.
    bindM (issue_tokens i reimbursed_amount) (\<lambda>_.
    bindM (on_ledger (mint_to c reimbursed_amount (vid_account i))) (\<lambda>_.
    bindM (set_redeem_status redeem_id (RedeemReimbursed True)) (\<lambda>_.
    redeem_deposit_event (MintTokensForReimbursedRedeem redeem_id (rr_vault redeem) (amt reimbursed_amount))))))))))))))"

definition mint_tokens_for_reimbursed_redeem ::
  "'l config \<Rightarrow> origin \<Rightarrow> vault_currency_pair \<Rightarrow> request_id \<Rightarrow> ('l chain, unit) prog" where
  "mint_tokens_for_reimbursed_redeem c origin currency_pair redeem_id = transactionalM (bindM (liftM (ensure_signed origin)) (\<lambda>account_id.
    mint_tokens_for_reimbursed_redeem_internal c
      (new_vault_id account_id (cp_collateral currency_pair) (cp_wrapped currency_pair)) redeem_id))"

section \<open>Self redeem\<close>

definition calculate_token_amounts :: "'l config \<Rightarrow> vault_id \<Rightarrow> amount \<Rightarrow> 'l chain \<Rightarrow> (amount \<times> amount) result" where
  "calculate_token_amounts c i requested_redeem_amount s = (bindR (get_free_redeemable_tokens i s) (\<lambda>redeemable.
    bindR (amount_eq redeemable requested_redeem_amount) (\<lambda>all_tokens.
    bindR ((if all_tokens then Inr (zero_amount (wrapped_currency i))
      else get_redeem_fee c requested_redeem_amount s)) (\<lambda>fees.
    bindR (checked_sub requested_redeem_amount fees) (\<lambda>consumed_issued_tokens.
    Inr (fees, consumed_issued_tokens))))))"

definition map_errM :: "'e \<Rightarrow> ('s, 'e, 'a) op \<Rightarrow> ('s, 'e, 'a) op" where
  "map_errM e m s = (case m s of (Inl _, t) \<Rightarrow> (Inl e, t) | (Inr x, t) \<Rightarrow> (Inr x, t))"

definition take_user_tokens :: "'l config \<Rightarrow> account \<Rightarrow> amount \<Rightarrow> amount \<Rightarrow> ('l chain, unit) prog" where
  "take_user_tokens c account_id consumed_issued_tokens fees = (bindM (map_errM (RedeemErr AmountExceedsUserBalance) (on_ledger (lock_on c consumed_issued_tokens account_id))) (\<lambda>_.
    bindM (on_ledger (burn_from c consumed_issued_tokens account_id)) (\<lambda>_.
    bindM (map_errM (RedeemErr AmountExceedsUserBalance) (on_ledger (transfer c fees account_id (cfg_fee_account c)))) (\<lambda>_.
    fee_distribute_rewards c fees))))"

definition update_vault_tokens :: "'l config \<Rightarrow> vault_id \<Rightarrow> amount \<Rightarrow> ('l chain, unit) prog" where
  "update_vault_tokens c i consumed_issued_tokens = (bindM (try_increase_to_be_redeemed_tokens i consumed_issued_tokens) (\<lambda>_.
    bindM (redeem_tokens c i consumed_issued_tokens (zero_amount (collateral_currency i)) (vid_account i)) (\<lambda>_.
    release_replace_collateral c i consumed_issued_tokens)))"

definition self_redeem_execute :: "'l config \<Rightarrow> vault_id \<Rightarrow> amount \<Rightarrow> ('l chain, unit) prog" where
  "self_redeem_execute c i amount_wrapped = (bindM (queryM (ensure_not_banned i)) (\<lambda>_.
    bindM (ensureM (\<not> is_zero amount_wrapped) (RedeemErr redeem_error.AmountBelowMinimumTransferAmount)) (\<lambda>_.
    bindM (queryM (calculate_token_amounts c i amount_wrapped)) (\<lambda>amounts.
    bindM (take_user_tokens c (vid_account i) (snd amounts) (fst amounts)) (\<lambda>_.
    bindM (update_vault_tokens c i (snd amounts)) (\<lambda>_.
    redeem_deposit_event (SelfRedeem i (amt (snd amounts)) (amt (fst amounts)))))))))"

definition self_redeem :: "'l config \<Rightarrow> origin \<Rightarrow> vault_currency_pair \<Rightarrow> balance \<Rightarrow> ('l chain, unit) prog" where
  "self_redeem c origin currency_pair n = transactionalM (bindM (liftM (ensure_signed origin)) (\<lambda>account_id.
    let i = new_vault_id account_id (cp_collateral currency_pair) (cp_wrapped currency_pair) in
    self_redeem_execute c i (new_amount n (wrapped_currency i))))"

section \<open>Settings\<close>

definition set_redeem_period :: "origin \<Rightarrow> block_number \<Rightarrow> ('l chain, unit) prog" where
  "set_redeem_period origin period = transactionalM (bindM (liftM (ensure_root origin)) (\<lambda>_.
    bindM (modifyM (ch_redeem_update (re_period_update (\<lambda>_. period)))) (\<lambda>_.
    redeem_deposit_event (RedeemPeriodChange period))))"

definition redeem_rate_limit_update ::
  "origin \<Rightarrow> balance option \<Rightarrow> currency \<Rightarrow> block_number \<Rightarrow> ('l chain, unit) prog" where
  "redeem_rate_limit_update origin limit_volume_amount limit_volume_currency_id interval_length = transactionalM (bindM (liftM (ensure_root origin)) (\<lambda>_.
    bindM (modifyM (redeem_volume_update (update_rate_limit limit_volume_amount limit_volume_currency_id interval_length))) (\<lambda>_.
    redeem_deposit_event (RedeemRateLimitUpdate limit_volume_amount limit_volume_currency_id interval_length))))"

definition redeem_minimum_transfer_amount_update :: "origin \<Rightarrow> balance \<Rightarrow> ('l chain, unit) prog" where
  "redeem_minimum_transfer_amount_update origin new_minimum_amount = transactionalM (bindM (liftM (ensure_root origin)) (\<lambda>_.
    bindM (modifyM (ch_redeem_update (re_minimum_transfer_update (\<lambda>_. new_minimum_amount)))) (\<lambda>_.
    redeem_deposit_event (RedeemMinimumTransferAmountUpdate new_minimum_amount))))"

definition redeem_genesis :: "block_number \<Rightarrow> balance \<Rightarrow> volume_limit \<Rightarrow> redeem_state" where
  "redeem_genesis period minimum_transfer_amount volume =
     \<lparr>re_requests = Map.empty, re_period = period, re_minimum_transfer = minimum_transfer_amount,
      re_volume = volume, re_cancelled_amount = Map.empty, re_events = []\<rparr>"

end
