(* ===== verification/Nomination.thy ===== *)
theory Nomination
  imports Vault_Registry
begin

text \<open>
  The nomination pallet, \<^verbatim>\<open>pallets/nomination/src/lib.rs\<close>: accounts other than the vault's own add
  collateral to a vault that has opted in.
\<close>

definition nomination_deposit_event :: "nomination_event \<Rightarrow> ('l chain, unit) prog" where
  "nomination_deposit_event e = modifyM (ch_nomination_update (\<lambda>r. r\<lparr>nm_events := e # nm_events r\<rparr>))"

definition is_opted_in :: "vault_id \<Rightarrow> 'l chain \<Rightarrow> bool" where
  "is_opted_in i s \<longleftrightarrow> nm_vaults (ch_nomination s) i \<noteq> None"

definition is_nomination_enabled :: "'l chain \<Rightarrow> bool" where
  "is_nomination_enabled s \<longleftrightarrow> nm_enabled (ch_nomination s)"

definition get_total_nominated_collateral :: "'l config \<Rightarrow> vault_id \<Rightarrow> 'l chain \<Rightarrow> amount result" where
  "get_total_nominated_collateral c i s = (bindR (get_backing_collateral c i s) (\<lambda>vault_backing_collateral.
    bindR (compute_collateral c i s) (\<lambda>vault_actual_collateral.
    checked_sub vault_backing_collateral vault_actual_collateral)))"

definition get_nominator_collateral :: "'l config \<Rightarrow> vault_id \<Rightarrow> account \<Rightarrow> 'l chain \<Rightarrow> amount result" where
  "get_nominator_collateral c i nominator_id s = (bindR (staking_compute_stake c i nominator_id (ch_staking s)) (\<lambda>n.
    Inr (new_amount n (collateral_currency i))))"

definition nom_withdraw_collateral_internal ::
  "'l config \<Rightarrow> vault_id \<Rightarrow> account \<Rightarrow> balance \<Rightarrow> nonce \<Rightarrow> ('l chain, unit) prog" where
  "nom_withdraw_collateral_internal c i nominator_id n requested_index = (bindM (getM (\<lambda>s. st_nonce (ch_staking s) i)) (\<lambda>nonce.
    let index = min requested_index nonce in
    let a = new_amount n (collateral_currency i) in
    bindM ((if index = nonce then (bindM (queryM (is_allowed_to_withdraw_collateral c i a)) (\<lambda>allowed.
       bindM (ensureM allowed (NominationErr CannotWithdrawCollateral)) (\<lambda>_.
       bindM (getM is_nomination_enabled) (\<lambda>enabled.
       bindM (ensureM enabled (NominationErr VaultNominationDisabled)) (\<lambda>_.
       bindM (getM (is_opted_in i)) (\<lambda>opted_in.
       bindM (ensureM opted_in (NominationErr VaultNotOptedInToNomination)) (\<lambda>_.
       decrease_total_backing_collateral (vid_currencies i) a)))))))
      else retM ())) (\<lambda>_.
    bindM (pool_withdraw_collateral c i nominator_id a (Some index)) (\<lambda>_.
    bindM (on_ledger (unlock_on c a (vid_account i))) (\<lambda>_.
    bindM (on_ledger (transfer c a (vid_account i) nominator_id)) (\<lambda>_.
    nomination_deposit_event (NomWithdrawCollateral i nominator_id (amt a))))))))"

definition nom_deposit_collateral_internal ::
  "'l config \<Rightarrow> vault_id \<Rightarrow> account \<Rightarrow> balance \<Rightarrow> ('l chain, unit) prog" where
  "nom_deposit_collateral_internal c i nominator_id n = (bindM (getM is_nomination_enabled) (\<lambda>enabled.
    bindM (ensureM enabled (NominationErr VaultNominationDisabled)) (\<lambda>_.
    bindM (getM (is_opted_in i)) (\<lambda>opted_in.
    bindM (ensureM opted_in (NominationErr VaultNotOptedInToNomination)) (\<lambda>_.
    let a = new_amount n (collateral_currency i) in
    bindM (queryM (get_backing_collateral c i)) (\<lambda>vault_backing_collateral.
    bindM (queryM (get_total_nominated_collateral c i)) (\<lambda>total_nominated_collateral.
    bindM (liftM (checked_add total_nominated_collateral a)) (\<lambda>new_nominated_collateral.
    bindM (queryM (get_max_nominatable_collateral c vault_backing_collateral (vid_currencies i))) (\<lambda>max_nominatable_collateral.
    bindM (liftM (amount_le new_nominated_collateral max_nominatable_collateral)) (\<lambda>within.
    bindM (ensureM within (NominationErr DepositViolatesMaxNominationRatio)) (\<lambda>_.
    bindM (pool_deposit_collateral c i nominator_id a) (\<lambda>_.
    bindM (on_ledger (transfer c a nominator_id (vid_account i))) (\<lambda>_.
    bindM (on_ledger (lock_on c a (vid_account i))) (\<lambda>_.
    bindM (try_increase_total_backing_collateral (vid_currencies i) a) (\<lambda>_.
    nomination_deposit_event (NomDepositCollateral i nominator_id (amt a)))))))))))))))))"

definition opt_in_to_nomination_internal :: "vault_id \<Rightarrow> ('l chain, unit) prog" where
  "opt_in_to_nomination_internal i = (bindM (getM is_nomination_enabled) (\<lambda>enabled.
    bindM (ensureM enabled (NominationErr VaultNominationDisabled)) (\<lambda>_.
    bindM (getM (vault_exists i)) (\<lambda>exists.
    bindM (ensureM exists (NominationErr nomination_error.VaultNotFound)) (\<lambda>_.
    bindM (getM (is_opted_in i)) (\<lambda>opted_in.
    bindM (ensureM (\<not> opted_in) (NominationErr VaultAlreadyOptedInToNomination)) (\<lambda>_.
    bindM (modifyM (ch_nomination_update (nm_vaults_update (\<lambda>m. m(i \<mapsto> True))))) (\<lambda>_.
    nomination_deposit_event (NominationOptIn i)))))))))"

definition opt_out_of_nomination_internal :: "'l config \<Rightarrow> vault_id \<Rightarrow> ('l chain, unit) prog" where
  "opt_out_of_nomination_internal c i = (bindM (getM (is_opted_in i)) (\<lambda>opted_in.
    bindM (ensureM opted_in (NominationErr VaultNotOptedInToNomination)) (\<lambda>_.
    bindM (queryM (get_total_nominated_collateral c i)) (\<lambda>total_nominated_collateral.
    bindM (queryM (is_allowed_to_withdraw_collateral c i total_nominated_collateral)) (\<lambda>allowed.
    bindM (ensureM allowed (NominationErr CollateralizationTooLow)) (\<lambda>_.
    bindM (pool_kick_nominators c i) (\<lambda>refunded.
    bindM (decrease_total_backing_collateral (vid_currencies i) (new_amount refunded (collateral_currency i))) (\<lambda>_.
    bindM (modifyM (ch_nomination_update (nm_vaults_update (\<lambda>m. m(i := None))))) (\<lambda>_.
    nomination_deposit_event (NominationOptOut i))))))))))"

section \<open>Calls\<close>

definition set_nomination_enabled :: "origin \<Rightarrow> bool \<Rightarrow> ('l chain, unit) prog" where
  "set_nomination_enabled origin enabled = transactionalM (bindM (liftM (ensure_root origin)) (\<lambda>_.
    modifyM (ch_nomination_update (nm_enabled_update (\<lambda>_. enabled)))))"

definition opt_in_to_nomination :: "origin \<Rightarrow> vault_currency_pair \<Rightarrow> ('l chain, unit) prog" where
  "opt_in_to_nomination origin currency_pair = transactionalM (bindM (liftM (ensure_signed origin)) (\<lambda>account_id.
    bindM (queryM ensure_running) (\<lambda>_.
    opt_in_to_nomination_internal
      (new_vault_id account_id (cp_collateral currency_pair) (cp_wrapped currency_pair)))))"

definition opt_out_of_nomination :: "'l config \<Rightarrow> origin \<Rightarrow> vault_currency_pair \<Rightarrow> ('l chain, unit) prog" where
  "opt_out_of_nomination c origin currency_pair = transactionalM (bindM (liftM (ensure_signed origin)) (\<lambda>account_id.
    bindM (queryM ensure_running) (\<lambda>_.
    opt_out_of_nomination_internal c
      (new_vault_id account_id (cp_collateral currency_pair) (cp_wrapped currency_pair)))))"

definition nom_deposit_collateral :: "'l config \<Rightarrow> origin \<Rightarrow> vault_id \<Rightarrow> balance \<Rightarrow> ('l chain, unit) prog" where
  "nom_deposit_collateral c origin i n = transactionalM (bindM (liftM (ensure_signed origin)) (\<lambda>nominator_id.
    bindM (queryM ensure_running) (\<lambda>_.
    nom_deposit_collateral_internal c i nominator_id n)))"

definition nom_withdraw_collateral ::
  "'l config \<Rightarrow> origin \<Rightarrow> vault_id \<Rightarrow> balance \<Rightarrow> nonce option \<Rightarrow> ('l chain, unit) prog" where
  "nom_withdraw_collateral c origin i n index = transactionalM (bindM (liftM (ensure_signed origin)) (\<lambda>nominator_id.
    bindM (queryM ensure_running) (\<lambda>_.
    nom_withdraw_collateral_internal c i nominator_id n (case index of None \<Rightarrow> 0 | Some x \<Rightarrow> x))))"

definition nomination_genesis :: "bool \<Rightarrow> nomination_state" where
  "nomination_genesis enabled = \<lparr>nm_enabled = enabled, nm_vaults = Map.empty, nm_events = []\<rparr>"

end
