(* ===== verification/Replace.thy ===== *)
theory Replace
  imports Nomination Volume_Limit
begin

text \<open>
  The replace pallet, \<^verbatim>\<open>pallets/replace/src\<close>: a vault asks to be replaced and locks griefing
  collateral; another vault accepts and takes over the issued tokens once the first has sent it
  the assets on Stellar.
\<close>

definition replace_deposit_event :: "replace_event \<Rightarrow> ('l chain, unit) prog" where
  "replace_deposit_event e = modifyM (ch_replace_update (\<lambda>r. r\<lparr>rp_events := e # rp_events r\<rparr>))"

section \<open>Requests\<close>

definition replace_amount :: "replace_request \<Rightarrow> amount" where
  "replace_amount r = new_amount (rp_amount r) (wrapped_currency (rp_old_vault r))"

definition replace_griefing_collateral :: "'l config \<Rightarrow> replace_request \<Rightarrow> amount" where
  "replace_griefing_collateral c r = new_amount (rp_griefing_collateral r) (cfg_griefing_currency c)"

definition replace_collateral :: "replace_request \<Rightarrow> amount" where
  "replace_collateral r = new_amount (rp_collateral r) (collateral_currency (rp_new_vault r))"

definition insert_replace_request :: "request_id \<Rightarrow> replace_request \<Rightarrow> ('l chain, unit) prog" where
  "insert_replace_request key request = modifyM (ch_replace_update (rp_requests_update (\<lambda>m. m(key \<mapsto> request))))"

definition set_replace_status :: "request_id \<Rightarrow> replace_request_status \<Rightarrow> ('l chain, unit) prog" where
  "set_replace_status key status =
     modifyM (ch_replace_update (rp_requests_update
       (\<lambda>m. m(key := map_option (\<lambda>r. r\<lparr>rp_status := status\<rparr>) (m key)))))"

definition get_replace_request :: "request_id \<Rightarrow> 'l chain \<Rightarrow> replace_request result" where
  "get_replace_request replace_id s =
     ok_orR (rp_requests (ch_replace s) replace_id) (ReplaceErr ReplaceIdNotFound)"

definition get_open_replace_request :: "request_id \<Rightarrow> 'l chain \<Rightarrow> replace_request result" where
  "get_open_replace_request replace_id s = (bindR (get_replace_request replace_id s) (\<lambda>request.
    (case rp_status request of
        ReplacePending \<Rightarrow> Inr request
      | ReplaceStatusCompleted \<Rightarrow> Inl (ReplaceErr ReplaceCompleted)
      | ReplaceStatusCancelled \<Rightarrow> Inl (ReplaceErr ReplaceCancelled))))"

definition get_open_or_completed_replace_request :: "request_id \<Rightarrow> 'l chain \<Rightarrow> replace_request result" where
  "get_open_or_completed_replace_request replace_id s = (bindR (get_replace_request replace_id s) (\<lambda>request.
    (case rp_status request of
        ReplacePending \<Rightarrow> Inr request
      | ReplaceStatusCompleted \<Rightarrow> Inr request
      | ReplaceStatusCancelled \<Rightarrow> Inl (ReplaceErr ReplaceCancelled))))"

definition get_open_or_cancelled_replace_request :: "request_id \<Rightarrow> 'l chain \<Rightarrow> replace_request result" where
  "get_open_or_cancelled_replace_request replace_id s = (bindR (get_replace_request replace_id s) (\<lambda>request.
    (case rp_status request of
        ReplacePending \<Rightarrow> Inr request
      | ReplaceStatusCancelled \<Rightarrow> Inr request
      | ReplaceStatusCompleted \<Rightarrow> Inl (ReplaceErr ReplaceCompleted))))"

definition replace_minimum_transfer_amount :: "currency \<Rightarrow> 'l chain \<Rightarrow> amount" where
  "replace_minimum_transfer_amount currency_id s = new_amount (rp_minimum_transfer (ch_replace s)) currency_id"

definition get_replace_requests_for_old_vault :: "request_id list \<Rightarrow> account \<Rightarrow> 'l chain \<Rightarrow> request_id list" where
  "get_replace_requests_for_old_vault keys vault_account s = filter (\<lambda>key.
     case rp_requests (ch_replace s) key of None \<Rightarrow> False
       | Some r \<Rightarrow> vid_account (rp_old_vault r) = vault_account) keys"

definition get_replace_requests_for_new_vault :: "request_id list \<Rightarrow> account \<Rightarrow> 'l chain \<Rightarrow> request_id list" where
  "get_replace_requests_for_new_vault keys vault_account s = filter (\<lambda>key.
     case rp_requests (ch_replace s) key of None \<Rightarrow> False
       | Some r \<Rightarrow> vid_account (rp_new_vault r) = vault_account) keys"

section \<open>Requesting and withdrawing\<close>

definition request_replace_internal :: "'l config \<Rightarrow> vault_id \<Rightarrow> balance \<Rightarrow> ('l chain, unit) prog" where
  "request_replace_internal c i n = (bindM (queryM (ensure_not_banned i)) (\<lambda>_.
    let amount_to_replace = new_amount n (wrapped_currency i) in
    bindM (liftM (ensure_is_compatible_with_target_chain amount_to_replace)) (\<lambda>_.
    bindM (getM (is_opted_in i)) (\<lambda>nominatable.
    bindM (ensureM (\<not> nominatable) (ReplaceErr VaultHasEnabledNomination)) (\<lambda>_.
    bindM (queryM (requestable_to_be_replaced_tokens i)) (\<lambda>requestable_tokens.
    bindM (liftM (amount_min amount_to_replace requestable_tokens)) (\<lambda>to_be_replaced_increase.
    bindM (ensureM (\<not> is_zero to_be_replaced_increase) (ReplaceErr ReplaceAmountZero)) (\<lambda>_.
    bindM (try_increase_to_be_replaced_tokens i to_be_replaced_increase) (\<lambda>total_to_be_replaced.
    bindM (getM (replace_minimum_transfer_amount (wrapped_currency i))) (\<lambda>minimum.
    bindM (liftM (amount_ge total_to_be_replaced minimum)) (\<lambda>enough.
    bindM (ensureM enough (ReplaceErr AmountBelowDustAmount)) (\<lambda>_.
    bindM (queryM (convert_to c to_be_replaced_increase (cfg_griefing_currency c))) (\<lambda>in_griefing_currency.
    bindM (queryM (get_replace_griefing_collateral c in_griefing_currency)) (\<lambda>griefing_collateral.
    bindM (transfer_funds c (FreeBalance (vid_account i)) (AvailableReplaceCollateral i) griefing_collateral) (\<lambda>_.
    replace_deposit_event (RequestReplace i (amt to_be_replaced_increase) (cur to_be_replaced_increase)
      (amt griefing_collateral)))))))))))))))))"

definition request_replace ::
  "'l config \<Rightarrow> origin \<Rightarrow> vault_currency_pair \<Rightarrow> balance \<Rightarrow> ('l chain, unit) prog" where
  "request_replace c origin currency_pair n = transactionalM (bindM (liftM (ensure_signed origin)) (\<lambda>account_id.
    request_replace_internal c (new_vault_id account_id (cp_collateral currency_pair) (cp_wrapped currency_pair)) n))"

definition withdraw_replace_internal :: "'l config \<Rightarrow> vault_id \<Rightarrow> balance \<Rightarrow> ('l chain, unit) prog" where
  "withdraw_replace_internal c i n = (bindM (withdraw_replace_request c i (new_amount n (wrapped_currency i))) (\<lambda>withdrawn.
    (if is_zero (fst withdrawn) then failM (ReplaceErr NoPendingRequest)
      else replace_deposit_event (WithdrawReplace i (amt (fst withdrawn)) (cur (fst withdrawn)) (amt (snd withdrawn))))))"

definition withdraw_replace ::
  "'l config \<Rightarrow> origin \<Rightarrow> vault_currency_pair \<Rightarrow> balance \<Rightarrow> ('l chain, unit) prog" where
  "withdraw_replace c origin currency_pair n = transactionalM (bindM (liftM (ensure_signed origin)) (\<lambda>account_id.
    withdraw_replace_internal c (new_vault_id account_id (cp_collateral currency_pair) (cp_wrapped currency_pair)) n))"

section \<open>Accepting\<close>

definition accept_replace_tokens :: "'l config \<Rightarrow> vault_id \<Rightarrow> vault_id \<Rightarrow> amount \<Rightarrow> ('l chain, unit) prog" where
  "accept_replace_tokens c old_id new_id redeemable = (bindM (try_increase_to_be_redeemed_tokens old_id redeemable) (\<lambda>_.
    try_increase_to_be_issued_tokens c new_id redeemable))"

definition accept_replace_internal ::
  "'l config \<Rightarrow> vault_id \<Rightarrow> vault_id \<Rightarrow> balance \<Rightarrow> balance \<Rightarrow> byte list \<Rightarrow> ('l chain, unit) prog" where
  "accept_replace_internal c old_id new_id n collateral_n stellar_address = (let requested = new_amount n (wrapped_currency old_id) in
    let collateral = new_amount collateral_n (collateral_currency new_id) in
    bindM (ensureM (old_id \<noteq> new_id) (ReplaceErr ReplaceSelfNotAllowed)) (\<lambda>_.
    bindM (ensureM (wrapped_currency old_id = wrapped_currency new_id) (ReplaceErr InvalidWrappedCurrency)) (\<lambda>_.
    bindM (queryM (ensure_not_banned new_id)) (\<lambda>_.
    bindM (decrease_to_be_replaced_tokens c old_id requested) (\<lambda>taken.
    let redeemable = fst taken in
    let griefing_collateral = snd taken in
    bindM (getM (replace_minimum_transfer_amount (wrapped_currency old_id))) (\<lambda>minimum.
    bindM (liftM (amount_ge redeemable minimum)) (\<lambda>enough.
    bindM (ensureM enough (ReplaceErr AmountBelowDustAmount)) (\<lambda>_.
    bindM (liftM (calculate_collateral collateral redeemable requested)) (\<lambda>actual_new_vault_collateral.
    bindM (try_deposit_collateral c new_id actual_new_vault_collateral) (\<lambda>_.
    bindM (accept_replace_tokens c old_id new_id redeemable) (\<lambda>_.
    bindM (transfer_funds c (AvailableReplaceCollateral old_id) (ActiveReplaceCollateral old_id) griefing_collateral) (\<lambda>_.
    bindM (secure_id c) (\<lambda>replace_id.
    bindM (getM active_block) (\<lambda>accept_time.
    bindM (getM (\<lambda>s. rp_replace_period (ch_replace s))) (\<lambda>period.
    bindM (insert_replace_request replace_id
      \<lparr>rp_old_vault = old_id, rp_new_vault = new_id, rp_amount = amt redeemable, rp_asset = cur redeemable,
       rp_griefing_collateral = amt griefing_collateral, rp_collateral = amt actual_new_vault_collateral,
       rp_accept_time = accept_time, rp_period = period, rp_stellar_address = stellar_address,
       rp_status = ReplacePending\<rparr>) (\<lambda>_.
    replace_deposit_event (AcceptReplace replace_id old_id new_id (amt redeemable) (cur redeemable)
      (amt actual_new_vault_collateral) stellar_address)))))))))))))))))"

definition accept_replace ::
  "'l config \<Rightarrow> origin \<Rightarrow> vault_currency_pair \<Rightarrow> vault_id \<Rightarrow> balance \<Rightarrow> balance \<Rightarrow> byte list \<Rightarrow> ('l chain, unit) prog" where
  "accept_replace c origin currency_pair old_id n collateral_n stellar_address = transactionalM (bindM (liftM (ensure_signed origin)) (\<lambda>account_id.
    accept_replace_internal c old_id
      (new_vault_id account_id (cp_collateral currency_pair) (cp_wrapped currency_pair)) n collateral_n stellar_address))"

section \<open>Executing and cancelling\<close>

definition execute_replace_internal ::
  "'l config \<Rightarrow> request_id \<Rightarrow> byte list \<Rightarrow> byte list \<Rightarrow> byte list \<Rightarrow> ('l chain, unit) prog" where
  "execute_replace_internal c replace_id envelope_encoded envelopes_encoded set_encoded = (bindM (queryM (get_open_or_cancelled_replace_request replace_id)) (\<lambda>r.
    let old_id = rp_old_vault r in
    let new_id = rp_new_vault r in
    bindM (queryM (validated_payment c replace_id envelope_encoded envelopes_encoded set_encoded)) (\<lambda>transaction_envelope.
    bindM (liftM (get_amount_from_transaction_envelope transaction_envelope (rp_stellar_address r)
      (rp_asset r))) (\<lambda>paid_amount.
    bindM (liftM (amount_ge paid_amount (replace_amount r))) (\<lambda>enough.
    bindM (ensureM enough (ReplaceErr replace_error.InvalidPaymentAmount)) (\<lambda>_.
    bindM ((case rp_status r of
        ReplacePending \<Rightarrow> (bindM (transfer_funds c (ActiveReplaceCollateral old_id) (FreeBalance (vid_account old_id))
            (replace_griefing_collateral c r)) (\<lambda>_.
          retM (replace_collateral r)))
      | ReplaceStatusCancelled \<Rightarrow> (bindM (accept_replace_tokens c old_id new_id (replace_amount r)) (\<lambda>_.
        retM (zero_amount (cur (replace_collateral r)))))
      | ReplaceStatusCompleted \<Rightarrow> failM (ReplaceErr ReplaceCompleted))) (\<lambda>collateral.
    bindM (replace_tokens c old_id new_id (replace_amount r) collateral) (\<lambda>_.
    bindM (replace_deposit_event (ExecuteReplace replace_id old_id new_id)) (\<lambda>_.
    set_replace_status replace_id ReplaceStatusCompleted)))))))))"

definition execute_replace ::
  "'l config \<Rightarrow> origin \<Rightarrow> request_id \<Rightarrow> byte list \<Rightarrow> byte list \<Rightarrow> byte list \<Rightarrow> ('l chain, unit) prog" where
  "execute_replace c origin replace_id envelope_encoded envelopes_encoded set_encoded = transactionalM (bindM (liftM (ensure_signed origin)) (\<lambda>_.
    execute_replace_internal c replace_id envelope_encoded envelopes_encoded set_encoded))"

definition cancel_replace_internal :: "'l config \<Rightarrow> request_id \<Rightarrow> ('l chain, unit) prog" where
  "cancel_replace_internal c replace_id = (bindM (queryM (get_open_replace_request replace_id)) (\<lambda>r.
    bindM (getM (\<lambda>s. rp_replace_period (ch_replace s))) (\<lambda>global_period.
    bindM (queryM (block_expired (rp_accept_time r) (max global_period (rp_period r)))) (\<lambda>expired.
    bindM (ensureM expired (ReplaceErr ReplacePeriodNotExpired)) (\<lambda>_.
    let new_id = rp_new_vault r in
    bindM (cancel_replace_tokens c (rp_old_vault r) new_id (replace_amount r)) (\<lambda>_.
    bindM (transfer_funds c (ActiveReplaceCollateral (rp_old_vault r)) (FreeBalance (vid_account new_id))
      (replace_griefing_collateral c r)) (\<lambda>_.
    bindM (queryM (is_vault_liquidated new_id)) (\<lambda>liquidated.
    bindM ((if liquidated then retM False
      else queryM (is_allowed_to_withdraw_collateral c new_id (replace_collateral r)))) (\<lambda>allowed.
    bindM (whenM allowed (force_withdraw_collateral c new_id (replace_collateral r))) (\<lambda>_.
    bindM (set_replace_status replace_id ReplaceStatusCancelled) (\<lambda>_.
    replace_deposit_event (CancelReplace replace_id new_id (rp_old_vault r) (rp_griefing_collateral r)))))))))))))"

definition cancel_replace :: "'l config \<Rightarrow> origin \<Rightarrow> request_id \<Rightarrow> ('l chain, unit) prog" where
  "cancel_replace c origin replace_id = transactionalM (bindM (liftM (ensure_signed origin)) (\<lambda>_.
    cancel_replace_internal c replace_id))"

section \<open>Settings\<close>

definition set_replace_period :: "origin \<Rightarrow> block_number \<Rightarrow> ('l chain, unit) prog" where
  "set_replace_period origin period = transactionalM (bindM (liftM (ensure_root origin)) (\<lambda>_.
    bindM (modifyM (ch_replace_update (rp_replace_period_update (\<lambda>_. period)))) (\<lambda>_.
    replace_deposit_event (ReplacePeriodChange period))))"

definition replace_minimum_transfer_amount_update :: "origin \<Rightarrow> balance \<Rightarrow> ('l chain, unit) prog" where
  "replace_minimum_transfer_amount_update origin new_minimum_amount = transactionalM (bindM (liftM (ensure_root origin)) (\<lambda>_.
    bindM (modifyM (ch_replace_update (rp_minimum_transfer_update (\<lambda>_. new_minimum_amount)))) (\<lambda>_.
    replace_deposit_event (ReplaceMinimumTransferAmountUpdate new_minimum_amount))))"

definition replace_genesis :: "block_number \<Rightarrow> balance \<Rightarrow> replace_state" where
  "replace_genesis period minimum_transfer_amount =
     \<lparr>rp_requests = Map.empty, rp_replace_period = period, rp_minimum_transfer = minimum_transfer_amount,
      rp_events = []\<rparr>"

end
