(* ===== verification/Call_Frames.thy ===== *)
theory Call_Frames
  imports Issue Redeem Replace
begin

text \<open>
  Which storages a call leaves alone.  A view of the chain that does not depend on the storages that
  the vault registry and the pallets below it write is unchanged by all of their operations, also
  by failing ones; a view that does not depend on the storage of a request pallet either is
  unchanged by the calls of that pallet.  The laws are stated once, as locales over the view, and
  interpreted on the stores of the request pallets.
\<close>

section \<open>Rules\<close>

lemma frame_replace_status:
  "frameM g m1 \<Longrightarrow> frameM g m2 \<Longrightarrow> frameM g m3 \<Longrightarrow>
   frameM g (case st of ReplacePending \<Rightarrow> m1 | ReplaceStatusCompleted \<Rightarrow> m2 | ReplaceStatusCancelled \<Rightarrow> m3)"
  by (cases st) simp_all

lemma keeps_replace_status [keeps_intro]:
  "keepsOkM P m1 \<Longrightarrow> keepsOkM P m2 \<Longrightarrow> keepsOkM P m3 \<Longrightarrow>
   keepsOkM P (case st of ReplacePending \<Rightarrow> m1 | ReplaceStatusCompleted \<Rightarrow> m2 | ReplaceStatusCancelled \<Rightarrow> m3)"
  by (cases st) simp_all

lemma frame_map_err: "frameM g m \<Longrightarrow> frameM g (map_errM e m)"
  by (simp add: frameM_def map_errM_def split: prod.splits sum.splits) (metis snd_conv)

section \<open>Views\<close>

text \<open>The storage of the registry and of the pallets below it, without the ledger.\<close>

locale vault_view =
  fixes g :: "'l chain \<Rightarrow> 'b"
  assumes staking [simp]: "g (ch_staking_update f3 s) = g s"
    and pooled [simp]: "g (ch_pooled_update f4 s) = g s"
    and dist [simp]: "g (ch_dist_update f5 s) = g s"
    and registry [simp]: "g (ch_registry_update f6 s) = g s"
begin

lemma zooms [frame_intro]:
  "frameM g (on_staking m3)" "frameM g (on_pooled m4)"
  by (rule frame_zoom, simp)+

lemma puts [frame_intro]:
  "frameM g (rv_update h v)" "frameM g (lv_update h' lv)" "frameM g (registry_deposit_event e)"
  unfolding rv_update_def lv_update_def registry_deposit_event_def put_vault_def put_liquidation_vault_def
  by (intro frame_intro, simp)+

lemma liquidation_vault [frame_intro]:
  "frameM g (lv_increase_issued lv a)" "frameM g (lv_increase_to_be_issued lv a)"
  "frameM g (lv_increase_to_be_redeemed lv a)" "frameM g (lv_decrease_issued lv a)"
  "frameM g (lv_decrease_to_be_issued lv a)" "frameM g (lv_decrease_to_be_redeemed lv a)"
  "frameM g (lv_increase_collateral lv a)" "frameM g (lv_decrease_collateral lv a)" "frameM g (lv_burn_issued lv a)"
  unfolding lv_increase_issued_def lv_increase_to_be_issued_def lv_increase_to_be_redeemed_def
    lv_decrease_issued_def lv_decrease_to_be_issued_def lv_decrease_to_be_redeemed_def lv_increase_collateral_def
    lv_decrease_collateral_def lv_burn_issued_def
  by (intro frame_intro)+

lemma vault_tokens [frame_intro]:
  "frameM g (rv_increase_issued v a)" "frameM g (rv_increase_to_be_issued v a)"
  "frameM g (rv_increase_to_be_redeemed v a)" "frameM g (rv_decrease_issued v a)"
  "frameM g (rv_decrease_to_be_issued v a)" "frameM g (rv_decrease_to_be_redeemed v a)"
  unfolding rv_increase_issued_def rv_increase_to_be_issued_def rv_increase_to_be_redeemed_def
    rv_decrease_issued_def rv_decrease_to_be_issued_def rv_decrease_to_be_redeemed_def
  by (intro frame_intro)+

lemma vault_fields [frame_intro]:
  "frameM g (rv_execute_issue_tokens v a)" "frameM g (rv_execute_redeem_tokens v a)"
  "frameM g (rv_set_to_be_replaced_amount v a)" "frameM g (rv_increase_available_replace_collateral v a)"
  "frameM g (rv_decrease_available_replace_collateral v a)" "frameM g (rv_increase_active_replace_collateral v a)"
  "frameM g (rv_decrease_active_replace_collateral v a)" "frameM g (rv_set_custom_secure_threshold v t)"
  "frameM g (rv_set_accept_new_issues v b)" "frameM g (rv_increase_liquidated_collateral v a)"
  "frameM g (rv_decrease_liquidated_collateral v a)" "frameM g (rv_ban_until v n)"
  unfolding rv_execute_issue_tokens_def rv_execute_redeem_tokens_def rv_set_to_be_replaced_amount_def
    rv_increase_available_replace_collateral_def rv_decrease_available_replace_collateral_def
    rv_increase_active_replace_collateral_def rv_decrease_active_replace_collateral_def
    rv_set_custom_secure_threshold_def rv_set_accept_new_issues_def rv_increase_liquidated_collateral_def
    rv_decrease_liquidated_collateral_def rv_ban_until_def
  by (intro frame_intro)+

lemma pools [frame_intro]: "frameM g (distribute_to_pools c n k tot acc ps ss)"
proof (induction ps arbitrary: acc ss)
  case Nil
  then show ?case by (simp add: frame_basic)
next
  case (Cons p ps)
  show ?case
    by (cases p; cases ss) (simp_all only: distribute_to_pools.simps, (intro frame_intro Cons.IH)+)
qed

lemma rewards [frame_intro]:
  "frameM g (distribute_rewards c n k)" "frameM g (distribute c a)"
  "frameM g (withdraw_all_rewards_from_vault c i)" "frameM g (update_reward_stake c i)"
  unfolding distribute_rewards_def distribute_def withdraw_all_rewards_from_vault_def update_reward_stake_def
  by (intro frame_intro; simp)+

lemma collateral [frame_intro]:
  "frameM g (pool_deposit_collateral c i y a)" "frameM g (pool_withdraw_collateral c i y a n)"
  "frameM g (pool_slash_collateral c i a)" "frameM g (pool_kick_nominators c i)"
  "frameM g (on_vault_settings_change c i)"
  "frameM g (try_increase_total_backing_collateral p a)" "frameM g (decrease_total_backing_collateral p a)"
  unfolding pool_deposit_collateral_def pool_withdraw_collateral_def pool_slash_collateral_def
    pool_kick_nominators_def on_vault_settings_change_def
    try_increase_total_backing_collateral_def decrease_total_backing_collateral_def put_total_collateral_def
  by (intro frame_intro; simp)+

lemma tokens [frame_intro]:
  "frameM g (try_increase_to_be_issued_tokens c i a)" "frameM g (try_increase_to_be_replaced_tokens i a)"
  "frameM g (decrease_to_be_replaced_tokens c i a)" "frameM g (decrease_to_be_issued_tokens i a)"
  "frameM g (issue_tokens i a)" "frameM g (try_increase_to_be_redeemed_tokens i a)"
  "frameM g (decrease_to_be_redeemed_tokens i a)" "frameM g (decrease_tokens i y a)"
  "frameM g (decrease_liquidated_collateral i a)"
  unfolding try_increase_to_be_issued_tokens_def try_increase_to_be_replaced_tokens_def
    decrease_to_be_replaced_tokens_def decrease_to_be_issued_tokens_def issue_tokens_def
    try_increase_to_be_redeemed_tokens_def decrease_to_be_redeemed_tokens_def decrease_tokens_def
    decrease_liquidated_collateral_def
  by (intro frame_intro)+

end

locale registry_view = vault_view +
  assumes ledger [simp]: "g (ch_ledger_update f1 s) = g s"
begin

lemma ledger_zoom [frame_intro]: "frameM g (on_ledger m1)"
  by (rule frame_zoom) simp

lemma reward_transfers [frame_intro]:
  "frameM g (fee_distribute_rewards c a)" "frameM g (transfer_reward c k n y)"
  unfolding fee_distribute_rewards_def transfer_reward_def
  by (intro frame_intro; simp)+

lemma moves [frame_intro]:
  "frameM g (try_deposit_collateral c i a)" "frameM g (force_withdraw_collateral c i a)"
  "frameM g (try_withdraw_collateral c i a)" "frameM g (slash_backing_collateral c i a)"
  unfolding try_deposit_collateral_def force_withdraw_collateral_def try_withdraw_collateral_def
    slash_backing_collateral_def
  by (intro frame_intro)+

lemma funds [frame_intro]: "frameM g (take_funds c x a)" "frameM g (put_funds c x a)"
  by (cases x; simp only: take_funds.simps put_funds.simps; intro frame_intro)+

lemma transfers [frame_intro]:
  "frameM g (transfer_funds c x y a)" "frameM g (transfer_funds_saturated c x y a)"
  unfolding transfer_funds_def transfer_funds_saturated_def by (intro frame_intro)+

lemma redeeming [frame_intro]:
  "frameM g (redeem_tokens c i a b y)" "frameM g (redeem_tokens_liquidation c k y a)"
  "frameM g (replace_tokens c i j a b)" "frameM g (cancel_replace_tokens c i j a)"
  "frameM g (withdraw_replace_request c i a)" "frameM g (ban_vault i)"
  unfolding redeem_tokens_def redeem_tokens_liquidation_def replace_tokens_def cancel_replace_tokens_def
    withdraw_replace_request_def ban_vault_def
  by (intro frame_intro)+

lemma liquidation [frame_intro]:
  "frameM g (slash_for_to_be_redeemed c v a)" "frameM g (slash_to_liquidation_vault c v a)"
  "frameM g (rv_liquidate c v)" "frameM g (liquidate_vault c i)"
  unfolding slash_for_to_be_redeemed_def slash_to_liquidation_vault_def rv_liquidate_def liquidate_vault_def
  by (intro frame_intro)+

lemma registry_calls [frame_intro]:
  "frameM g (register_vault c ori p n)" "frameM g (deposit_collateral c ori p n)"
  "frameM g (withdraw_collateral c ori p n)" "frameM g (register_public_key ori pk)"
  "frameM g (accept_new_issues c ori p b)" "frameM g (set_custom_secure_threshold ori p t)"
  "frameM g (report_undercollateralized_vault c ori i)" "frameM g (recover_vault_id ori p)"
  unfolding register_vault_def register_vault_internal_def deposit_collateral_def withdraw_collateral_def
    register_public_key_def accept_new_issues_def set_custom_secure_threshold_def
    try_set_vault_custom_secure_threshold_def report_undercollateralized_vault_def recover_vault_id_def
  by (intro frame_intro; simp)+

lemma registry_settings [frame_intro]:
  "frameM g (set_minimum_collateral ori k n)" "frameM g (set_system_collateral_ceiling ori p n)"
  "frameM g (set_secure_collateral_threshold c ori p t)" "frameM g (set_premium_redeem_threshold ori p t)"
  "frameM g (set_liquidation_collateral_threshold ori p t)" "frameM g (set_punishment_delay ori n)"
  unfolding set_minimum_collateral_def set_system_collateral_ceiling_def set_secure_collateral_threshold_def
    set_premium_redeem_threshold_def set_liquidation_collateral_threshold_def set_punishment_delay_def
  by (intro frame_intro; simp)+

lemma reward_calls [frame_intro]:
  "frameM g (execute_on_init c)" "frameM g (set_reward_per_block ori n)" "frameM g (collect_reward c ori i k ix)"
  unfolding execute_on_init_def set_reward_per_block_def collect_reward_def dist_deposit_event_def
  by (intro frame_intro; simp)+

end

text \<open>
  Views that one more pallet does not reach.  Of the stored requests a view may look at the
  identifiers: the calls that do not open a request keep them.
\<close>

locale issue_view = registry_view +
  assumes issue_events [simp]: "g (ch_issue_update (\<lambda>r. r\<lparr>is_events := e1 r\<rparr>) s) = g s"
    and issue_volumes [simp]: "g (ch_issue_update (is_volume_update h1) s) = g s"
    and issue_periods [simp]: "g (ch_issue_update (is_period_update h2) s) = g s"
    and issue_minima [simp]: "g (ch_issue_update (is_minimum_transfer_update h3) s) = g s"
    and issue_mutations [simp]:
      "g (ch_issue_update (is_requests_update (\<lambda>m. m(j := map_option h4 (m j)))) s) = g s"
begin

lemma issue_storage [frame_intro]:
  "frameM g (issue_deposit_event e)" "frameM g (mutate_issue_request j f)"
  "frameM g (set_issue_status j st)" "frameM g (increase_interval_volume c issue_volume issue_volume_update a)"
  "frameM g (check_volume c issue_volume issue_volume_update err a)"
  unfolding issue_deposit_event_def set_issue_status_def mutate_issue_request_def
    increase_interval_volume_def check_volume_def
  by (intro frame_intro; simp)+

lemma issue_amounts [frame_intro]:
  "frameM g (set_issue_amount c j r a b)" "frameM g (decrease_issue_amount c j r a b)"
  "frameM g (try_increase_issue_amount c j r a b)"
  unfolding set_issue_amount_def decrease_issue_amount_def try_increase_issue_amount_def by (intro frame_intro)+

lemma handled_issue [frame_intro]: "frameM g (handle_issue_requests c y j r a)"
  unfolding handle_issue_requests_def Let_def by (cases "ir_status r"; simp; intro frame_intro)

lemma issue_calls [frame_intro]:
  "frameM g (execute_issue c ori j b1 b2 b3)" "frameM g (cancel_issue c ori j)"
  "frameM g (set_issue_period ori n)" "frameM g (issue_rate_limit_update ori l k n)"
  "frameM g (issue_minimum_transfer_amount_update ori n)"
  unfolding execute_issue_def execute_issue_internal_def
    cancel_issue_def cancel_issue_internal_def set_issue_period_def issue_rate_limit_update_def
    issue_minimum_transfer_amount_update_def
  by (intro frame_intro; simp)+

end

locale redeem_view = registry_view +
  assumes redeem_events [simp]: "g (ch_redeem_update (\<lambda>r. r\<lparr>re_events := e1 r\<rparr>) s) = g s"
    and redeem_volumes [simp]: "g (ch_redeem_update (re_volume_update h1) s) = g s"
    and redeem_periods [simp]: "g (ch_redeem_update (re_period_update h2) s) = g s"
    and redeem_minima [simp]: "g (ch_redeem_update (re_minimum_transfer_update h3) s) = g s"
    and redeem_cancelled [simp]: "g (ch_redeem_update (re_cancelled_amount_update h5) s) = g s"
    and redeem_mutations [simp]:
      "g (ch_redeem_update (re_requests_update (\<lambda>m. m(j := map_option h4 (m j)))) s) = g s"
begin

lemma redeem_storage [frame_intro]:
  "frameM g (redeem_deposit_event e)" "frameM g (set_redeem_status j st)" "frameM g (increase_interval_volume c redeem_volume redeem_volume_update a)"
  "frameM g (check_volume c redeem_volume redeem_volume_update err a)"
  unfolding redeem_deposit_event_def set_redeem_status_def
    increase_interval_volume_def check_volume_def
  by (intro frame_intro; simp)+

lemma redeem_parts [frame_intro]:
  "frameM g (release_replace_collateral c i a)" "frameM g (confiscate_collateral c y r v a b)"
  "frameM g (punish_vault c y j i a b)" "frameM g (settle_reimbursed c y j r a)" "frameM g (settle_retried c y j r a)"
  "frameM g (update_vault_tokens c i a)"
  unfolding release_replace_collateral_def confiscate_collateral_def punish_vault_def settle_reimbursed_def
    settle_retried_def update_vault_tokens_def
  by (intro frame_intro; simp)+

lemma redeem_calls [frame_intro]:
  "frameM g (liquidation_redeem c ori p n)"
  "frameM g (execute_redeem c ori j b1 b2 b3)" "frameM g (cancel_redeem c ori j b)"
  "frameM g (mint_tokens_for_reimbursed_redeem c ori p j)" "frameM g (self_redeem c ori p n)"
  unfolding liquidation_redeem_def liquidation_redeem_internal_def
    execute_redeem_def execute_redeem_internal_def cancel_redeem_def cancel_redeem_internal_def
    mint_tokens_for_reimbursed_redeem_def mint_tokens_for_reimbursed_redeem_internal_def
    self_redeem_def self_redeem_execute_def take_user_tokens_def
  by (intro frame_intro frame_map_err; simp)+

lemma redeem_settings [frame_intro]:
  "frameM g (set_redeem_period ori n)" "frameM g (redeem_rate_limit_update ori l k n)"
  "frameM g (redeem_minimum_transfer_amount_update ori n)"
  unfolding set_redeem_period_def redeem_rate_limit_update_def redeem_minimum_transfer_amount_update_def
  by (intro frame_intro; simp)+

end

locale replace_view = registry_view +
  assumes replace_events [simp]: "g (ch_replace_update (\<lambda>r. r\<lparr>rp_events := e1 r\<rparr>) s) = g s"
    and replace_periods [simp]: "g (ch_replace_update (rp_replace_period_update h2) s) = g s"
    and replace_minima [simp]: "g (ch_replace_update (rp_minimum_transfer_update h3) s) = g s"
    and replace_mutations [simp]:
      "g (ch_replace_update (rp_requests_update (\<lambda>m. m(j := map_option h4 (m j)))) s) = g s"
begin

lemma replace_storage [frame_intro]:
  "frameM g (replace_deposit_event e)" "frameM g (set_replace_status j st)"
  unfolding replace_deposit_event_def set_replace_status_def
  by (intro frame_intro; simp)+

lemma executed_replace [frame_intro]: "frameM g (execute_replace_internal c j b1 b2 b3)"
  unfolding execute_replace_internal_def accept_replace_tokens_def by (intro frame_intro frame_replace_status)

lemma replace_calls [frame_intro]:
  "frameM g (request_replace c ori p n)" "frameM g (withdraw_replace c ori p n)"
  "frameM g (execute_replace c ori j b1 b2 b3)"
  "frameM g (cancel_replace c ori j)" "frameM g (set_replace_period ori n)"
  "frameM g (replace_minimum_transfer_amount_update ori n)"
  unfolding request_replace_def request_replace_internal_def withdraw_replace_def withdraw_replace_internal_def
    execute_replace_def cancel_replace_def cancel_replace_internal_def set_replace_period_def
    replace_minimum_transfer_amount_update_def
  by (intro frame_intro; simp)+

end

locale nomination_view = registry_view +
  assumes nomination [simp]: "g (ch_nomination_update f10 s) = g s"
begin

lemma nomination_calls [frame_intro]:
  "frameM g (set_nomination_enabled ori b)" "frameM g (opt_in_to_nomination ori p)"
  "frameM g (opt_out_of_nomination c ori p)" "frameM g (nom_deposit_collateral c ori i n)"
  "frameM g (nom_withdraw_collateral c ori i n ix)"
  unfolding set_nomination_enabled_def opt_in_to_nomination_def opt_in_to_nomination_internal_def
    opt_out_of_nomination_def opt_out_of_nomination_internal_def nom_deposit_collateral_def
    nom_deposit_collateral_internal_def nom_withdraw_collateral_def nom_withdraw_collateral_internal_def
    nomination_deposit_event_def
  by (intro frame_intro; simp)+

end

text \<open>Three calls draw an identifier, and with it change the storage of the security pallet.\<close>

locale drawing_view = registry_view +
  assumes security [simp]: "g (ch_security_update f2 s) = g s"
begin

lemma secure [frame_intro]: "frameM g (secure_id c)"
  by (rule frameMI) (simp add: secure_id_def split: prod.splits)

end

locale issue_drawing_view = issue_view + drawing_view +
  assumes issue_requests [simp]: "g (ch_issue_update (is_requests_update h6) s) = g s"
begin

lemma requested_issue [frame_intro]: "frameM g (request_issue c ori n i)"
  unfolding request_issue_def request_issue_internal_def insert_issue_request_def
  by (intro frame_intro) simp

end

locale redeem_drawing_view = redeem_view + drawing_view +
  assumes redeem_requests [simp]: "g (ch_redeem_update (re_requests_update h6) s) = g s"
begin

lemma requested_redeem [frame_intro]: "frameM g (request_redeem c ori n addr i)"
  unfolding request_redeem_def request_redeem_internal_def insert_redeem_request_def
  by (intro frame_intro) simp

end

locale replace_drawing_view = replace_view + drawing_view +
  assumes replace_requests [simp]: "g (ch_replace_update (rp_requests_update h6) s) = g s"
begin

lemma accepted_replace [frame_intro]: "frameM g (accept_replace c ori p i n m addr)"
  unfolding accept_replace_def accept_replace_internal_def accept_replace_tokens_def insert_replace_request_def
  by (intro frame_intro) simp

end

section \<open>The ledger, the request stores and the identifiers\<close>

text \<open>
  Each request pallet's storage is a view that the registry and the other pallets do not reach.  What
  the next identifier is computed from, and the set of identifiers in use, are views that only the
  three drawing calls reach.
\<close>

interpretation of_ledger: vault_view ch_ledger by unfold_locales simp_all

interpretation of_issue: redeem_drawing_view ch_issue by unfold_locales simp_all

interpretation of_issue: replace_drawing_view ch_issue by unfold_locales simp_all

interpretation of_issue: nomination_view ch_issue by unfold_locales simp_all

interpretation of_redeem: issue_drawing_view ch_redeem by unfold_locales simp_all

interpretation of_redeem: replace_drawing_view ch_redeem by unfold_locales simp_all

interpretation of_redeem: nomination_view ch_redeem by unfold_locales simp_all

interpretation of_replace: issue_drawing_view ch_replace by unfold_locales simp_all

interpretation of_replace: redeem_drawing_view ch_replace by unfold_locales simp_all

interpretation of_replace: nomination_view ch_replace by unfold_locales simp_all

definition id_view :: "'l chain \<Rightarrow> block_env \<times> security" where
  "id_view s = (ch_env s, ch_security s)"

interpretation of_ids: issue_view id_view by unfold_locales (simp_all add: id_view_def)

interpretation of_ids: redeem_view id_view by unfold_locales (simp_all add: id_view_def)

interpretation of_ids: replace_view id_view by unfold_locales (simp_all add: id_view_def)

interpretation of_ids: nomination_view id_view by unfold_locales (simp_all add: id_view_def)

definition request_keys :: "'l chain \<Rightarrow> request_id set \<times> 256 word" where
  "request_keys s =
     (dom (is_requests (ch_issue s)) \<union> dom (re_requests (ch_redeem s)) \<union> dom (rp_requests (ch_replace s)),
      sec_nonce (ch_security s))"

lemma dom_mutation: "dom (m(j := map_option f (m j))) = dom m"
  by (auto simp: dom_def)

interpretation of_keys: issue_view request_keys
  by unfold_locales (simp_all add: request_keys_def dom_mutation del: dom_fun_upd)

interpretation of_keys: redeem_view request_keys
  by unfold_locales (simp_all add: request_keys_def dom_mutation del: dom_fun_upd)

interpretation of_keys: replace_view request_keys
  by unfold_locales (simp_all add: request_keys_def dom_mutation del: dom_fun_upd)

interpretation of_keys: nomination_view request_keys
  by unfold_locales (simp_all add: request_keys_def dom_mutation del: dom_fun_upd)

end
