(* ===== verification/Peg.thy ===== *)
theory Peg
  imports Token_Accounting Call_Frames
begin

text \<open>
  The calls of the pallets and the accounting of the wrapped tokens: every call that succeeds keeps
  the invariant of the token counts and the difference between the issuance of a wrapped currency
  and the tokens that the vaults account for.  The calls that mint or burn are those of the issue
  and redeem pallets, and each of them changes both sides by the same amount.
\<close>

section \<open>What the handlers share\<close>

lemma keeps_fee_distribute [keeps_intro]:
  assumes "ledger_laws (cfg_ledger c)"
  shows "keepsOkM (accounted c k x) (fee_distribute_rewards c a)"
  unfolding fee_distribute_rewards_def by (intro keeps_intro assms)

lemma keeps_events [keeps_intro]:
  "keepsOkM (accounted c k x) (issue_deposit_event e1)" "keepsOkM (accounted c k x) (redeem_deposit_event e2)"
  "keepsOkM (accounted c k x) (replace_deposit_event e3)" "keepsOkM (accounted c k x) (nomination_deposit_event e4)"
  unfolding issue_deposit_event_def redeem_deposit_event_def replace_deposit_event_def nomination_deposit_event_def
  by (rule keeps_modify_core, simp)+

lemma keeps_requests [keeps_intro]:
  "keepsOkM (accounted c k x) (insert_issue_request i r1)" "keepsOkM (accounted c k x) (mutate_issue_request i f1)"
  "keepsOkM (accounted c k x) (set_issue_status i st1)" "keepsOkM (accounted c k x) (insert_redeem_request i r2)"
  "keepsOkM (accounted c k x) (set_redeem_status i st2)" "keepsOkM (accounted c k x) (insert_replace_request i r3)"
  "keepsOkM (accounted c k x) (set_replace_status i st3)"
  unfolding insert_issue_request_def mutate_issue_request_def set_issue_status_def insert_redeem_request_def
    set_redeem_status_def insert_replace_request_def set_replace_status_def
  by (intro keeps_intro keeps_modify_core, simp)+

lemma keeps_volume [keeps_intro]:
  "keepsOkM (accounted c k x) (check_volume c' issue_volume issue_volume_update e a)"
  "keepsOkM (accounted c k x) (check_volume c' redeem_volume redeem_volume_update e a)"
  "keepsOkM (accounted c k x) (increase_interval_volume c' issue_volume issue_volume_update a)"
  "keepsOkM (accounted c k x) (increase_interval_volume c' redeem_volume redeem_volume_update a)"
  unfolding check_volume_def increase_interval_volume_def
  by (intro keeps_intro keeps_modify_core, simp)+

section \<open>Issue\<close>

lemma keeps_request_issue [keeps_intro]:
  assumes "ledger_laws (cfg_ledger c)"
  shows "keepsOkM (accounted c k x) (request_issue c ori n i)"
  unfolding request_issue_def request_issue_internal_def by (intro keeps_intro assms)

lemma try_increase_to_be_issued_error:
  "try_increase_to_be_issued_tokens c i n s = (Inl e, t) \<Longrightarrow> t = s"
  by (auto simp: try_increase_to_be_issued_tokens_def rv_increase_to_be_issued_def rv_update_def run_defs
      registry_deposit_event_def split: prod.splits sum.splits if_splits)

lemma keeps_set_issue_amount [keeps_intro]: "keepsOkM (accounted c k x) (set_issue_amount c' i r a b)"
  unfolding set_issue_amount_def by (intro keeps_intro)

lemma keeps_try_increase_issue_amount [keeps_intro]:
  "keepsOkM (accounted c k x) (try_increase_issue_amount c' i r a b)"
  unfolding try_increase_issue_amount_def
  by (intro keeps_intro keeps_attempt) (auto dest: try_increase_to_be_issued_error)

lemma keeps_decrease_issue_amount [keeps_intro]:
  assumes "ledger_laws (cfg_ledger c)"
  shows "keepsOkM (accounted c k x) (decrease_issue_amount c i r a b)"
  unfolding decrease_issue_amount_def by (intro keeps_intro assms)

lemma keeps_issue_status [keeps_intro]:
  "keepsOkM P m1 \<Longrightarrow> keepsOkM P m2 \<Longrightarrow> keepsOkM P m3 \<Longrightarrow> keepsOkM P (case st of
     IssuePending \<Rightarrow> m1 | IssueStatusCompleted \<Rightarrow> m2 | IssueStatusCancelled \<Rightarrow> m3)"
  by (cases st) simp_all

lemma keeps_handle_issue_requests [keeps_intro]:
  assumes "ledger_laws (cfg_ledger c)"
  shows "keepsOkM (accounted c k x) (handle_issue_requests c y i r a)"
  unfolding handle_issue_requests_def by (intro keeps_intro assms)
lemma of_currency_add: "checked_add a b = Inr r \<Longrightarrow> of_currency k r = of_currency k a + of_currency k b"
  by (auto simp: ok_iff of_currency_def)

lemma triple_accounted_cong: "tripleM P m (\<lambda>_. accounted c k y) \<Longrightarrow> x = y \<Longrightarrow> tripleM P m (\<lambda>_. accounted c k x)"
  by simp

lemma keeps_execute_issue [keeps_intro]:
  assumes laws: "ledger_laws (cfg_ledger c)"
  shows "keepsOkM (accounted c k x) (execute_issue c ori i e1 e2 e3)"
  unfolding execute_issue_def execute_issue_internal_def Let_def
proof (rule keeps_triple, rule triple_transactional, rule triple_lift, rule triple_queryM, rule triple_queryM,
    rule triple_lift, rule triple_then, rule keeps_handle_issue_requests [OF laws], rule triple_lift, goal_cases)
  case (1 _ issue _ _ issue1 tot)
  show ?case
  proof (rule triple_bind, rule triple_issue_tokens, rule triple_bind, rule triple_mint [OF laws],
      rule triple_then, rule keeps_volume, rule triple_bind, rule triple_mint [OF laws], rule triple_accounted_cong,
      rule triple_keeps)
    show "x = x - of_currency k tot + of_currency k (issue_amount issue1) + of_currency k (issue_fee issue1)"
      using of_currency_add [OF 1(3)] by simp
  qed (intro keeps_intro laws)+
qed

lemma keeps_cancel_issue [keeps_intro]:
  assumes "ledger_laws (cfg_ledger c)"
  shows "keepsOkM (accounted c k x) (cancel_issue c ori i)"
  unfolding cancel_issue_def cancel_issue_internal_def by (intro keeps_intro assms)

lemma keeps_issue_settings [keeps_intro]:
  "keepsOkM (accounted c k x) (set_issue_period ori n)"
  "keepsOkM (accounted c k x) (issue_rate_limit_update ori l cu n)"
  "keepsOkM (accounted c k x) (issue_minimum_transfer_amount_update ori n)"
  unfolding set_issue_period_def issue_rate_limit_update_def issue_minimum_transfer_amount_update_def
  by (intro keeps_intro keeps_modify_core, simp)+

section \<open>Redeem\<close>

lemma keeps_release_replace_collateral [keeps_intro]:
  assumes "ledger_laws (cfg_ledger c)"
  shows "keepsOkM (accounted c k x) (release_replace_collateral c i a)"
  unfolding release_replace_collateral_def by (intro keeps_intro assms)

lemma keeps_request_redeem [keeps_intro]:
  assumes "ledger_laws (cfg_ledger c)"
  shows "keepsOkM (accounted c k x) (request_redeem c ori n y i)"
  unfolding request_redeem_def request_redeem_internal_def by (intro keeps_intro assms)

lemma keeps_liquidation_redeem [keeps_intro]:
  assumes laws: "ledger_laws (cfg_ledger c)"
  shows "keepsOkM (accounted c k x) (liquidation_redeem c ori p n)"
  unfolding liquidation_redeem_def liquidation_redeem_internal_def Let_def
  by (rule keeps_triple, rule triple_transactional, rule triple_lift, rule triple_getM, rule triple_lift,
      rule triple_ensure, rule triple_then, intro keeps_intro laws, rule triple_bind, rule triple_burn [OF laws],
      rule triple_bind, rule triple_redeem_tokens_liquidation [OF laws], rule triple_accounted_cong,
      rule triple_keeps, intro keeps_intro) simp

lemma keeps_execute_redeem [keeps_intro]:
  assumes laws: "ledger_laws (cfg_ledger c)"
  shows "keepsOkM (accounted c k x) (execute_redeem c ori i e1 e2 e3)"
  unfolding execute_redeem_def execute_redeem_internal_def Let_def
  by (rule keeps_triple, rule triple_transactional, rule triple_lift, (rule triple_queryM)+, rule triple_lift,
      rule triple_lift, rule triple_ensure, rule triple_lift, rule triple_bind, rule triple_burn [OF laws],
      (rule triple_then, (intro keeps_intro laws)[1])+, rule triple_bind, rule triple_redeem_tokens [OF laws],
      rule triple_accounted_cong, rule triple_keeps, intro keeps_intro) simp
lemma ban_vault_error: "ban_vault i s = (Inl e, t) \<Longrightarrow> t = s"
  by (auto simp: ban_vault_def rv_ban_until_def rv_update_def run_defs registry_deposit_event_def Let_def
      split: prod.splits sum.splits if_splits)

lemma keeps_confiscate_collateral [keeps_intro]:
  assumes "ledger_laws (cfg_ledger c)"
  shows "keepsOkM (accounted c k x) (confiscate_collateral c y r v a b)"
  unfolding confiscate_collateral_def by (intro keeps_intro assms)

lemma keeps_punish_vault [keeps_intro]:
  assumes "ledger_laws (cfg_ledger c)"
  shows "keepsOkM (accounted c k x) (punish_vault c y r i a b)"
  unfolding punish_vault_def
  by (intro keeps_intro keeps_attempt keeps_modify_core assms) (auto dest: ban_vault_error)

lemma triple_burn_and_decrease:
  assumes laws: "ledger_laws (cfg_ledger c)"
  shows "tripleM (accounted c k x)
    (bindM (on_ledger (burn_from c a y)) (\<lambda>_. bindM (decrease_tokens i z a) (\<lambda>_. set_redeem_status j st)))
    (\<lambda>_. accounted c k x)"
  by (rule triple_bind, rule triple_burn [OF laws], rule triple_bind, rule triple_decrease_tokens,
      rule triple_accounted_cong, rule triple_keeps, intro keeps_intro) simp

lemma keeps_settle [keeps_intro]:
  assumes laws: "ledger_laws (cfg_ledger c)"
  shows "keepsOkM (accounted c k x) (settle_reimbursed c y j r a)"
    and "keepsOkM (accounted c k x) (settle_retried c y j r a)"
  unfolding settle_reimbursed_def settle_retried_def
  by (intro keeps_triple [OF triple_burn_and_decrease] keeps_intro laws)+

lemma keeps_cancel_redeem [keeps_intro]:
  assumes "ledger_laws (cfg_ledger c)"
  shows "keepsOkM (accounted c k x) (cancel_redeem c ori j b)"
  unfolding cancel_redeem_def cancel_redeem_internal_def by (intro keeps_intro assms)

lemma keeps_mint_tokens_for_reimbursed_redeem [keeps_intro]:
  assumes laws: "ledger_laws (cfg_ledger c)"
  shows "keepsOkM (accounted c k x) (mint_tokens_for_reimbursed_redeem c ori p j)"
  unfolding mint_tokens_for_reimbursed_redeem_def mint_tokens_for_reimbursed_redeem_internal_def Let_def
  by (rule keeps_triple, rule triple_transactional, rule triple_lift, (rule triple_queryM)+,
      (rule triple_ensure)+, rule triple_getM, rule triple_then, rule keeps_modify_core, simp, rule triple_lift,
      rule triple_then, rule keeps_intro, rule triple_bind, rule triple_issue_tokens, rule triple_bind,
      rule triple_mint [OF laws], rule triple_accounted_cong, rule triple_keeps, intro keeps_intro) simp

lemma map_errM_ok [ok_iff]: "map_errM e m s = (Inr r, t) \<longleftrightarrow> m s = (Inr r, t)"
  by (auto simp: map_errM_def split: prod.splits sum.splits)

lemma keeps_map_err [keeps_intro]: "keepsOkM P m \<Longrightarrow> keepsOkM P (map_errM e m)"
  by (simp add: keepsOkM_def ok_iff)

lemma triple_take_user_tokens:
  assumes laws: "ledger_laws (cfg_ledger c)"
  shows "tripleM (accounted c k x) (take_user_tokens c y a fees) (\<lambda>_. accounted c k (x - of_currency k a))"
  unfolding take_user_tokens_def
  by (rule triple_then, intro keeps_intro laws, rule triple_bind, rule triple_burn [OF laws], rule triple_keeps)
     (intro keeps_intro laws)

lemma triple_update_vault_tokens:
  assumes laws: "ledger_laws (cfg_ledger c)"
  shows "tripleM (accounted c k x) (update_vault_tokens c i a) (\<lambda>_. accounted c k (x + of_currency k a))"
  unfolding update_vault_tokens_def
  by (rule triple_then, intro keeps_intro, rule triple_bind, rule triple_redeem_tokens [OF laws], rule triple_keeps)
     (intro keeps_intro laws)

lemma keeps_self_redeem [keeps_intro]:
  assumes laws: "ledger_laws (cfg_ledger c)"
  shows "keepsOkM (accounted c k x) (self_redeem c ori p n)"
  unfolding self_redeem_def self_redeem_execute_def Let_def
  by (rule keeps_triple, rule triple_transactional, rule triple_lift, rule triple_queryM, rule triple_ensure,
      rule triple_queryM, rule triple_bind, rule triple_take_user_tokens [OF laws], rule triple_bind,
      rule triple_update_vault_tokens [OF laws], rule triple_accounted_cong, rule triple_keeps, intro keeps_intro)
     simp

lemma keeps_redeem_settings [keeps_intro]:
  "keepsOkM (accounted c k x) (set_redeem_period ori n)"
  "keepsOkM (accounted c k x) (redeem_rate_limit_update ori l cu n)"
  "keepsOkM (accounted c k x) (redeem_minimum_transfer_amount_update ori n)"
  unfolding set_redeem_period_def redeem_rate_limit_update_def redeem_minimum_transfer_amount_update_def
  by (intro keeps_intro keeps_modify_core, simp)+
section \<open>Replace\<close>

text \<open>The two vaults of a stored replace request differ.\<close>

definition replace_ok :: "'l chain \<Rightarrow> bool" where
  "replace_ok s \<longleftrightarrow> (\<forall>j r. rp_requests (ch_replace s) j = Some r \<longrightarrow> rp_old_vault r \<noteq> rp_new_vault r)"

lemma replace_ok_cong: "ch_replace s = ch_replace t \<Longrightarrow> replace_ok s = replace_ok t"
  by (simp add: replace_ok_def)

lemma replace_ok_store:
  "keepsOkM replace_ok (replace_deposit_event e)" "keepsOkM replace_ok (set_replace_status j st)"
  "rp_old_vault r \<noteq> rp_new_vault r \<Longrightarrow> keepsOkM replace_ok (insert_replace_request j r)"
  by (auto simp: keepsOkM_def replace_ok_def replace_deposit_event_def set_replace_status_def
      insert_replace_request_def ok_iff split: if_splits)

lemma keeps_replace_ok:
  assumes "frameM ch_replace m"
  shows "keepsOkM replace_ok m"
  using assms by (rule keeps_frame) (rule replace_ok_cong)

lemma keeps_accept_replace_tokens [keeps_intro]:
  assumes "ledger_laws (cfg_ledger c)"
  shows "keepsOkM (accounted c k x) (accept_replace_tokens c i j a)"
  unfolding accept_replace_tokens_def by (intro keeps_intro assms)

lemma keeps_replace_storage [keeps_intro]:
  "keepsOkM (accounted c k x) (replace_deposit_event e)" "keepsOkM (accounted c k x) (insert_replace_request j r)"
  "keepsOkM (accounted c k x) (set_replace_status j st)"
  unfolding replace_deposit_event_def insert_replace_request_def set_replace_status_def
  by (rule keeps_modify_core, simp)+

lemma keeps_replace_requests [keeps_intro]:
  assumes "ledger_laws (cfg_ledger c)"
  shows "keepsOkM (accounted c k x) (request_replace c ori p n)"
    and "keepsOkM (accounted c k x) (withdraw_replace c ori p n)"
    and "keepsOkM (accounted c k x) (accept_replace c ori p i n m addr)"
  unfolding request_replace_def request_replace_internal_def withdraw_replace_def withdraw_replace_internal_def
    accept_replace_def accept_replace_internal_def
  by (intro keeps_intro assms)+

lemma triple_query_fact:
  assumes "\<And>y s. P s \<Longrightarrow> q s = Inr y \<Longrightarrow> F y" and "\<And>y. F y \<Longrightarrow> tripleM P (f y) R"
  shows "tripleM P (bindM (queryM q) f) R"
proof (rule tripleI)
  fix s r t
  assume "P s" and "bindM (queryM q) f s = (Inr r, t)"
  then obtain y where y: "q s = Inr y" "f y s = (Inr r, t)" by (auto simp: ok_iff)
  show "R r t" by (rule tripleD [OF assms(2) \<open>P s\<close> y(2)], rule assms(1) [OF \<open>P s\<close> y(1)])
qed

lemma replace_request_vaults:
  "replace_ok s \<Longrightarrow> get_open_or_cancelled_replace_request j s = Inr r \<Longrightarrow> rp_old_vault r \<noteq> rp_new_vault r"
  "replace_ok s \<Longrightarrow> get_open_replace_request j s = Inr r \<Longrightarrow> rp_old_vault r \<noteq> rp_new_vault r"
  by (auto simp: get_open_or_cancelled_replace_request_def get_open_replace_request_def get_replace_request_def ok_iff
      replace_ok_def split: replace_request_status.splits) (metis replace_request_status.exhaust)+

lemma triple_execute_replace:
  assumes laws: "ledger_laws (cfg_ledger c)"
  shows "tripleM (\<lambda>s. accounted c k x s \<and> replace_ok s) (execute_replace c ori j b1 b2 b3) (\<lambda>_. accounted c k x)"
  unfolding execute_replace_def execute_replace_internal_def Let_def
  by (rule triple_transactional, rule triple_lift,
      rule triple_query_fact [where F = "\<lambda>r. rp_old_vault r \<noteq> rp_new_vault r"],
      erule conjE, erule replace_request_vaults, assumption,
      rule triple_pre [where P' = "accounted c k x"], erule conjunct1, rule triple_keeps)
     (intro keeps_intro keeps_replace_tokens laws)

lemma triple_cancel_replace:
  assumes laws: "ledger_laws (cfg_ledger c)"
  shows "tripleM (\<lambda>s. accounted c k x s \<and> replace_ok s) (cancel_replace c ori j) (\<lambda>_. accounted c k x)"
  unfolding cancel_replace_def cancel_replace_internal_def Let_def
  by (rule triple_transactional, rule triple_lift,
      rule triple_query_fact [where F = "\<lambda>r. rp_old_vault r \<noteq> rp_new_vault r"],
      erule conjE, erule replace_request_vaults, assumption,
      rule triple_pre [where P' = "accounted c k x"], erule conjunct1, rule triple_keeps)
     (intro keeps_intro keeps_cancel_replace_tokens laws)

lemma keeps_replace_settings [keeps_intro]:
  "keepsOkM (accounted c k x) (set_replace_period ori n)"
  "keepsOkM (accounted c k x) (replace_minimum_transfer_amount_update ori n)"
  unfolding set_replace_period_def replace_minimum_transfer_amount_update_def
  by (intro keeps_intro keeps_modify_core, simp)+

lemma keeps_replace_ok_accept: "keepsOkM replace_ok (accept_replace c ori p i n m addr)"
  unfolding accept_replace_def accept_replace_internal_def accept_replace_tokens_def Let_def
  by (rule keeps_triple, rule triple_transactional, rule triple_lift, rule triple_ensure, rule triple_keeps)
     (intro keeps_intro replace_ok_store; ((rule keeps_replace_ok, intro frame_intro) | simp))

lemma keeps_replace_ok_calls:
  "keepsOkM replace_ok (request_replace c ori p n)" "keepsOkM replace_ok (withdraw_replace c ori p n)"
  "keepsOkM replace_ok (execute_replace c ori j b1 b2 b3)" "keepsOkM replace_ok (cancel_replace c ori j)"
  unfolding request_replace_def request_replace_internal_def withdraw_replace_def withdraw_replace_internal_def
    accept_replace_tokens_def execute_replace_def execute_replace_internal_def cancel_replace_def
    cancel_replace_internal_def
  by (intro keeps_intro replace_ok_store; (rule keeps_replace_ok, intro frame_intro))+

lemma keeps_replace_ok_settings:
  "keepsOkM replace_ok (set_replace_period ori n)"
  "keepsOkM replace_ok (replace_minimum_transfer_amount_update ori n)"
  unfolding set_replace_period_def replace_minimum_transfer_amount_update_def
  by (intro keeps_intro replace_ok_store keeps_modify; simp add: replace_ok_def)+

section \<open>Nomination\<close>

lemma keeps_nomination_event [keeps_intro]: "keepsOkM (accounted c k x) (nomination_deposit_event e)"
  unfolding nomination_deposit_event_def by (rule keeps_modify_core) simp

lemma keeps_nomination [keeps_intro]:
  assumes "ledger_laws (cfg_ledger c)"
  shows "keepsOkM (accounted c k x) (set_nomination_enabled ori b)"
    and "keepsOkM (accounted c k x) (opt_in_to_nomination ori p)"
    and "keepsOkM (accounted c k x) (opt_out_of_nomination c ori p)"
    and "keepsOkM (accounted c k x) (nom_deposit_collateral c ori i n)"
    and "keepsOkM (accounted c k x) (nom_withdraw_collateral c ori i n ix)"
  unfolding set_nomination_enabled_def opt_in_to_nomination_def opt_in_to_nomination_internal_def
    opt_out_of_nomination_def opt_out_of_nomination_internal_def nom_deposit_collateral_def
    nom_deposit_collateral_internal_def nom_withdraw_collateral_def nom_withdraw_collateral_internal_def
  by (intro keeps_intro keeps_modify_core assms; simp add: keeps_core frame_intro)+

section \<open>Rewards and fees\<close>

text \<open>
  \<^verbatim>\<open>deposit_creating\<close> of \<^verbatim>\<open>pallet_balances\<close> mints the native currency, and no other.
\<close>

definition deposits_native :: "'l config \<Rightarrow> bool" where
  "deposits_native c \<longleftrightarrow> (\<forall>y n l k. k \<noteq> cfg_native_currency c \<longrightarrow>
     led_issuance (cfg_ledger c) (led_deposit_creating (cfg_ledger c) y n l) k = led_issuance (cfg_ledger c) l k)"

lemma keeps_deposit_creating:
  assumes "deposits_native c" and "k \<noteq> cfg_native_currency c"
  shows "keepsOkM (accounted c k x) (modifyM (ch_ledger_update (led_deposit_creating (cfg_ledger c) y n)))"
  using assms
  by (intro keeps_modify)
     (simp add: accounted_def tokens_ok_def keys_ok_def token_gap_def issued_total_def vault_total_def
       lv_total_def get_liquidation_vault_def deposits_native_def)

lemma keeps_reward_calls [keeps_intro]:
  assumes "ledger_laws (cfg_ledger c)" and "deposits_native c" and "k \<noteq> cfg_native_currency c"
  shows "keepsOkM (accounted c k x) (execute_on_init c)"
    and "keepsOkM (accounted c k x) (set_reward_per_block ori n)"
    and "keepsOkM (accounted c k x) (collect_reward c ori i cu ix)"
  unfolding execute_on_init_def set_reward_per_block_def collect_reward_def transfer_reward_def dist_deposit_event_def
  by (intro keeps_intro keeps_deposit_creating assms; (rule keeps_modify_core | rule keeps_core, intro frame_intro); simp)+

lemma keeps_set_fee [keeps_intro]:
  "keepsOkM (accounted c k x) (set_issue_fee c' ori n)"
  "keepsOkM (accounted c k x) (set_issue_griefing_collateral c' ori n)"
  "keepsOkM (accounted c k x) (set_redeem_fee c' ori n)"
  "keepsOkM (accounted c k x) (set_premium_redeem_fee c' ori n)"
  "keepsOkM (accounted c k x) (set_punishment_fee c' ori n)"
  "keepsOkM (accounted c k x) (set_replace_griefing_collateral c' ori n)"
  unfolding set_issue_fee_def set_issue_griefing_collateral_def set_redeem_fee_def set_premium_redeem_fee_def
    set_punishment_fee_def set_replace_griefing_collateral_def set_fee_def
  by (intro keeps_intro keeps_modify_core; simp)+

end
