(* ===== verification/Runtime.thy ===== *)
theory Runtime
  imports Issue Redeem Replace
begin

text \<open>
  The runtime that puts the pallets together, \<^verbatim>\<open>testchain/runtime\<close>: the calls of every pallet and
  their dispatch, the check of unsigned transactions, the start of a block, and the queries that
  nodes answer over RPC.  Both runtimes are built from the same pallets; the conversions in which
  they differ come last.
\<close>

section \<open>Calls\<close>

datatype security_call =
    call_set_parachain_status status_code
  | call_insert_parachain_error error_code
  | call_remove_parachain_error error_code

definition dispatch_security :: "origin \<Rightarrow> security_call \<Rightarrow> (security, unit) prog" where
  "dispatch_security origin call = (case call of
     call_set_parachain_status st \<Rightarrow> set_parachain_status origin st
   | call_insert_parachain_error e \<Rightarrow> insert_parachain_error origin e
   | call_remove_parachain_error e \<Rightarrow> remove_parachain_error origin e)"

datatype stellar_relay_call =
    call_update_tier_1_validator_set "validator list" "organization list" block_number

definition dispatch_stellar_relay ::
  "'l config \<Rightarrow> origin \<Rightarrow> stellar_relay_call \<Rightarrow> (relay, unit) prog" where
  "dispatch_stellar_relay c origin call = (case call of
     call_update_tier_1_validator_set vals orgs height \<Rightarrow>
       update_tier_1_validator_set c origin vals orgs height)"

datatype oracle_call =
    call_update_oracle_keys "oracle_key list"
  | call_set_max_delay moment

definition dispatch_oracle :: "origin \<Rightarrow> oracle_call \<Rightarrow> (oracle_state, unit) prog" where
  "dispatch_oracle origin call = (case call of
     call_update_oracle_keys keys \<Rightarrow> update_oracle_keys origin keys
   | call_set_max_delay d \<Rightarrow> set_max_delay origin d)"

datatype vault_registry_call =
    call_register_vault vault_currency_pair balance
  | call_deposit_collateral vault_currency_pair balance
  | call_withdraw_collateral vault_currency_pair balance
  | call_register_public_key "byte list"
  | call_accept_new_issues vault_currency_pair bool
  | call_set_custom_secure_threshold vault_currency_pair "int option"
  | call_report_undercollateralized_vault vault_id
  | call_set_minimum_collateral currency balance
  | call_set_system_collateral_ceiling vault_currency_pair balance
  | call_set_secure_collateral_threshold vault_currency_pair int
  | call_set_premium_redeem_threshold vault_currency_pair int
  | call_set_liquidation_collateral_threshold vault_currency_pair int
  | call_recover_vault_id vault_currency_pair
  | call_set_punishment_delay block_number

definition dispatch_vault_registry ::
  "'l config \<Rightarrow> origin \<Rightarrow> vault_registry_call \<Rightarrow> ('l chain, unit) prog" where
  "dispatch_vault_registry c origin call = (case call of
     call_register_vault p n \<Rightarrow> register_vault c origin p n
   | call_deposit_collateral p n \<Rightarrow> deposit_collateral c origin p n
   | call_withdraw_collateral p n \<Rightarrow> withdraw_collateral c origin p n
   | call_register_public_key key \<Rightarrow> register_public_key origin key
   | call_accept_new_issues p b \<Rightarrow> accept_new_issues c origin p b
   | call_set_custom_secure_threshold p t \<Rightarrow> set_custom_secure_threshold origin p t
   | call_report_undercollateralized_vault i \<Rightarrow> report_undercollateralized_vault c origin i
   | call_set_minimum_collateral k n \<Rightarrow> set_minimum_collateral origin k n
   | call_set_system_collateral_ceiling p n \<Rightarrow> set_system_collateral_ceiling origin p n
   | call_set_secure_collateral_threshold p t \<Rightarrow> set_secure_collateral_threshold c origin p t
   | call_set_premium_redeem_threshold p t \<Rightarrow> set_premium_redeem_threshold origin p t
   | call_set_liquidation_collateral_threshold p t \<Rightarrow> set_liquidation_collateral_threshold origin p t
   | call_recover_vault_id p \<Rightarrow> recover_vault_id origin p
   | call_set_punishment_delay n \<Rightarrow> set_punishment_delay origin n)"

datatype issue_call =
    call_request_issue balance vault_id
  | call_execute_issue request_id "byte list" "byte list" "byte list"
  | call_cancel_issue request_id
  | call_set_issue_period block_number
  | call_issue_rate_limit_update "balance option" currency block_number
  | call_issue_minimum_transfer_amount_update balance

definition dispatch_issue :: "'l config \<Rightarrow> origin \<Rightarrow> issue_call \<Rightarrow> ('l chain, unit) prog" where
  "dispatch_issue c origin call = (case call of
     call_request_issue n i \<Rightarrow> request_issue c origin n i
   | call_execute_issue j tx envelopes tx_set \<Rightarrow> execute_issue c origin j tx envelopes tx_set
   | call_cancel_issue j \<Rightarrow> cancel_issue c origin j
   | call_set_issue_period n \<Rightarrow> set_issue_period origin n
   | call_issue_rate_limit_update l k n \<Rightarrow> issue_rate_limit_update origin l k n
   | call_issue_minimum_transfer_amount_update n \<Rightarrow> issue_minimum_transfer_amount_update origin n)"

datatype redeem_call =
    call_request_redeem balance "byte list" vault_id
  | call_liquidation_redeem vault_currency_pair balance
  | call_execute_redeem request_id "byte list" "byte list" "byte list"
  | call_cancel_redeem request_id bool
  | call_set_redeem_period block_number
  | call_mint_tokens_for_reimbursed_redeem vault_currency_pair request_id
  | call_self_redeem vault_currency_pair balance
  | call_redeem_rate_limit_update "balance option" currency block_number
  | call_redeem_minimum_transfer_amount_update balance

definition dispatch_redeem :: "'l config \<Rightarrow> origin \<Rightarrow> redeem_call \<Rightarrow> ('l chain, unit) prog" where
  "dispatch_redeem c origin call = (case call of
     call_request_redeem n addr i \<Rightarrow> request_redeem c origin n addr i
   | call_liquidation_redeem p n \<Rightarrow> liquidation_redeem c origin p n
   | call_execute_redeem j tx envelopes tx_set \<Rightarrow> execute_redeem c origin j tx envelopes tx_set
   | call_cancel_redeem j b \<Rightarrow> cancel_redeem c origin j b
   | call_set_redeem_period n \<Rightarrow> set_redeem_period origin n
   | call_mint_tokens_for_reimbursed_redeem p j \<Rightarrow> mint_tokens_for_reimbursed_redeem c origin p j
   | call_self_redeem p n \<Rightarrow> self_redeem c origin p n
   | call_redeem_rate_limit_update l k n \<Rightarrow> redeem_rate_limit_update origin l k n
   | call_redeem_minimum_transfer_amount_update n \<Rightarrow> redeem_minimum_transfer_amount_update origin n)"

datatype replace_call =
    call_request_replace vault_currency_pair balance
  | call_withdraw_replace vault_currency_pair balance
  | call_accept_replace vault_currency_pair vault_id balance balance "byte list"
  | call_execute_replace request_id "byte list" "byte list" "byte list"
  | call_cancel_replace request_id
  | call_set_replace_period block_number
  | call_replace_minimum_transfer_amount_update balance

definition dispatch_replace :: "'l config \<Rightarrow> origin \<Rightarrow> replace_call \<Rightarrow> ('l chain, unit) prog" where
  "dispatch_replace c origin call = (case call of
     call_request_replace p n \<Rightarrow> request_replace c origin p n
   | call_withdraw_replace p n \<Rightarrow> withdraw_replace c origin p n
   | call_accept_replace p i n m addr \<Rightarrow> accept_replace c origin p i n m addr
   | call_execute_replace j tx envelopes tx_set \<Rightarrow> execute_replace c origin j tx envelopes tx_set
   | call_cancel_replace j \<Rightarrow> cancel_replace c origin j
   | call_set_replace_period n \<Rightarrow> set_replace_period origin n
   | call_replace_minimum_transfer_amount_update n \<Rightarrow> replace_minimum_transfer_amount_update origin n)"

datatype fee_call =
    call_set_issue_fee int
  | call_set_issue_griefing_collateral int
  | call_set_redeem_fee int
  | call_set_premium_redeem_fee int
  | call_set_punishment_fee int
  | call_set_replace_griefing_collateral int

definition dispatch_fee :: "'l config \<Rightarrow> origin \<Rightarrow> fee_call \<Rightarrow> ('l chain, unit) prog" where
  "dispatch_fee c origin call = (case call of
     call_set_issue_fee x \<Rightarrow> set_issue_fee c origin x
   | call_set_issue_griefing_collateral x \<Rightarrow> set_issue_griefing_collateral c origin x
   | call_set_redeem_fee x \<Rightarrow> set_redeem_fee c origin x
   | call_set_premium_redeem_fee x \<Rightarrow> set_premium_redeem_fee c origin x
   | call_set_punishment_fee x \<Rightarrow> set_punishment_fee c origin x
   | call_set_replace_griefing_collateral x \<Rightarrow> set_replace_griefing_collateral c origin x)"

datatype nomination_call =
    call_set_nomination_enabled bool
  | call_opt_in_to_nomination vault_currency_pair
  | call_opt_out_of_nomination vault_currency_pair
  | call_nomination_deposit_collateral vault_id balance
  | call_nomination_withdraw_collateral vault_id balance "nonce option"

definition dispatch_nomination :: "'l config \<Rightarrow> origin \<Rightarrow> nomination_call \<Rightarrow> ('l chain, unit) prog" where
  "dispatch_nomination c origin call = (case call of
     call_set_nomination_enabled b \<Rightarrow> set_nomination_enabled origin b
   | call_opt_in_to_nomination p \<Rightarrow> opt_in_to_nomination origin p
   | call_opt_out_of_nomination p \<Rightarrow> opt_out_of_nomination c origin p
   | call_nomination_deposit_collateral i n \<Rightarrow> nom_deposit_collateral c origin i n
   | call_nomination_withdraw_collateral i n ix \<Rightarrow> nom_withdraw_collateral c origin i n ix)"

datatype clients_info_call =
    call_set_current_client_release "byte list" client_release
  | call_set_pending_client_release "byte list" client_release
  | call_authorize_account account
  | call_deauthorize_account account

definition dispatch_clients_info :: "origin \<Rightarrow> clients_info_call \<Rightarrow> (clients_info, unit) prog" where
  "dispatch_clients_info origin call = (case call of
     call_set_current_client_release name release \<Rightarrow> set_current_client_release origin name release
   | call_set_pending_client_release name release \<Rightarrow> set_pending_client_release origin name release
   | call_authorize_account y \<Rightarrow> authorize_account origin y
   | call_deauthorize_account y \<Rightarrow> deauthorize_account origin y)"

datatype reward_distribution_call =
    call_set_reward_per_block balance
  | call_collect_reward vault_id currency "nonce option"

definition dispatch_reward_distribution ::
  "'l config \<Rightarrow> origin \<Rightarrow> reward_distribution_call \<Rightarrow> ('l chain, unit) prog" where
  "dispatch_reward_distribution c origin call = (case call of
     call_set_reward_per_block n \<Rightarrow> set_reward_per_block origin n
   | call_collect_reward i k ix \<Rightarrow> collect_reward c origin i k ix)"

datatype runtime_call =
    StellarRelay stellar_relay_call
  | SecurityCall security_call
  | VaultRegistry vault_registry_call
  | OracleCall oracle_call
  | IssueCall issue_call
  | RedeemCall redeem_call
  | ReplaceCall replace_call
  | FeeCall fee_call
  | NominationCall nomination_call
  | ClientsInfo clients_info_call
  | RewardDistribution reward_distribution_call

definition dispatch :: "'l config \<Rightarrow> origin \<Rightarrow> runtime_call \<Rightarrow> ('l chain, unit) prog" where
  "dispatch c origin call = (case call of
     StellarRelay x \<Rightarrow> on_relay (dispatch_stellar_relay c origin x)
   | SecurityCall x \<Rightarrow> on_security (dispatch_security origin x)
   | VaultRegistry x \<Rightarrow> dispatch_vault_registry c origin x
   | OracleCall x \<Rightarrow> on_oracle (dispatch_oracle origin x)
   | IssueCall x \<Rightarrow> dispatch_issue c origin x
   | RedeemCall x \<Rightarrow> dispatch_redeem c origin x
   | ReplaceCall x \<Rightarrow> dispatch_replace c origin x
   | FeeCall x \<Rightarrow> dispatch_fee c origin x
   | NominationCall x \<Rightarrow> dispatch_nomination c origin x
   | ClientsInfo x \<Rightarrow> on_clients (dispatch_clients_info origin x)
   | RewardDistribution x \<Rightarrow> dispatch_reward_distribution c origin x)"

section \<open>Unsigned transactions\<close>

text \<open>Only the report of a vault is accepted without a signature, and not from the network.\<close>

datatype transaction_source = External | Local | InBlock

definition validate_unsigned :: "transaction_source \<Rightarrow> vault_registry_call \<Rightarrow> bool" where
  "validate_unsigned source call = (case source of
     External \<Rightarrow> False
   | _ \<Rightarrow> (case call of call_report_undercollateralized_vault _ \<Rightarrow> True | _ \<Rightarrow> False))"

definition offchain_worker :: "'l config \<Rightarrow> vault_id list \<Rightarrow> 'l chain \<Rightarrow> runtime_call list" where
  "offchain_worker c keys s =
     map (\<lambda>i. VaultRegistry (call_report_undercollateralized_vault i)) (undercollateralized_vaults c keys s)"

section \<open>The start of a block\<close>

text \<open>
  The hooks run in the order in which \<^verbatim>\<open>construct_runtime!\<close> lists the pallets: security, oracle,
  reward distribution.  The time is still that of the previous block, since the timestamp is set
  by the first extrinsic.
\<close>

definition oracle_on_initialize :: "('l chain, unit) prog" where
  "oracle_on_initialize = modifyM (\<lambda>s.
     case begin_block (env_timestamp (ch_env s)) (ch_feed s) (ch_oracle s, ch_security s) of
       (orc, sec) \<Rightarrow> s\<lparr>ch_oracle := orc, ch_security := sec\<rparr>)"

definition initialize_block :: "'l config \<Rightarrow> block_number \<Rightarrow> byte list \<Rightarrow> ('l chain, unit) prog" where
  "initialize_block c number parent_hash = (bindM (modifyM (ch_env_update (\<lambda>e. e\<lparr>env_number := number, env_parent_hash := parent_hash, env_extrinsic_index := None\<rparr>))) (\<lambda>_.
    bindM (modifyM (ch_security_update security_on_initialize)) (\<lambda>_.
    bindM oracle_on_initialize (\<lambda>_.
    execute_on_init c))))"

definition on_runtime_upgrade :: "byte list list \<Rightarrow> ('l chain, unit) prog" where
  "on_runtime_upgrade keys = modifyM (ch_clients_update (try_upgrade_current_client_releases keys))"

definition set_timestamp :: "moment \<Rightarrow> ('l chain, unit) prog" where
  "set_timestamp now = modifyM (ch_env_update (env_timestamp_update (\<lambda>_. now)))"

definition apply_extrinsic :: "'l config \<Rightarrow> nat \<Rightarrow> origin \<Rightarrow> runtime_call \<Rightarrow> ('l chain, unit) prog" where
  "apply_extrinsic c index origin call = (bindM (modifyM (ch_env_update (env_extrinsic_index_update (\<lambda>_. Some index)))) (\<lambda>_.
    dispatch c origin call))"

section \<open>Queries over RPC\<close>

text \<open>The queries of the vault registry and the oracle wrap the amounts they return, without the currency.\<close>

definition rpc_get_vault_collateral :: "'l config \<Rightarrow> vault_id \<Rightarrow> 'l chain \<Rightarrow> balance result" where
  "rpc_get_vault_collateral c i s = (bindR (compute_collateral c i s) (\<lambda>a.
    Inr (amt a)))"

definition rpc_get_vault_total_collateral :: "'l config \<Rightarrow> vault_id \<Rightarrow> 'l chain \<Rightarrow> balance result" where
  "rpc_get_vault_total_collateral c i s = (bindR (get_backing_collateral c i s) (\<lambda>a.
    Inr (amt a)))"

definition rpc_get_premium_redeem_vaults ::
  "'l config \<Rightarrow> vault_id list \<Rightarrow> 'l chain \<Rightarrow> (vault_id \<times> balance) list result" where
  "rpc_get_premium_redeem_vaults c keys s = (bindR (get_premium_redeem_vaults c keys s) (\<lambda>vs.
    Inr (map (\<lambda>v. (fst v, amt (snd v))) vs)))"

definition rpc_get_vaults_with_issuable_tokens ::
  "'l config \<Rightarrow> vault_id list \<Rightarrow> 'l chain \<Rightarrow> (vault_id \<times> balance) list result" where
  "rpc_get_vaults_with_issuable_tokens c keys s =
     Inr (map (\<lambda>v. (fst v, amt (snd v))) (get_vaults_with_issuable_tokens c keys s))"

definition rpc_get_vaults_with_redeemable_tokens ::
  "vault_id list \<Rightarrow> 'l chain \<Rightarrow> (vault_id \<times> balance) list result" where
  "rpc_get_vaults_with_redeemable_tokens keys s =
     Inr (map (\<lambda>v. (fst v, amt (snd v))) (get_vaults_with_redeemable_tokens keys s))"

definition rpc_get_issuable_tokens_from_vault :: "'l config \<Rightarrow> vault_id \<Rightarrow> 'l chain \<Rightarrow> balance result" where
  "rpc_get_issuable_tokens_from_vault c i s = (bindR (get_issuable_tokens_from_vault c i s) (\<lambda>a.
    Inr (amt a)))"

definition rpc_get_collateralization_from_vault_and_collateral ::
  "'l config \<Rightarrow> vault_id \<Rightarrow> balance \<Rightarrow> bool \<Rightarrow> 'l chain \<Rightarrow> int result" where
  "rpc_get_collateralization_from_vault_and_collateral c i collateral only_issued s =
     get_collateralization_from_vault_and_collateral c i (new_amount collateral (collateral_currency i)) only_issued s"

definition rpc_get_required_collateral_for_wrapped ::
  "'l config \<Rightarrow> balance \<Rightarrow> currency \<Rightarrow> currency \<Rightarrow> 'l chain \<Rightarrow> balance result" where
  "rpc_get_required_collateral_for_wrapped c amount_wrapped wrapped_currency_id collateral_currency_id s = (bindR (get_required_collateral_for_wrapped c (new_amount amount_wrapped wrapped_currency_id) collateral_currency_id s) (\<lambda>a.
    Inr (amt a)))"

definition rpc_get_required_collateral_for_vault :: "'l config \<Rightarrow> vault_id \<Rightarrow> 'l chain \<Rightarrow> balance result" where
  "rpc_get_required_collateral_for_vault c i s = (bindR (get_required_collateral_for_vault c i s) (\<lambda>a.
    Inr (amt a)))"

definition rpc_currency_to_usd :: "'l config \<Rightarrow> balance \<Rightarrow> currency \<Rightarrow> 'l chain \<Rightarrow> balance result" where
  "rpc_currency_to_usd c n k s = currency_to_usd c (ch_feed s) (ch_security s) n k"

definition rpc_usd_to_currency :: "'l config \<Rightarrow> balance \<Rightarrow> currency \<Rightarrow> 'l chain \<Rightarrow> balance result" where
  "rpc_usd_to_currency c n k s = usd_to_currency c (ch_feed s) (ch_security s) n k"

definition rpc_get_exchange_rate :: "currency \<Rightarrow> 'l chain \<Rightarrow> int result" where
  "rpc_get_exchange_rate k s = get_exchange_rate (ch_feed s) (ch_security s) k"

section \<open>Parameters\<close>

text \<open>The parameters of the pallets that the two runtimes fix; they differ in the Stellar network.\<close>

definition GetNativeCurrencyId :: currency where "GetNativeCurrencyId = Native"

definition GetRelayChainCurrencyId :: currency where "GetRelayChainCurrencyId = XCM 0"

definition OrganizationLimit :: nat where "OrganizationLimit = 255"

definition ValidatorLimit :: nat where "ValidatorLimit = 255"

definition MaxCurrencies :: nat where "MaxCurrencies = 10"

definition MaxRewardCurrencies :: nat where "MaxRewardCurrencies = 10"

definition DecayRate :: nat where "DecayRate = 5 * 10 ^ 16"

definition DecayInterval :: block_number where "DecayInterval = 100"

definition block_number_to_balance :: "block_number \<Rightarrow> balance" where
  "block_number_to_balance n = n"

definition runtime_config :: "bool \<Rightarrow> 'l config \<Rightarrow> 'l config" where
  "runtime_config mainnet c =
     c\<lparr>cfg_native_currency := GetNativeCurrencyId, cfg_relay_chain_currency := GetRelayChainCurrencyId,
       cfg_griefing_currency := GetRelayChainCurrencyId,
       cfg_staking_max_reward_currencies := MaxRewardCurrencies,
       cfg_pool_max_reward_currencies := MaxRewardCurrencies, cfg_max_currencies := MaxCurrencies,
       cfg_decay_interval := DecayInterval, cfg_decay_rate := DecayRate,
       cfg_max_expected_value := fx_accuracy (cfg_unsigned c),
       cfg_block_number_to_balance := block_number_to_balance,
       cfg_organization_limit := OrganizationLimit, cfg_validator_limit := ValidatorLimit,
       cfg_is_public_network := mainnet\<rparr>"

section \<open>The price feed\<close>

definition convert_price :: "nat \<Rightarrow> int option" where
  "convert_price price = Some (int price)"

text \<open>The oracle reports seconds, the chain counts milliseconds.\<close>

definition convert_moment :: "nat \<Rightarrow> moment option" where
  "convert_moment moment = Some (min (moment * 1000) (2 ^ 64 - 1))"

definition mainnet_convert_to_dia_currency_id :: "byte \<Rightarrow> (byte list \<times> byte list) option" where
  "mainnet_convert_to_dia_currency_id token_symbol = Some ([0], [token_symbol])"

definition testnet_convert_to_dia_currency_id :: "byte \<Rightarrow> (byte list \<times> byte list) option" where
  "testnet_convert_to_dia_currency_id token_symbol =
     (if token_symbol = 0 then Some (ascii_bytes ''Kusama'', ascii_bytes ''KSM'')
      else Some ([0], [token_symbol]))"

text \<open>Indexing an empty list panics.\<close>

definition index_or_panic :: "'a list \<Rightarrow> nat \<Rightarrow> 'a result" where
  "index_or_panic xs i = (if i < length xs then Inr (xs ! i) else Inl Panic)"

definition convert_from_dia_currency_id :: "byte list \<Rightarrow> byte list \<Rightarrow> byte option result" where
  "convert_from_dia_currency_id blockchain symbol = (bindR ((if length blockchain \<noteq> 1
      then (bindR (index_or_panic blockchain 0) (\<lambda>b.
        Inr (b \<noteq> 0))) else Inr False)) (\<lambda>other_chain.
    (if other_chain \<or> length symbol \<noteq> 1 then Inr None
      else (bindR (index_or_panic symbol 0) (\<lambda>b.
        Inr (Some b))))))"

text \<open>
  On the mainnet runtime the symbol of every foreign asset is recovered from its DIA key;
  on the testnet runtime that fails for symbol 0 only, whose key names Kusama.  The reverse
  conversion does not look at the chain of a one-byte chain name, and it panics on an empty one.
\<close>

theorem xcm_keys_roundtrip:
  "(\<exists>chain symbol. mainnet_convert_to_dia_currency_id b = Some (chain, symbol) \<and>
      convert_from_dia_currency_id chain symbol = Inr (Some b)) \<and>
   (\<exists>chain symbol. testnet_convert_to_dia_currency_id b = Some (chain, symbol) \<and>
      convert_from_dia_currency_id chain symbol = Inr (if b = 0 then None else Some b)) \<and>
   convert_from_dia_currency_id [x] [b] = Inr (Some b) \<and>
   convert_from_dia_currency_id [] symbol = Inl Panic"
  by (auto simp: mainnet_convert_to_dia_currency_id_def testnet_convert_to_dia_currency_id_def
      convert_from_dia_currency_id_def index_or_panic_def ascii_bytes_def bindR_def)

end
