(* ===== verification/Chain_Steps.thy ===== *)
theory Chain_Steps
  imports Peg Runtime
begin

text \<open>
  Runs of the whole chain: blocks start, extrinsics are dispatched with any origin and any result,
  the prices and the ledger change from outside.  The invariants of the token counts hold in every
  state that such a run reaches.
\<close>

section \<open>Steps\<close>

text \<open>
  The pallets outside the repository change the price feed at will, and the ledger without changing
  the issuance of currencies other than the native one.
\<close>

inductive chain_step :: "'l config \<Rightarrow> 'l chain \<Rightarrow> 'l chain \<Rightarrow> bool" for c :: "'l config" where
  extrinsic: "apply_extrinsic c n ori call s = (r, t) \<Longrightarrow> chain_step c s t"
| new_block: "initialize_block c n h s = (Inr (), t) \<Longrightarrow> chain_step c s t"
| timestamp: "set_timestamp now s = (Inr (), t) \<Longrightarrow> chain_step c s t"
| upgrade: "on_runtime_upgrade keys s = (Inr (), t) \<Longrightarrow> chain_step c s t"
| prices: "chain_step c s (s\<lparr>ch_feed := feed\<rparr>)"
| balances: "(\<And>k. k \<noteq> cfg_native_currency c \<Longrightarrow>
      led_issuance (cfg_ledger c) l k = led_issuance (cfg_ledger c) (ch_ledger s) k) \<Longrightarrow>
    chain_step c s (s\<lparr>ch_ledger := l\<rparr>)"

section \<open>Dispatch\<close>

lemmas dispatch_defs = dispatch_def dispatch_security_def dispatch_stellar_relay_def dispatch_oracle_def
  dispatch_vault_registry_def dispatch_issue_def dispatch_redeem_def dispatch_replace_def dispatch_fee_def
  dispatch_nomination_def dispatch_clients_info_def dispatch_reward_distribution_def

definition atomicM :: "('s, 'e, 'a) op \<Rightarrow> bool" where
  "atomicM m \<longleftrightarrow> (\<forall>s e t. m s = (Inl e, t) \<longrightarrow> t = s)"

lemma atomic_transactional: "atomicM (transactionalM m)"
  by (auto simp: atomicM_def dest: transactionalM_error)

lemma atomic_zoom:
  assumes "atomicM m" and "\<And>s. u (\<lambda>_. g s) s = s"
  shows "atomicM (zoomM g u m)"
  using assms by (auto simp: atomicM_def zoomM_def split: prod.splits)

lemma atomic_security: "atomicM (dispatch_security ori x)"
  by (cases x) (simp_all add: dispatch_security_def set_parachain_status_def insert_parachain_error_def
      remove_parachain_error_def atomic_transactional)

lemma atomic_stellar_relay: "atomicM (dispatch_stellar_relay c ori x)"
  by (cases x) (simp_all add: dispatch_stellar_relay_def update_tier_1_validator_set_def atomic_transactional)

lemma atomic_oracle: "atomicM (dispatch_oracle ori x)"
  by (cases x) (simp_all add: dispatch_oracle_def update_oracle_keys_def set_max_delay_def atomic_transactional)

lemma atomic_vault_registry: "atomicM (dispatch_vault_registry c ori x)"
  by (cases x) (simp_all add: dispatch_vault_registry_def register_vault_def deposit_collateral_def
      withdraw_collateral_def register_public_key_def accept_new_issues_def set_custom_secure_threshold_def
      report_undercollateralized_vault_def set_minimum_collateral_def set_system_collateral_ceiling_def
      set_secure_collateral_threshold_def set_premium_redeem_threshold_def
      set_liquidation_collateral_threshold_def recover_vault_id_def set_punishment_delay_def atomic_transactional)

lemma atomic_issue: "atomicM (dispatch_issue c ori x)"
  by (cases x) (simp_all add: dispatch_issue_def request_issue_def execute_issue_def cancel_issue_def
      set_issue_period_def issue_rate_limit_update_def issue_minimum_transfer_amount_update_def atomic_transactional)

lemma atomic_redeem: "atomicM (dispatch_redeem c ori x)"
  by (cases x) (simp_all add: dispatch_redeem_def request_redeem_def liquidation_redeem_def execute_redeem_def
      cancel_redeem_def set_redeem_period_def mint_tokens_for_reimbursed_redeem_def self_redeem_def
      redeem_rate_limit_update_def redeem_minimum_transfer_amount_update_def atomic_transactional)

lemma atomic_replace: "atomicM (dispatch_replace c ori x)"
  by (cases x) (simp_all add: dispatch_replace_def request_replace_def withdraw_replace_def accept_replace_def
      execute_replace_def cancel_replace_def set_replace_period_def replace_minimum_transfer_amount_update_def
      atomic_transactional)

lemma atomic_fee: "atomicM (dispatch_fee c ori x)"
  by (cases x) (simp_all add: dispatch_fee_def set_issue_fee_def set_issue_griefing_collateral_def
      set_redeem_fee_def set_premium_redeem_fee_def set_punishment_fee_def set_replace_griefing_collateral_def
      set_fee_def atomic_transactional)

lemma atomic_nomination: "atomicM (dispatch_nomination c ori x)"
  by (cases x) (simp_all add: dispatch_nomination_def set_nomination_enabled_def opt_in_to_nomination_def
      opt_out_of_nomination_def nom_deposit_collateral_def nom_withdraw_collateral_def atomic_transactional)

lemma atomic_clients_info: "atomicM (dispatch_clients_info ori x)"
  by (cases x) (simp_all add: dispatch_clients_info_def set_current_client_release_def
      set_pending_client_release_def authorize_account_def deauthorize_account_def atomic_transactional)

lemma atomic_reward_distribution: "atomicM (dispatch_reward_distribution c ori x)"
  by (cases x) (simp_all add: dispatch_reward_distribution_def set_reward_per_block_def collect_reward_def
      atomic_transactional)

lemma atomic_dispatch: "atomicM (dispatch c ori call)"
  by (cases call) (simp_all add: dispatch_def atomic_zoom atomic_security atomic_stellar_relay atomic_oracle
      atomic_vault_registry atomic_issue atomic_redeem atomic_replace atomic_fee atomic_nomination
      atomic_clients_info atomic_reward_distribution)

text \<open>A predicate that dispatched calls keep when they succeed is kept by every extrinsic.\<close>

lemma apply_extrinsic_cases:
  assumes "apply_extrinsic c n ori call s = (r, t)"
  obtains "t = ch_env_update (env_extrinsic_index_update (\<lambda>_. Some n)) s"
    | "r = Inr ()" and "dispatch c ori call (ch_env_update (env_extrinsic_index_update (\<lambda>_. Some n)) s) = (Inr (), t)"
proof -
  let ?s = "ch_env_update (env_extrinsic_index_update (\<lambda>_. Some n)) s"
  have run: "dispatch c ori call ?s = (r, t)"
    using assms by (simp add: apply_extrinsic_def bindM_def modifyM_def)
  show ?thesis
  proof (cases r)
    case (Inl e)
    then show ?thesis using run atomic_dispatch [of c ori call] that(1) by (auto simp: atomicM_def)
  next
    case (Inr u)
    then show ?thesis using run that(2) by simp
  qed
qed

section \<open>Every step keeps the accounting\<close>

definition pegged :: "'l config \<Rightarrow> currency \<Rightarrow> int \<Rightarrow> 'l chain \<Rightarrow> bool" where
  "pegged c k x s \<longleftrightarrow> accounted c k x s \<and> replace_ok s"

lemma keeps_pegged:
  "keepsOkM (accounted c k x) m \<Longrightarrow> keepsOkM replace_ok m \<Longrightarrow> keepsOkM (pegged c k x) m"
  by (auto simp: keepsOkM_def pegged_def)

lemma triple_pegged:
  "tripleM (\<lambda>s. accounted c k x s \<and> replace_ok s) m (\<lambda>_. accounted c k x) \<Longrightarrow> keepsOkM replace_ok m \<Longrightarrow>
   keepsOkM (pegged c k x) m"
  by (auto simp: keepsOkM_def tripleM_def pegged_def)

lemma pegged_vault_registry:
  assumes "ledger_laws (cfg_ledger c)"
  shows "keepsOkM (pegged c k x) (dispatch_vault_registry c ori y)"
  by (cases y; simp add: dispatch_vault_registry_def;
      rule keeps_pegged, intro keeps_intro assms, rule keeps_replace_ok, intro frame_intro)

lemma pegged_issue:
  assumes "ledger_laws (cfg_ledger c)"
  shows "keepsOkM (pegged c k x) (dispatch_issue c ori y)"
  by (cases y; simp add: dispatch_issue_def;
      rule keeps_pegged, intro keeps_intro assms, rule keeps_replace_ok, intro frame_intro)

lemma pegged_redeem:
  assumes "ledger_laws (cfg_ledger c)"
  shows "keepsOkM (pegged c k x) (dispatch_redeem c ori y)"
  by (cases y; simp add: dispatch_redeem_def;
      rule keeps_pegged, intro keeps_intro assms, rule keeps_replace_ok, intro frame_intro)

lemma pegged_replace:
  assumes "ledger_laws (cfg_ledger c)"
  shows "keepsOkM (pegged c k x) (dispatch_replace c ori y)"
  by (cases y; simp add: dispatch_replace_def;
      (rule triple_pegged, rule triple_execute_replace triple_cancel_replace, rule assms | rule keeps_pegged, intro keeps_intro assms);
      rule keeps_replace_ok_accept keeps_replace_ok_calls keeps_replace_ok_settings)

lemma pegged_nomination:
  assumes "ledger_laws (cfg_ledger c)"
  shows "keepsOkM (pegged c k x) (dispatch_nomination c ori y)"
  by (cases y; simp add: dispatch_nomination_def;
      rule keeps_pegged, intro keeps_intro assms, rule keeps_replace_ok, intro frame_intro)

lemma pegged_reward_distribution:
  assumes "ledger_laws (cfg_ledger c)" and "deposits_native c" and "k \<noteq> cfg_native_currency c"
  shows "keepsOkM (pegged c k x) (dispatch_reward_distribution c ori y)"
  by (cases y; simp add: dispatch_reward_distribution_def;
      rule keeps_pegged, intro keeps_intro assms, rule keeps_replace_ok, intro frame_intro)

lemma frame_replace_fee: "frameM ch_replace (set_fee c u ori n)"
  unfolding set_fee_def by (intro frame_intro) simp

lemma pegged_fee: "keepsOkM (pegged c k x) (dispatch_fee c ori y)"
  by (cases y; simp add: dispatch_fee_def; rule keeps_pegged, intro keeps_intro, rule keeps_replace_ok,
      simp add: frame_replace_fee set_issue_fee_def set_issue_griefing_collateral_def set_redeem_fee_def
        set_premium_redeem_fee_def set_punishment_fee_def set_replace_griefing_collateral_def)

lemma pegged_zoom:
  "keepsOkM (pegged c k x) (on_relay m1)" "keepsOkM (pegged c k x) (on_security m2)"
  "keepsOkM (pegged c k x) (on_oracle m3)" "keepsOkM (pegged c k x) (on_clients m4)"
  by (rule keeps_pegged, rule keeps_core, intro frame_intro, rule keeps_replace_ok, rule frame_zoom, simp)+

lemma pegged_dispatch:
  assumes "ledger_laws (cfg_ledger c)" and "deposits_native c" and "k \<noteq> cfg_native_currency c"
  shows "keepsOkM (pegged c k x) (dispatch c ori call)"
  using assms by (cases call) (simp_all add: dispatch_def pegged_zoom pegged_vault_registry pegged_issue pegged_redeem
      pegged_replace pegged_fee pegged_nomination pegged_reward_distribution)

lemma pegged_simps [simp]:
  "pegged c k x (ch_env_update f1 s) = pegged c k x s" "pegged c k x (ch_feed_update f2 s) = pegged c k x s"
  "pegged c k x (ch_security_update f3 s) = pegged c k x s" "pegged c k x (ch_oracle_update f4 s) = pegged c k x s"
  "pegged c k x (ch_clients_update f5 s) = pegged c k x s"
  by (simp_all add: pegged_def accounted_core [of "f s" s for f s] replace_ok_def)

lemma pegged_initialize_block:
  assumes "ledger_laws (cfg_ledger c)" and "deposits_native c" and "k \<noteq> cfg_native_currency c"
  shows "keepsOkM (pegged c k x) (initialize_block c n h)"
proof -
  have "keepsOkM (pegged c k x) (execute_on_init c)"
    by (rule keeps_pegged, intro keeps_intro assms, rule keeps_replace_ok, intro frame_intro)
  then show ?thesis
    unfolding initialize_block_def oracle_on_initialize_def
    by (intro keeps_bind keeps_modify) (simp_all split: prod.splits)
qed

lemma pegged_extrinsic:
  assumes "ledger_laws (cfg_ledger c)" and "deposits_native c" and "k \<noteq> cfg_native_currency c"
    and run: "apply_extrinsic c n ori call s = (r, t)" and "pegged c k x s"
  shows "pegged c k x t"
  using run
proof (cases rule: apply_extrinsic_cases)
  case 1
  then show ?thesis using assms(5) by simp
next
  case 2
  show ?thesis by (rule keepsOkM_D [OF pegged_dispatch [OF assms(1-3)] _ 2(2)]) (simp add: assms(5))
qed

lemma pegged_balances:
  assumes "led_issuance (cfg_ledger c) l k = led_issuance (cfg_ledger c) (ch_ledger s) k"
  shows "pegged c k x (s\<lparr>ch_ledger := l\<rparr>) = pegged c k x s"
  using assms
  by (simp add: pegged_def replace_ok_def accounted_def tokens_ok_def keys_ok_def token_gap_def issued_total_def
      vault_total_def lv_total_def get_liquidation_vault_def)

lemma pegged_step:
  assumes "ledger_laws (cfg_ledger c)" and "deposits_native c" and "k \<noteq> cfg_native_currency c"
    and "chain_step c s t" and "pegged c k x s"
  shows "pegged c k x t"
  using assms(4)
proof cases
  case (extrinsic n ori call r)
  then show ?thesis by (rule pegged_extrinsic [OF assms(1-3) _ assms(5)])
next
  case (new_block n h)
  then show ?thesis by (rule keepsOkM_D [OF pegged_initialize_block [OF assms(1-3)] assms(5)])
next
  case (balances l)
  then show ?thesis using assms(3,5) by (simp add: pegged_balances)
qed (use assms(5) in \<open>auto simp: set_timestamp_def on_runtime_upgrade_def modifyM_def\<close>)

end
