(* ===== verification/Request_Lifecycle.thy ===== *)
theory Request_Lifecycle
  imports Chain_Steps
begin

text \<open>
  The life of a request: an identifier that is drawn is not in use, a request that is settled stays
  as it is, and executing or cancelling it again fails.
\<close>

section \<open>Opening a request\<close>

type_synonym request_maps =
  "(request_id \<rightharpoonup> issue_request) \<times> (request_id \<rightharpoonup> redeem_request) \<times> (request_id \<rightharpoonup> replace_request)"

definition requests :: "'l chain \<Rightarrow> request_maps" where
  "requests s = (is_requests (ch_issue s), re_requests (ch_redeem s), rp_requests (ch_replace s))"

definition open_view :: "'l chain \<Rightarrow> request_maps \<times> block_env \<times> security" where
  "open_view s = (requests s, id_view s)"

definition drawn_view :: "'l chain \<Rightarrow> request_maps \<times> 256 word" where
  "drawn_view s = (requests s, sec_nonce (ch_security s))"

definition next_id :: "'l config \<Rightarrow> block_env \<times> security \<Rightarrow> request_id" where
  "next_id c v = cfg_sha256 c (secure_id_preimage (fst v) (sec_nonce (snd v) + 1))"

interpretation of_open: registry_view open_view
  by unfold_locales (simp_all add: open_view_def requests_def id_view_def)

lemma frame_open_storage [frame_intro]:
  "frameM open_view (issue_deposit_event e1)" "frameM open_view (redeem_deposit_event e2)"
  "frameM open_view (replace_deposit_event e3)"
  "frameM open_view (check_volume c issue_volume issue_volume_update err a)"
  "frameM open_view (check_volume c redeem_volume redeem_volume_update err a)"
  "frameM open_view (release_replace_collateral c i a)"
  unfolding issue_deposit_event_def redeem_deposit_event_def replace_deposit_event_def check_volume_def
    release_replace_collateral_def
  by (intro frame_intro; simp add: open_view_def requests_def id_view_def)+

lemma keeps_open: "frameM open_view m \<Longrightarrow> keepsOkM (\<lambda>s. open_view s = y) m"
  by (erule keeps_frame) simp

lemma keeps_drawn: "frameM open_view m \<Longrightarrow> keepsOkM (\<lambda>s. drawn_view s = y) m"
  by (erule keeps_frame) (simp add: open_view_def drawn_view_def id_view_def)

lemma triple_draw:
  assumes "tripleM (\<lambda>s. drawn_view s = (R, sec_nonce (snd v) + 1)) (f (next_id c v)) Q"
  shows "tripleM (\<lambda>s. open_view s = (R, v)) (bindM (secure_id c) f) Q"
proof (rule tripleI)
  fix s r t
  assume "open_view s = (R, v)" and "bindM (secure_id c) f s = (Inr r, t)"
  then show "Q r t"
    by (intro tripleD [OF assms, of "s\<lparr>ch_security := snd (get_nonce (ch_security s))\<rparr>"])
       (auto simp: secure_id_def get_secure_id_def get_nonce_def Let_def ok_iff drawn_view_def requests_def
          open_view_def id_view_def next_id_def bindM_def)
qed

lemma triple_opened:
  assumes "\<And>s. drawn_view s = (R, w) \<Longrightarrow> drawn_view (f s) = (R', w)" and "\<And>x. frameM open_view (m x)"
  shows "tripleM (\<lambda>s. drawn_view s = (R, w)) (bindM (modifyM f) m) (\<lambda>_ s. drawn_view s = (R', w))"
  by (rule triple_bind [where Q = "\<lambda>_ s. drawn_view s = (R', w)"], rule tripleI, simp add: ok_iff assms(1),
      rule triple_keeps, rule keeps_drawn, rule assms(2))

lemma triple_inserted:
  assumes "\<And>x. frameM open_view (m x)"
  shows "tripleM (\<lambda>s. drawn_view s = (R, w)) (bindM (insert_issue_request j r1) m)
      (\<lambda>_ s. \<exists>r. drawn_view s = (((fst R)(j \<mapsto> r), snd R), w))"
    and "tripleM (\<lambda>s. drawn_view s = (R, w)) (bindM (insert_redeem_request j r2) m)
      (\<lambda>_ s. \<exists>r. drawn_view s = ((fst R, (fst (snd R))(j \<mapsto> r), snd (snd R)), w))"
    and "tripleM (\<lambda>s. drawn_view s = (R, w)) (bindM (insert_replace_request j r3) m)
      (\<lambda>_ s. \<exists>r. drawn_view s = ((fst R, fst (snd R), (snd (snd R))(j \<mapsto> r)), w))"
  unfolding insert_issue_request_def insert_redeem_request_def insert_replace_request_def
  by (rule triple_post [OF triple_opened [OF _ assms]]; auto simp: drawn_view_def requests_def)+

lemma triple_then_ret: "tripleM P m (\<lambda>_. Q) \<Longrightarrow> tripleM P (bindM m (\<lambda>_. retM z)) (\<lambda>_. Q)"
  by (auto simp: tripleM_def ok_iff)

lemma opens_issue_internal:
  "tripleM (\<lambda>s. open_view s = (R, v)) (request_issue_internal c y n i)
     (\<lambda>_ s. \<exists>r. drawn_view s = (((fst R)(next_id c v \<mapsto> r), snd R), sec_nonce (snd v) + 1))"
  unfolding request_issue_internal_def Let_def
  by ((rule triple_lift | rule triple_queryM | rule triple_getM | rule triple_ensure |
       rule triple_then, rule keeps_open, (intro frame_intro) [1])+,
      rule triple_draw, (rule triple_queryM | rule triple_getM)+,
      rule triple_inserted, intro frame_intro)

lemma opens_redeem_internal:
  "tripleM (\<lambda>s. open_view s = (R, v)) (request_redeem_internal c y n addr i)
     (\<lambda>_ s. \<exists>r. drawn_view s = ((fst R, (fst (snd R))(next_id c v \<mapsto> r), snd (snd R)), sec_nonce (snd v) + 1))"
  unfolding request_redeem_internal_def Let_def
  by ((rule triple_lift | rule triple_queryM | rule triple_getM | rule triple_ensure |
       rule triple_then, rule keeps_open, (intro frame_intro) [1])+,
      rule triple_draw, (rule triple_queryM | rule triple_getM | rule triple_then, rule keeps_drawn, (intro frame_intro) [1])+,
      rule triple_inserted, intro frame_intro)

lemma opens_replace_internal:
  "tripleM (\<lambda>s. open_view s = (R, v)) (accept_replace_internal c i j n m addr)
     (\<lambda>_ s. \<exists>r. drawn_view s = ((fst R, fst (snd R), (snd (snd R))(next_id c v \<mapsto> r)), sec_nonce (snd v) + 1))"
  unfolding accept_replace_internal_def accept_replace_tokens_def Let_def
  by ((rule triple_lift | rule triple_queryM | rule triple_getM | rule triple_ensure |
       rule triple_then, rule keeps_open, (intro frame_intro) [1])+,
      rule triple_draw, (rule triple_queryM | rule triple_getM)+,
      rule triple_inserted, intro frame_intro)

lemma opens:
  "tripleM (\<lambda>s. open_view s = (R, v)) (request_issue c ori n i)
     (\<lambda>_ s. \<exists>r. drawn_view s = (((fst R)(next_id c v \<mapsto> r), snd R), sec_nonce (snd v) + 1))"
  "tripleM (\<lambda>s. open_view s = (R, v)) (request_redeem c ori n addr i)
     (\<lambda>_ s. \<exists>r. drawn_view s = ((fst R, (fst (snd R))(next_id c v \<mapsto> r), snd (snd R)), sec_nonce (snd v) + 1))"
  "tripleM (\<lambda>s. open_view s = (R, v)) (accept_replace c ori p i n m addr)
     (\<lambda>_ s. \<exists>r. drawn_view s = ((fst R, fst (snd R), (snd (snd R))(next_id c v \<mapsto> r)), sec_nonce (snd v) + 1))"
  unfolding request_issue_def request_redeem_def accept_replace_def
  by (rule triple_transactional, rule triple_lift,
      (rule triple_then_ret)?, rule opens_issue_internal opens_redeem_internal opens_replace_internal)+

section \<open>Settled requests\<close>

text \<open>
  An issue or replace request is settled once it is completed: a cancelled one can still be executed.
  A redeem request is settled once it is completed, retried, or reimbursed with the tokens minted.
\<close>

definition issue_settled :: "issue_request \<Rightarrow> bool" where
  "issue_settled r \<longleftrightarrow> ir_status r = IssueStatusCompleted"

definition redeem_settled :: "redeem_request \<Rightarrow> bool" where
  "redeem_settled r \<longleftrightarrow> rr_status r \<in> {RedeemStatusCompleted, RedeemRetried, RedeemReimbursed True}"

definition replace_settled :: "replace_request \<Rightarrow> bool" where
  "replace_settled r \<longleftrightarrow> rp_status r = ReplaceStatusCompleted"

definition settled_kept :: "('r \<Rightarrow> bool) \<Rightarrow> (request_id \<rightharpoonup> 'r) \<Rightarrow> (request_id \<rightharpoonup> 'r) \<Rightarrow> bool" where
  "settled_kept settled m m' \<longleftrightarrow> (\<forall>j r. m j = Some r \<and> settled r \<longrightarrow> m' j = Some r)"

definition settled_in :: "request_maps \<Rightarrow> 'l chain \<Rightarrow> bool" where
  "settled_in R s \<longleftrightarrow> settled_kept issue_settled (fst R) (is_requests (ch_issue s)) \<and>
     settled_kept redeem_settled (fst (snd R)) (re_requests (ch_redeem s)) \<and>
     settled_kept replace_settled (snd (snd R)) (rp_requests (ch_replace s))"

definition unsettled :: "('r \<Rightarrow> bool) \<Rightarrow> (request_id \<rightharpoonup> 'r) \<Rightarrow> request_id \<Rightarrow> bool" where
  "unsettled settled m j \<longleftrightarrow> (\<forall>r. m j = Some r \<longrightarrow> \<not> settled r)"

lemma settled_kept_upd: "settled_kept p m m' \<Longrightarrow> unsettled p m j \<Longrightarrow> settled_kept p m (m'(j := y))"
  by (auto simp: settled_kept_def unsettled_def)

lemma settled_kept_other:
  assumes "settled_kept p m m'" and "m' x = None" and "\<And>j. j \<noteq> x \<Longrightarrow> m'' j = m' j"
  shows "settled_kept p m m''"
  unfolding settled_kept_def
proof (intro allI impI)
  fix j r
  assume "m j = Some r \<and> p r"
  then have "m' j = Some r" using assms(1) by (simp add: settled_kept_def)
  moreover from this have "j \<noteq> x" using assms(2) by auto
  ultimately show "m'' j = Some r" using assms(3) by simp
qed

lemma settled_kept_refl: "settled_kept p m m"
  by (simp add: settled_kept_def)

lemma keeps_settled: "frameM open_view m \<Longrightarrow> keepsOkM (settled_in R) m"
  by (erule keeps_frame) (simp add: open_view_def requests_def settled_in_def)

lemma keeps_settled_store:
  "unsettled issue_settled (fst R) j \<Longrightarrow> keepsOkM (settled_in R) (mutate_issue_request j f)"
  "unsettled issue_settled (fst R) j \<Longrightarrow> keepsOkM (settled_in R) (set_issue_status j st1)"
  "unsettled redeem_settled (fst (snd R)) j \<Longrightarrow> keepsOkM (settled_in R) (set_redeem_status j st2)"
  "unsettled replace_settled (snd (snd R)) j \<Longrightarrow> keepsOkM (settled_in R) (set_replace_status j st3)"
  by (auto simp: keepsOkM_def mutate_issue_request_def set_issue_status_def set_redeem_status_def
      set_replace_status_def ok_iff settled_in_def settled_kept_upd)

lemma unsettled_queries:
  "settled_in R s \<Longrightarrow> get_executable_issue_request_from_id j s = Inr r1 \<Longrightarrow> unsettled issue_settled (fst R) j"
  "settled_in R s \<Longrightarrow> get_pending_issue j s = Inr r1 \<Longrightarrow> unsettled issue_settled (fst R) j"
  "settled_in R s \<Longrightarrow> get_open_redeem_request_from_id j s = Inr r2 \<Longrightarrow>
     unsettled redeem_settled (fst (snd R)) j"
  "settled_in R s \<Longrightarrow> get_redeem_request j s = Inr r2 \<Longrightarrow>
     rr_status r2 = RedeemReimbursed False \<longrightarrow> unsettled redeem_settled (fst (snd R)) j"
  "settled_in R s \<Longrightarrow> get_open_or_cancelled_replace_request j s = Inr r3 \<Longrightarrow>
     unsettled replace_settled (snd (snd R)) j"
  "settled_in R s \<Longrightarrow> get_open_replace_request j s = Inr r3 \<Longrightarrow> unsettled replace_settled (snd (snd R)) j"
  by (fastforce simp: settled_in_def settled_kept_def unsettled_def issue_settled_def redeem_settled_def
      replace_settled_def get_executable_issue_request_from_id_def get_issue_request_def get_pending_issue_def
      get_open_redeem_request_from_id_def get_redeem_request_def get_open_or_cancelled_replace_request_def
      get_open_replace_request_def get_replace_request_def ok_iff)+

lemma frame_open_volume [frame_intro]:
  "frameM open_view (increase_interval_volume c issue_volume issue_volume_update a)"
  "frameM open_view (increase_interval_volume c redeem_volume redeem_volume_update a)"
  unfolding increase_interval_volume_def
  by (intro frame_intro; simp add: open_view_def requests_def id_view_def)+

lemma keeps_settled_amounts:
  assumes "unsettled issue_settled (fst R) j"
  shows "keepsOkM (settled_in R) (set_issue_amount c j r a b)"
    and "keepsOkM (settled_in R) (decrease_issue_amount c j r a b)"
    and "keepsOkM (settled_in R) (try_increase_issue_amount c j r a b)"
    and "keepsOkM (settled_in R) (handle_issue_requests c y j r a)"
proof -
  show 1: "keepsOkM (settled_in R) (set_issue_amount c j r a b)" for r a b
    unfolding set_issue_amount_def
    by (intro keeps_intro keeps_settled_store assms; rule keeps_settled, intro frame_intro)
  show 2: "keepsOkM (settled_in R) (decrease_issue_amount c j r a b)" for r a b
    unfolding decrease_issue_amount_def by (intro keeps_intro 1; rule keeps_settled, intro frame_intro)
  show 3: "keepsOkM (settled_in R) (try_increase_issue_amount c j r a b)" for r a b
    unfolding try_increase_issue_amount_def by (intro keeps_intro 1; rule keeps_settled, intro frame_intro)
  show "keepsOkM (settled_in R) (handle_issue_requests c y j r a)"
    unfolding handle_issue_requests_def Let_def
    by (cases "ir_status r"; simp; intro keeps_intro 1 2 3; rule keeps_settled, intro frame_intro)
qed

lemma settled_execute_issue: "keepsOkM (settled_in R) (execute_issue c ori j b1 b2 b3)"
  unfolding execute_issue_def execute_issue_internal_def Let_def
  by (rule keeps_triple, rule triple_transactional, rule triple_lift, rule triple_query_fact,
      erule unsettled_queries, assumption, rule triple_keeps)
     (intro keeps_intro keeps_settled_amounts keeps_settled_store; (assumption | rule keeps_settled, intro frame_intro))

lemma settled_cancel_issue: "keepsOkM (settled_in R) (cancel_issue c ori j)"
  unfolding cancel_issue_def cancel_issue_internal_def Let_def
  by (rule keeps_triple, rule triple_transactional, rule triple_lift, rule triple_query_fact,
      erule unsettled_queries, assumption, rule triple_keeps)
     (intro keeps_intro keeps_settled_store; (assumption | rule keeps_settled, intro frame_intro))

lemma settled_execute_redeem: "keepsOkM (settled_in R) (execute_redeem c ori j b1 b2 b3)"
  unfolding execute_redeem_def execute_redeem_internal_def Let_def
  by (rule keeps_triple, rule triple_transactional, rule triple_lift, rule triple_query_fact,
      erule unsettled_queries, assumption, rule triple_keeps)
     (intro keeps_intro keeps_settled_store; (assumption | rule keeps_settled, intro frame_intro))

lemma open_view_cancelled [simp]: "open_view (ch_redeem_update (re_cancelled_amount_update f) s) = open_view s"
  by (simp add: open_view_def requests_def id_view_def)

lemma settled_cancel_redeem: "keepsOkM (settled_in R) (cancel_redeem c ori j b)"
  unfolding cancel_redeem_def cancel_redeem_internal_def Let_def confiscate_collateral_def punish_vault_def
    settle_reimbursed_def settle_retried_def
  by (rule keeps_triple, rule triple_transactional, rule triple_lift, rule triple_queryM, rule triple_query_fact,
      erule unsettled_queries, assumption, rule triple_keeps)
     (intro keeps_intro keeps_settled_store; (assumption | rule keeps_settled, intro frame_intro, simp?))

lemma settled_mint: "keepsOkM (settled_in R) (mint_tokens_for_reimbursed_redeem c ori p j)"
  unfolding mint_tokens_for_reimbursed_redeem_def mint_tokens_for_reimbursed_redeem_internal_def Let_def
  by (rule keeps_triple, rule triple_transactional, rule triple_lift, rule triple_queryM, rule triple_query_fact,
      erule unsettled_queries(4), assumption, rule triple_ensure, rule triple_keeps)
     (intro keeps_intro keeps_settled_store; (rule keeps_settled, intro frame_intro, simp? | simp))

lemma settled_execute_replace: "keepsOkM (settled_in R) (execute_replace c ori j b1 b2 b3)"
  unfolding execute_replace_def execute_replace_internal_def accept_replace_tokens_def Let_def
  by (rule keeps_triple, rule triple_transactional, rule triple_lift, rule triple_query_fact,
      erule unsettled_queries, assumption, rule triple_keeps)
     (intro keeps_intro keeps_settled_store; (assumption | rule keeps_settled, intro frame_intro))

lemma settled_cancel_replace: "keepsOkM (settled_in R) (cancel_replace c ori j)"
  unfolding cancel_replace_def cancel_replace_internal_def Let_def
  by (rule keeps_triple, rule triple_transactional, rule triple_lift, rule triple_query_fact,
      erule unsettled_queries, assumption, rule triple_keeps)
     (intro keeps_intro keeps_settled_store; (assumption | rule keeps_settled, intro frame_intro))

lemma settled_other:
  "keepsOkM (settled_in R) (liquidation_redeem c ori p n)" "keepsOkM (settled_in R) (self_redeem c ori p n)"
  "keepsOkM (settled_in R) (request_replace c ori p n)" "keepsOkM (settled_in R) (withdraw_replace c ori p n)"
  unfolding liquidation_redeem_def liquidation_redeem_internal_def self_redeem_def self_redeem_execute_def
    take_user_tokens_def update_vault_tokens_def request_replace_def request_replace_internal_def
    withdraw_replace_def withdraw_replace_internal_def
  by (rule keeps_settled, intro frame_intro frame_map_err)+

lemma settled_settings:
  "keepsOkM (settled_in R) (set_issue_period ori n)" "keepsOkM (settled_in R) (issue_rate_limit_update ori l k n)"
  "keepsOkM (settled_in R) (issue_minimum_transfer_amount_update ori n)"
  "keepsOkM (settled_in R) (set_redeem_period ori n)" "keepsOkM (settled_in R) (redeem_rate_limit_update ori l k n)"
  "keepsOkM (settled_in R) (redeem_minimum_transfer_amount_update ori n)"
  "keepsOkM (settled_in R) (set_replace_period ori n)"
  "keepsOkM (settled_in R) (replace_minimum_transfer_amount_update ori n)"
  unfolding set_issue_period_def issue_rate_limit_update_def issue_minimum_transfer_amount_update_def
    set_redeem_period_def redeem_rate_limit_update_def redeem_minimum_transfer_amount_update_def
    set_replace_period_def replace_minimum_transfer_amount_update_def
  by (rule keeps_settled; intro frame_intro; simp add: open_view_def requests_def id_view_def)+

section \<open>Every call keeps the settled requests\<close>

definition draws :: "runtime_call \<Rightarrow> bool" where
  "draws call \<longleftrightarrow> (case call of
     IssueCall (call_request_issue _ _) \<Rightarrow> True
   | RedeemCall (call_request_redeem _ _ _) \<Rightarrow> True
   | ReplaceCall (call_accept_replace _ _ _ _ _) \<Rightarrow> True
   | _ \<Rightarrow> False)"

lemma settled_vault_registry: "keepsOkM (settled_in R) (dispatch_vault_registry c ori y)"
  by (cases y; simp add: dispatch_vault_registry_def; rule keeps_settled, intro frame_intro)

lemma frame_open_nomination: "frameM open_view (dispatch_nomination c ori y)"
  by (cases y; simp add: dispatch_nomination_def set_nomination_enabled_def opt_in_to_nomination_def
      opt_in_to_nomination_internal_def opt_out_of_nomination_def opt_out_of_nomination_internal_def
      nom_deposit_collateral_def nom_deposit_collateral_internal_def nom_withdraw_collateral_def
      nom_withdraw_collateral_internal_def nomination_deposit_event_def;
      intro frame_intro; simp add: open_view_def requests_def id_view_def)

lemma frame_open_fee: "frameM open_view (dispatch_fee c ori y)"
  by (cases y; simp add: dispatch_fee_def set_issue_fee_def set_issue_griefing_collateral_def set_redeem_fee_def
      set_premium_redeem_fee_def set_punishment_fee_def set_replace_griefing_collateral_def set_fee_def;
      intro frame_intro; simp add: open_view_def requests_def id_view_def)

lemma frame_open_reward_distribution: "frameM open_view (dispatch_reward_distribution c ori y)"
  by (cases y; simp add: dispatch_reward_distribution_def; intro frame_intro)

lemma settled_zoom:
  "keepsOkM (settled_in R) (on_relay m1)" "keepsOkM (settled_in R) (on_security m2)"
  "keepsOkM (settled_in R) (on_oracle m3)" "keepsOkM (settled_in R) (on_clients m4)"
  by (auto simp: keepsOkM_def ok_iff settled_in_def)

lemma settled_dispatch:
  assumes "\<not> draws call"
  shows "keepsOkM (settled_in R) (dispatch c ori call)"
proof (cases call)
  case (IssueCall x)
  then show ?thesis
    using assms by (cases x) (simp_all add: dispatch_def dispatch_issue_def draws_def settled_execute_issue
        settled_cancel_issue settled_settings)
next
  case (RedeemCall x)
  then show ?thesis
    using assms by (cases x) (simp_all add: dispatch_def dispatch_redeem_def draws_def settled_execute_redeem
        settled_cancel_redeem settled_mint settled_other settled_settings)
next
  case (ReplaceCall x)
  then show ?thesis
    using assms by (cases x) (simp_all add: dispatch_def dispatch_replace_def draws_def settled_execute_replace
        settled_cancel_replace settled_other settled_settings)
qed (simp_all add: dispatch_def settled_zoom settled_vault_registry keeps_settled frame_open_nomination
  frame_open_fee frame_open_reward_distribution)

section \<open>Identifiers in use\<close>

definition drawn :: "'l config \<Rightarrow> byte list set \<Rightarrow> 256 word \<Rightarrow> request_id set" where
  "drawn c S w = {cfg_sha256 c (secure_id_preimage env n) |env n. n \<le> w \<and> secure_id_preimage env n \<in> S}"

definition ids_ok :: "'l config \<Rightarrow> byte list set \<Rightarrow> 'l chain \<Rightarrow> bool" where
  "ids_ok c S s \<longleftrightarrow> fst (request_keys s) \<subseteq> drawn c S (snd (request_keys s))"

lemma word_less_succ:
  fixes w :: "256 word"
  assumes "w \<noteq> - 1"
  shows "w < w + 1"
proof -
  have "unat (w + 1) \<noteq> 0" using assms max_word_wrap by (metis unat_eq_zero)
  then have "unat (w + 1) = unat w + 1"
    using unsigned_less [of w, where ?'a = nat] by (simp add: unat_plus_if' split: if_splits)
  then show ?thesis by (simp add: word_less_nat_alt)
qed

lemma next_id_fresh:
  assumes "inj_on (cfg_sha256 c) S" and "ids_ok c S s" and "sec_nonce (ch_security s) \<noteq> - 1"
    and "secure_id_preimage (ch_env s) (sec_nonce (ch_security s) + 1) \<in> S"
  shows "next_id c (id_view s) \<notin> fst (request_keys s)"
proof
  let ?w = "sec_nonce (ch_security s)"
  assume "next_id c (id_view s) \<in> fst (request_keys s)"
  then obtain env n where n: "next_id c (id_view s) = cfg_sha256 c (secure_id_preimage env n)" "n \<le> ?w"
      "secure_id_preimage env n \<in> S"
    using assms(2) by (auto simp: ids_ok_def drawn_def request_keys_def)
  then have "?w + 1 = n"
    using inj_onD [OF assms(1) _ assms(4)] secure_id_preimage_nonce by (fastforce simp: next_id_def id_view_def)
  then show False using n(2) word_less_succ [OF assms(3)] by simp
qed

lemma drawn_step:
  assumes "w \<noteq> - 1" and "sec_nonce sec = w" and "secure_id_preimage env (w + 1) \<in> S"
  shows "insert (next_id c (env, sec)) (drawn c S w) \<subseteq> drawn c S (w + 1)"
  using assms(2,3) order.trans [OF _ less_imp_le [OF word_less_succ [OF assms(1)]]]
  by (fastforce simp: drawn_def next_id_def)

lemma draw_call:
  assumes "draws call" and run: "dispatch c ori call s = (Inr z, t)"
  shows "sec_nonce (ch_security t) = sec_nonce (ch_security s) + 1 \<and>
    (\<forall>j. j \<noteq> next_id c (id_view s) \<longrightarrow> is_requests (ch_issue t) j = is_requests (ch_issue s) j \<and>
      re_requests (ch_redeem t) j = re_requests (ch_redeem s) j \<and>
      rp_requests (ch_replace t) j = rp_requests (ch_replace s) j)"
proof -
  have here: "open_view s = (requests s, id_view s)" by (simp add: open_view_def)
  consider n i where "call = IssueCall (call_request_issue n i)"
    | n addr i where "call = RedeemCall (call_request_redeem n addr i)"
    | p i n m addr where "call = ReplaceCall (call_accept_replace p i n m addr)"
    using assms(1)
    by (auto simp: draws_def split: runtime_call.splits issue_call.splits redeem_call.splits replace_call.splits)
  then show ?thesis
  proof cases
    case 1
    then show ?thesis
      using tripleD [OF opens(1) here, of c ori n i z t] run
      by (auto simp: dispatch_def dispatch_issue_def drawn_view_def requests_def id_view_def)
  next
    case 2
    then show ?thesis
      using tripleD [OF opens(2) here, of c ori n addr i z t] run
      by (auto simp: dispatch_def dispatch_redeem_def drawn_view_def requests_def id_view_def)
  next
    case 3
    then show ?thesis
      using tripleD [OF opens(3) here, of c ori p i n m addr z t] run
      by (auto simp: dispatch_def dispatch_replace_def drawn_view_def requests_def id_view_def)
  qed
qed

lemma draw_call_keys:
  assumes "draws call" and "dispatch c ori call s = (Inr z, t)"
  shows "fst (request_keys t) \<subseteq> insert (next_id c (id_view s)) (fst (request_keys s))"
proof
  fix j
  assume "j \<in> fst (request_keys t)"
  then show "j \<in> insert (next_id c (id_view s)) (fst (request_keys s))"
    using draw_call [OF assms] by (cases "j = next_id c (id_view s)") (auto simp: request_keys_def dom_def)
qed

lemma nonce_security: "frameM sec_nonce (dispatch_security ori x)"
  by (cases x; simp add: dispatch_security_def set_parachain_status_def insert_parachain_error_def
      remove_parachain_error_def; intro frame_intro; simp add: set_status_def insert_error_def remove_error_def)

lemma frame_keys_open: "frameM open_view m \<Longrightarrow> frameM request_keys m"
  by (simp add: frameM_def open_view_def request_keys_def requests_def id_view_def)

lemma frame_keys_dispatch:
  assumes "\<not> draws call"
  shows "frameM request_keys (dispatch c ori call)"
proof (cases call)
  case (SecurityCall x)
  have "frameM (\<lambda>s. sec_nonce (ch_security s)) (on_security (dispatch_security ori x))"
    by (rule security_store.zoom_frame [OF nonce_security])
  then show ?thesis
    using SecurityCall by (auto simp: dispatch_def frameM_def request_keys_def zoomM_def split: prod.splits)
next
  case (VaultRegistry x)
  then show ?thesis by (cases x; simp add: dispatch_def dispatch_vault_registry_def; intro frame_intro)
next
  case (IssueCall x)
  then show ?thesis using assms by (cases x; simp add: dispatch_def dispatch_issue_def draws_def; intro frame_intro)
next
  case (RedeemCall x)
  then show ?thesis using assms by (cases x; simp add: dispatch_def dispatch_redeem_def draws_def; intro frame_intro)
next
  case (ReplaceCall x)
  then show ?thesis using assms by (cases x; simp add: dispatch_def dispatch_replace_def draws_def; intro frame_intro)
next
  case (FeeCall x)
  then show ?thesis using frame_keys_open [OF frame_open_fee] by (simp add: dispatch_def)
next
  case (NominationCall x)
  then show ?thesis by (cases x; simp add: dispatch_def dispatch_nomination_def; intro frame_intro)
next
  case (RewardDistribution x)
  then show ?thesis by (cases x; simp add: dispatch_def dispatch_reward_distribution_def; intro frame_intro)
qed (simp_all add: dispatch_def, (rule frame_zoom, simp add: request_keys_def)+)

section \<open>Runs\<close>

text \<open>
  Runs of the chain in which the 256-bit nonce does not wrap around, and the strings that
  identifiers are hashed from are among given ones.
\<close>

definition run_step :: "'l config \<Rightarrow> byte list set \<Rightarrow> 'l chain \<Rightarrow> 'l chain \<Rightarrow> bool" where
  "run_step c S s t \<longleftrightarrow> chain_step c s t \<and> sec_nonce (ch_security s) \<noteq> - 1 \<and>
     (\<forall>n. secure_id_preimage ((ch_env s)\<lparr>env_extrinsic_index := Some n\<rparr>) (sec_nonce (ch_security s) + 1) \<in> S)"

definition lifecycle_inv :: "'l config \<Rightarrow> byte list set \<Rightarrow> request_maps \<Rightarrow> 'l chain \<Rightarrow> bool" where
  "lifecycle_inv c S R s \<longleftrightarrow> ids_ok c S s \<and> settled_in R s"

lemma settled_in_cong: "open_view s = open_view t \<Longrightarrow> settled_in R s = settled_in R t"
  by (simp add: open_view_def requests_def settled_in_def)

lemma lifecycle_dispatch:
  assumes inj: "inj_on (cfg_sha256 c) S" and inv: "lifecycle_inv c S R s" and nonce: "sec_nonce (ch_security s) \<noteq> - 1"
    and pre: "secure_id_preimage (ch_env s) (sec_nonce (ch_security s) + 1) \<in> S"
    and run: "dispatch c ori call s = (Inr z, t)"
  shows "lifecycle_inv c S R t"
proof (cases "draws call")
  case False
  have "request_keys t = request_keys s" by (rule frameM_D [OF frame_keys_dispatch [OF False] run])
  moreover have "settled_in R t" using keepsOkM_D [OF settled_dispatch [OF False] _ run] inv by (simp add: lifecycle_inv_def)
  ultimately show ?thesis using inv by (simp add: lifecycle_inv_def ids_ok_def)
next
  case True
  let ?w = "sec_nonce (ch_security s)"
  have ids: "ids_ok c S s" and settled: "settled_in R s" using inv by (simp_all add: lifecycle_inv_def)
  note call = draw_call [OF True run]
  have nonces: "snd (request_keys s) = ?w" "snd (request_keys t) = ?w + 1" using call by (simp_all add: request_keys_def)
  have "fst (request_keys s) \<subseteq> drawn c S ?w" using ids nonces by (simp add: ids_ok_def)
  then have "fst (request_keys t) \<subseteq> insert (next_id c (id_view s)) (drawn c S ?w)"
    using draw_call_keys [OF True run] by blast
  then have "ids_ok c S t"
    using drawn_step [OF nonce refl pre, of c] unfolding ids_ok_def nonces id_view_def by (rule order.trans)
  moreover have "settled_in R t"
    using settled call next_id_fresh [OF inj ids nonce pre]
    by (auto simp: settled_in_def request_keys_def elim!: settled_kept_other [of _ _ _ "next_id c (id_view s)"])
  ultimately show ?thesis by (simp add: lifecycle_inv_def)
qed

lemma lifecycle_simps [simp]:
  "lifecycle_inv c S R (ch_env_update f1 s) = lifecycle_inv c S R s"
  "lifecycle_inv c S R (ch_feed_update f2 s) = lifecycle_inv c S R s"
  "lifecycle_inv c S R (ch_ledger_update f3 s) = lifecycle_inv c S R s"
  "lifecycle_inv c S R (ch_clients_update f4 s) = lifecycle_inv c S R s"
  "lifecycle_inv c S R (ch_oracle_update f5 s) = lifecycle_inv c S R s"
  "(\<And>x. sec_nonce (f6 x) = sec_nonce x) \<Longrightarrow> lifecycle_inv c S R (ch_security_update f6 s) = lifecycle_inv c S R s"
  by (simp_all add: lifecycle_inv_def ids_ok_def request_keys_def settled_in_def)

lemma nonce_hooks:
  "sec_nonce (security_on_initialize x) = sec_nonce x"
  "begin_block now feed (orc, x) = (orc', x') \<Longrightarrow> sec_nonce x' = sec_nonce x"
  by (auto simp: security_on_initialize_def increment_active_block_def begin_block_def recover_from_oracle_offline_def
      recover_from_def report_oracle_offline_def security_deposit_event_def set_status_def insert_error_def
      remove_error_def Let_def split: if_splits)

lemma lifecycle_initialize_block: "keepsOkM (lifecycle_inv c S R) (initialize_block c' n h)"
proof -
  have "frameM open_view (execute_on_init c')" by (intro frame_intro)
  then have "keepsOkM (lifecycle_inv c S R) (execute_on_init c')"
    by (rule keeps_frame)
       (simp add: lifecycle_inv_def ids_ok_def open_view_def request_keys_def requests_def id_view_def settled_in_def)
  moreover have "keepsOkM (lifecycle_inv c S R) oracle_on_initialize"
    unfolding oracle_on_initialize_def
    by (rule keeps_modify)
       (auto simp: lifecycle_inv_def ids_ok_def request_keys_def settled_in_def nonce_hooks split: prod.splits)
  ultimately show ?thesis
    unfolding initialize_block_def by (intro keeps_bind keeps_modify) (simp_all add: nonce_hooks)
qed

lemma lifecycle_step:
  assumes inj: "inj_on (cfg_sha256 c) S" and inv: "lifecycle_inv c S R s" and "run_step c S s t"
  shows "lifecycle_inv c S R t"
proof -
  have nonce: "sec_nonce (ch_security s) \<noteq> - 1" and "chain_step c s t"
    and pre: "\<And>n. secure_id_preimage ((ch_env s)\<lparr>env_extrinsic_index := Some n\<rparr>) (sec_nonce (ch_security s) + 1) \<in> S"
    using assms(3) by (simp_all add: run_step_def)
  from \<open>chain_step c s t\<close> show ?thesis
  proof cases
    case (extrinsic n ori call r)
    then show ?thesis
    proof (cases rule: apply_extrinsic_cases)
      case 1
      then show ?thesis using inv by simp
    next
      case 2
      show ?thesis by (rule lifecycle_dispatch [OF inj _ _ _ 2(2)]) (simp_all add: inv nonce pre)
    qed
  next
    case (new_block n h)
    then show ?thesis by (rule keepsOkM_D [OF lifecycle_initialize_block inv])
  qed (use inv in \<open>auto simp: set_timestamp_def on_runtime_upgrade_def modifyM_def\<close>)
qed

lemma lifecycle_run: "(run_step c S)\<^sup>*\<^sup>* s t \<Longrightarrow> inj_on (cfg_sha256 c) S \<Longrightarrow> lifecycle_inv c S R s \<Longrightarrow> lifecycle_inv c S R t"
  by (induction rule: rtranclp_induct) (auto intro: lifecycle_step)

section \<open>Settled requests are rejected\<close>

lemma settled_issue_rejected:
  assumes "settled_in (requests s) t" and "is_requests (ch_issue s) j = Some r" and "issue_settled r"
  shows "execute_issue c (Signed y) j b1 b2 b3 t = (Inl (IssueErr IssueCompleted), t) \<and>
    cancel_issue c (Signed y) j t = (Inl (IssueErr IssueCompleted), t)"
proof -
  have "is_requests (ch_issue t) j = Some r" "ir_status r = IssueStatusCompleted"
    using assms by (auto simp: settled_in_def settled_kept_def requests_def issue_settled_def)
  then show ?thesis
    by (simp add: execute_issue_def execute_issue_internal_def cancel_issue_def cancel_issue_internal_def run_defs result_defs
        ensure_signed_def get_executable_issue_request_from_id_def get_pending_issue_def get_issue_request_def)
qed

lemma settled_redeem_rejected:
  assumes "settled_in (requests s) t" and "re_requests (ch_redeem s) j = Some r" and "redeem_settled r"
  shows "(\<exists>e. execute_redeem c (Signed y) j b1 b2 b3 t = (Inl e, t)) \<and> (\<exists>e. cancel_redeem c (Signed y) j b t = (Inl e, t))"
proof -
  have "re_requests (ch_redeem t) j = Some r" "rr_status r \<in> {RedeemStatusCompleted, RedeemRetried, RedeemReimbursed True}"
    using assms by (auto simp: settled_in_def settled_kept_def requests_def redeem_settled_def)
  then show ?thesis
    by (auto simp: execute_redeem_def execute_redeem_internal_def cancel_redeem_def cancel_redeem_internal_def run_defs result_defs
        ensure_signed_def get_open_redeem_request_from_id_def get_redeem_request_def split: sum.splits)
qed

lemma settled_replace_rejected:
  assumes "settled_in (requests s) t" and "rp_requests (ch_replace s) j = Some r" and "replace_settled r"
  shows "execute_replace c (Signed y) j b1 b2 b3 t = (Inl (ReplaceErr ReplaceCompleted), t) \<and>
    cancel_replace c (Signed y) j t = (Inl (ReplaceErr ReplaceCompleted), t)"
proof -
  have "rp_requests (ch_replace t) j = Some r" "rp_status r = ReplaceStatusCompleted"
    using assms by (auto simp: settled_in_def settled_kept_def requests_def replace_settled_def)
  then show ?thesis
    by (simp add: execute_replace_def execute_replace_internal_def cancel_replace_def cancel_replace_internal_def run_defs result_defs
        ensure_signed_def get_open_or_cancelled_replace_request_def get_open_replace_request_def get_replace_request_def)
qed

end
