(* ===== verification/Sample_Chain.thy ===== *)
theory Sample_Chain
  imports Runtime
begin

text \<open>
  A concrete chain at its first block, with the parameters of the sample runtime: one currency pair
  is open, accounts hold some of every currency, and every price is fresh.  The properties with hypotheses are
  evaluated on it.
\<close>

definition sample_pair :: vault_currency_pair where
  "sample_pair = \<lparr>cp_collateral = XCM 0, cp_wrapped = Stellar StellarNative\<rparr>"

definition sample_ledger :: ledger where
  "sample_ledger = \<lparr>lg_free = (\<lambda>_ _. 1000000), lg_reserved = (\<lambda>_ _. 0), lg_issuance = (\<lambda>_. 50000000)\<rparr>"

definition sample_volume :: volume_limit where
  "sample_volume = \<lparr>vl_limit_amount = None, vl_limit_currency = Native, vl_current_amount = 0,
     vl_interval_length = 0, vl_last_interval_index = 0\<rparr>"

definition sample_chain :: "ledger chain" where
  "sample_chain =
     \<lparr>ch_env = \<lparr>env_number = 1, env_timestamp = 1000, env_extrinsic_index = None, env_parent_hash = []\<rparr>,
      ch_feed = sample_price 1000,
      ch_ledger = sample_ledger,
      ch_security = remove_error OracleOffline (security_genesis Running),
      ch_oracle = sample_oracle,
      ch_relay = sample_relay_state,
      ch_staking = staking_genesis,
      ch_pooled = pooled_genesis,
      ch_dist = \<lparr>rd_reward_per_block = None, rd_rewards_adapted_at = None, rd_native_liability = None, rd_events = []\<rparr>,
      ch_fee = fee_genesis 1 1 1 5 10 10,
      ch_registry = registry_genesis [(XCM 0, 0)] 100 [(sample_pair, 10 ^ 9)] [(sample_pair, 150)]
        [(sample_pair, 135)] [(sample_pair, 110)],
      ch_issue = issue_genesis 100 0 sample_volume,
      ch_redeem = redeem_genesis 100 0 sample_volume,
      ch_replace = replace_genesis 100 0,
      ch_nomination = nomination_genesis True,
      ch_clients = \<lparr>ci_current = Map.empty, ci_pending = Map.empty, ci_authorized = {}, ci_events = []\<rparr>\<rparr>"

end
