(* ===== verification/Origins.thy ===== *)
theory Origins
  imports Request_Lifecycle Sample_Chain
begin

text \<open>
  Who may call what: the dispatchables that need the root origin or a signature reject every other origin before
  they touch the storage.
\<close>

section \<open>Origins\<close>

text \<open>The calls that only the root origin may make, and those that need a signature.\<close>

definition privileged :: "runtime_call \<Rightarrow> bool" where
  "privileged call \<longleftrightarrow> (case call of
     StellarRelay _ \<Rightarrow> True
   | SecurityCall _ \<Rightarrow> True
   | OracleCall _ \<Rightarrow> True
   | FeeCall _ \<Rightarrow> True
   | VaultRegistry x \<Rightarrow> (case x of
       call_set_minimum_collateral _ _ \<Rightarrow> True
     | call_set_system_collateral_ceiling _ _ \<Rightarrow> True
     | call_set_secure_collateral_threshold _ _ \<Rightarrow> True
     | call_set_premium_redeem_threshold _ _ \<Rightarrow> True
     | call_set_liquidation_collateral_threshold _ _ \<Rightarrow> True
     | call_set_punishment_delay _ \<Rightarrow> True
     | _ \<Rightarrow> False)
   | IssueCall x \<Rightarrow> (case x of
       call_set_issue_period _ \<Rightarrow> True
     | call_issue_rate_limit_update _ _ _ \<Rightarrow> True
     | call_issue_minimum_transfer_amount_update _ \<Rightarrow> True
     | _ \<Rightarrow> False)
   | RedeemCall x \<Rightarrow> (case x of
       call_set_redeem_period _ \<Rightarrow> True
     | call_redeem_rate_limit_update _ _ _ \<Rightarrow> True
     | call_redeem_minimum_transfer_amount_update _ \<Rightarrow> True
     | _ \<Rightarrow> False)
   | ReplaceCall x \<Rightarrow> (case x of
       call_set_replace_period _ \<Rightarrow> True
     | call_replace_minimum_transfer_amount_update _ \<Rightarrow> True
     | _ \<Rightarrow> False)
   | NominationCall x \<Rightarrow> (case x of call_set_nomination_enabled _ \<Rightarrow> True | _ \<Rightarrow> False)
   | RewardDistribution x \<Rightarrow> (case x of call_set_reward_per_block _ \<Rightarrow> True | _ \<Rightarrow> False)
   | ClientsInfo _ \<Rightarrow> False)"

lemma not_root: "ori \<noteq> Root \<Longrightarrow> ensure_root ori = Inl BadOrigin"
  by (cases ori) (simp_all add: ensure_root_def)

lemma root_call_rejected: "ori \<noteq> Root \<Longrightarrow> transactionalM (bindM (liftM (ensure_root ori)) f) s = (Inl BadOrigin, s)"
  by (simp add: not_root run_defs)

lemma unsigned_call_rejected: "transactionalM (bindM (liftM (ensure_signed NoOrigin)) f) s = (Inl BadOrigin, s)"
  by (simp add: ensure_signed_def run_defs)

lemma zoom_rejected:
  "m (g s) = (Inl e, g s) \<Longrightarrow> u (\<lambda>_. g s) s = s \<Longrightarrow> zoomM g u m s = (Inl e, s)"
  by (simp add: zoomM_def)

lemmas root_defs = set_parachain_status_def insert_parachain_error_def remove_parachain_error_def
  update_tier_1_validator_set_def update_oracle_keys_def set_max_delay_def set_issue_fee_def
  set_issue_griefing_collateral_def set_redeem_fee_def set_premium_redeem_fee_def set_punishment_fee_def
  set_replace_griefing_collateral_def set_fee_def set_minimum_collateral_def set_system_collateral_ceiling_def
  set_secure_collateral_threshold_def set_premium_redeem_threshold_def set_liquidation_collateral_threshold_def
  set_punishment_delay_def set_issue_period_def issue_rate_limit_update_def issue_minimum_transfer_amount_update_def
  set_redeem_period_def redeem_rate_limit_update_def redeem_minimum_transfer_amount_update_def
  set_replace_period_def replace_minimum_transfer_amount_update_def set_nomination_enabled_def set_reward_per_block_def

lemma rejected_privileged:
  assumes "ori \<noteq> Root" and "privileged call"
  shows "dispatch c ori call s = (Inl BadOrigin, s)"
  using assms(2)
proof (cases call)
  case (StellarRelay x)
  then show ?thesis
    using assms(1) by (cases x) (auto simp: dispatch_defs root_defs root_call_rejected intro!: zoom_rejected)
next
  case (SecurityCall x)
  then show ?thesis
    using assms(1) by (cases x) (auto simp: dispatch_defs root_defs root_call_rejected intro!: zoom_rejected)
next
  case (OracleCall x)
  then show ?thesis
    using assms(1) by (cases x) (auto simp: dispatch_defs root_defs root_call_rejected intro!: zoom_rejected)
next
  case (VaultRegistry x)
  then show ?thesis
    using assms by (cases x) (simp_all add: dispatch_defs root_defs root_call_rejected privileged_def)
next
  case (IssueCall x)
  then show ?thesis
    using assms by (cases x) (simp_all add: dispatch_defs root_defs root_call_rejected privileged_def)
next
  case (RedeemCall x)
  then show ?thesis
    using assms by (cases x) (simp_all add: dispatch_defs root_defs root_call_rejected privileged_def)
next
  case (ReplaceCall x)
  then show ?thesis
    using assms by (cases x) (simp_all add: dispatch_defs root_defs root_call_rejected privileged_def)
next
  case (FeeCall x)
  then show ?thesis
    using assms by (cases x) (simp_all add: dispatch_defs root_defs root_call_rejected privileged_def)
next
  case (NominationCall x)
  then show ?thesis
    using assms by (cases x) (simp_all add: dispatch_defs root_defs root_call_rejected privileged_def)
next
  case (RewardDistribution x)
  then show ?thesis
    using assms by (cases x) (simp_all add: dispatch_defs root_defs root_call_rejected privileged_def)
qed (simp add: privileged_def)

lemmas signed_defs = register_vault_def deposit_collateral_def withdraw_collateral_def register_public_key_def
  accept_new_issues_def set_custom_secure_threshold_def recover_vault_id_def request_issue_def execute_issue_def
  cancel_issue_def request_redeem_def liquidation_redeem_def execute_redeem_def cancel_redeem_def
  mint_tokens_for_reimbursed_redeem_def self_redeem_def request_replace_def withdraw_replace_def accept_replace_def
  execute_replace_def cancel_replace_def opt_in_to_nomination_def opt_out_of_nomination_def
  nom_deposit_collateral_def nom_withdraw_collateral_def collect_reward_def

lemma rejected_clients_info: "dispatch_clients_info NoOrigin x s = (Inl BadOrigin, s)"
  by (cases x) (simp_all add: dispatch_clients_info_def set_current_client_release_def set_pending_client_release_def
      authorize_account_def deauthorize_account_def check_origin_rights_def check_non_root_rights_def
      ensure_root_def ensure_signed_def run_defs)

lemma rejected_unsigned:
  assumes "\<And>i. call \<noteq> VaultRegistry (call_report_undercollateralized_vault i)" and "\<not> privileged call"
  shows "dispatch c NoOrigin call s = (Inl BadOrigin, s)"
  using assms(2)
proof (cases call)
  case (VaultRegistry x)
  then show ?thesis
    using assms by (cases x) (simp_all add: dispatch_defs signed_defs unsigned_call_rejected privileged_def)
next
  case (IssueCall x)
  then show ?thesis
    using assms(2) by (cases x) (simp_all add: dispatch_defs signed_defs unsigned_call_rejected privileged_def)
next
  case (RedeemCall x)
  then show ?thesis
    using assms(2) by (cases x) (simp_all add: dispatch_defs signed_defs unsigned_call_rejected privileged_def)
next
  case (ReplaceCall x)
  then show ?thesis
    using assms(2) by (cases x) (simp_all add: dispatch_defs signed_defs unsigned_call_rejected privileged_def)
next
  case (NominationCall x)
  then show ?thesis
    using assms(2) by (cases x) (simp_all add: dispatch_defs signed_defs unsigned_call_rejected privileged_def)
next
  case (RewardDistribution x)
  then show ?thesis
    using assms(2) by (cases x) (simp_all add: dispatch_defs signed_defs unsigned_call_rejected privileged_def)
next
  case (ClientsInfo x)
  then show ?thesis by (auto simp: dispatch_def rejected_clients_info intro!: zoom_rejected)
qed (simp_all add: privileged_def)



end
