(* ===== verification/Payments.thy ===== *)
theory Payments
  imports Request_Lifecycle Sample_Chain
begin

text \<open>
  What the two ends of the bridge exchange: the issuance of a wrapped currency changes with the payments on
  Stellar that the chain accepts a proof of, at most by what was paid when tokens are issued, and at least as much was
  paid when tokens are redeemed.  Also what recovering a liquidated vault leaves behind.
\<close>

section \<open>The supply of a currency\<close>

definition supply_of :: "'l config \<Rightarrow> currency \<Rightarrow> 'l chain \<Rightarrow> int" where
  "supply_of c k s = led_issuance (cfg_ledger c) (ch_ledger s) k"

lemma keeps_supply_frame: "frameM ch_ledger m \<Longrightarrow> keepsOkM (\<lambda>s. supply_of c k s = n) m"
  by (erule keeps_frame) (simp add: supply_of_def)

lemma keeps_supply_ledger:
  assumes "ledger_laws (cfg_ledger c)"
  shows "keepsOkM (\<lambda>s. supply_of c k s = n) (on_ledger (transfer c a y z))"
    and "keepsOkM (\<lambda>s. supply_of c k s = n) (on_ledger (lock_on c a y))"
    and "keepsOkM (\<lambda>s. supply_of c k s = n) (on_ledger (unlock_on c a y))"
    and "keepsOkM (\<lambda>s. supply_of c k s = n) (on_ledger (on_sweep c y a))"
  unfolding on_sweep_def
  by (auto simp: keepsOkM_def ok_iff supply_of_def transfer_ok(2) [OF assms] lock_on_ok(2) [OF assms]
      unlock_on_ok(2) [OF assms])

lemma triple_supply_mint:
  assumes "ledger_laws (cfg_ledger c)"
  shows "tripleM (\<lambda>s. supply_of c k s = n) (on_ledger (mint_to c a y)) (\<lambda>_ s. supply_of c k s = n + of_currency k a)"
  by (auto simp: tripleM_def ok_iff supply_of_def of_currency_def mint_to_ok(1) [OF assms])

lemma triple_supply_burn:
  assumes "ledger_laws (cfg_ledger c)"
  shows "tripleM (\<lambda>s. supply_of c k s = n) (on_ledger (burn_from c a y)) (\<lambda>_ s. supply_of c k s = n - of_currency k a)"
  by (auto simp: tripleM_def ok_iff supply_of_def of_currency_def burn_from_ok(2) [OF assms])

lemma keeps_supply_collateral:
  assumes laws: "ledger_laws (cfg_ledger c)"
  shows "keepsOkM (\<lambda>s. supply_of c k s = n) (try_deposit_collateral c i a)"
    and "keepsOkM (\<lambda>s. supply_of c k s = n) (slash_backing_collateral c i a)"
  unfolding try_deposit_collateral_def slash_backing_collateral_def
  by (intro keeps_intro keeps_supply_ledger laws; rule keeps_supply_frame, intro frame_intro)+

lemma keeps_supply_funds:
  assumes laws: "ledger_laws (cfg_ledger c)"
  shows "keepsOkM (\<lambda>s. supply_of c k s = n) (take_funds c x a)" and "keepsOkM (\<lambda>s. supply_of c k s = n) (put_funds c x a)"
  by (cases x; simp only: take_funds.simps put_funds.simps;
      intro keeps_intro keeps_supply_collateral keeps_supply_ledger laws; rule keeps_supply_frame, intro frame_intro)+

lemma keeps_supply_moves:
  assumes laws: "ledger_laws (cfg_ledger c)"
  shows "keepsOkM (\<lambda>s. supply_of c k s = n) (transfer_funds c x y a)"
    and "keepsOkM (\<lambda>s. supply_of c k s = n) (fee_distribute_rewards c a)"
  unfolding transfer_funds_def fee_distribute_rewards_def
  by (intro keeps_intro keeps_supply_funds keeps_supply_ledger laws; (rule keeps_supply_frame, intro frame_intro)?)+

lemma keeps_supply_redeem_tokens:
  assumes laws: "ledger_laws (cfg_ledger c)"
  shows "keepsOkM (\<lambda>s. supply_of c k s = n) (redeem_tokens c i a b y)"
  unfolding redeem_tokens_def
  by (intro keeps_intro keeps_supply_moves keeps_supply_ledger laws; rule keeps_supply_frame, intro frame_intro)

lemma frame_ledger_storage [frame_intro]:
  "frameM ch_ledger (issue_deposit_event e1)" "frameM ch_ledger (mutate_issue_request j f)"
  "frameM ch_ledger (set_issue_status j st1)" "frameM ch_ledger (redeem_deposit_event e2)"
  "frameM ch_ledger (set_redeem_status j st2)"
  "frameM ch_ledger (increase_interval_volume c issue_volume issue_volume_update a)"
  "frameM ch_ledger (increase_interval_volume c redeem_volume redeem_volume_update a)"
  unfolding issue_deposit_event_def mutate_issue_request_def set_issue_status_def redeem_deposit_event_def
    set_redeem_status_def increase_interval_volume_def
  by (intro frame_intro; simp)+

lemma keeps_supply_issue_amounts:
  assumes laws: "ledger_laws (cfg_ledger c)"
  shows "keepsOkM (\<lambda>s. supply_of c k s = n) (handle_issue_requests c y j r a)"
proof -
  have 1: "keepsOkM (\<lambda>s. supply_of c k s = n) (set_issue_amount c j r a b)" for r a b
    unfolding set_issue_amount_def by (rule keeps_supply_frame, intro frame_intro)
  have 2: "keepsOkM (\<lambda>s. supply_of c k s = n) (decrease_issue_amount c j r a b)" for r a b
    unfolding decrease_issue_amount_def
    by (intro keeps_intro 1 keeps_supply_moves laws; rule keeps_supply_frame, intro frame_intro)
  have 3: "keepsOkM (\<lambda>s. supply_of c k s = n) (try_increase_issue_amount c j r a b)" for r a b
    unfolding try_increase_issue_amount_def by (intro keeps_intro 1; rule keeps_supply_frame, intro frame_intro)
  show ?thesis
    unfolding handle_issue_requests_def Let_def
    by (cases "ir_status r"; simp; intro keeps_intro 1 2 3 keeps_supply_ledger laws; rule keeps_supply_frame, intro frame_intro)
qed

lemma triple_run: "tripleM P m Q \<Longrightarrow> P s \<Longrightarrow> m s = (Inr r, t) \<Longrightarrow> Q r t"
  by (simp add: tripleM_def)

lemma set_issue_amount_total:
  assumes "set_issue_amount c j r a b s = (Inr r', t)"
  shows "ir_asset r' = ir_asset r \<and> ir_amount r' + ir_fee r' = amt a"
  using assms by (auto simp: set_issue_amount_def ok_iff Let_def issue_fee_def)

lemma no_outcome: "\<forall>e. y \<noteq> Inl e \<Longrightarrow> y = Inr ()"
  by (cases y) auto

lemma try_increase_issue_amount_total:
  assumes "try_increase_issue_amount c j r a b s = (Inr r', t)" and "amt b = ir_amount r + ir_fee r"
  shows "ir_asset r' = ir_asset r \<and> ir_amount r' + ir_fee r' \<le> amt a"
  using assms
  by (auto simp: try_increase_issue_amount_def ok_iff split: sum.splits if_splits dest!: set_issue_amount_total
      dest: no_outcome)

lemma decrease_issue_amount_total:
  assumes "decrease_issue_amount c j r a b s = (Inr z, t)"
  shows "ir_asset (fst z) = ir_asset r \<and> ir_amount (fst z) + ir_fee (fst z) = amt a"
  using assms by (auto simp: decrease_issue_amount_def bindM_ok liftM_ok retM_ok checked_sub_ok
      dest!: set_issue_amount_total)

lemma handle_issue_requests_total:
  assumes "handle_issue_requests c y j r paid s = (Inr r', t)"
  shows "ir_asset r' = ir_asset r \<and> ir_amount r' + ir_fee r' \<le> amt paid \<and>
    (amt paid = ir_amount r + ir_fee r \<longrightarrow> ir_amount r' + ir_fee r' = amt paid)"
proof (cases "ir_status r")
  case IssuePending
  let ?tot = "\<lparr>amt = ir_amount r + ir_fee r, cur = ir_asset r\<rparr>"
  obtain z u where r': "r' = fst z"
    and step: "(if amt paid < ir_amount r + ir_fee r
      then bindM (ensureM (ir_requester r = y) (IssueErr InvalidExecutor)) (\<lambda>_. decrease_issue_amount c j r paid ?tot)
      else bindM (liftM (amount_gt paid ?tot)) (\<lambda>greater.
        bindM (if greater then bindM (queryM (is_vault_liquidated (ir_vault r))) (\<lambda>liquidated.
            if \<not> liquidated then try_increase_issue_amount c j r paid ?tot else retM r) else retM r)
          (\<lambda>issue1. retM (issue1, issue_griefing_collateral c issue1)))) s = (Inr z, u)"
    using assms IssuePending
    by (auto simp: handle_issue_requests_def bindM_ok liftM_ok retM_ok Let_def checked_add_ok amount_compare_ok
        issue_amount_def issue_fee_def)
  show ?thesis
  proof (cases "amt paid < ir_amount r + ir_fee r")
    case True
    then show ?thesis
      using step r' by (auto simp: bindM_ok ensureM_ok dest!: decrease_issue_amount_total)
  next
    case False
    then show ?thesis
      using step r'
      by (auto simp: bindM_ok liftM_ok retM_ok queryM_ok amount_compare_ok split: if_splits
          dest: try_increase_issue_amount_total)
  qed
qed (use assms in \<open>auto simp: handle_issue_requests_def ok_iff Let_def issue_amount_def issue_fee_def
  split: if_splits dest!: set_issue_amount_total\<close>)

lemma triple_supply_issue:
  assumes "ledger_laws (cfg_ledger c)"
  shows "tripleM (\<lambda>s. supply_of c k s = n) (bindM (issue_tokens i tot) (\<lambda>_. bindM (on_ledger (mint_to c a y)) (\<lambda>_.
      bindM (increase_interval_volume c issue_volume issue_volume_update a) (\<lambda>_.
      bindM (on_ledger (mint_to c b z)) (\<lambda>_. bindM (fee_distribute_rewards c b) (\<lambda>_.
      bindM (set_issue_status j st) (\<lambda>_. issue_deposit_event e)))))))
    (\<lambda>_ s. supply_of c k s = n + of_currency k a + of_currency k b)"
  by (rule triple_then, rule keeps_supply_frame, intro frame_intro, rule triple_bind, rule triple_supply_mint [OF assms],
      rule triple_then, rule keeps_supply_frame, intro frame_intro, rule triple_bind, rule triple_supply_mint [OF assms],
      rule triple_keeps, intro keeps_intro keeps_supply_moves assms; rule keeps_supply_frame, intro frame_intro)

text \<open>
  C2: an issue request is executed only on the proof of a payment on Stellar, and then the
  issuance of its currency grows by no more than that payment paid to the vault, by exactly that
  much if the request asked for it; the issuance of every other currency stays as it is.
\<close>

theorem issue_mints_at_most_paid:
  assumes laws: "ledger_laws (cfg_ledger c)"
    and run: "execute_issue c ori j tx envs txset s = (Inr (), t)"
  shows "\<exists>r e paid n. get_executable_issue_request_from_id j s = Inr r \<and>
    issue_validate_stellar_transaction c j tx envs txset s = Inr e \<and>
    get_amount_from_transaction_envelope e (ir_stellar_address r) (ir_asset r) = Inr paid \<and>
    n \<le> amt paid \<and> (amt paid = ir_amount r + ir_fee r \<longrightarrow> n = amt paid) \<and>
    (\<forall>k. supply_of c k t = supply_of c k s + (if k = ir_asset r then int n else 0))"
proof -
  obtain y r e paid r' tot u where ok: "get_executable_issue_request_from_id j s = Inr r"
      "issue_validate_stellar_transaction c j tx envs txset s = Inr e"
      "get_amount_from_transaction_envelope e (ir_stellar_address r) (ir_asset r) = Inr paid"
    and total: "handle_issue_requests c y j r paid s = (Inr r', u)"
    and sum: "checked_add (issue_amount r') (issue_fee r') = Inr tot"
    and rest: "bindM (issue_tokens (ir_vault r') tot) (\<lambda>_.
      bindM (on_ledger (mint_to c (issue_amount r') (ir_requester r))) (\<lambda>_.
      bindM (increase_interval_volume c issue_volume issue_volume_update (issue_amount r')) (\<lambda>_.
      bindM (on_ledger (mint_to c (issue_fee r') (cfg_fee_account c))) (\<lambda>_.
      bindM (fee_distribute_rewards c (issue_fee r')) (\<lambda>_.
      bindM (set_issue_status j IssueStatusCompleted) (\<lambda>_.
      issue_deposit_event (ExecuteIssue j (ir_requester r) (ir_vault r') (amt tot) (cur tot) (ir_fee r')))))))) u
        = (Inr (), t)"
    using run by (auto simp: execute_issue_def execute_issue_internal_def Let_def transactionalM_ok bindM_ok liftM_ok queryM_ok)
  have "supply_of c k t = supply_of c k s + of_currency k (issue_amount r') + of_currency k (issue_fee r')" for k
  proof -
    have "supply_of c k u = supply_of c k s"
      using keeps_supply_issue_amounts [OF laws, THEN keepsOkM_D] total by blast
    from triple_run [OF triple_supply_issue [OF laws] this rest] show ?thesis
      by simp
  qed
  moreover have "ir_asset r' = ir_asset r" "ir_amount r' + ir_fee r' \<le> amt paid"
    "amt paid = ir_amount r + ir_fee r \<longrightarrow> ir_amount r' + ir_fee r' = amt paid"
    using handle_issue_requests_total [OF total] by simp_all
  ultimately show ?thesis
    using ok by (auto simp: of_currency_def issue_amount_def issue_fee_def intro!: exI [of _ "ir_amount r' + ir_fee r'"])
qed

lemma bind_check_ok:
  "bindM (liftM x) f s = (Inr r, t) \<longleftrightarrow> (\<exists>y. x = Inr y \<and> f y s = (Inr r, t))"
  "bindM (queryM q) f s = (Inr r, t) \<longleftrightarrow> (\<exists>y. q s = Inr y \<and> f y s = (Inr r, t))"
  "bindM (ensureM b e) g s = (Inr r, t) \<longleftrightarrow> b \<and> g () s = (Inr r, t)"
  by (auto simp: ok_iff)

lemma triple_supply_redeem:
  assumes laws: "ledger_laws (cfg_ledger c)"
  shows "tripleM (\<lambda>s. supply_of c k s = n) (bindM (on_ledger (burn_from c a y)) (\<lambda>_.
      bindM (increase_interval_volume c redeem_volume redeem_volume_update a) (\<lambda>_.
      bindM (on_ledger (unlock_on c b y)) (\<lambda>_. bindM (on_ledger (transfer c b y z)) (\<lambda>_.
      bindM (fee_distribute_rewards c b) (\<lambda>_. bindM (redeem_tokens c i a p y) (\<lambda>_.
      bindM (set_redeem_status j st) (\<lambda>_. redeem_deposit_event e))))))))
    (\<lambda>_ s. supply_of c k s = n - of_currency k a)"
  by (rule triple_bind, rule triple_supply_burn [OF laws], rule triple_keeps,
      intro keeps_intro keeps_supply_ledger keeps_supply_moves keeps_supply_redeem_tokens laws;
      rule keeps_supply_frame, intro frame_intro)

text \<open>
  C3: a redeem request is executed only on the proof of a payment on Stellar of at least
  the amount of the request, and then the issuance of its currency shrinks by that amount and the
  transfer fee; the issuance of every other currency stays as it is.
\<close>

theorem redeem_burns_what_was_paid:
  assumes laws: "ledger_laws (cfg_ledger c)"
    and run: "execute_redeem c ori j tx envs txset s = (Inr (), t)"
  shows "\<exists>r e paid. get_open_redeem_request_from_id j s = Inr r \<and>
    validated_payment c j tx envs txset s = Inr e \<and>
    get_amount_from_transaction_envelope e (rr_stellar_address r) (rr_asset r) = Inr paid \<and>
    rr_amount r \<le> amt paid \<and>
    (\<forall>k. supply_of c k t = supply_of c k s -
       (if k = rr_asset r then int (rr_amount r) + int (rr_transfer_fee r) else 0))"
proof -
  obtain r e paid enough a where ok: "get_open_redeem_request_from_id j s = Inr r" "validated_payment c j tx envs txset s = Inr e"
      "get_amount_from_transaction_envelope e (rr_stellar_address r) (rr_asset r) = Inr paid"
    and enough: "amount_ge paid (redeem_amount r) = Inr enough" enough
    and sum: "checked_add (redeem_amount r) (redeem_transfer_fee r) = Inr a"
    and rest: "bindM (on_ledger (burn_from c a (rr_redeemer r))) (\<lambda>_.
      bindM (increase_interval_volume c redeem_volume redeem_volume_update a) (\<lambda>_.
      bindM (on_ledger (unlock_on c (redeem_fee r) (rr_redeemer r))) (\<lambda>_.
      bindM (on_ledger (transfer c (redeem_fee r) (rr_redeemer r) (cfg_fee_account c))) (\<lambda>_.
      bindM (fee_distribute_rewards c (redeem_fee r)) (\<lambda>_.
      bindM (redeem_tokens c (rr_vault r) a (redeem_premium r) (rr_redeemer r)) (\<lambda>_.
      bindM (set_redeem_status j RedeemStatusCompleted) (\<lambda>_.
      redeem_deposit_event (ExecuteRedeem j (rr_redeemer r) (rr_vault r) (rr_amount r) (rr_asset r) (rr_fee r)
        (rr_transfer_fee r))))))))) s = (Inr (), t)"
    using run unfolding execute_redeem_def execute_redeem_internal_def Let_def transactionalM_ok bind_check_ok
    by (elim exE conjE) (rule that, assumption+)
  have "supply_of c k t = supply_of c k s - of_currency k a" for k
    by (rule triple_run [OF triple_supply_redeem [OF laws, where n = "supply_of c k s" and k = k]]) (rule refl, rule rest)
  moreover have "a = \<lparr>amt = rr_amount r + rr_transfer_fee r, cur = rr_asset r\<rparr>"
    using sum by (simp add: ok_iff redeem_amount_def redeem_transfer_fee_def)
  ultimately show ?thesis
    using ok enough by (auto simp: of_currency_def amount_compare_ok redeem_amount_def)
qed

section \<open>Recovering a vault\<close>

definition registered :: "'l chain \<Rightarrow> 'l chain \<Rightarrow> bool" where
  "registered s t \<longleftrightarrow> (ch_issue s, ch_registry s) = (ch_issue t, ch_registry t)"

lemma keeps_registered [keeps_intro]: "keepsOkM (registered t) (on_ledger m)"
  by (rule keeps_frame [OF frame_zoom, of "\<lambda>s. (ch_issue s, ch_registry s)"]) (auto simp: registered_def)

lemma keeps_registered_griefing [keeps_intro]:
  "keepsOkM (registered t) (transfer_funds c (UserGriefing x) (FreeBalance y) a)"
  unfolding transfer_funds_def take_funds.simps put_funds.simps by (intro keeps_intro)

lemma recover_vault_id_ok:
  assumes "tokens_ok s" and "recover_vault_id (Signed y) p s = (Inr (), t)"
  obtains v where "vr_vaults (ch_registry t) (new_vault_id y (cp_collateral p) (cp_wrapped p)) = Some v"
    and "\<not> is_liquidated v" and "v_to_be_issued v = 0"
  using assms
  by (auto simp: recover_vault_id_def ok_iff Let_def tokens_ok_def keys_ok_def vault_ok_def is_vault_liquidated_def
      get_vault_from_id_def ensure_signed_def rv_set_accept_new_issues_def rv_update_def is_liquidated_def split: if_splits)

text \<open>
  C35: when a liquidated vault recovers, the tokens to be issued that its pending issue
  requests count on stay with the liquidation vault, so right after the recovery no such request
  can be cancelled, by anyone and even after its deadline.
\<close>

theorem recovered_vault_strands_issues:
  assumes "tokens_ok s" and "recover_vault_id (Signed y) p s = (Inr (), t)"
    and "get_pending_issue j t = Inr r" and "ir_vault r = new_vault_id y (cp_collateral p) (cp_wrapped p)"
    and "0 < ir_amount r + ir_fee r"
  shows "\<exists>e. cancel_issue c ori j t = (Inl e, t)"
proof -
  obtain v where v: "vr_vaults (ch_registry t) (ir_vault r) = Some v" "\<not> is_liquidated v" "v_to_be_issued v = 0"
    using recover_vault_id_ok [OF assms(1,2)] assms(4) by metis
  have stuck: "tripleM (registered t) (decrease_to_be_issued_tokens (ir_vault r) full) (\<lambda>_ _. False)" if "0 < amt full" for full
    using v that
    by (auto simp: tripleM_def registered_def decrease_to_be_issued_tokens_def rv_decrease_to_be_issued_def ok_iff
        get_vault_from_id_def to_be_issued_tokens_def)
  have "tripleM (registered t) (cancel_issue c ori j) (\<lambda>_ _. False)"
    unfolding cancel_issue_def cancel_issue_internal_def Let_def
  proof (rule triple_transactional, rule triple_lift, rule triple_query_fact [where F = "\<lambda>y. y = r"])
    show "y = r" if "registered t s" "get_pending_issue j s = Inr y" for y s
      using that assms(3) by (simp add: registered_def get_pending_issue_def get_issue_request_def)
  qed (hypsubst, rule triple_getM, rule triple_queryM, rule triple_then, intro keeps_intro, rule triple_queryM, rule triple_then,
      intro keeps_intro, rule triple_lift, rule triple_bind, rule stuck,
      use assms(5) in \<open>auto simp: ok_iff issue_amount_def issue_fee_def tripleM_def\<close>)
  then show ?thesis
    using transactionalM_error unfolding cancel_issue_def
    by (cases "cancel_issue c ori j t"; cases "fst (cancel_issue c ori j t)")
      (auto simp: tripleM_def registered_def cancel_issue_def)
qed

section \<open>A payment\<close>

text \<open>
  The sample chain with one vault, an issue and a redeem request of it, and a relay library that decodes every
  payment proof to a payment of one stroop to account 5 on Stellar, confirmed by three validators.
\<close>

definition paid_id :: request_id where
  "paid_id = replicate 32 7"

definition sample_payment :: transaction_envelope where
  "sample_payment = EnvelopeTypeTx
     \<lparr>tx_source = [], tx_seq_num = 1, tx_memo = MemoText (replicate 28 7),
      tx_operations = [Payment \<lparr>po_destination = KeyTypeEd25519 [5], po_asset = AssetTypeNative, po_amount = 1\<rparr>]\<rparr>"

definition paid_config :: "ledger config" where
  "paid_config = sample_config\<lparr>cfg_relay := sample_relay\<lparr>
     rel_transaction_envelope_from_xdr := (\<lambda>_. Some sample_payment),
     rel_scp_envelopes_from_xdr := (\<lambda>_. Some [sample_envelope 1, sample_envelope 2, sample_envelope 3]),
     rel_txes := (\<lambda>_. [sample_payment]), rel_get_hash := (\<lambda>_ _. [])\<rparr>\<rparr>"

definition sample_issue :: issue_request where
  "sample_issue = \<lparr>ir_vault = sample_vault, ir_opentime = 1, ir_period = 100, ir_griefing_collateral = 0,
     ir_amount = 100000, ir_asset = Stellar StellarNative, ir_fee = 0, ir_requester = 2, ir_stellar_address = [5],
     ir_status = IssuePending\<rparr>"

definition sample_redeem :: redeem_request where
  "sample_redeem = \<lparr>rr_vault = sample_vault, rr_opentime = 1, rr_period = 100, rr_fee = 0, rr_transfer_fee = 0,
     rr_amount = 100000, rr_asset = Stellar StellarNative, rr_premium = 0, rr_redeemer = 2, rr_stellar_address = [5],
     rr_status = RedeemPending\<rparr>"

definition vault_entry :: "vault_status \<Rightarrow> balance \<Rightarrow> vault" where
  "vault_entry st n = \<lparr>v_id = sample_vault, v_status = st, v_banned_until = None, v_secure_threshold = None,
     v_to_be_issued = n, v_issued = n, v_to_be_redeemed = n, v_to_be_replaced = 0, v_replace_collateral = 0,
     v_active_replace_collateral = 0, v_liquidated_collateral = 0\<rparr>"

definition chain_with :: "vault \<Rightarrow> ledger chain" where
  "chain_with v = sample_chain
    \<lparr>ch_registry := (ch_registry sample_chain)\<lparr>vr_vaults := [sample_vault \<mapsto> v]\<rparr>,
     ch_issue := (ch_issue sample_chain)\<lparr>is_requests := [paid_id \<mapsto> sample_issue]\<rparr>,
     ch_redeem := (ch_redeem sample_chain)\<lparr>re_requests := [paid_id \<mapsto> sample_redeem]\<rparr>,
     ch_ledger := (ch_ledger sample_chain)\<lparr>lg_reserved := (\<lambda>_ _. 1000000)\<rparr>\<rparr>"

lemma paid_laws: "ledger_laws (cfg_ledger paid_config)"
  by (simp add: paid_config_def sample_laws)

lemmas paid_defs = paid_config_def sample_payment_def paid_id_def chain_with_def vault_entry_def sample_issue_def
  sample_redeem_def

lemma paid_sel [simp]:
  "cfg_ledger paid_config = ledger_impl" "cfg_to_base58 paid_config = (\<lambda>bs. bs)" "cfg_fee_account paid_config = 1000"
  "cfg_griefing_currency paid_config = Native" "cfg_signed paid_config = fixed_i128"
  by (simp_all add: paid_config_def sample_config_def)

lemma paid_validation:
  "decode_payment_proof paid_config [] [] [9] =
     Inr (sample_payment, [sample_envelope 1, sample_envelope 2, sample_envelope 3], [9])"
  "validate_on_chain paid_config sample_payment [sample_envelope 1, sample_envelope 2, sample_envelope 3] [9]
     (chain_with v) = Inr ()"
   apply (simp add: decode_payment_proof_def construct_from_raw_encoded_xdr_def result_defs paid_config_def sample_relay_def sample_config_def Let_def)
  apply (simp add: validate_on_chain_def sample_chain_def paid_config_def chain_with_def validate_stellar_transaction_def
      envelope_set_check_holds validators_and_orgs_def is_externalize_def get_externalized_info_def
      check_for_valid_quorum_set_def validator_count_per_org_def targeted_organization_map_def targeted_validators_def
      count_keys_def is_node_id_exist_def verify_signature_def get_tx_set_hash_def u32_max_def sample_relay_defs Let_def)
  done

lemma paid_memo: "get_text_memo_from_tx_env sample_payment = Some (take 28 paid_id)" "\<not> length paid_id < 28"
  by (simp_all add: sample_payment_def paid_id_def)

lemma paid_accepted:
  "issue_validate_stellar_transaction paid_config paid_id [] [] [9] (chain_with v) = Inr sample_payment"
  "validated_payment paid_config paid_id [] [] [9] (chain_with v) = Inr sample_payment"
  by (simp_all add: issue_validate_stellar_transaction_def validated_payment_def paid_validation result_defs
      ensure_transaction_memo_matches_hash_def derive_shortened_request_id_def ensure_transaction_memo_matches_def
      paid_memo Let_def)

lemma sample_paid:
  "get_amount_from_transaction_envelope sample_payment [5] (Stellar StellarNative) =
     Inr \<lparr>amt = 100000, cur = Stellar StellarNative\<rparr>"
  by (simp add: sample_payment_def get_amount_from_transaction_envelope_def asset_lookup_def add_operation_def
      balance_unlookup_def stellar_stroops_to_u128_def new_amount_def Let_def saturating_add_i64_def result_defs
      DECIMALS_CONVERSION_RATE_def CHAIN_DECIMALS_def STELLAR_DECIMALS_def)

lemma nothing_staked: "ch_pooled s = pooled_genesis \<Longrightarrow>
   fee_distribute_rewards c \<lparr>amt = 0, cur = k\<rparr> s = (Inr (), s)"
  by (simp add: fee_distribute_rewards_def distribute_def Reward_Distribution.distribute_rewards_def run_defs
    get_total_stake_all_pools_def pooled_genesis_def is_zero_def new_amount_def)

lemma chain_with_sel [simp]:
  "vr_vaults (ch_registry (chain_with v)) = [sample_vault \<mapsto> v]"
  "is_requests (ch_issue (chain_with v)) = [paid_id \<mapsto> sample_issue]"
  "is_volume (ch_issue (chain_with v)) = sample_volume"
  "re_requests (ch_redeem (chain_with v)) = [paid_id \<mapsto> sample_redeem]"
  "re_volume (ch_redeem (chain_with v)) = sample_volume"
  "lg_reserved (ch_ledger (chain_with v)) = (\<lambda>_ _. 1000000)"
  "lg_free (ch_ledger (chain_with v)) = (\<lambda>_ _. 1000000)"
  "lg_issuance (ch_ledger (chain_with v)) = (\<lambda>_. 50000000)"
  "ch_pooled (chain_with v) = pooled_genesis"
  by (simp_all add: chain_with_def sample_chain_def issue_genesis_def redeem_genesis_def sample_ledger_def)

lemmas paid_run_defs = run_defs result_defs Let_def ensure_signed_def amount_defs is_liquidated_def
  get_vault_from_id_def issue_amount_def issue_fee_def issue_griefing_collateral_def issue_tokens_def
  rv_execute_issue_tokens_def rv_decrease_to_be_issued_def rv_increase_issued_def rv_update_def put_vault_def
  to_be_issued_tokens_def issued_tokens_def registry_deposit_event_def mint_to_def unlock_on_def
  increase_interval_volume_def set_issue_status_def mutate_issue_request_def issue_deposit_event_def
  checked_add_w_def checked_sub_n_def ledger_impl_def move_def sample_volume_def vault_entry_def

lemma issue_paid:
  "fst (execute_issue paid_config (Signed 3) paid_id [] [] [9] (chain_with (vault_entry (VaultActive True) 100000))) = Inr ()"
  by (simp add: execute_issue_def execute_issue_internal_def paid_accepted 
    get_executable_issue_request_from_id_def get_issue_request_def handle_issue_requests_def sample_issue_def sample_paid nothing_staked paid_run_defs)

lemma redeem_paid:
  "fst (execute_redeem paid_config (Signed 3) paid_id [] [] [9] (chain_with (vault_entry (VaultActive True) 100000))) = Inr ()"
  by (simp add: execute_redeem_def execute_redeem_internal_def paid_accepted get_open_redeem_request_from_id_def
      get_redeem_request_def sample_redeem_def redeem_amount_def redeem_transfer_fee_def redeem_fee_def redeem_premium_def
      redeem_tokens_def rv_execute_redeem_tokens_def rv_decrease_to_be_redeemed_def rv_decrease_issued_def
      to_be_redeemed_tokens_def set_redeem_status_def redeem_deposit_event_def burn_from_def transfer_def
      ledger_transfer_impl_def sample_paid nothing_staked paid_run_defs)

theorem issue_mints_at_most_paid_witness:
  "let s = chain_with (vault_entry (VaultActive True) 100000);
     t = snd (execute_issue paid_config (Signed 3) paid_id [] [] [9] s)
   in supply_of paid_config (Stellar StellarNative) t = supply_of paid_config (Stellar StellarNative) s + 100000 \<and>
      supply_of paid_config Native t = supply_of paid_config Native s"
  unfolding Let_def using issue_mints_at_most_paid [OF paid_laws run_pair [OF issue_paid]]
  by (auto simp: get_executable_issue_request_from_id_def get_issue_request_def result_defs sample_issue_def sample_paid
      paid_accepted)

theorem redeem_burns_what_was_paid_witness:
  "let s = chain_with (vault_entry (VaultActive True) 100000);
     t = snd (execute_redeem paid_config (Signed 3) paid_id [] [] [9] s)
   in supply_of paid_config (Stellar StellarNative) t = supply_of paid_config (Stellar StellarNative) s - 100000 \<and>
      supply_of paid_config Native t = supply_of paid_config Native s"
  unfolding Let_def using redeem_burns_what_was_paid [OF paid_laws run_pair [OF redeem_paid]]
  by (auto simp: get_open_redeem_request_from_id_def get_redeem_request_def result_defs sample_redeem_def sample_paid
      paid_accepted)

lemma liquidated_tokens_ok: "tokens_ok (chain_with (vault_entry VaultLiquidatedStatus 0))"
proof -
  have "vr_liquidation_vault (ch_registry (chain_with v)) = Map.empty" for v
    by (simp add: chain_with_def sample_chain_def registry_genesis_def)
  then show ?thesis
    by (auto simp: tokens_ok_def keys_ok_def vault_ok_def vault_entry_def is_liquidated_def get_liquidation_vault_def
        empty_system_vault_def vault_total_def liquidated_to_be_redeemed_def map_sum_def)
qed

lemma new_sample_vault: "new_vault_id (Suc 0) (XCM 0) (Stellar StellarNative) = sample_vault"
  by (simp add: sample_vault_def)

theorem recovered_vault_strands_issues_witness:
  "\<exists>e. cancel_issue paid_config (Signed 2) paid_id
       (snd (recover_vault_id (Signed 1) sample_pair (chain_with (vault_entry VaultLiquidatedStatus 0)))) =
     (Inl e, snd (recover_vault_id (Signed 1) sample_pair (chain_with (vault_entry VaultLiquidatedStatus 0))))"
proof -
  let ?p = "recover_vault_id (Signed 1) sample_pair (chain_with (vault_entry VaultLiquidatedStatus 0))"
  have "fst ?p = Inr ()" "is_requests (ch_issue (snd ?p)) = [paid_id \<mapsto> sample_issue]"
    by (simp_all add: recover_vault_id_def is_vault_liquidated_def rv_set_accept_new_issues_def
        to_be_redeemed_tokens_def sample_pair_def new_sample_vault paid_run_defs)
  then show ?thesis
    by (intro recovered_vault_strands_issues [OF liquidated_tokens_ok run_pair, of _ _ _ sample_issue])
      (simp_all add: get_pending_issue_def get_issue_request_def result_defs sample_issue_def sample_pair_def sample_vault_def)
qed

end
