(* ===== verification/Parachain_Rpc.thy ===== *)
theory Parachain_Rpc
  imports Sample_Chain
begin

text \<open>
  The interface through which the clients use the chain, \<^verbatim>\<open>clients/runtime/src\<close>: the submission of a
  call with its retries, and the calls and queries that a vault makes.  The node is a parameter of
  the state: what it does with each submission and which reads it answers.  Other accounts do not
  act between the attempts of one call.
\<close>

section \<open>Errors\<close>

datatype subxt_error =
    SubxtRuntime dispatch_error
  | JsonRpcCall int string
  | JsonRpcRequestTimeout
  | JsonRpcRestartNeeded
  | SubscriptionDropped
  | TransactionBlockNotFound
  | OtherSubxt nat

datatype client_error =
    RtRequestIssueIDNotFound
  | RtRequestRedeemIDNotFound
  | RtBlockNotFound
  | RtVaultNotFound
  | RtVaultLiquidated
  | RtChannelClosed
  | RtPoolTooLowPriority
  | RtBlockHashNotFound
  | RtInvalidTransaction string
  | RtTimeout
  | RtStorageItemNotFound
  | RtInsufficientFunds
  | RtInvalidSpecVersion nat nat nat
  | RtParachainMetadataMismatch string string
  | RtSubxt subxt_error
  | RtArithmeticOverflow

datatype recoverability = Recoverable string | Unrecoverable string

datatype retry_policy = Skip client_error | Throw client_error

definition BASE_ERROR :: int where "BASE_ERROR = 1000"
definition POOL_INVALID_TX :: int where "POOL_INVALID_TX = BASE_ERROR + 10"
definition POOL_TOO_LOW_PRIORITY :: int where "POOL_TOO_LOW_PRIORITY = POOL_INVALID_TX + 4"

fun string_contains :: "string \<Rightarrow> string \<Rightarrow> bool" where
  "string_contains [] pat \<longleftrightarrow> pat = []"
| "string_contains (x # xs) pat \<longleftrightarrow> take (length pat) (x # xs) = pat \<or> string_contains xs pat"

definition is_recoverable :: "string \<Rightarrow> bool" where
  "is_recoverable error_message \<longleftrightarrow>
     list_ex (string_contains error_message) [''Inability to pay some fees'', ''Transaction is outdated'']"

definition map_custom_error :: "client_error \<Rightarrow> (int \<Rightarrow> string \<Rightarrow> 'a option) \<Rightarrow> 'a option" where
  "map_custom_error e call = (case e of RtSubxt (JsonRpcCall code data) \<Rightarrow> call code data | _ \<Rightarrow> None)"

definition is_invalid_transaction :: "client_error \<Rightarrow> recoverability option" where
  "is_invalid_transaction e = map_custom_error e (\<lambda>code data_string.
     if code = POOL_INVALID_TX
     then Some (if is_recoverable data_string then Recoverable data_string else Unrecoverable data_string)
     else None)"

definition is_pool_too_low_priority :: "client_error \<Rightarrow> bool" where
  "is_pool_too_low_priority e =
     (map_custom_error e (\<lambda>code _. if code = POOL_TOO_LOW_PRIORITY then Some () else None) \<noteq> None)"

definition is_rpc_disconnect_error :: "client_error \<Rightarrow> bool" where
  "is_rpc_disconnect_error e = (case e of
     RtSubxt JsonRpcRestartNeeded \<Rightarrow> True | RtSubxt SubscriptionDropped \<Rightarrow> True | _ \<Rightarrow> False)"

definition is_block_hash_not_found_error :: "client_error \<Rightarrow> bool" where
  "is_block_hash_not_found_error e = (case e of RtSubxt TransactionBlockNotFound \<Rightarrow> True | _ \<Rightarrow> False)"

definition is_timeout_error :: "client_error \<Rightarrow> bool" where
  "is_timeout_error e = (case e of RtSubxt JsonRpcRequestTimeout \<Rightarrow> True | _ \<Rightarrow> False)"

definition is_issue_completed :: "client_error \<Rightarrow> bool" where
  "is_issue_completed e \<longleftrightarrow> e = RtSubxt (SubxtRuntime (IssueErr IssueCompleted))"

definition is_parachain_shutdown_error :: "client_error \<Rightarrow> bool" where
  "is_parachain_shutdown_error e \<longleftrightarrow> e = RtSubxt (SubxtRuntime (SecurityErr ParachainNotRunning))"

section \<open>Submitting a call\<close>

text \<open>
  What happens to one submission: it is finalised and the client sees it, it is finalised and the
  client sees an error, the node refuses it, or the client stops waiting for it.  The number is the
  index of the extrinsic in its block.
\<close>

datatype attempt =
    Included nat
  | IncludedUnseen nat subxt_error
  | Refused subxt_error
  | Elapsed "nat option"

record 'l parachain =
  pc_chain :: "'l chain"
  pc_attempts :: "attempt list"
  pc_reads :: "bool list"
  pc_shutdown :: bool

record 'l client =
  cl_config :: "'l config"
  cl_account :: account
  cl_backoffs :: nat
  cl_vault_keys :: "'l chain \<Rightarrow> vault_id list"
  cl_issue_keys :: "'l chain \<Rightarrow> request_id list"
  cl_redeem_keys :: "'l chain \<Rightarrow> request_id list"
  cl_replace_keys :: "'l chain \<Rightarrow> request_id list"

record extrinsic_events =
  xe_issue :: "issue_event list"
  xe_redeem :: "redeem_event list"

definition new_events :: "'e list \<Rightarrow> 'e list \<Rightarrow> 'e list" where
  "new_events before after = rev (take (length after - length before) after)"

definition run_call :: "'l client \<Rightarrow> runtime_call \<Rightarrow> nat \<Rightarrow> 'l parachain \<Rightarrow> (dispatch_error + unit) \<times> 'l parachain" where
  "run_call cl call index s =
     (case apply_extrinsic (cl_config cl) index (Signed (cl_account cl)) call (pc_chain s) of
        (r, t) \<Rightarrow> (r, s\<lparr>pc_chain := t\<rparr>))"

definition submit_once :: "'l client \<Rightarrow> runtime_call \<Rightarrow> ('l parachain, client_error, extrinsic_events) op" where
  "submit_once cl call s = (case pc_attempts s of
     [] \<Rightarrow> (Inl (RtSubxt JsonRpcRestartNeeded), s)
   | a # rest \<Rightarrow>
       (let s1 = s\<lparr>pc_attempts := rest\<rparr> in
        case a of
          Included index \<Rightarrow> (case run_call cl call index s1 of
            (Inl e, t) \<Rightarrow> (Inl (RtSubxt (SubxtRuntime e)), t)
          | (Inr _, t) \<Rightarrow>
              (Inr \<lparr>xe_issue = new_events (is_events (ch_issue (pc_chain s))) (is_events (ch_issue (pc_chain t))),
                    xe_redeem = new_events (re_events (ch_redeem (pc_chain s))) (re_events (ch_redeem (pc_chain t)))\<rparr>, t))
        | IncludedUnseen index e \<Rightarrow> (Inl (RtSubxt e), snd (run_call cl call index s1))
        | Refused e \<Rightarrow> (Inl (RtSubxt e), s1)
        | Elapsed None \<Rightarrow> (Inl RtTimeout, s1\<lparr>pc_shutdown := True\<rparr>)
        | Elapsed (Some index) \<Rightarrow> (Inl RtTimeout, (snd (run_call cl call index s1))\<lparr>pc_shutdown := True\<rparr>)))"

definition verify_submission :: "client_error + 'a \<Rightarrow> retry_policy + 'a" where
  "verify_submission result = (case result of
     Inr ok \<Rightarrow> Inr ok
   | Inl err \<Rightarrow> (case is_invalid_transaction err of
       Some (Recoverable data) \<Rightarrow> Inl (Skip (RtInvalidTransaction data))
     | Some (Unrecoverable data) \<Rightarrow> Inl (Throw (RtInvalidTransaction data))
     | None \<Rightarrow>
         if is_pool_too_low_priority err then Inl (Skip RtPoolTooLowPriority)
         else if is_block_hash_not_found_error err then Inl (Skip RtBlockHashNotFound)
         else if is_timeout_error err then Inl (Skip RtTimeout)
         else Inl (Throw err)))"

text \<open>
  The call is repeated while the answer is to skip the error and the back-off grants another try;
  it grants a finite number of them within its ten minutes.
\<close>

fun notify_retry ::
  "nat \<Rightarrow> ('s, client_error, 'a) op \<Rightarrow> (client_error + 'a \<Rightarrow> retry_policy + 'a) \<Rightarrow> ('s, client_error, 'a) op" where
  "notify_retry backoffs call verify s = (case call s of
     (r, t) \<Rightarrow> (case verify r of
         Inr ok \<Rightarrow> (Inr ok, t)
       | Inl (Throw err) \<Rightarrow> (Inl err, t)
       | Inl (Skip err) \<Rightarrow>
           (case backoffs of 0 \<Rightarrow> (Inl RtTimeout, t) | Suc n \<Rightarrow> notify_retry n call verify t)))"

declare notify_retry.simps [simp del]

definition with_retry :: "'l client \<Rightarrow> runtime_call \<Rightarrow> ('l parachain, client_error, extrinsic_events) op" where
  "with_retry cl call = notify_retry (cl_backoffs cl) (submit_once cl call) verify_submission"

definition send_call :: "'l client \<Rightarrow> runtime_call \<Rightarrow> ('l parachain, client_error, unit) op" where
  "send_call cl call = (bindM (with_retry cl call) (\<lambda>_.
    retM ()))"

section \<open>Reading the chain\<close>

definition get_latest_storage :: "('l parachain, client_error, 'l chain) op" where
  "get_latest_storage s = (case pc_reads s of
     False # rest \<Rightarrow> (Inl (RtSubxt (OtherSubxt 0)), s\<lparr>pc_reads := rest\<rparr>)
   | _ # rest \<Rightarrow> (Inr (pc_chain s), s\<lparr>pc_reads := rest\<rparr>)
   | [] \<Rightarrow> (Inr (pc_chain s), s))"

definition query_finalized :: "('l chain \<Rightarrow> 'a option) \<Rightarrow> ('l parachain, client_error, 'a option) op" where
  "query_finalized address = (bindM get_latest_storage (\<lambda>storage.
    retM (address storage)))"

definition query_finalized_or_error :: "('l chain \<Rightarrow> 'a option) \<Rightarrow> ('l parachain, client_error, 'a) op" where
  "query_finalized_or_error address = (bindM (query_finalized address) (\<lambda>value.
    ok_orM value RtStorageItemNotFound))"

definition rpc_request :: "('l chain \<Rightarrow> 'a) \<Rightarrow> ('l parachain, client_error, 'a) op" where
  "rpc_request method = (bindM get_latest_storage (\<lambda>storage.
    retM (method storage)))"

definition rpc_request_fallible :: "('l chain \<Rightarrow> 'a result) \<Rightarrow> ('l parachain, client_error, 'a) op" where
  "rpc_request_fallible method = (bindM get_latest_storage (\<lambda>storage.
    (case method storage of Inl e \<Rightarrow> failM (RtSubxt (SubxtRuntime e)) | Inr x \<Rightarrow> retM x)))"

definition is_this_vault :: "'l client \<Rightarrow> vault_id \<Rightarrow> bool" where
  "is_this_vault cl vault_id \<longleftrightarrow> vid_account vault_id = cl_account cl"

definition client_get_current_chain_height :: "('l parachain, client_error, block_number) op" where
  "client_get_current_chain_height = rpc_request (\<lambda>s. env_number (ch_env s))"

definition client_get_current_active_block_number :: "('l parachain, client_error, block_number) op" where
  "client_get_current_active_block_number = rpc_request active_block"

section \<open>Vaults\<close>

definition client_get_vault :: "vault_id \<Rightarrow> ('l parachain, client_error, vault) op" where
  "client_get_vault vault_id = (bindM (query_finalized (\<lambda>s. vr_vaults (ch_registry s) vault_id)) (\<lambda>found.
    (case found of
        Some vault \<Rightarrow>
          (if v_status vault = VaultLiquidatedStatus then failM RtVaultLiquidated
           else if v_id vault = vault_id then retM vault else failM RtVaultNotFound)
      | None \<Rightarrow> failM RtVaultNotFound)))"

definition client_get_vaults_by_account_id :: "'l client \<Rightarrow> account \<Rightarrow> ('l parachain, client_error, vault_id list) op" where
  "client_get_vaults_by_account_id cl account_id =
     rpc_request (\<lambda>s. get_vaults_by_account_id (cl_vault_keys cl s) account_id s)"

text \<open>
  The iteration over the vaults: each item of the storage, or an error in reading it.  The loop
  goes on while an item can be read, and the end of the iteration is turned into an error.
\<close>

fun collect_active_vaults :: "(client_error + vault) list \<Rightarrow> vault list \<Rightarrow> client_error + vault list" where
  "collect_active_vaults [] vaults = Inl RtVaultNotFound"
| "collect_active_vaults (Inl e # items) vaults = Inr vaults"
| "collect_active_vaults (Inr account # items) vaults =
     collect_active_vaults items
       (case v_status account of VaultActive _ \<Rightarrow> vaults @ [account] | VaultLiquidatedStatus \<Rightarrow> vaults)"

definition vault_items :: "'l client \<Rightarrow> 'l chain \<Rightarrow> (client_error + vault) list" where
  "vault_items cl s =
     map (\<lambda>key. case vr_vaults (ch_registry s) key of
       Some vault \<Rightarrow> Inr vault | None \<Rightarrow> Inl RtStorageItemNotFound) (cl_vault_keys cl s)"

definition client_get_all_vaults :: "'l client \<Rightarrow> ('l parachain, client_error, vault list) op" where
  "client_get_all_vaults cl = (bindM get_latest_storage (\<lambda>storage.
    liftM (collect_active_vaults (vault_items cl storage) [])))"

definition client_register_vault :: "'l client \<Rightarrow> vault_id \<Rightarrow> balance \<Rightarrow> ('l parachain, client_error, unit) op" where
  "client_register_vault cl vault_id collateral = (bindM (ensureM (collateral \<noteq> 0) RtInsufficientFunds) (\<lambda>_.
    send_call cl (VaultRegistry (call_register_vault (vid_currencies vault_id) collateral))))"

definition client_deposit_collateral :: "'l client \<Rightarrow> vault_id \<Rightarrow> balance \<Rightarrow> ('l parachain, client_error, unit) op" where
  "client_deposit_collateral cl vault_id n =
     send_call cl (VaultRegistry (call_deposit_collateral (vid_currencies vault_id) n))"

definition client_withdraw_collateral :: "'l client \<Rightarrow> vault_id \<Rightarrow> balance \<Rightarrow> ('l parachain, client_error, unit) op" where
  "client_withdraw_collateral cl vault_id n =
     send_call cl (VaultRegistry (call_withdraw_collateral (vid_currencies vault_id) n))"

definition client_get_public_key :: "'l client \<Rightarrow> ('l parachain, client_error, byte list option) op" where
  "client_get_public_key cl = query_finalized (\<lambda>s. vr_public_keys (ch_registry s) (cl_account cl))"

definition client_register_public_key :: "'l client \<Rightarrow> byte list \<Rightarrow> ('l parachain, client_error, unit) op" where
  "client_register_public_key cl public_key = send_call cl (VaultRegistry (call_register_public_key public_key))"

definition client_get_required_collateral_for_wrapped ::
  "'l client \<Rightarrow> balance \<Rightarrow> currency \<Rightarrow> currency \<Rightarrow> ('l parachain, client_error, balance) op" where
  "client_get_required_collateral_for_wrapped cl amount_wrapped wrapped_currency_id collateral_currency_id =
     rpc_request_fallible
       (rpc_get_required_collateral_for_wrapped (cl_config cl) amount_wrapped wrapped_currency_id collateral_currency_id)"

definition client_get_required_collateral_for_vault ::
  "'l client \<Rightarrow> vault_id \<Rightarrow> ('l parachain, client_error, balance) op" where
  "client_get_required_collateral_for_vault cl vault_id =
     rpc_request_fallible (rpc_get_required_collateral_for_vault (cl_config cl) vault_id)"

section \<open>Issue, redeem and replace\<close>

text \<open>
  All requests are fetched, an error in one of them is reported after the others; the first error
  is the one that is returned.
\<close>

fun fetch_filtered ::
  "('k \<Rightarrow> ('s, 'e, 'r) op) \<Rightarrow> ('k \<times> 'r \<Rightarrow> 'a option) \<Rightarrow> 'k list \<Rightarrow> 'e option \<Rightarrow> 'a list \<Rightarrow> ('s, 'e, 'a list) op" where
  "fetch_filtered fetch keep [] some_error results s =
     (case some_error of Some err \<Rightarrow> (Inl err, s) | None \<Rightarrow> (Inr results, s))"
| "fetch_filtered fetch keep (key # keys) some_error results s = (case fetch key s of
     (Inr value, t) \<Rightarrow> fetch_filtered fetch keep keys some_error
       (case keep (key, value) of Some x \<Rightarrow> results @ [x] | None \<Rightarrow> results) t
   | (Inl e, t) \<Rightarrow> fetch_filtered fetch keep keys
       (case some_error of None \<Rightarrow> Some e | Some e' \<Rightarrow> Some e') results t)"

definition client_request_issue ::
  "'l client \<Rightarrow> balance \<Rightarrow> vault_id \<Rightarrow> ('l parachain, client_error, issue_event) op" where
  "client_request_issue cl n vault_id = (bindM (with_retry cl (IssueCall (call_request_issue n vault_id))) (\<lambda>events.
    ok_orM (find (\<lambda>e. case e of RequestIssue _ _ _ _ _ _ _ _ \<Rightarrow> True | _ \<Rightarrow> False) (xe_issue events))
      RtRequestIssueIDNotFound))"

definition client_execute_issue ::
  "'l client \<Rightarrow> request_id \<Rightarrow> byte list \<Rightarrow> byte list \<Rightarrow> byte list \<Rightarrow> ('l parachain, client_error, unit) op" where
  "client_execute_issue cl issue_id tx_envelope envelopes tx_set =
     send_call cl (IssueCall (call_execute_issue issue_id tx_envelope envelopes tx_set))"

definition client_cancel_issue :: "'l client \<Rightarrow> request_id \<Rightarrow> ('l parachain, client_error, unit) op" where
  "client_cancel_issue cl issue_id = send_call cl (IssueCall (call_cancel_issue issue_id))"

definition client_get_issue_request :: "request_id \<Rightarrow> ('l parachain, client_error, issue_request) op" where
  "client_get_issue_request issue_id = query_finalized_or_error (\<lambda>s. is_requests (ch_issue s) issue_id)"

definition client_get_vault_issue_requests ::
  "'l client \<Rightarrow> account \<Rightarrow> ('l parachain, client_error, (request_id \<times> issue_request) list) op" where
  "client_get_vault_issue_requests cl account_id = (bindM (rpc_request (\<lambda>s. get_issue_requests_for_vault (cl_issue_keys cl s) account_id s)) (\<lambda>keys.
    fetch_filtered client_get_issue_request Some keys None []))"

definition client_get_issue_period :: "('l parachain, client_error, block_number) op" where
  "client_get_issue_period = rpc_request (\<lambda>s. is_period (ch_issue s))"

text \<open>The deadline is computed with machine arithmetic and with the present period only.\<close>

definition is_active_issue :: "block_number \<Rightarrow> block_number \<Rightarrow> issue_request \<Rightarrow> bool" where
  "is_active_issue issue_period current_height request \<longleftrightarrow> ir_status request = IssuePending \<and>
     (ir_opentime request + issue_period) mod 2 ^ 32 > current_height"

definition client_get_all_active_issues ::
  "'l client \<Rightarrow> ('l parachain, client_error, (request_id \<times> issue_request) list) op" where
  "client_get_all_active_issues cl = (bindM client_get_current_active_block_number (\<lambda>current_height.
    bindM client_get_issue_period (\<lambda>issue_period.
    bindM get_latest_storage (\<lambda>storage.
    retM (List.map_filter (\<lambda>key. case is_requests (ch_issue storage) key of
        Some request \<Rightarrow> if is_active_issue issue_period current_height request then Some (key, request) else None
      | None \<Rightarrow> None) (cl_issue_keys cl storage))))))"

definition client_request_redeem ::
  "'l client \<Rightarrow> balance \<Rightarrow> byte list \<Rightarrow> vault_id \<Rightarrow> ('l parachain, client_error, request_id) op" where
  "client_request_redeem cl n stellar_address vault_id = (bindM (with_retry cl (RedeemCall (call_request_redeem n stellar_address vault_id))) (\<lambda>events.
    bindM (ok_orM (List.find (\<lambda>e. case e of RequestRedeem _ _ _ _ _ _ _ _ _ \<Rightarrow> True | _ \<Rightarrow> False)
      (xe_redeem events)) RtRequestRedeemIDNotFound) (\<lambda>redeem_event.
    (case redeem_event of
        RequestRedeem redeem_id _ _ _ _ _ _ _ _ \<Rightarrow> retM redeem_id
      | _ \<Rightarrow> failM RtRequestRedeemIDNotFound))))"

definition client_execute_redeem ::
  "'l client \<Rightarrow> request_id \<Rightarrow> byte list \<Rightarrow> byte list \<Rightarrow> byte list \<Rightarrow> ('l parachain, client_error, unit) op" where
  "client_execute_redeem cl redeem_id tx_envelope envelopes tx_set =
     send_call cl (RedeemCall (call_execute_redeem redeem_id tx_envelope envelopes tx_set))"

definition client_cancel_redeem :: "'l client \<Rightarrow> request_id \<Rightarrow> bool \<Rightarrow> ('l parachain, client_error, unit) op" where
  "client_cancel_redeem cl redeem_id reimburse = send_call cl (RedeemCall (call_cancel_redeem redeem_id reimburse))"

definition client_get_redeem_request :: "request_id \<Rightarrow> ('l parachain, client_error, redeem_request) op" where
  "client_get_redeem_request redeem_id = query_finalized_or_error (\<lambda>s. re_requests (ch_redeem s) redeem_id)"

definition client_get_vault_redeem_requests ::
  "'l client \<Rightarrow> account \<Rightarrow> (request_id \<times> redeem_request \<Rightarrow> 'a option) \<Rightarrow> ('l parachain, client_error, 'a list) op" where
  "client_get_vault_redeem_requests cl account_id keep = (bindM (rpc_request (\<lambda>s. get_redeem_requests_for_vault (cl_redeem_keys cl s) account_id s)) (\<lambda>keys.
    fetch_filtered client_get_redeem_request keep keys None []))"

definition client_accept_replace ::
  "'l client \<Rightarrow> vault_id \<Rightarrow> vault_id \<Rightarrow> balance \<Rightarrow> balance \<Rightarrow> byte list \<Rightarrow> ('l parachain, client_error, unit) op" where
  "client_accept_replace cl new_vid old_vid amount_wrapped collateral stellar_address =
     send_call cl (ReplaceCall (call_accept_replace (vid_currencies new_vid) old_vid amount_wrapped collateral
       stellar_address))"

definition client_execute_replace ::
  "'l client \<Rightarrow> request_id \<Rightarrow> byte list \<Rightarrow> byte list \<Rightarrow> byte list \<Rightarrow> ('l parachain, client_error, unit) op" where
  "client_execute_replace cl replace_id tx_envelope envelopes tx_set =
     send_call cl (ReplaceCall (call_execute_replace replace_id tx_envelope envelopes tx_set))"

definition client_cancel_replace :: "'l client \<Rightarrow> request_id \<Rightarrow> ('l parachain, client_error, unit) op" where
  "client_cancel_replace cl replace_id = send_call cl (ReplaceCall (call_cancel_replace replace_id))"

definition client_get_replace_request :: "request_id \<Rightarrow> ('l parachain, client_error, replace_request) op" where
  "client_get_replace_request replace_id = query_finalized_or_error (\<lambda>s. rp_requests (ch_replace s) replace_id)"

definition client_get_new_vault_replace_requests ::
  "'l client \<Rightarrow> account \<Rightarrow> ('l parachain, client_error, (request_id \<times> replace_request) list) op" where
  "client_get_new_vault_replace_requests cl account_id = (bindM (rpc_request (\<lambda>s. get_replace_requests_for_new_vault (cl_replace_keys cl s) account_id s)) (\<lambda>keys.
    fetch_filtered client_get_replace_request Some keys None []))"

definition client_get_old_vault_replace_requests ::
  "'l client \<Rightarrow> account \<Rightarrow> (request_id \<times> replace_request \<Rightarrow> 'a option) \<Rightarrow> ('l parachain, client_error, 'a list) op" where
  "client_get_old_vault_replace_requests cl account_id keep = (bindM (rpc_request (\<lambda>s. get_replace_requests_for_old_vault (cl_replace_keys cl s) account_id s)) (\<lambda>keys.
    fetch_filtered client_get_replace_request keep keys None []))"

definition client_get_replace_period :: "('l parachain, client_error, block_number) op" where
  "client_get_replace_period = rpc_request (\<lambda>s. rp_replace_period (ch_replace s))"

definition client_get_redeem_period :: "('l parachain, client_error, block_number) op" where
  "client_get_redeem_period = rpc_request (\<lambda>s. re_period (ch_redeem s))"

definition client_request_replace :: "'l client \<Rightarrow> vault_id \<Rightarrow> balance \<Rightarrow> ('l parachain, client_error, unit) op" where
  "client_request_replace cl vault_id n = send_call cl (ReplaceCall (call_request_replace (vid_currencies vault_id) n))"

definition client_withdraw_replace :: "'l client \<Rightarrow> vault_id \<Rightarrow> balance \<Rightarrow> ('l parachain, client_error, unit) op" where
  "client_withdraw_replace cl vault_id n = send_call cl (ReplaceCall (call_withdraw_replace (vid_currencies vault_id) n))"

section \<open>Balances, prices and status\<close>

definition client_get_vault_total_collateral :: "'l client \<Rightarrow> vault_id \<Rightarrow> ('l parachain, client_error, balance) op" where
  "client_get_vault_total_collateral cl vault_id =
     rpc_request_fallible (rpc_get_vault_total_collateral (cl_config cl) vault_id)"

definition client_get_free_balance_for_id :: "'l client \<Rightarrow> account \<Rightarrow> currency \<Rightarrow> ('l parachain, client_error, balance) op" where
  "client_get_free_balance_for_id cl account_id currency_id =
     rpc_request (\<lambda>s. led_free (cfg_ledger (cl_config cl)) (ch_ledger s) currency_id account_id)"

definition client_get_free_balance :: "'l client \<Rightarrow> currency \<Rightarrow> ('l parachain, client_error, balance) op" where
  "client_get_free_balance cl currency_id = client_get_free_balance_for_id cl (cl_account cl) currency_id"

definition client_get_reserved_balance_for_id :: "'l client \<Rightarrow> account \<Rightarrow> currency \<Rightarrow> ('l parachain, client_error, balance) op" where
  "client_get_reserved_balance_for_id cl account_id currency_id =
     rpc_request (\<lambda>s. led_reserved (cfg_ledger (cl_config cl)) (ch_ledger s) currency_id account_id)"

definition client_get_reserved_balance :: "'l client \<Rightarrow> currency \<Rightarrow> ('l parachain, client_error, balance) op" where
  "client_get_reserved_balance cl currency_id = client_get_reserved_balance_for_id cl (cl_account cl) currency_id"

definition client_currency_to_usd :: "'l client \<Rightarrow> balance \<Rightarrow> currency \<Rightarrow> ('l parachain, client_error, balance) op" where
  "client_currency_to_usd cl n currency_id = rpc_request_fallible (rpc_currency_to_usd (cl_config cl) n currency_id)"

definition client_usd_to_currency :: "'l client \<Rightarrow> balance \<Rightarrow> currency \<Rightarrow> ('l parachain, client_error, balance) op" where
  "client_usd_to_currency cl n currency_id = rpc_request_fallible (rpc_usd_to_currency (cl_config cl) n currency_id)"

section \<open>How often a call is made\<close>

lemma submit_once_attempts:
  "submit_once cl call s = (r, t) \<Longrightarrow> pc_attempts t = tl (pc_attempts s) \<and> pc_reads t = pc_reads s"
  by (auto simp: submit_once_def run_call_def Let_def split: list.splits attempt.splits prod.splits sum.splits option.splits)

lemma notify_retry_step:
  assumes "notify_retry n call verify s = (r, t)" and "call s = (r1, u)"
  obtains (ok) x where "verify r1 = Inr x" "r = Inr x" "t = u"
    | (thrown) e where "verify r1 = Inl (Throw e)" "r = Inl e" "t = u"
    | (stopped) e where "verify r1 = Inl (Skip e)" "n = 0" "r = Inl RtTimeout" "t = u"
    | (again) e m where "verify r1 = Inl (Skip e)" "n = Suc m" "notify_retry m call verify u = (r, t)"
  using assms by (auto simp: notify_retry.simps [of n] split: sum.splits retry_policy.splits nat.splits)

lemma notify_retry_attempts:
  assumes "notify_retry n (submit_once cl call) verify s = (r, t)"
  shows "\<exists>k\<le>Suc n. pc_attempts t = drop k (pc_attempts s)"
  using assms
proof (induction n arbitrary: s)
  case (Suc n)
  obtain r1 u where u: "submit_once cl call s = (r1, u)" by fastforce
  have d: "pc_attempts u = drop 1 (pc_attempts s)" using submit_once_attempts [OF u] by (simp add: drop_Suc)
  from Suc.prems u show ?case
  proof (cases rule: notify_retry_step)
    case (again e m)
    then obtain k where "k \<le> Suc n" "pc_attempts t = drop (Suc k) (pc_attempts s)" using Suc.IH [of u] by (auto simp: d)
    then show ?thesis by (intro exI [of _ "Suc k"]) simp
  qed (use d in auto)
next
  case 0
  obtain r1 u where u: "submit_once cl call s = (r1, u)" by fastforce
  have "pc_attempts u = drop 1 (pc_attempts s)" using submit_once_attempts [OF u] by (simp add: drop_Suc)
  with "0.prems" u show ?case by (cases rule: notify_retry_step) auto
qed

text \<open>The node never hides from the client that it has included a call.\<close>

definition candid :: "attempt \<Rightarrow> bool" where
  "candid a = (case a of IncludedUnseen _ _ \<Rightarrow> False | Elapsed (Some _) \<Rightarrow> False | _ \<Rightarrow> True)"

definition ran_once :: "'l client \<Rightarrow> runtime_call \<Rightarrow> client_error + 'a \<Rightarrow> 'l parachain \<Rightarrow> 'l parachain \<Rightarrow> bool" where
  "ran_once cl call r s t \<longleftrightarrow> (case r of
     Inr _ \<Rightarrow> \<exists>index. apply_extrinsic (cl_config cl) index (Signed (cl_account cl)) call (pc_chain s) = (Inr (), pc_chain t)
   | Inl e \<Rightarrow> pc_chain t = pc_chain s \<or>
       (\<exists>index d. e = RtSubxt (SubxtRuntime d) \<and>
          apply_extrinsic (cl_config cl) index (Signed (cl_account cl)) call (pc_chain s) = (Inl d, pc_chain t)))"

lemma submit_once_candid:
  assumes "list_all candid (pc_attempts s)" and "submit_once cl call s = (r, t)"
  shows "ran_once cl call r s t \<and> (\<forall>e. r = Inl e \<and> pc_chain t \<noteq> pc_chain s \<longrightarrow> (\<exists>d. e = RtSubxt (SubxtRuntime d)))"
  using assms
  by (auto simp: submit_once_def run_call_def ran_once_def candid_def Let_def
      split: list.splits attempt.splits prod.splits sum.splits option.splits)

lemma verify_keeps_dispatch_error: "verify_submission (Inl (RtSubxt (SubxtRuntime d))) = Inl (Throw (RtSubxt (SubxtRuntime d)))"
  by (simp add: verify_submission_def is_invalid_transaction_def map_custom_error_def is_pool_too_low_priority_def
      is_block_hash_not_found_error_def is_timeout_error_def)

lemma verify_ok: "verify_submission r = Inr x \<longleftrightarrow> r = Inr x"
  by (auto simp: verify_submission_def split: sum.splits option.splits recoverability.splits)

lemma verify_throw: "verify_submission (Inl e) = Inl (Throw f) \<Longrightarrow> e \<noteq> f \<Longrightarrow> \<exists>x. f = RtInvalidTransaction x"
  by (auto simp: verify_submission_def split: option.splits recoverability.splits if_splits)

lemma verify_skip_unchanged:
  assumes "list_all candid (pc_attempts s)" and "submit_once cl call s = (r1, u)" and "verify_submission r1 = Inl (Skip e)"
  shows "pc_chain u = pc_chain s \<and> list_all candid (pc_attempts u)"
proof -
  obtain e1 where r1: "r1 = Inl e1" using assms(3) by (cases r1) (auto simp: verify_submission_def)
  then have "\<nexists>d. e1 = RtSubxt (SubxtRuntime d)" using assms(3) by (auto simp: verify_keeps_dispatch_error)
  then have "pc_chain u = pc_chain s" using submit_once_candid [OF assms(1,2)] r1 by blast
  then show ?thesis using assms(1) submit_once_attempts [OF assms(2)] by (cases "pc_attempts s") auto
qed

lemma verify_throw_ran_once:
  assumes "ran_once cl call r1 s u" and "verify_submission r1 = Inl (Throw e)"
  shows "ran_once cl call (Inl e :: client_error + 'a) s u"
proof -
  obtain e1 where r1: "r1 = Inl e1" using assms(2) by (cases r1) (auto simp: verify_submission_def)
  show ?thesis
  proof (cases "\<exists>d. e1 = RtSubxt (SubxtRuntime d)")
    case True
    then show ?thesis using assms r1 by (auto simp: ran_once_def verify_keeps_dispatch_error)
  qed (use assms(1) r1 in \<open>auto simp: ran_once_def\<close>)
qed

lemma notify_retry_candid:
  assumes "list_all candid (pc_attempts s)" and "notify_retry n (submit_once cl call) verify_submission s = (r, t)"
  shows "ran_once cl call r s t"
  using assms
proof (induction n arbitrary: s rule: less_induct)
  case (less n)
  obtain r1 u where u: "submit_once cl call s = (r1, u)" by fastforce
  note once = conjunct1 [OF submit_once_candid [OF less.prems(1) u]]
  from less.prems(2) u show ?case
  proof (cases rule: notify_retry_step)
    case (ok x)
    then show ?thesis using once by (simp add: verify_ok)
  next
    case (thrown e)
    then show ?thesis using verify_throw_ran_once [OF once] by simp
  next
    case (stopped e)
    then show ?thesis using verify_skip_unchanged [OF less.prems(1) u] by (simp add: ran_once_def)
  next
    case (again e m)
    from verify_skip_unchanged [OF less.prems(1) u again(1)]
    have same: "pc_chain u = pc_chain s" and c: "list_all candid (pc_attempts u)" by simp_all
    have "ran_once cl call r u t" using less.IH [of m u] again c by simp
    then show ?thesis unfolding ran_once_def same .
  qed
qed

text \<open>
  C19: submitting a call ends after at most one try more than the back-off grants, and if the node
  shows the client every call that it includes, the call has been executed exactly once when the
  submission succeeds, and when it fails the chain is as before or the call itself has failed.
\<close>

theorem with_retry_once:
  assumes "with_retry cl call s = (r, t)"
  shows "(\<exists>k\<le>Suc (cl_backoffs cl). pc_attempts t = drop k (pc_attempts s)) \<and>
    (list_all candid (pc_attempts s) \<longrightarrow> ran_once cl call r s t)"
  using assms notify_retry_attempts notify_retry_candid unfolding with_retry_def by blast

text \<open>
  A submission that times out may have been included.  It is sent again with a fresh nonce, and then
  the call is executed twice although the client is told of one success.
\<close>

lemma timeout_repeats_call:
  assumes "pc_attempts s = [IncludedUnseen i JsonRpcRequestTimeout, Included j]" and "0 < cl_backoffs cl"
    and "apply_extrinsic (cl_config cl) i (Signed (cl_account cl)) call (pc_chain s) = (Inr (), t)"
    and "apply_extrinsic (cl_config cl) j (Signed (cl_account cl)) call t = (Inr (), u)"
  shows "\<exists>events. fst (with_retry cl call s) = Inr events \<and> pc_chain (snd (with_retry cl call s)) = u"
proof -
  obtain n where "cl_backoffs cl = Suc n" using assms(2) by (cases "cl_backoffs cl") auto
  then show ?thesis
    using assms by (auto simp: with_retry_def notify_retry.simps submit_once_def run_call_def verify_submission_def
      is_invalid_transaction_def map_custom_error_def is_pool_too_low_priority_def is_block_hash_not_found_error_def
      is_timeout_error_def Let_def)
qed

text \<open>What every execution of a call keeps, a submission of it keeps, whatever the node does.\<close>

lemma notify_retry_stable:
  assumes "\<And>s. P s \<Longrightarrow> P (snd (call s))" and "P s"
  shows "P (snd (notify_retry n call verify s))"
  using assms(2)
proof (induction n arbitrary: s rule: less_induct)
  case (less n)
  obtain r1 u where u: "call s = (r1, u)" by fastforce
  obtain r t where t: "notify_retry n call verify s = (r, t)" by fastforce
  have "P u" using assms(1) [OF less.prems] u by simp
  from t u show ?case by (cases rule: notify_retry_step) (use \<open>P u\<close> t less.IH in \<open>force+\<close>)
qed

lemma with_retry_stable:
  assumes "\<And>i s. P s \<Longrightarrow> P (snd (apply_extrinsic (cl_config cl) i (Signed (cl_account cl)) call s))"
    and "P (pc_chain s)"
  shows "P (pc_chain (snd (with_retry cl call s)))"
proof -
  have keep: "P v" if "P (pc_chain u)" and "apply_extrinsic (cl_config cl) i (Signed (cl_account cl)) call (pc_chain u) = (r, v)"
    for i u r v using assms(1) [OF that(1), of i] that(2) by simp
  have "P (pc_chain (snd (submit_once cl call u)))" if "P (pc_chain u)" for u
    using that keep [OF that]
    by (auto simp: submit_once_def run_call_def Let_def split: list.split attempt.split prod.split sum.split option.split)
  then show ?thesis
    using notify_retry_stable [where P = "\<lambda>u. P (pc_chain u)", OF _ assms(2)] unfolding with_retry_def by blast
qed

lemma submit_once_ok:
  assumes "submit_once cl call s = (Inr x, t)"
  shows "\<exists>i. apply_extrinsic (cl_config cl) i (Signed (cl_account cl)) call (pc_chain s) = (Inr (), pc_chain t)"
  using assms
  by (auto simp: submit_once_def run_call_def Let_def split: list.splits attempt.splits prod.splits sum.splits option.splits)

lemma with_retry_ok:
  assumes "with_retry cl call s = (Inr x, t)"
  shows "\<exists>i u. apply_extrinsic (cl_config cl) i (Signed (cl_account cl)) call u = (Inr (), pc_chain t)"
proof -
  have "\<exists>i u. apply_extrinsic (cl_config cl) i (Signed (cl_account cl)) call u = (Inr (), pc_chain t)"
    if "notify_retry n (submit_once cl call) verify_submission s = (Inr x, t)" for n s
    using that
  proof (induction n arbitrary: s rule: less_induct)
    case (less n)
    obtain r1 u where u: "submit_once cl call s = (r1, u)" by fastforce
    from less.prems u show ?case
    proof (cases rule: notify_retry_step)
      case (ok y)
      then show ?thesis using submit_once_ok u by (fastforce simp: verify_ok)
    qed (use less.IH in auto)
  qed
  then show ?thesis using assms unfolding with_retry_def by blast
qed

section \<open>Queries that do not answer what they say\<close>

lemma collect_active_vaults_fails: "list_all (\<lambda>x. \<exists>v. x = Inr v) items \<Longrightarrow> collect_active_vaults items vs = Inl RtVaultNotFound"
  by (induction items arbitrary: vs) auto

lemma get_latest_storage_cases: "fst (get_latest_storage s) = Inr (pc_chain s) \<or> (\<exists>e. fst (get_latest_storage s) = Inl e)"
  by (auto simp: get_latest_storage_def split: list.splits bool.splits)

text \<open>
  The list of all vaults is never returned: the end of the iteration over the storage is
  taken for a missing vault, so the query fails on every chain whose vaults can all be read.
\<close>

lemma get_all_vaults_never_succeeds:
  assumes "\<forall>key\<in>set (cl_vault_keys cl (pc_chain s)). vr_vaults (ch_registry (pc_chain s)) key \<noteq> None"
  shows "\<exists>e. fst (client_get_all_vaults cl s) = Inl e"
proof -
  have "list_all (\<lambda>x. \<exists>v. x = Inr v) (vault_items cl (pc_chain s))"
    using assms by (auto simp: vault_items_def list_all_iff split: option.splits)
  then have "collect_active_vaults (vault_items cl (pc_chain s)) [] = Inl RtVaultNotFound"
    by (rule collect_active_vaults_fails)
  then show ?thesis
    using get_latest_storage_cases [of s]
    by (cases "get_latest_storage s") (auto simp: client_get_all_vaults_def bindM_def liftM_def)
qed

text \<open>
  An issue request keeps the period with which it was opened, and the chain uses the longer one of it
  and the present period.  The client uses the present one only, so that a request can be missing in
  its list while the chain still executes it.
\<close>

lemma active_issue_missed:
  assumes "ir_opentime r + is_period_now \<le> height" and "ir_opentime r + is_period_now < 2 ^ 32"
  shows "\<not> is_active_issue is_period_now height r"
  using assms by (simp add: is_active_issue_def)

section \<open>A sample client\<close>

definition sample_vid :: vault_id where
  "sample_vid = \<lparr>vid_account = 1, vid_currencies = sample_pair\<rparr>"

definition sample_client :: "ledger client" where
  "sample_client =
     \<lparr>cl_config = sample_config, cl_account = 1, cl_backoffs = 2, cl_vault_keys = (\<lambda>_. [sample_vid]),
      cl_issue_keys = (\<lambda>_. []), cl_redeem_keys = (\<lambda>_. []), cl_replace_keys = (\<lambda>_. [])\<rparr>"

definition sample_parachain :: "ledger parachain" where
  "sample_parachain =
     \<lparr>pc_chain = sample_chain, pc_attempts = [Refused TransactionBlockNotFound, Included 3], pc_reads = [],
      pc_shutdown = False\<rparr>"

theorem with_retry_once_witness:
  "\<exists>index. apply_extrinsic sample_config index (Signed 1) (VaultRegistry (call_register_public_key [5])) sample_chain =
     (Inr (), pc_chain (snd (with_retry sample_client (VaultRegistry (call_register_public_key [5])) sample_parachain)))"
proof -
  let ?r = "with_retry sample_client (VaultRegistry (call_register_public_key [5])) sample_parachain"
  have "\<exists>x. fst ?r = Inr x"
    by (simp add: with_retry_def notify_retry.simps submit_once_def run_call_def verify_submission_def Let_def
        sample_client_def sample_parachain_def is_invalid_transaction_def map_custom_error_def is_pool_too_low_priority_def
        is_block_hash_not_found_error_def apply_extrinsic_def dispatch_def dispatch_vault_registry_def
        register_public_key_def registry_deposit_event_def registry_genesis_def run_simps transactionalM_def sample_chain_def ensure_signed_def bindM_def)
  then obtain x where "?r = (Inr x, snd ?r)" by (metis prod.collapse)
  from with_retry_once [OF this] show ?thesis
    by (simp add: ran_once_def sample_client_def sample_parachain_def candid_def)
qed

end
