(* ===== verification/Submission_Search.thy ===== *)
theory Submission_Search
  imports Primitives
begin

text \<open>
  The search of the wallet for a transaction that it has already submitted
  (\<^verbatim>\<open>clients/wallet/src/horizon/responses.rs\<close> and the second part of
  \<^verbatim>\<open>clients/wallet/src/resubmissions.rs\<close>): pages of transactions, the latest first, in which the wallet
  looks for the sequence number and the memo of a payment before it pays again.
\<close>

section \<open>Pages of transactions\<close>

text \<open>
  A transaction as Horizon reports it.  The source account and its sequence number are kept as what
  decoding them gives, and the answers to the requests for the following pages are part of the
  iterator; an answer that is missing or an error gives no page.
\<close>

record tx_response =
  tr_source_account :: "byte list option"
  tr_source_account_sequence :: "int option"
  tr_memo_type :: string
  tr_memo :: "byte list option"
  tr_ledger :: nat
  tr_paging_token :: nat
  tr_envelope :: "transaction_envelope option"

record response_iter =
  it_records :: "tx_response list"
  it_pages :: "tx_response list option list"

definition TYPE_MEMOTEXT :: string where "TYPE_MEMOTEXT = ''text''"

definition response_memo_text :: "tx_response \<Rightarrow> byte list option" where
  "response_memo_text r = (if tr_memo_type r = TYPE_MEMOTEXT then tr_memo r else None)"

definition get_top_record :: "response_iter \<Rightarrow> tx_response option \<times> response_iter" where
  "get_top_record it = (case it_records it of
     [] \<Rightarrow> (None, it) | r # rs \<Rightarrow> (Some r, it\<lparr>it_records := rs\<rparr>))"

definition jump_to_next_page :: "response_iter \<Rightarrow> unit option \<times> response_iter" where
  "jump_to_next_page it = (case it_pages it of
     Some page # rest \<Rightarrow> (Some (), it\<lparr>it_records := page, it_pages := rest\<rparr>)
   | None # rest \<Rightarrow> (None, it\<lparr>it_pages := rest\<rparr>)
   | [] \<Rightarrow> (None, it))"

definition iter_next :: "response_iter \<Rightarrow> tx_response option \<times> response_iter" where
  "iter_next it = (case get_top_record it of
     (Some record, it1) \<Rightarrow> (Some record, it1)
   | (None, it1) \<Rightarrow> (case jump_to_next_page it1 of
       (None, it2) \<Rightarrow> (None, it2)
     | (Some _, it2) \<Rightarrow> get_top_record it2))"

definition iter_next_back :: "response_iter \<Rightarrow> tx_response option \<times> response_iter" where
  "iter_next_back it = (if it_records it = [] then (None, it)
     else (Some (last (it_records it)), it\<lparr>it_records := butlast (it_records it)\<rparr>))"

definition iter_middle :: "response_iter \<Rightarrow> tx_response option \<times> response_iter" where
  "iter_middle it = (if it_records it = [] then (None, it)
     else let idx = length (it_records it) div 2 in
       (Some (it_records it ! idx),
        it\<lparr>it_records := take idx (it_records it) @ drop (Suc idx) (it_records it)\<rparr>))"

definition remove_last_half_records :: "response_iter \<Rightarrow> response_iter" where
  "remove_last_half_records it =
     (let idx = length (it_records it) div 2
      in if idx \<noteq> 0 then it\<lparr>it_records := take idx (it_records it)\<rparr> else it)"

definition remove_first_half_records :: "response_iter \<Rightarrow> response_iter" where
  "remove_first_half_records it =
     (let idx = length (it_records it) div 2
      in if idx \<noteq> 0 then it\<lparr>it_records := drop idx (it_records it)\<rparr> else it)"

section \<open>The search\<close>

definition is_source_account_match :: "byte list \<Rightarrow> tx_response \<Rightarrow> bool" where
  "is_source_account_match public_key r \<longleftrightarrow> tr_source_account r = Some public_key"

definition is_memo_match :: "transaction \<Rightarrow> tx_response \<Rightarrow> bool" where
  "is_memo_match tx1 tx2 = (case response_memo_text tx2 of
     Some response_memo \<Rightarrow> (case tx_memo tx1 of MemoText tx_memo_text \<Rightarrow> response_memo = tx_memo_text | _ \<Rightarrow> False)
   | None \<Rightarrow> False)"

definition check_transaction_match :: "transaction \<Rightarrow> tx_response \<Rightarrow> byte list \<Rightarrow> int option + bool" where
  "check_transaction_match tx tx_resp public_key =
     (if \<not> is_source_account_match public_key tx_resp then Inl None
      else case tr_source_account_sequence tx_resp of
        None \<Rightarrow> Inl None
      | Some source_account_sequence \<Rightarrow>
          if tx_seq_num tx = source_account_sequence then Inr (is_memo_match tx tx_resp)
          else Inl (Some source_account_sequence))"

definition check_middle_transaction_match ::
  "response_iter \<Rightarrow> transaction \<Rightarrow> byte list \<Rightarrow> bool option \<times> response_iter" where
  "check_middle_transaction_match it tx public_key = (case iter_middle it of
     (None, it1) \<Rightarrow> (None, it1)
   | (Some response, it1) \<Rightarrow> (case check_transaction_match tx response public_key of
       Inr res \<Rightarrow> (Some res, it1)
     | Inl (Some source_account_sequence) \<Rightarrow>
         (None, if tx_seq_num tx > source_account_sequence then remove_last_half_records it1
                else remove_first_half_records it1)
     | Inl None \<Rightarrow> (None, it1)))"

definition check_last_transaction_match ::
  "response_iter \<Rightarrow> transaction \<Rightarrow> byte list \<Rightarrow> bool option \<times> response_iter" where
  "check_last_transaction_match it tx public_key = (case iter_next_back it of
     (None, it1) \<Rightarrow> (None, it1)
   | (Some response, it1) \<Rightarrow> (case check_transaction_match tx response public_key of
       Inr res \<Rightarrow> (Some res, it1)
     | Inl (Some source_account_sequence) \<Rightarrow>
         if tx_seq_num tx < source_account_sequence then
           (case jump_to_next_page it1 of
              (None, it2) \<Rightarrow> (Some False, it2)
            | (Some _, it2) \<Rightarrow> (None, it2))
         else (None, it1)
     | Inl None \<Rightarrow> (None, it1)))"

text \<open>What is left to look at: the records of this page, and of the pages to come.\<close>

definition iter_rest :: "response_iter \<Rightarrow> tx_response set" where
  "iter_rest it = set (it_records it) \<union> (\<Union>page \<in> set (it_pages it). case page of Some rs \<Rightarrow> set rs | None \<Rightarrow> {})"

definition iter_size :: "response_iter \<Rightarrow> nat" where
  "iter_size it = length (it_records it) + sum_list (map (\<lambda>page. case page of Some rs \<Rightarrow> Suc (length rs) | None \<Rightarrow> 1) (it_pages it))"

lemmas iter_defs = get_top_record_def jump_to_next_page_def iter_next_def iter_next_back_def iter_middle_def
  remove_last_half_records_def remove_first_half_records_def

lemma iter_next_size: "iter_next it = (Some r, it1) \<Longrightarrow> iter_size it1 < iter_size it"
  by (auto simp: iter_defs iter_size_def split: list.splits option.splits)

lemma jump_size: "iter_size (snd (jump_to_next_page it)) \<le> iter_size it"
  by (auto simp: iter_defs iter_size_def split: list.split option.split)

lemma check_middle_size: "iter_size (snd (check_middle_transaction_match it tx pk)) \<le> iter_size it"
  by (auto simp: check_middle_transaction_match_def iter_defs iter_size_def Let_def split: sum.split option.split)

lemma check_last_size: "iter_size (snd (check_last_transaction_match it tx pk)) \<le> iter_size it"
  using jump_size [of "it\<lparr>it_records := butlast (it_records it)\<rparr>"]
  by (auto simp: check_last_transaction_match_def iter_next_back_def iter_size_def split: sum.split option.split prod.split)

lemma search_step_size:
  assumes "iter_next it = (Some r, it1)" and "check_middle_transaction_match it1 tx pk = (x, it2)"
    and "check_last_transaction_match it2 tx pk = (y, it3)"
  shows "iter_size it3 < iter_size it"
  using iter_next_size [OF assms(1)] check_middle_size [of it1 tx pk] check_last_size [of it2 tx pk] assms(2,3) by simp

function search_submitted :: "transaction \<Rightarrow> byte list \<Rightarrow> response_iter \<Rightarrow> bool" where
  "search_submitted tx own_public_key it = (case iter_next it of
     (None, _) \<Rightarrow> False
   | (Some response, it1) \<Rightarrow> (case check_transaction_match tx response own_public_key of
       Inr res \<Rightarrow> res
     | Inl None \<Rightarrow> search_submitted tx own_public_key it1
     | Inl (Some top_sequence_num) \<Rightarrow>
         if tx_seq_num tx > top_sequence_num then False
         else case check_middle_transaction_match it1 tx own_public_key of
           (Some result, _) \<Rightarrow> result
         | (None, it2) \<Rightarrow> (case check_last_transaction_match it2 tx own_public_key of
             (Some result, _) \<Rightarrow> result
           | (None, it3) \<Rightarrow> search_submitted tx own_public_key it3)))"
  by pat_completeness auto

termination
proof (relation "measure (\<lambda>(_, _, it). iter_size it)", goal_cases)
  case 1
  then show ?case by simp
next
  case (2 tx pk it r it1)
  then show ?case by (auto dest: iter_next_size [OF sym])
next
  case 3
  then show ?case by (simp, metis search_step_size)
qed

declare search_submitted.simps [simp del]

definition is_transaction_already_submitted :: "transaction \<Rightarrow> byte list \<Rightarrow> tx_response list option list \<Rightarrow> bool" where
  "is_transaction_already_submitted tx public_key answers = (case answers of
     Some records # pages \<Rightarrow> search_submitted tx public_key \<lparr>it_records = records, it_pages = pages\<rparr>
   | _ \<Rightarrow> False)"

section \<open>What the answer means\<close>

definition same_submission :: "transaction \<Rightarrow> byte list \<Rightarrow> tx_response \<Rightarrow> bool" where
  "same_submission tx public_key r \<longleftrightarrow> tr_source_account r = Some public_key \<and>
     tr_source_account_sequence r = Some (tx_seq_num tx) \<and> is_memo_match tx r"

lemma check_match_true: "check_transaction_match tx r pk = Inr True \<Longrightarrow> same_submission tx pk r"
  by (auto simp: check_transaction_match_def same_submission_def is_source_account_match_def split: if_splits option.splits)

lemma iter_next_rest: "iter_next it = (Some r, it1) \<Longrightarrow> r \<in> iter_rest it \<and> iter_rest it1 \<subseteq> iter_rest it"
  by (auto simp: iter_defs iter_rest_def split: list.splits option.splits)

lemma jump_rest: "iter_rest (snd (jump_to_next_page it)) \<subseteq> iter_rest it"
  by (auto simp: iter_defs iter_rest_def split: list.split option.split)

lemma middle_rest: "iter_middle it = (Some r, it1) \<Longrightarrow> r \<in> iter_rest it \<and> iter_rest it1 \<subseteq> iter_rest it"
  by (auto simp: iter_middle_def iter_rest_def Let_def dest: in_set_takeD in_set_dropD split: if_splits)

lemma halves_rest: "iter_rest (remove_last_half_records it) \<subseteq> iter_rest it" "iter_rest (remove_first_half_records it) \<subseteq> iter_rest it"
  by (auto simp: remove_last_half_records_def remove_first_half_records_def iter_rest_def Let_def
      dest: in_set_takeD in_set_dropD)

lemma next_back_rest: "iter_next_back it = (Some r, it1) \<Longrightarrow> r \<in> iter_rest it \<and> iter_rest it1 \<subseteq> iter_rest it"
  by (auto simp: iter_next_back_def iter_rest_def dest: in_set_butlastD split: if_splits)

lemma check_middle_rest:
  assumes "check_middle_transaction_match it tx pk = (res, it1)"
  shows "iter_rest it1 \<subseteq> iter_rest it \<and> (res = Some True \<longrightarrow> (\<exists>r\<in>iter_rest it. same_submission tx pk r))"
proof (cases "fst (iter_middle it)")
  case (Some r)
  obtain it2 where m: "iter_middle it = (Some r, it2)" using Some by (cases "iter_middle it") auto
  show ?thesis
    using assms m middle_rest [OF m] halves_rest [of it2] check_match_true [of tx r pk]
    by (auto simp: check_middle_transaction_match_def split: sum.splits option.splits if_splits)
qed (use assms in \<open>auto simp: check_middle_transaction_match_def iter_middle_def Let_def split: if_splits\<close>)

lemma check_last_rest:
  assumes "check_last_transaction_match it tx pk = (res, it1)"
  shows "iter_rest it1 \<subseteq> iter_rest it \<and> (res = Some True \<longrightarrow> (\<exists>r\<in>iter_rest it. same_submission tx pk r))"
proof (cases "fst (iter_next_back it)")
  case (Some r)
  obtain it2 where b: "iter_next_back it = (Some r, it2)" using Some by (cases "iter_next_back it") auto
  obtain j it4 where j: "jump_to_next_page it2 = (j, it4)" by fastforce
  show ?thesis
    using assms b j next_back_rest [OF b] jump_rest [of it2] check_match_true [of tx r pk]
    by (auto simp: check_last_transaction_match_def split: sum.splits option.splits if_splits)
qed (use assms in \<open>auto simp: check_last_transaction_match_def iter_next_back_def split: if_splits\<close>)

lemma search_sound: "search_submitted tx pk it \<Longrightarrow> \<exists>r\<in>iter_rest it. same_submission tx pk r"
proof (induction tx pk it rule: search_submitted.induct)
  case (1 tx pk it)
  show ?case
  proof (cases "fst (iter_next it)")
    case None
    then show ?thesis using "1.prems" by (subst (asm) search_submitted.simps) (auto split: prod.splits option.splits)
  next
    case (Some r)
    then obtain it1 where n: "iter_next it = (Some r, it1)" by (cases "iter_next it") auto
    note sub = iter_next_rest [OF n]
    obtain res2 it2 where m: "check_middle_transaction_match it1 tx pk = (res2, it2)" by fastforce
    obtain res3 it3 where l: "check_last_transaction_match it2 tx pk = (res3, it3)" by fastforce
    show ?thesis
    proof (cases "check_transaction_match tx r pk")
      case (Inr b)
      then show ?thesis using "1.prems" n sub check_match_true [of tx r pk] by (subst (asm) search_submitted.simps) auto
    next
      case (Inl x)
      show ?thesis
      proof (cases x)
        case None
        then have "search_submitted tx pk it1" using "1.prems" n Inl by (subst (asm) search_submitted.simps) auto
        then show ?thesis using "1.IH"(1) [OF n [symmetric] refl Inl None] sub by blast
      next
        case (Some top)
        note found = check_middle_rest [OF m] check_last_rest [OF l]
        have "res2 = Some True \<or> res2 = None \<and> (res3 = Some True \<or> res3 = None \<and> search_submitted tx pk it3)"
          and le: "\<not> tx_seq_num tx > top"
          using "1.prems" n Inl Some m l
          by (subst (asm) search_submitted.simps, auto split: if_splits option.splits)+
        then show ?thesis
          using found sub "1.IH"(2) [OF n [symmetric] refl Inl Some le m [symmetric] _ l [symmetric]] by blast
      qed
    qed
  qed
qed

definition own_payment :: "int \<Rightarrow> byte \<Rightarrow> tx_response" where
  "own_payment seq memo =
     \<lparr>tr_source_account = Some [1], tr_source_account_sequence = Some seq, tr_memo_type = ''text'', tr_memo = Some [memo],
      tr_ledger = 1, tr_paging_token = 1, tr_envelope = None\<rparr>"

definition own_transaction :: "int \<Rightarrow> byte \<Rightarrow> transaction" where
  "own_transaction seq memo = \<lparr>tx_source = [1], tx_seq_num = seq, tx_memo = MemoText [memo], tx_operations = []\<rparr>"

definition own_history :: "tx_response list" where
  "own_history = [own_payment 50 5, own_payment 40 4, own_payment 30 3, own_payment 20 2, own_payment 10 1]"

lemma third_payment_missed: "\<not> is_transaction_already_submitted (own_transaction 30 3) [1] [Some own_history, Some []]"
  by code_simp

text \<open>
  C20: the search always ends, and when it says that a transaction was submitted already, one of the
  answers of Horizon has the account of the wallet, the sequence number and the memo of it.  The
  converse fails: of five payments of the wallet in the order of Horizon, the search misses the
  third one, because it drops a record that it has not looked at when it halves the page.
\<close>

theorem search_sound_incomplete:
  "(is_transaction_already_submitted tx public_key answers \<longrightarrow>
      (\<exists>page\<in>set answers. \<exists>rs. page = Some rs \<and> (\<exists>r\<in>set rs. same_submission tx public_key r))) \<and>
   same_submission (own_transaction 30 3) [1] (own_history ! 2) \<and>
   \<not> is_transaction_already_submitted (own_transaction 30 3) [1] [Some own_history, Some []]"
proof -
  have "\<exists>page\<in>set answers. \<exists>rs. page = Some rs \<and> (\<exists>r\<in>set rs. same_submission tx public_key r)"
    if found: "is_transaction_already_submitted tx public_key answers"
  proof -
    from found obtain records pages where a: "answers = Some records # pages"
      and "search_submitted tx public_key \<lparr>it_records = records, it_pages = pages\<rparr>"
      by (auto simp: is_transaction_already_submitted_def split: list.splits option.splits)
    from search_sound [OF this(2)] show ?thesis
      by (force simp: a iter_rest_def split: option.splits)
  qed
  moreover have "same_submission (own_transaction 30 3) [1] (own_history ! 2)"
    by (simp add: same_submission_def own_transaction_def own_history_def own_payment_def is_memo_match_def
        response_memo_text_def TYPE_MEMOTEXT_def)
  moreover note third_payment_missed
  ultimately show ?thesis by blast
qed

theorem search_sound_incomplete_witness:
  "\<exists>r\<in>set own_history. same_submission (own_transaction 50 5) [1] r"
proof -
  have "is_transaction_already_submitted (own_transaction 50 5) [1] [Some own_history]" by code_simp
  then show ?thesis
    using search_sound_incomplete [of "own_transaction 50 5" "[1]" "[Some own_history]"] by auto
qed

end
