(* ===== verification/Horizon_Client.thy ===== *)
theory Horizon_Client
  imports Submission_Search
begin

text \<open>
  The client of the Horizon servers (\<^verbatim>\<open>clients/wallet/src/horizon\<close> and \<^verbatim>\<open>clients/wallet/src/error.rs\<close>):
  how an answer is read, how a submission is tried again with a growing delay and on other servers,
  and how the transactions of an account are fetched page by page.
\<close>

section \<open>Errors\<close>

record wallet_envelope =
  we_envelope :: transaction_envelope
  we_fee :: nat

datatype cache_error_kind =
    UnknownSequenceNumber
  | SequenceNumberAlreadyUsed
  | CreateDirectoryFailed
  | FileCreationFailed
  | WriteToFileFailed
  | DeleteFileFailed
  | FileDoesNotExist
  | ReadFileFailed
  | InvalidFile
  | DecodeFileFailed

text \<open>
  Of the error of the HTTP client the wallet reads whether it is a timeout, and its status code.
  The last two constructors are no errors of the program: they stand for a panic, and for a task
  that still waits for an answer.
\<close>

datatype wallet_error =
    InvalidSecretKey
  | HorizonResponseError "(bool \<times> nat option) option" "nat option"
  | BuildTransactionError
  | HorizonSubmissionError string nat string "string list" "string option"
  | Utf8Error
  | DecodeError
  | SignEnvelopeError
  | WalletCacheError cache_error_kind "wallet_envelope option"
  | ResubmissionError string
  | SelfPaymentError
  | FailedToGetFee string
  | WalletPanic
  | StillWaiting

definition is_halted :: "wallet_error \<Rightarrow> bool" where
  "is_halted e \<longleftrightarrow> e \<in> {WalletPanic, StillWaiting}"

definition is_recoverable_error :: "wallet_error \<Rightarrow> bool" where
  "is_recoverable_error e = (case e of
     HorizonResponseError err status \<Rightarrow>
       (case err of Some (is_timeout, _) \<Rightarrow> is_timeout | None \<Rightarrow> False) \<or> status = Some 403
   | HorizonSubmissionError _ status _ _ _ \<Rightarrow> status = 504
   | WalletCacheError kind _ \<Rightarrow>
       kind \<in> {CreateDirectoryFailed, FileCreationFailed, WriteToFileFailed, DeleteFileFailed, FileDoesNotExist}
   | _ \<Rightarrow> False)"

definition is_server_status :: "nat \<Rightarrow> bool" where
  "is_server_status code \<longleftrightarrow> 500 \<le> code \<and> code < 599"

definition is_server_error :: "wallet_error \<Rightarrow> bool" where
  "is_server_error e = (case e of
     HorizonResponseError err status \<Rightarrow> (case err of
         Some (_, code) \<Rightarrow> (case code of Some n \<Rightarrow> is_server_status n | None \<Rightarrow> False)
       | None \<Rightarrow> (case status of Some n \<Rightarrow> is_server_status n | None \<Rightarrow> False))
   | HorizonSubmissionError _ status _ _ _ \<Rightarrow> is_server_status status
   | _ \<Rightarrow> False)"

section \<open>Reading an answer\<close>

text \<open>A JSON value, with one constructor for truth values and other numbers.  Looking up a field that is not there gives null.\<close>

datatype json = JNull | JNumber nat | JOther | JString string | JArray "json list" | JObject "(string \<times> json) list"

fun json_field :: "json \<Rightarrow> string \<Rightarrow> json" where
  "json_field (JObject entries) key = (case map_of entries key of Some v \<Rightarrow> v | None \<Rightarrow> JNull)"
| "json_field _ _ = JNull"

fun as_u64 :: "json \<Rightarrow> nat option" where
  "as_u64 (JNumber n) = (if n < 2 ^ 64 then Some n else None)"
| "as_u64 _ = None"

fun as_str :: "json \<Rightarrow> string option" where
  "as_str (JString s) = Some s"
| "as_str _ = None"

fun as_array :: "json \<Rightarrow> json list" where
  "as_array (JArray xs) = xs"
| "as_array _ = []"

definition VALUE_UNKNOWN :: string where "VALUE_UNKNOWN = ''unknown''"

definition str_or_unknown :: "json \<Rightarrow> string" where
  "str_or_unknown v = (case as_str v of Some s \<Rightarrow> s | None \<Rightarrow> VALUE_UNKNOWN)"

definition ascii_lower :: "char \<Rightarrow> char" where
  "ascii_lower c = (let n = of_char c :: nat in if 65 \<le> n \<and> n \<le> 90 then char_of (n + 32) else c)"

definition horizon_error :: "json \<Rightarrow> wallet_error" where
  "horizon_error resp =
     (let status = (case as_u64 (json_field resp ''status'') of Some n \<Rightarrow> if n < 2 ^ 16 then n else 400 | None \<Rightarrow> 400);
          title = str_or_unknown (json_field resp ''title'');
          extras = json_field resp ''extras'';
          result_codes = json_field extras ''result_codes'';
          detail = str_or_unknown (json_field resp ''detail'')
      in if status = 400 then
           (let envelope_xdr = str_or_unknown (json_field extras ''envelope_xdr'') in
            if map ascii_lower title = ''transaction malformed'' then
              HorizonSubmissionError title status detail [] (Some envelope_xdr)
            else
              HorizonSubmissionError title status (str_or_unknown (json_field result_codes ''transaction''))
                (map str_or_unknown (as_array (json_field result_codes ''operations''))) (Some envelope_xdr))
         else HorizonSubmissionError title status detail [] None)"

text \<open>
  The body is an error of the HTTP client or the bytes received, which are decoded as the wanted
  type or as any JSON value.
\<close>

definition is_success :: "nat \<Rightarrow> bool" where
  "is_success status \<longleftrightarrow> 200 \<le> status \<and> status < 300"

definition interpret_response ::
  "(byte list \<Rightarrow> 'a option) \<Rightarrow> (byte list \<Rightarrow> json option) \<Rightarrow> nat \<Rightarrow> (bool \<times> nat option) + byte list \<Rightarrow> wallet_error + 'a" where
  "interpret_response from_slice json_from_slice status body = (case body of
     Inl e \<Rightarrow> Inl (HorizonResponseError (Some e) (Some status))
   | Inr response_body \<Rightarrow>
       if is_success status then (case from_slice response_body of
           Some x \<Rightarrow> Inr x | None \<Rightarrow> Inl (HorizonResponseError None (Some status)))
       else (case json_from_slice response_body of
           None \<Rightarrow> Inl (HorizonResponseError None (Some status))
         | Some resp \<Rightarrow> Inl (horizon_error resp)))"

section \<open>Accounts and fees\<close>

record horizon_balance =
  hb_asset_code :: "byte list option"
  hb_asset_issuer :: "byte list option"
  hb_asset_type :: "byte list"

record horizon_account =
  ha_sequence :: int
  ha_balances :: "horizon_balance list"

definition ASSET_TYPE_NATIVE :: "byte list" where "ASSET_TYPE_NATIVE = ascii_bytes ''native''"

definition get_asset :: "(byte list \<Rightarrow> byte list \<Rightarrow> stellar_asset option) \<Rightarrow> horizon_balance \<Rightarrow> stellar_asset option" where
  "get_asset from_asset_code b =
     (if hb_asset_type b = ASSET_TYPE_NATIVE then Some AssetTypeNative
      else case (hb_asset_code b, hb_asset_issuer b) of
        (Some code, Some issuer) \<Rightarrow> from_asset_code code issuer
      | _ \<Rightarrow> None)"

definition is_trustline_exist ::
  "(byte list \<Rightarrow> byte list \<Rightarrow> stellar_asset option) \<Rightarrow> horizon_account \<Rightarrow> stellar_asset \<Rightarrow> bool" where
  "is_trustline_exist from_asset_code account asset \<longleftrightarrow>
     list_ex (\<lambda>balance. get_asset from_asset_code balance = Some asset) (ha_balances account)"

datatype fee_attribute =
  fee_max | fee_min | fee_mode | p10 | p20 | p30 | p40 | p50 | p60 | p70 | p80 | p90 | p95 | p99

type_synonym fee_distribution = "fee_attribute \<Rightarrow> nat"

definition default_fee_attribute :: fee_attribute where "default_fee_attribute = p95"

definition fee_charged_by :: "fee_distribution \<Rightarrow> fee_attribute \<Rightarrow> nat" where
  "fee_charged_by fee_charged fee_attr = fee_charged fee_attr"

section \<open>Submission\<close>

definition BASE_BACKOFF_DELAY_IN_SECS :: nat where "BASE_BACKOFF_DELAY_IN_SECS = 10"

text \<open>
  A try tells whether it went to another server and for how long the client slept after it.  The
  answer of Horizon to a try is known once it is known which server it goes to; with no answer left
  the submission has not returned.
\<close>

type_synonym submission_answer = "bool \<Rightarrow> wallet_error + tx_response"

fun with_envelope :: "string \<Rightarrow> wallet_error \<Rightarrow> wallet_error" where
  "with_envelope transaction_xdr (HorizonSubmissionError title status reason result_code_op envelope_xdr) =
     HorizonSubmissionError title status reason result_code_op
       (case envelope_xdr of Some x \<Rightarrow> Some x | None \<Rightarrow> Some transaction_xdr)"
| "with_envelope transaction_xdr e = e"

fun submit_loop :: "string \<Rightarrow> nat \<Rightarrow> nat \<Rightarrow> nat \<Rightarrow> nat \<Rightarrow> submission_answer list \<Rightarrow>
    (wallet_error + tx_response) \<times> (bool \<times> nat) list \<times> submission_answer list" where
  "submit_loop transaction_xdr max_retries max_backoff_delay_in_secs server_error_count backoff_delay_counter [] =
     (Inl StillWaiting, [], [])"
| "submit_loop transaction_xdr max_retries max_backoff_delay_in_secs server_error_count backoff_delay_counter (answer # later) =
     (let need_fallback = (server_error_count = max_retries);
          server_error_count1 = (if need_fallback then 0 else server_error_count)
      in case answer need_fallback of
        Inr response \<Rightarrow> (Inr response, [(need_fallback, 0)], later)
      | Inl e \<Rightarrow>
          if is_recoverable_error e \<or> is_server_error e then
            (let server_error_count2 = (if is_server_error e then (server_error_count1 + 1) mod 2 ^ 8 else server_error_count1);
                 sleep_duration = backoff_delay_counter * BASE_BACKOFF_DELAY_IN_SECS;
                 backoff_delay_counter1 =
                   (if sleep_duration < max_backoff_delay_in_secs then backoff_delay_counter + 1 else backoff_delay_counter);
                 (r, tries, rest) = submit_loop transaction_xdr max_retries max_backoff_delay_in_secs
                   server_error_count2 backoff_delay_counter1 later
             in (r, (need_fallback, sleep_duration) # tries, rest))
          else (Inl (with_envelope transaction_xdr e), [(need_fallback, 0)], later))"

definition horizon_submit_transaction :: "string \<Rightarrow> nat \<Rightarrow> nat \<Rightarrow> submission_answer list \<Rightarrow>
    (wallet_error + tx_response) \<times> (bool \<times> nat) list \<times> submission_answer list" where
  "horizon_submit_transaction transaction_xdr max_retries max_backoff_delay_in_secs answers =
     submit_loop transaction_xdr max_retries max_backoff_delay_in_secs 0 1 answers"

section \<open>Fetching the transactions of an account\<close>

type_synonym ledger_tx_env_map = "nat \<rightharpoonup> transaction_envelope"

definition save_relevant :: "(tx_response \<Rightarrow> bool) \<Rightarrow> ledger_tx_env_map \<Rightarrow> tx_response \<Rightarrow> ledger_tx_env_map" where
  "save_relevant is_relevant ledger_env_map tx =
     (if is_relevant tx then (case tr_envelope tx of
        Some tx_env \<Rightarrow> ledger_env_map(tr_ledger tx \<mapsto> tx_env) | None \<Rightarrow> ledger_env_map)
      else ledger_env_map)"

function process_transactions ::
  "(tx_response \<Rightarrow> bool) \<Rightarrow> response_iter \<Rightarrow> ledger_tx_env_map \<Rightarrow> nat \<Rightarrow> ledger_tx_env_map \<times> nat" where
  "process_transactions is_relevant txs_iter ledger_env_map last_cursor = (case iter_next txs_iter of
     (None, _) \<Rightarrow> (ledger_env_map, last_cursor)
   | (Some tx, txs_iter1) \<Rightarrow>
       process_transactions is_relevant txs_iter1
         (save_relevant is_relevant ledger_env_map tx)
         (if it_records txs_iter1 = [] then tr_paging_token tx else last_cursor))"
  by pat_completeness auto
termination
  by (relation "measure (\<lambda>(_, it, _, _). iter_size it)") (auto dest: iter_next_size [OF sym])

declare process_transactions.simps [simp del]

text \<open>Nothing is fetched while no issue request is open.\<close>

definition fetch_horizon_and_process_new_transactions ::
  "bool \<Rightarrow> (tx_response \<Rightarrow> bool) \<Rightarrow> wallet_error + tx_response list \<Rightarrow> tx_response list option list \<Rightarrow>
   ledger_tx_env_map \<Rightarrow> nat \<Rightarrow> wallet_error + ledger_tx_env_map \<times> nat" where
  "fetch_horizon_and_process_new_transactions nothing_open is_relevant answer pages ledger_env_map last_cursor =
     (if nothing_open then Inr (ledger_env_map, last_cursor)
      else case answer of
        Inl e \<Rightarrow> Inl e
      | Inr records \<Rightarrow>
          Inr (process_transactions is_relevant \<lparr>it_records = records, it_pages = pages\<rparr> ledger_env_map last_cursor))"

section \<open>Properties of the client\<close>

text \<open>A submission that returns does not return an error that is worth another try.\<close>

lemma with_envelope_kind:
  "is_recoverable_error (with_envelope x e) = is_recoverable_error e" "is_server_error (with_envelope x e) = is_server_error e"
  by (cases e; simp add: is_recoverable_error_def is_server_error_def)+

lemma submit_loop_step:
  assumes "submit_loop xdr retries backoff n k (answer # later) = (r, tries, rest)"
  shows "(tries = [(n = retries, 0)] \<and> rest = later \<and> ((\<exists>x. r = Inr x \<and> answer (n = retries) = Inr x) \<or>
      (\<exists>e. r = Inl (with_envelope xdr e) \<and> answer (n = retries) = Inl e \<and> \<not> is_recoverable_error e \<and> \<not> is_server_error e))) \<or>
    (\<exists>n' ts. submit_loop xdr retries backoff n' (if k * 10 < backoff then k + 1 else k) later = (r, ts, rest) \<and>
      tries = (n = retries, k * 10) # ts)"
proof (cases "answer (n = retries)")
  case (Inl e)
  then show ?thesis
    using assms by (cases "is_recoverable_error e \<or> is_server_error e")
      (auto simp: Let_def BASE_BACKOFF_DELAY_IN_SECS_def split: prod.splits if_splits)
next
  case (Inr x)
  then show ?thesis using assms by (auto simp: Let_def Inr)
qed

lemma submit_loop_final:
  "submit_loop xdr retries backoff n k answers = (Inl e, tries, rest) \<Longrightarrow>
   \<not> is_recoverable_error e \<and> \<not> is_server_error e"
  by (induction answers arbitrary: n k tries)
    (auto simp: is_recoverable_error_def [of StillWaiting] is_server_error_def [of StillWaiting] with_envelope_kind
      simp del: submit_loop.simps(2) dest!: submit_loop_step)

lemma submit_loop_consumes:
  "submit_loop xdr retries backoff n k answers = (r, tries, rest) \<Longrightarrow> r \<noteq> Inl StillWaiting \<Longrightarrow>
   length rest < length answers"
  by (induction answers arbitrary: n k tries)
    (force simp del: submit_loop.simps(2) dest!: submit_loop_step intro: less_SucI)+

text \<open>The client never sleeps longer than the given bound, rounded up to the step of the delay.\<close>

lemma submit_loop_delays:
  assumes "submit_loop xdr retries backoff n k answers = (r, tries, rest)" and "k * 10 < max 11 (backoff + 10)"
  shows "\<forall>x\<in>set tries. snd x < max 11 (backoff + 10)"
  using assms
proof (induction answers arbitrary: n k tries)
  case (Cons answer later)
  let ?k = "if k * 10 < backoff then k + 1 else k"
  have "?k * 10 < max 11 (backoff + 10)" using Cons.prems(2) by simp
  then have "\<forall>x\<in>set ts. snd x < max 11 (backoff + 10)" if "submit_loop xdr retries backoff n' ?k later = (r, ts, rest)" for n' ts
    using Cons.IH that by blast
  then show ?case using submit_loop_step [OF Cons.prems(1)] Cons.prems(2) by (elim disjE exE conjE) simp_all
qed simp

text \<open>After three server errors in a row the default client turns to another server.\<close>

lemma fallback_after_errors:
  assumes "\<forall>i<3. \<exists>e. (answers ! i) False = Inl e \<and> is_server_error e" and "length answers = 4"
  shows "map fst (fst (snd (horizon_submit_transaction xdr 3 backoff answers))) = [False, False, False, True]"
proof -
  obtain a b c d where l: "answers = [a, b, c, d]"
    using assms(2) by (auto simp: length_Suc_conv numeral_eq_Suc)
  obtain e1 e2 e3 where "a False = Inl e1" "is_server_error e1" "b False = Inl e2" "is_server_error e2"
    "c False = Inl e3" "is_server_error e3"
    using assms(1) [rule_format, of 0] assms(1) [rule_format, of 1] assms(1) [rule_format, of 2] by (auto simp: l)
  then show ?thesis
    by (cases "d True") (simp_all add: l horizon_submit_transaction_def Let_def)
qed

text \<open>
  An error of status 400 always carries an envelope, the word unknown if the answer has none, so that
  the envelope that was sent is not put in its place.
\<close>

lemma missing_envelope_unknown:
  assumes "json_field resp ''status'' = JNumber 400" and "json_field resp ''extras'' = JNull"
  shows "\<exists>title reason ops. with_envelope xdr (horizon_error resp) =
    HorizonSubmissionError title 400 reason ops (Some ''unknown'')"
  using assms by (simp add: horizon_error_def Let_def str_or_unknown_def VALUE_UNKNOWN_def)

section \<open>What is fetched\<close>

definition iter_all :: "response_iter \<Rightarrow> tx_response list" where
  "iter_all it = it_records it @ concat (map the (takeWhile (\<lambda>page. page \<noteq> None \<and> page \<noteq> Some []) (it_pages it)))"

lemma iter_next_all:
  "iter_next it = (None, it1) \<Longrightarrow> iter_all it = []"
  "iter_next it = (Some tx, it1) \<Longrightarrow> iter_all it = tx # iter_all it1"
  "iter_next it = (Some tx, it1) \<Longrightarrow> it_records it1 \<noteq> [] \<Longrightarrow> iter_all it1 \<noteq> []"
  by (auto simp: iter_all_def iter_next_def get_top_record_def jump_to_next_page_def
      split: list.splits option.splits prod.splits)

lemma process_transactions_all:
  "process_transactions is_relevant it m cursor =
     (foldl (save_relevant is_relevant) m (iter_all it),
      if iter_all it = [] then cursor else tr_paging_token (last (iter_all it)))"
proof (induction is_relevant it m cursor rule: process_transactions.induct)
  case (1 is_relevant it m cursor)
  show ?case
  proof (cases "iter_next it")
    case (Pair r it1)
    show ?thesis
    proof (cases r)
      case None
      then show ?thesis using Pair iter_next_all(1) [of it it1] by (simp add: process_transactions.simps)
    next
      case (Some tx)
      then have "process_transactions is_relevant it m cursor =
          process_transactions is_relevant it1 (save_relevant is_relevant m tx)
            (if it_records it1 = [] then tr_paging_token tx else cursor)"
        using Pair by (subst process_transactions.simps) simp
      then show ?thesis
        using 1 [OF Pair [symmetric] Some] iter_next_all(2,3) [of it tx it1] Pair Some by auto
    qed
  qed
qed

text \<open>
  One round over the transactions of the account looks at every transaction up to the first page that
  is empty or cannot be fetched, and the next round starts behind the last of them.  Of two relevant
  payments in one ledger only the later one is kept.
\<close>

lemma saved_slots:
  "foldl (save_relevant is_relevant) m txs slot = (case filter (\<lambda>tx. is_relevant tx \<and> tr_envelope tx \<noteq> None \<and> tr_ledger tx = slot) txs of
     [] \<Rightarrow> m slot | x # xs \<Rightarrow> tr_envelope (last (x # xs)))"
proof (induction txs rule: rev_induct)
  case (snoc tx txs)
  then show ?case by (auto simp: save_relevant_def split: option.splits list.splits)
qed simp

lemma fetched_and_remembered:
  "fetch_horizon_and_process_new_transactions False is_relevant (Inr records) pages m cursor =
   (let txs = iter_all \<lparr>it_records = records, it_pages = pages\<rparr> in
    Inr (\<lambda>slot. case filter (\<lambda>tx. is_relevant tx \<and> tr_envelope tx \<noteq> None \<and> tr_ledger tx = slot) txs of
           [] \<Rightarrow> m slot | x # xs \<Rightarrow> tr_envelope (last (x # xs)),
         if txs = [] then cursor else tr_paging_token (last txs)))"
  by (simp add: fetch_horizon_and_process_new_transactions_def process_transactions_all saved_slots [abs_def] Let_def)

end
