(* ===== verification/Stellar_Wallet.thy ===== *)
theory Stellar_Wallet
  imports "HOL-Library.Multiset" "HOL-Library.Countable" Horizon_Client Currency_Amount
begin

text \<open>
  The Stellar wallet of a vault (\<^verbatim>\<open>clients/wallet/src\<close>): the files in which it keeps envelopes until
  they are submitted, the operations it builds for a payment, the submission of a payment, and what
  it does about submissions that failed.  The encodings of the Stellar library, the file system and
  the answers of Horizon are parameters.
\<close>

section \<open>The format of the files\<close>

text \<open>Numbers are written in decimals, and bytes in the debug format of a vector.\<close>

definition digit_char :: "nat \<Rightarrow> char" where
  "digit_char n = char_of (48 + n)"

fun show_nat :: "nat \<Rightarrow> string" where
  "show_nat n = (if n < 10 then [digit_char n] else show_nat (n div 10) @ [digit_char (n mod 10)])"

declare show_nat.simps [simp del]

fun join_with :: "string \<Rightarrow> string list \<Rightarrow> string" where
  "join_with sep [] = []"
| "join_with sep [x] = x"
| "join_with sep (x # y # ys) = x @ sep @ join_with sep (y # ys)"

definition debug_bytes :: "byte list \<Rightarrow> string" where
  "debug_bytes bs = ''['' @ join_with '', '' (map (\<lambda>b. show_nat (unat b)) bs) @ '']''"

definition digit_value :: "char \<Rightarrow> nat option" where
  "digit_value c = (let n = of_char c :: nat in if 48 \<le> n \<and> n \<le> 57 then Some (n - 48) else None)"

fun parse_digits :: "nat \<Rightarrow> nat \<Rightarrow> string \<Rightarrow> nat option" where
  "parse_digits bound acc [] = Some acc"
| "parse_digits bound acc (c # cs) = (case digit_value c of
     None \<Rightarrow> None
   | Some d \<Rightarrow> if 10 * acc + d < bound then parse_digits bound (10 * acc + d) cs else None)"

text \<open>The parser of unsigned numbers of the standard library: it accepts a leading plus sign.\<close>

definition parse_unsigned :: "nat \<Rightarrow> string \<Rightarrow> nat option" where
  "parse_unsigned bound s = (case s of
     [] \<Rightarrow> None
   | c # cs \<Rightarrow> parse_digits bound 0 (if c = CHR ''+'' \<and> cs \<noteq> [] then cs else s))"

fun split_comma :: "string \<Rightarrow> string list" where
  "split_comma [] = [[]]"
| "split_comma (c # cs) =
     (if c = CHR '','' then [] # split_comma cs
      else case split_comma cs of [] \<Rightarrow> [[c]] | w # ws \<Rightarrow> (c # w) # ws)"

fun parse_all_u8 :: "string list \<Rightarrow> byte list option" where
  "parse_all_u8 [] = Some []"
| "parse_all_u8 (x # xs) = (case parse_unsigned 256 x of
     None \<Rightarrow> None | Some n \<Rightarrow> map_option (\<lambda>bs. of_nat n # bs) (parse_all_u8 xs))"

text \<open>Taking the brackets off a content of fewer than two characters panics.\<close>

definition parse_xdr_string_to_vec_u8 :: "string \<Rightarrow> wallet_error + byte list option" where
  "parse_xdr_string_to_vec_u8 content =
     (let remove_white_space = filter (\<lambda>c. c \<noteq> CHR '' '') content
      in if length remove_white_space < 2 then Inl WalletPanic
         else Inr (parse_all_u8 (split_comma (butlast (tl remove_white_space)))))"

section \<open>The wallet\<close>

text \<open>
  What is fixed while the wallet runs: its account, the settings of its submissions, the encodings of
  the Stellar library, what the library and the file system refuse, and the fees.
\<close>

record wallet =
  wl_public_key :: "byte list"
  wl_max_retry_attempts_before_fallback :: nat
  wl_max_backoff_delay :: nat
  wl_to_xdr :: "wallet_envelope \<Rightarrow> byte list"
  wl_from_xdr :: "byte list \<Rightarrow> wallet_envelope option"
  wl_to_base64_xdr :: "wallet_envelope \<Rightarrow> string"
  wl_from_base64_xdr :: "string \<Rightarrow> wallet_envelope option"
  wl_to_base58 :: "byte list \<Rightarrow> byte list"
  wl_from_asset_code :: "byte list \<Rightarrow> byte list \<Rightarrow> stellar_asset option"
  wl_from_v0 :: "transaction \<Rightarrow> transaction"
  wl_builds_operation :: "operation_body \<Rightarrow> bool"
  wl_builds_transaction :: "transaction \<Rightarrow> bool"
  wl_signs :: "wallet_envelope \<Rightarrow> bool"
  wl_total_fee :: "nat \<Rightarrow> nat \<Rightarrow> nat"
  wl_creates_files :: bool
  wl_writes_files :: bool
  wl_fee_stats :: "string + fee_distribution"

text \<open>
  The state: the files, named by sequence numbers and in the order of the directory; the cursor file;
  what Horizon is going to answer to the tries of submissions, to the questions for accounts and to
  the searches in the history; and the envelopes submitted so far with their results.
\<close>

record wallet_state =
  ws_files :: "(int \<times> string) list"
  ws_cursor :: "string option"
  ws_answers :: "submission_answer list"
  ws_accounts :: "(wallet_error + horizon_account) list"
  ws_histories :: "tx_response list option list list"
  ws_submitted :: "(wallet_envelope \<times> (wallet_error + tx_response)) list"

type_synonym 'a wallet_op = "(wallet_state, wallet_error, 'a) op"

text \<open>A result that is inspected; a panic and a wait are not.\<close>

definition tried :: "'a wallet_op \<Rightarrow> (wallet_error + 'a) wallet_op" where
  "tried m s = (case m s of
     (Inl e, t) \<Rightarrow> (if is_halted e then Inl e else Inr (Inl e), t)
   | (Inr x, t) \<Rightarrow> (Inr (Inr x), t))"

definition ask_account :: "horizon_account wallet_op" where
  "ask_account s = (case ws_accounts s of
     [] \<Rightarrow> (Inl StillWaiting, s) | a # later \<Rightarrow> (a, s\<lparr>ws_accounts := later\<rparr>))"

definition ask_history :: "transaction \<Rightarrow> byte list \<Rightarrow> bool wallet_op" where
  "ask_history tx own_public_key s = (case ws_histories s of
     [] \<Rightarrow> (Inl StillWaiting, s)
   | answers # later \<Rightarrow> (Inr (is_transaction_already_submitted tx own_public_key answers), s\<lparr>ws_histories := later\<rparr>))"

section \<open>The cache\<close>

definition get_last_cursor :: "wallet_state \<Rightarrow> nat" where
  "get_last_cursor s = (case ws_cursor s of
     None \<Rightarrow> 0
   | Some content \<Rightarrow> (case parse_unsigned (2 ^ 128) content of Some n \<Rightarrow> n | None \<Rightarrow> 0))"

definition save_cursor :: "wallet \<Rightarrow> nat \<Rightarrow> unit wallet_op" where
  "save_cursor wl paging_token = (bindM (ensureM (wl_creates_files wl) (WalletCacheError FileCreationFailed None)) (\<lambda>_.
    bindM (modifyM (ws_cursor_update (\<lambda>_. Some (if wl_writes_files wl then show_nat paging_token else [])))) (\<lambda>_.
    ensureM (wl_writes_files wl) (WalletCacheError WriteToFileFailed None))))"

definition save_tx_envelope :: "wallet \<Rightarrow> wallet_envelope \<Rightarrow> unit wallet_op" where
  "save_tx_envelope wl tx_envelope = (bindM (ok_orM (sequence_number (we_envelope tx_envelope)) (WalletCacheError UnknownSequenceNumber (Some tx_envelope))) (\<lambda>sequence.
    bindM (getM (\<lambda>s. sequence \<in> fst ` set (ws_files s))) (\<lambda>exists.
    bindM (ensureM (\<not> exists) (WalletCacheError SequenceNumberAlreadyUsed None)) (\<lambda>_.
    bindM (ensureM (wl_creates_files wl) (WalletCacheError FileCreationFailed (Some tx_envelope))) (\<lambda>_.
    bindM (modifyM (ws_files_update (\<lambda>fs. fs @ [(sequence, if wl_writes_files wl then debug_bytes (wl_to_xdr wl tx_envelope) else [])]))) (\<lambda>_.
    ensureM (wl_writes_files wl) (WalletCacheError WriteToFileFailed (Some tx_envelope))))))))"

definition remove_tx_envelope :: "int \<Rightarrow> wallet_state \<Rightarrow> wallet_state" where
  "remove_tx_envelope sequence s = ws_files_update (filter (\<lambda>f. fst f \<noteq> sequence)) s"

definition remove_tx_envelope_from_cache :: "wallet_envelope \<Rightarrow> wallet_state \<Rightarrow> wallet_state" where
  "remove_tx_envelope_from_cache tx_envelope s = (case sequence_number (we_envelope tx_envelope) of
     Some sequence \<Rightarrow> remove_tx_envelope sequence s | None \<Rightarrow> s)"

definition extract_tx_envelope_from_path :: "wallet \<Rightarrow> string \<Rightarrow> wallet_error + (wallet_error + wallet_envelope \<times> int)" where
  "extract_tx_envelope_from_path wl content_from_file = (case parse_xdr_string_to_vec_u8 content_from_file of
     Inl panic \<Rightarrow> Inl panic
   | Inr None \<Rightarrow> Inr (Inl (WalletCacheError InvalidFile None))
   | Inr (Some content_as_vec_u8) \<Rightarrow> Inr (case wl_from_xdr wl content_as_vec_u8 of
       None \<Rightarrow> Inl (WalletCacheError DecodeFileFailed None)
     | Some env \<Rightarrow> (case sequence_number (we_envelope env) of
         None \<Rightarrow> Inl (WalletCacheError UnknownSequenceNumber (Some env))
       | Some seq \<Rightarrow> Inr (env, seq))))"

fun read_files :: "wallet \<Rightarrow> (int \<times> string) list \<Rightarrow>
    wallet_error + (wallet_envelope \<times> int) list \<times> wallet_error list \<times> (int \<times> string) list" where
  "read_files wl [] = Inr ([], [], [])"
| "read_files wl (f # fs) = (bindR (extract_tx_envelope_from_path wl (snd f)) (\<lambda>r.
  bindR (read_files wl fs) (\<lambda>later.
  Inr (case later of (envs, errors, kept) \<Rightarrow> (case r of
    Inr env \<Rightarrow> (env # envs, errors, f # kept) | Inl e \<Rightarrow> (envs, e # errors, kept))))))"

text \<open>Files that cannot be read are removed; it is an error only if none can be read.\<close>

definition get_tx_envelopes :: "wallet \<Rightarrow> (wallet_error list + wallet_envelope list \<times> wallet_error list) wallet_op" where
  "get_tx_envelopes wl = (bindM (getM ws_files) (\<lambda>files.
    bindM (liftM (read_files wl files)) (\<lambda>read.
    (case read of (tx_envelopes, errors, kept) \<Rightarrow> (bindM (modifyM (ws_files_update (\<lambda>_. kept))) (\<lambda>_.
      retM (if tx_envelopes = [] \<and> errors \<noteq> [] then Inl errors
        else Inr (map fst (sort_key snd tx_envelopes), errors))))))))"

section \<open>Operations\<close>

text \<open>Of a create-account operation the chain reads nothing but its type.\<close>

definition CREATE_ACCOUNT :: nat where "CREATE_ACCOUNT = 0"

definition map_err_as_build_tx_error :: "wallet \<Rightarrow> operation_body \<Rightarrow> wallet_error + operation_body" where
  "map_err_as_build_tx_error wl op = (if wl_builds_operation wl op then Inr op else Inl BuildTransactionError)"

definition create_payment_operation :: "wallet \<Rightarrow> byte list \<Rightarrow> stellar_asset \<Rightarrow> int \<Rightarrow> wallet_error + operation_body" where
  "create_payment_operation wl destination_address asset stroop_amount = map_err_as_build_tx_error wl
     (Payment \<lparr>po_destination = KeyTypeEd25519 destination_address, po_asset = asset, po_amount = stroop_amount\<rparr>)"

definition create_unconditional_claimable_balance_operation ::
  "wallet \<Rightarrow> byte list \<Rightarrow> stellar_asset \<Rightarrow> int \<Rightarrow> wallet_error + operation_body" where
  "create_unconditional_claimable_balance_operation wl destination_address asset stroop_amount = map_err_as_build_tx_error wl
     (CreateClaimableBalance \<lparr>cb_asset = asset, cb_amount = stroop_amount,
       cb_claimants = [\<lparr>cl_destination = destination_address, cl_predicate = ClaimPredicateUnconditional\<rparr>]\<rparr>)"

definition create_account_operation :: "wallet \<Rightarrow> byte list \<Rightarrow> int \<Rightarrow> wallet_error + operation_body" where
  "create_account_operation wl destination_address starting_stroop_amount =
     map_err_as_build_tx_error wl (OtherOperation CREATE_ACCOUNT)"

definition create_payment_op_for_redeem_request ::
  "wallet \<Rightarrow> byte list \<Rightarrow> stellar_asset \<Rightarrow> int \<Rightarrow> operation_body wallet_op" where
  "create_payment_op_for_redeem_request wl destination_address asset stroop_amount = (bindM (tried ask_account) (\<lambda>answer.
    liftM (case answer of
        Inr account \<Rightarrow>
          if is_trustline_exist (wl_from_asset_code wl) account asset
          then create_payment_operation wl destination_address asset stroop_amount
          else create_unconditional_claimable_balance_operation wl destination_address asset stroop_amount
      | Inl e \<Rightarrow> (case e of
          HorizonSubmissionError _ status _ _ _ \<Rightarrow>
            if status = 404 then
              (if asset = AssetTypeNative \<and>
                  stellar_stroops_to_u128 stroop_amount \<ge> decimals_one pendulum_decimals (Stellar StellarNative)
               then create_account_operation wl destination_address stroop_amount
               else create_unconditional_claimable_balance_operation wl destination_address asset stroop_amount)
            else Inl e
        | _ \<Rightarrow> Inl e))))"

definition create_basic_spacewalk_stellar_transaction ::
  "wallet \<Rightarrow> byte list \<Rightarrow> byte list \<Rightarrow> int \<Rightarrow> wallet_error + transaction" where
  "create_basic_spacewalk_stellar_transaction wl request_id public_key next_sequence_number =
     (case derive_shortened_request_id (wl_to_base58 wl) request_id of
        Inl _ \<Rightarrow> Inl WalletPanic
      | Inr memo \<Rightarrow>
          Inr \<lparr>tx_source = public_key, tx_seq_num = next_sequence_number, tx_memo = MemoText memo, tx_operations = []\<rparr>)"

definition append_multiple :: "wallet \<Rightarrow> operation_body list \<Rightarrow> transaction \<Rightarrow> wallet_error + transaction" where
  "append_multiple wl items tx =
     (let tx1 = tx\<lparr>tx_operations := tx_operations tx @ items\<rparr>
      in if wl_builds_transaction wl tx1 then Inr tx1 else Inl BuildTransactionError)"

section \<open>Payments\<close>

text \<open>A submission tries to save the envelope, whatever comes of it, and removes it afterwards.\<close>

definition post_transaction :: "wallet \<Rightarrow> wallet_envelope \<Rightarrow> tx_response wallet_op" where
  "post_transaction wl envelope s =
     (case horizon_submit_transaction (wl_to_base64_xdr wl envelope) (wl_max_retry_attempts_before_fallback wl)
        (wl_max_backoff_delay wl) (ws_answers s) of
       (r, _, later) \<Rightarrow> (r, s\<lparr>ws_answers := later, ws_submitted := ws_submitted s @ [(envelope, r)]\<rparr>))"

definition submit_transaction :: "wallet \<Rightarrow> wallet_envelope \<Rightarrow> tx_response wallet_op" where
  "submit_transaction wl envelope = (bindM (tried (save_tx_envelope wl envelope)) (\<lambda>_.
    bindM (tried (post_transaction wl envelope)) (\<lambda>submission_result.
    bindM (modifyM (remove_tx_envelope_from_cache envelope)) (\<lambda>_.
    liftM submission_result))))"

definition sign_envelope :: "wallet \<Rightarrow> wallet_envelope \<Rightarrow> wallet_error + unit" where
  "sign_envelope wl envelope = ensureR (wl_signs wl envelope) SignEnvelopeError"

definition create_and_sign_envelope :: "wallet \<Rightarrow> transaction \<Rightarrow> nat \<Rightarrow> wallet_error + wallet_envelope" where
  "create_and_sign_envelope wl tx fee = (let envelope = \<lparr>we_envelope = EnvelopeTypeTx tx, we_fee = fee\<rparr> in
    bindR (sign_envelope wl envelope) (\<lambda>_.
    Inr envelope))"

text \<open>The Stellar library sets the fee of a transaction from the fee of an operation and their number.\<close>

definition create_envelope ::
  "wallet \<Rightarrow> byte list \<Rightarrow> nat \<Rightarrow> int \<Rightarrow> operation_body list \<Rightarrow> wallet_error + wallet_envelope" where
  "create_envelope wl request_id stroop_fee_per_operation next_sequence_number operations = (bindR (create_basic_spacewalk_stellar_transaction wl request_id (wl_public_key wl) next_sequence_number) (\<lambda>transaction.
    bindR (append_multiple wl operations transaction) (\<lambda>transaction1.
    create_and_sign_envelope wl transaction1 (wl_total_fee wl stroop_fee_per_operation (length operations)))))"

definition DEFAULT_STROOP_FEE_PER_OPERATION :: nat where "DEFAULT_STROOP_FEE_PER_OPERATION = 100000"

definition send_to_address :: "wallet \<Rightarrow> byte list \<Rightarrow> operation_body list \<Rightarrow> tx_response wallet_op" where
  "send_to_address wl request_id operations = (let stroop_fee_per_operation = (case wl_fee_stats wl of
        Inr fee_charged \<Rightarrow> fee_charged_by fee_charged default_fee_attribute
      | Inl _ \<Rightarrow> DEFAULT_STROOP_FEE_PER_OPERATION) in
    bindM ask_account (\<lambda>account.
    let next_sequence_number = ha_sequence account + 1 in
    bindM (liftM (create_envelope wl request_id stroop_fee_per_operation next_sequence_number operations)) (\<lambda>envelope.
    submit_transaction wl envelope)))"

definition send_payment_to_address ::
  "wallet \<Rightarrow> byte list \<Rightarrow> stellar_asset \<Rightarrow> int \<Rightarrow> byte list \<Rightarrow> bool \<Rightarrow> tx_response wallet_op" where
  "send_payment_to_address wl destination_address asset stroop_amount request_id is_payment_for_redeem_request = (bindM (ensureM (wl_public_key wl \<noteq> destination_address) SelfPaymentError) (\<lambda>_.
    bindM ((if is_payment_for_redeem_request
      then create_payment_op_for_redeem_request wl destination_address asset stroop_amount
      else liftM (create_payment_operation wl destination_address asset stroop_amount))) (\<lambda>payment_op.
    send_to_address wl request_id [payment_op])))"

section \<open>Failed submissions\<close>

definition MAXIMUM_TX_FEE :: nat where "MAXIMUM_TX_FEE = 10000000"

definition decode_to_envelope :: "wallet \<Rightarrow> string option \<Rightarrow> wallet_error + wallet_envelope" where
  "decode_to_envelope wl envelope_xdr = (case envelope_xdr of
     None \<Rightarrow> Inl (ResubmissionError ''no envelope_xdr'')
   | Some xdr \<Rightarrow> (case wl_from_base64_xdr wl xdr of None \<Rightarrow> Inl DecodeError | Some env \<Rightarrow> Inr env))"

definition bump_sequence_number_and_submit :: "wallet \<Rightarrow> transaction \<Rightarrow> nat \<Rightarrow> tx_response wallet_op" where
  "bump_sequence_number_and_submit wl tx fee = (bindM ask_account (\<lambda>account.
    let updated_tx = tx\<lparr>tx_seq_num := ha_sequence account + 1\<rparr> in
    bindM (liftM (create_and_sign_envelope wl updated_tx fee)) (\<lambda>envelope.
    submit_transaction wl envelope)))"

text \<open>The fee is bumped ten times, in 32 bits, and at most to the maximum.\<close>

definition bumped_fee :: "nat \<Rightarrow> nat" where
  "bumped_fee fee = min ((fee * 10) mod 2 ^ 32) MAXIMUM_TX_FEE"

definition resubmit_unless_submitted ::
  "wallet \<Rightarrow> (nat \<Rightarrow> nat) \<Rightarrow> wallet_envelope \<Rightarrow> tx_response wallet_op" where
  "resubmit_unless_submitted wl new_fee tx_envelope = (bindM (ok_orM (get_transaction (wl_from_v0 wl) (we_envelope tx_envelope)) DecodeError) (\<lambda>tx.
    bindM (ask_history tx (wl_public_key wl)) (\<lambda>submitted.
    bindM (ensureM (\<not> submitted) (ResubmissionError ''Transaction already submitted'')) (\<lambda>_.
    bindM (modifyM (remove_tx_envelope_from_cache tx_envelope)) (\<lambda>_.
    bump_sequence_number_and_submit wl tx (new_fee (we_fee tx_envelope)))))))"

definition handle_tx_bad_seq_error_with_envelope :: "wallet \<Rightarrow> wallet_envelope \<Rightarrow> tx_response wallet_op" where
  "handle_tx_bad_seq_error_with_envelope wl tx_envelope = resubmit_unless_submitted wl (\<lambda>fee. fee) tx_envelope"

definition handle_tx_bad_seq_error_with_xdr :: "wallet \<Rightarrow> string option \<Rightarrow> tx_response wallet_op" where
  "handle_tx_bad_seq_error_with_xdr wl envelope_xdr = (bindM (liftM (decode_to_envelope wl envelope_xdr)) (\<lambda>tx_envelope.
    handle_tx_bad_seq_error_with_envelope wl tx_envelope))"

definition handle_tx_insufficient_fee_error :: "wallet \<Rightarrow> string option \<Rightarrow> tx_response wallet_op" where
  "handle_tx_insufficient_fee_error wl envelope_xdr = (bindM (liftM (decode_to_envelope wl envelope_xdr)) (\<lambda>tx_envelope.
    resubmit_unless_submitted wl bumped_fee tx_envelope))"

definition handle_tx_internal_error :: "wallet \<Rightarrow> string option \<Rightarrow> tx_response wallet_op" where
  "handle_tx_internal_error wl envelope_xdr = (bindM (liftM (decode_to_envelope wl envelope_xdr)) (\<lambda>envelope.
    bindM (liftM (sign_envelope wl envelope)) (\<lambda>_.
    submit_transaction wl envelope)))"

definition map_some :: "'a wallet_op \<Rightarrow> 'a option wallet_op" where
  "map_some m = (bindM m (\<lambda>x.
    retM (Some x)))"

definition handle_error :: "wallet \<Rightarrow> wallet_error \<Rightarrow> tx_response option wallet_op" where
  "handle_error wl error = (case error of
     HorizonSubmissionError _ _ reason _ envelope_xdr \<Rightarrow>
       if reason = ''tx_bad_seq'' then map_some (handle_tx_bad_seq_error_with_xdr wl envelope_xdr)
       else if reason = ''tx_internal_error'' then map_some (handle_tx_internal_error wl envelope_xdr)
       else if reason = ''tx_insufficient_fee'' then map_some (handle_tx_insufficient_fee_error wl envelope_xdr)
       else (bindM ((case decode_to_envelope wl envelope_xdr of
           Inr env \<Rightarrow> modifyM (remove_tx_envelope_from_cache env) | Inl _ \<Rightarrow> retM ())) (\<lambda>_.
         retM None))
   | WalletCacheError kind envelope \<Rightarrow>
       if kind = SequenceNumberAlreadyUsed then (case envelope of
         Some transaction_envelope \<Rightarrow> map_some (handle_tx_bad_seq_error_with_envelope wl transaction_envelope)
       | None \<Rightarrow> retM None)
       else retM None
   | _ \<Rightarrow> retM None)"

section \<open>Progress of the handlers\<close>

text \<open>
  Handling an error may produce another one.  Each time, an answer of Horizon is used up, or the new
  error is one that is not tried again.
\<close>

definition resources :: "wallet_state \<Rightarrow> nat" where
  "resources s = length (ws_answers s) + length (ws_accounts s)"

definition retried :: "wallet_error \<Rightarrow> bool" where
  "retried e = (case e of
     HorizonSubmissionError _ _ reason _ _ \<Rightarrow> reason \<in> {''tx_bad_seq'', ''tx_internal_error'', ''tx_insufficient_fee''}
   | WalletCacheError kind envelope \<Rightarrow> kind = SequenceNumberAlreadyUsed \<and> envelope \<noteq> None
   | _ \<Rightarrow> False)"

definition lessened :: "wallet_error + 'a \<Rightarrow> wallet_state \<Rightarrow> wallet_state \<Rightarrow> bool" where
  "lessened r s t = (case r of
     Inr _ \<Rightarrow> resources t \<le> resources s
   | Inl e \<Rightarrow> is_halted e \<or> resources t < resources s \<or> resources t \<le> resources s \<and> \<not> retried e)"

definition lessens :: "'a wallet_op \<Rightarrow> bool" where
  "lessens m \<longleftrightarrow> (\<forall>s r t. m s = (r, t) \<longrightarrow> lessened r s t)"

named_theorems lessens_intro

lemma lessensD: "lessens m \<Longrightarrow> m s = (r, t) \<Longrightarrow> lessened r s t"
  by (simp add: lessens_def)

lemma lessened_trans: "resources t \<le> resources s \<Longrightarrow> lessened r t u \<Longrightarrow> lessened r s u"
  by (auto simp: lessened_def split: sum.splits)

lemma lessens_bind [lessens_intro]:
  assumes "lessens m" and "\<And>x. lessens (f x)"
  shows "lessens (bindM m f)"
  unfolding lessens_def
proof (intro allI impI)
  fix s r t
  assume run: "bindM m f s = (r, t)"
  show "lessened r s t"
  proof (cases "m s")
    case (Pair q u)
    show ?thesis
    proof (cases q)
      case (Inl e)
      then show ?thesis using run Pair lessensD [OF assms(1) Pair] by (auto simp: bindM_def lessened_def)
    next
      case (Inr x)
      then have "resources u \<le> resources s" using lessensD [OF assms(1) Pair] by (simp add: lessened_def)
      moreover have "f x u = (r, t)" using run Pair Inr by (simp add: bindM_def)
      ultimately show ?thesis using lessensD [OF assms(2)] lessened_trans by blast
    qed
  qed
qed

lemma lessens_ret [lessens_intro]: "lessens (retM x)"
  by (simp add: lessens_def lessened_def retM_def)

lemma lessens_modify [lessens_intro]: "(\<And>s. resources (f s) = resources s) \<Longrightarrow> lessens (modifyM f)"
  by (simp add: lessens_def lessened_def modifyM_def)

lemma lessens_ensure [lessens_intro]: "\<not> retried e \<Longrightarrow> lessens (ensureM b e)"
  by (simp add: lessens_def lessened_def ensureM_def)

lemma lessens_ok_or [lessens_intro]: "\<not> retried e \<Longrightarrow> lessens (ok_orM x e)"
  by (simp add: lessens_def lessened_def ok_orM_def split: option.split)

lemma lessens_lift [lessens_intro]: "(\<And>e. r = Inl e \<Longrightarrow> \<not> retried e) \<Longrightarrow> lessens (liftM r)"
  by (auto simp: lessens_def lessened_def liftM_def split: sum.split)

lemma lessens_ask_account [lessens_intro]: "lessens ask_account"
  by (auto simp: lessens_def lessened_def ask_account_def resources_def is_halted_def split: list.splits sum.split)

lemma lessens_ask_history [lessens_intro]: "lessens (ask_history tx pk)"
  by (auto simp: lessens_def lessened_def ask_history_def resources_def is_halted_def split: list.splits sum.split)

lemma remove_resources [simp]: "resources (remove_tx_envelope_from_cache env s) = resources s"
  by (simp add: remove_tx_envelope_from_cache_def remove_tx_envelope_def resources_def split: option.split)

lemma save_resources: "resources (snd (save_tx_envelope wl env s)) = resources s"
  by (auto simp: save_tx_envelope_def bindM_def ok_orM_def getM_def ensureM_def modifyM_def resources_def split: option.split)

lemma save_not_halted: "fst (save_tx_envelope wl env s) = Inl e \<Longrightarrow> \<not> is_halted e"
  by (auto simp: save_tx_envelope_def bindM_def ok_orM_def getM_def ensureM_def modifyM_def is_halted_def
      split: option.splits if_splits)

lemma submit_run:
  "submit_transaction wl env s =
     (case post_transaction wl env (snd (save_tx_envelope wl env s)) of
        (r, t) \<Rightarrow> (r, if \<exists>e. r = Inl e \<and> is_halted e then t else remove_tx_envelope_from_cache env t))"
  using save_not_halted [of wl env s]
  by (auto simp: submit_transaction_def tried_def bindM_def modifyM_def liftM_def split: prod.splits sum.splits)

lemma submit_loop_panic: "submit_loop xdr retries backoff n k answers = (Inl e, tries, rest) \<Longrightarrow> length rest \<le> length answers"
  by (induction xdr retries backoff n k answers arbitrary: tries rule: submit_loop.induct)
    (auto simp: Let_def le_SucI split: sum.splits if_splits prod.splits)

lemma lessens_submit [lessens_intro]: "lessens (submit_transaction wl env)"
proof -
  have "case r of Inr _ \<Rightarrow> resources t \<le> resources s
    | Inl e \<Rightarrow> is_halted e \<or> resources t < resources s \<or> resources t \<le> resources s \<and> \<not> retried e"
    if "submit_transaction wl env s = (r, t)" for s r t
    using that save_resources [of wl env s]
      submit_loop_consumes [of _ _ _ _ _ "ws_answers (snd (save_tx_envelope wl env s))" r _ "ws_answers t"]
    by (auto simp: submit_run post_transaction_def horizon_submit_transaction_def is_halted_def
        split: prod.splits sum.splits if_splits)
      (auto simp: resources_def dest!: submit_loop_consumes)
  then show ?thesis by (simp add: lessens_def lessened_def)
qed

lemma decode_not_retried: "decode_to_envelope wl xdr = Inl e \<Longrightarrow> \<not> retried e"
  by (auto simp: decode_to_envelope_def retried_def split: option.splits)

lemma sign_not_retried: "sign_envelope wl env = Inl e \<Longrightarrow> \<not> retried e"
  by (auto simp: sign_envelope_def ensureR_def retried_def split: if_splits)

lemma create_not_retried: "create_and_sign_envelope wl tx fee = Inl e \<Longrightarrow> \<not> retried e"
  by (auto simp: create_and_sign_envelope_def bindR_def Let_def dest: sign_not_retried split: sum.splits)

lemma lessens_bump [lessens_intro]: "lessens (bump_sequence_number_and_submit wl tx fee)"
  unfolding bump_sequence_number_and_submit_def Let_def
  by (intro lessens_intro) (auto dest: create_not_retried)

lemma lessens_resubmit [lessens_intro]: "lessens (resubmit_unless_submitted wl f env)"
  unfolding resubmit_unless_submitted_def by (intro lessens_intro) (auto simp: retried_def)

lemma lessens_handlers [lessens_intro]:
  "lessens (handle_tx_bad_seq_error_with_envelope wl env)"
  "lessens (handle_tx_bad_seq_error_with_xdr wl xdr)"
  "lessens (handle_tx_insufficient_fee_error wl xdr)"
  "lessens (handle_tx_internal_error wl xdr)"
  unfolding handle_tx_bad_seq_error_with_envelope_def handle_tx_bad_seq_error_with_xdr_def
    handle_tx_insufficient_fee_error_def handle_tx_internal_error_def
  by ((intro lessens_intro); auto dest: decode_not_retried sign_not_retried)+

lemma lessens_some [lessens_intro]: "lessens m \<Longrightarrow> lessens (map_some m)"
  unfolding map_some_def by (intro lessens_intro)

lemma lessens_handle_error: "lessens (handle_error wl e)"
  unfolding handle_error_def
  by (auto intro!: lessens_intro split: wallet_error.split option.split sum.split)

lemma unretried_dropped: "\<not> retried e \<Longrightarrow> \<exists>t. handle_error wl e s = (Inr None, t) \<and> ws_submitted t = ws_submitted s"
  by (auto simp: handle_error_def retried_def bindM_def modifyM_def retM_def remove_tx_envelope_from_cache_def
      remove_tx_envelope_def split: wallet_error.splits option.splits sum.splits)

definition error_weight :: "wallet_error \<times> wallet_envelope \<Rightarrow> nat" where
  "error_weight x = (if retried (fst x) then 2 else 1)"

lemma handle_error_measure:
  assumes "handle_error wl e s = (r, t)"
  shows "r = Inl e' \<Longrightarrow> \<not> is_halted e' \<Longrightarrow>
      3 * resources t + error_weight (e', env) < 3 * resources s + error_weight (e, env)"
    and "r = Inr x \<Longrightarrow> resources t \<le> resources s"
  using lessensD [OF lessens_handle_error assms] unretried_dropped [of e wl s] assms
  by (auto simp: lessened_def error_weight_def)

lemma weight_last: "errors \<noteq> [] \<Longrightarrow>
  sum_list (map error_weight errors) = sum_list (map error_weight (butlast errors)) + error_weight (last errors)"
  by (cases errors rule: rev_cases) simp_all

lemma error_weight_pos: "0 < error_weight x"
  by (simp add: error_weight_def)

lemma retry_measure:
  assumes "errors \<noteq> []" and "(error, env) = last errors" and "(Inl e, t) = handle_error wl error s" and "\<not> is_halted e"
  shows "3 * resources t + (sum_list (map error_weight (butlast errors)) + error_weight (e, env)) <
    3 * resources s + sum_list (map error_weight errors)"
  using handle_error_measure(1) [OF assms(3) [symmetric] refl assms(4), of env] weight_last [OF assms(1)] assms(2) by simp

lemma drop_measure:
  assumes "errors \<noteq> []" and "(Inr x, t) = handle_error wl error s"
  shows "3 * resources t + sum_list (map error_weight (butlast errors)) < 3 * resources s + sum_list (map error_weight errors)"
  using handle_error_measure(2) [OF assms(2) [symmetric] refl] weight_last [OF assms(1)] error_weight_pos [of "last errors"] by simp

text \<open>The errors are a stack, its top at the end of the list.\<close>

function handle_errors :: "wallet \<Rightarrow> (wallet_error \<times> wallet_envelope) list \<Rightarrow> unit wallet_op" where
  "handle_errors wl errors s =
     (if errors = [] then (Inr (), s)
      else let (error, env) = last errors; rest = butlast errors in
        case handle_error wl error s of
          (Inl e, t) \<Rightarrow> if is_halted e then (Inl e, t) else handle_errors wl (rest @ [(e, env)]) t
        | (Inr None, t) \<Rightarrow> handle_errors wl rest (remove_tx_envelope_from_cache env t)
        | (Inr (Some resp), t) \<Rightarrow> handle_errors wl rest t)"
  by pat_completeness auto
termination
  by (relation "measure (\<lambda>(_, errors, s). 3 * resources s + sum_list (map error_weight errors))")
    (simp_all add: retry_measure drop_measure)

declare handle_errors.simps [simp del]

text \<open>
  The envelopes of the cache are submitted again, in the order of their sequence numbers; those that
  fail are handled by a task of their own.
\<close>

fun submit_each :: "wallet \<Rightarrow> wallet_envelope list \<Rightarrow> (wallet_error \<times> wallet_envelope) list wallet_op" where
  "submit_each wl [] = retM []"
| "submit_each wl (envelope # envelopes) = (bindM (tried (submit_transaction wl envelope)) (\<lambda>result.
  bindM (submit_each wl envelopes) (\<lambda>error_collector.
  retM (case result of Inl e \<Rightarrow> (e, envelope) # error_collector | Inr _ \<Rightarrow> error_collector))))"

definition resubmit_transactions_from_cache :: "wallet \<Rightarrow> unit wallet_op" where
  "resubmit_transactions_from_cache wl = (bindM (get_tx_envelopes wl) (\<lambda>cached.
    (case cached of
        Inl errors \<Rightarrow> retM ()
      | Inr (envelopes, _) \<Rightarrow> (bindM (submit_each wl envelopes) (\<lambda>error_collector.
        handle_errors wl error_collector)))))"

text \<open>
  What the scheduler receives on its channel: the message to stop, or the end of the channel once its
  sender is gone.  With neither it waits.
\<close>

datatype resubmission_signal = StopMessage | SenderDropped

fun resubmission_loop :: "wallet \<Rightarrow> resubmission_signal list \<Rightarrow> unit wallet_op" where
  "resubmission_loop wl [] = failM StillWaiting"
| "resubmission_loop wl (StopMessage # signals) = retM ()"
| "resubmission_loop wl (SenderDropped # signals) = (bindM (resubmit_transactions_from_cache wl) (\<lambda>_.
  resubmission_loop wl signals))"

definition start_periodic_resubmission_of_transactions_from_cache :: "wallet \<Rightarrow> resubmission_signal list \<Rightarrow> unit wallet_op" where
  "start_periodic_resubmission_of_transactions_from_cache wl signals = (bindM (resubmit_transactions_from_cache wl) (\<lambda>_.
    resubmission_loop wl signals))"

section \<open>The files can be read back\<close>

lemma digit_char_value: "n < 10 \<Longrightarrow> digit_value (digit_char n) = Some n"
  by (simp add: digit_value_def digit_char_def Let_def)

lemma parse_digits_append:
  "parse_digits bound acc (s @ t) = (case parse_digits bound acc s of None \<Rightarrow> None | Some m \<Rightarrow> parse_digits bound m t)"
  by (induction s arbitrary: acc) (simp_all split: option.split)

lemma parse_show: "n < bound \<Longrightarrow> parse_digits bound 0 (show_nat n) = Some n"
proof (induction n rule: show_nat.induct)
  case (1 n)
  show ?case
  proof (cases "n < 10")
    case True
    then show ?thesis using 1 by (simp add: show_nat.simps [of n] digit_char_value)
  next
    case False
    then have "parse_digits bound 0 (show_nat (n div 10)) = Some (n div 10)" using 1 by simp
    then show ?thesis using False 1(2) by (simp add: show_nat.simps [of n] parse_digits_append digit_char_value)
  qed
qed

lemma show_nat_digits: "c \<in> set (show_nat n) \<Longrightarrow> digit_value c \<noteq> None"
proof (induction n rule: show_nat.induct)
  case (1 n)
  then show ?case
    by (cases "n < 10") (auto simp: show_nat.simps [of n] digit_char_value)
qed

lemma show_nat_chars: "c \<in> set (show_nat n) \<Longrightarrow> c \<noteq> CHR '','' \<and> c \<noteq> CHR '' '' \<and> c \<noteq> CHR ''+''"
  using show_nat_digits [of c n] by (auto simp: digit_value_def)

lemma show_nat_nonempty: "show_nat n \<noteq> []"
  by (simp add: show_nat.simps [of n])

lemma parse_unsigned_show: "n < bound \<Longrightarrow> parse_unsigned bound (show_nat n) = Some n"
  using parse_show [of n bound] show_nat_nonempty [of n] show_nat_chars [of _ n]
  by (cases "show_nat n") (auto simp: parse_unsigned_def)

lemma split_no_comma: "CHR '','' \<notin> set w \<Longrightarrow> split_comma w = [w]"
  by (induction w) auto

lemma split_at_comma: "CHR '','' \<notin> set w \<Longrightarrow> split_comma (w @ CHR '','' # s) = w # split_comma s"
  by (induction w) auto

lemma split_join: "ws \<noteq> [] \<Longrightarrow> \<forall>w\<in>set ws. CHR '','' \<notin> set w \<Longrightarrow> split_comma (join_with '','' ws) = ws"
  by (induction "'','' :: string" ws rule: join_with.induct) (simp_all add: split_no_comma split_at_comma)

lemma remove_spaces_join:
  "\<forall>w\<in>set ws. CHR '' '' \<notin> set w \<Longrightarrow> filter (\<lambda>c. c \<noteq> CHR '' '') (join_with '', '' ws) = join_with '','' ws"
proof (induction "'', '' :: string" ws rule: join_with.induct)
  case (2 x)
  then show ?case by (auto simp: filter_id_conv)
next
  case (3 x y ys)
  then have "filter (\<lambda>c. c \<noteq> CHR '' '') x = x" by (auto simp: filter_id_conv)
  then show ?case using 3 by simp
qed simp

lemma parse_all_show: "parse_all_u8 (map (\<lambda>b :: byte. show_nat (unat b)) bs) = Some bs"
proof (induction bs)
  case (Cons b bs)
  have "unat b < 256" using unsigned_less [of b, where ?'a = nat] by simp
  then show ?case using Cons by (simp add: parse_unsigned_show)
qed simp

lemma parse_debug_bytes:
  assumes "bs \<noteq> []"
  shows "parse_xdr_string_to_vec_u8 (debug_bytes bs) = Inr (Some bs)"
proof -
  let ?ws = "map (\<lambda>b. show_nat (unat b)) bs"
  have "filter (\<lambda>c. c \<noteq> CHR '' '') (debug_bytes bs) = ''['' @ join_with '','' ?ws @ '']''"
    using show_nat_chars by (subst remove_spaces_join [symmetric]) (auto simp: debug_bytes_def)
  moreover have "split_comma (join_with '','' ?ws) = ?ws"
    using assms show_nat_chars by (intro split_join) auto
  ultimately show ?thesis by (simp add: parse_xdr_string_to_vec_u8_def Let_def butlast_append parse_all_show)
qed

text \<open>A file that was created and not written makes the wallet panic whenever it reads its cache.\<close>

lemma empty_file_panics: "(n, []) \<in> set (ws_files s) \<Longrightarrow> \<exists>e t. get_tx_envelopes wl s = (Inl e, t)"
proof -
  have "\<exists>e. read_files wl fs = Inl e" if "(n, []) \<in> set fs" for fs
    using that
    by (induction fs) (auto simp: extract_tx_envelope_from_path_def parse_xdr_string_to_vec_u8_def bindR_def split: sum.split)
  then show "\<exists>e t. get_tx_envelopes wl s = (Inl e, t)" if "(n, []) \<in> set (ws_files s)"
    using that by (fastforce simp: get_tx_envelopes_def bindM_def getM_def liftM_def)
qed

lemma cursor_read_back:
  assumes "wl_creates_files wl" and "wl_writes_files wl" and "n < 2 ^ 128"
  shows "get_last_cursor (snd (save_cursor wl n s)) = n"
  using assms by (simp add: save_cursor_def get_last_cursor_def parse_unsigned_show bindM_def ensureM_def modifyM_def)

lemma save_new:
  assumes "wl_creates_files wl" and "wl_writes_files wl" and "sequence_number (we_envelope env) = Some n"
    and "n \<notin> fst ` set (ws_files s)"
  shows "save_tx_envelope wl env s = (Inr (), s\<lparr>ws_files := ws_files s @ [(n, debug_bytes (wl_to_xdr wl env))]\<rparr>)"
  using assms by (simp add: save_tx_envelope_def bindM_def ok_orM_def getM_def ensureM_def modifyM_def)

definition cache_file :: "wallet \<Rightarrow> wallet_envelope \<Rightarrow> int \<times> string" where
  "cache_file wl env = (the (sequence_number (we_envelope env)), debug_bytes (wl_to_xdr wl env))"

lemma save_all:
  assumes "wl_creates_files wl" and "wl_writes_files wl" and "\<forall>env\<in>set envs. sequence_number (we_envelope env) \<noteq> None"
    and "distinct (map (\<lambda>env. the (sequence_number (we_envelope env))) envs)"
    and "\<forall>env\<in>set envs. the (sequence_number (we_envelope env)) \<notin> fst ` set (ws_files s)"
  shows "forM envs (save_tx_envelope wl) s = (Inr (), s\<lparr>ws_files := ws_files s @ map (cache_file wl) envs\<rparr>)"
  using assms(3-5)
proof (induction envs arbitrary: s)
  case (Cons env envs)
  let ?n = "the (sequence_number (we_envelope env))"
  have "save_tx_envelope wl env s = (Inr (), s\<lparr>ws_files := ws_files s @ [cache_file wl env]\<rparr>)"
    using Cons.prems save_new [OF assms(1,2), of env ?n s] by (auto simp: cache_file_def)
  moreover have fresh: "\<forall>e\<in>set envs. the (sequence_number (we_envelope e)) \<notin> insert (fst (cache_file wl env)) (fst ` set (ws_files s))"
    using Cons.prems by (auto simp: cache_file_def)
  moreover have "forM envs (save_tx_envelope wl) (s\<lparr>ws_files := ws_files s @ [cache_file wl env]\<rparr>) =
      (Inr (), s\<lparr>ws_files := (ws_files s @ [cache_file wl env]) @ map (cache_file wl) envs\<rparr>)"
    using Cons.IH [of "s\<lparr>ws_files := ws_files s @ [cache_file wl env]\<rparr>"] Cons.prems fresh by simp
  ultimately show ?case by (simp add: bindM_def)
qed (simp add: retM_def)

text \<open>
  What the Stellar library promises: encodings are not empty and can be decoded, and the conversion of
  an old transaction keeps its memo and operations.
\<close>

definition faithful_encoding :: "wallet \<Rightarrow> bool" where
  "faithful_encoding wl \<longleftrightarrow> (\<forall>env. wl_to_xdr wl env \<noteq> [] \<and> wl_from_xdr wl (wl_to_xdr wl env) = Some env \<and>
     wl_from_base64_xdr wl (wl_to_base64_xdr wl env) = Some env) \<and>
     (\<forall>tx. tx_memo (wl_from_v0 wl tx) = tx_memo tx \<and> tx_operations (wl_from_v0 wl tx) = tx_operations tx)"

lemma read_saved:
  assumes "faithful_encoding wl" and "\<forall>env\<in>set envs. sequence_number (we_envelope env) \<noteq> None"
  shows "read_files wl (map (cache_file wl) envs) =
    Inr (map (\<lambda>env. (env, the (sequence_number (we_envelope env)))) envs, [], map (cache_file wl) envs)"
  using assms
  by (induction envs)
    (auto simp: extract_tx_envelope_from_path_def cache_file_def parse_debug_bytes faithful_encoding_def bindR_def)

text \<open>
  C16: envelopes with different sequence numbers that the wallet has saved are read back from its
  cache after a restart, all of them and nothing else, in the order of their sequence numbers and
  with no file lost, if the encoding of the Stellar library can be decoded and files can be written.
\<close>

theorem cached_envelopes_recovered:
  assumes "faithful_encoding wl" and "wl_creates_files wl" and "wl_writes_files wl" and "ws_files s = []"
    and "\<forall>env\<in>set envs. sequence_number (we_envelope env) \<noteq> None"
    and "distinct (map (\<lambda>env. the (sequence_number (we_envelope env))) envs)"
  shows "\<exists>found t. bindM (forM envs (save_tx_envelope wl)) (\<lambda>_. get_tx_envelopes wl) s = (Inr (Inr (found, [])), t) \<and>
    mset found = mset envs \<and> sorted (map (\<lambda>env. the (sequence_number (we_envelope env))) found) \<and>
    ws_files t = map (cache_file wl) envs"
proof -
  let ?seq = "\<lambda>env. the (sequence_number (we_envelope env))"
  let ?read = "sort_key snd (map (\<lambda>env. (env, ?seq env)) envs)"
  let ?t = "s\<lparr>ws_files := map (cache_file wl) envs\<rparr>"
  have "forM envs (save_tx_envelope wl) s = (Inr (), ?t)"
    using save_all [OF assms(2,3,5,6), of s] assms(4) by simp
  then have "bindM (forM envs (save_tx_envelope wl)) (\<lambda>_. get_tx_envelopes wl) s = (Inr (Inr (map fst ?read, [])), ?t)"
    by (simp add: bindM_def get_tx_envelopes_def getM_def liftM_def modifyM_def retM_def read_saved [OF assms(1,5)])
  moreover have "mset (map fst ?read) = mset envs"
    by (simp only: mset_map [of fst] mset_sort) (simp flip: mset_map add: comp_def)
  moreover have "sorted (map ?seq (map fst ?read))"
  proof -
    have "map ?seq (map fst ?read) = map snd ?read" by auto
    then show ?thesis by (simp only: sorted_sort_key)
  qed
  ultimately show ?thesis by (intro exI conjI) (assumption+, simp)
qed

section \<open>What is paid again\<close>

definition accepted :: "wallet_state \<Rightarrow> nat" where
  "accepted s = length (filter (\<lambda>x. \<exists>resp. snd x = Inr resp) (ws_submitted s))"

text \<open>The payment that an envelope makes: its memo and its operations.\<close>

definition payment_made :: "wallet_envelope \<Rightarrow> byte list option \<times> operation_body list" where
  "payment_made env = (get_text_memo_from_tx_env (we_envelope env), envelope_operations (we_envelope env))"

definition carries :: "wallet \<Rightarrow> (byte list option \<times> operation_body list) set \<Rightarrow> wallet_error \<Rightarrow> bool" where
  "carries wl P e \<longleftrightarrow> (\<forall>env. (case e of
     HorizonSubmissionError _ _ _ _ xdr \<Rightarrow> decode_to_envelope wl xdr = Inr env
   | WalletCacheError _ x \<Rightarrow> x = Some env
   | _ \<Rightarrow> False) \<longrightarrow> payment_made env \<in> P)"

definition world_ok :: "wallet \<Rightarrow> (byte list option \<times> operation_body list) set \<Rightarrow> wallet_state \<Rightarrow> bool" where
  "world_ok wl P s \<longleftrightarrow> (\<forall>a\<in>set (ws_answers s). \<forall>b e. a b = Inl e \<longrightarrow> carries wl P e) \<and>
     (\<forall>e. Inl e \<in> set (ws_accounts s) \<longrightarrow> carries wl P e) \<and> (\<forall>x\<in>set (ws_submitted s). payment_made (fst x) \<in> P)"

text \<open>
  An operation of the wallet keeps to the payments of a set, and counts the accepted submissions: one
  if it counts and succeeds, none otherwise.
\<close>

definition pays :: "bool \<Rightarrow> wallet \<Rightarrow> (byte list option \<times> operation_body list) set \<Rightarrow> 'a wallet_op \<Rightarrow> bool" where
  "pays counts wl P m \<longleftrightarrow> (\<forall>s r t. m s = (r, t) \<longrightarrow>
     accepted t = accepted s + (if counts \<and> (\<exists>x. r = Inr x) then 1 else 0) \<and>
     (world_ok wl P s \<longrightarrow> world_ok wl P t \<and> (\<forall>e. r = Inl e \<longrightarrow> carries wl P e)))"

named_theorems pays_intro

lemma paysD:
  assumes "pays counts wl P m" and "m s = (r, t)"
  shows "accepted t = accepted s + (if counts \<and> (\<exists>x. r = Inr x) then 1 else 0)"
    and "world_ok wl P s \<Longrightarrow> world_ok wl P t" and "world_ok wl P s \<Longrightarrow> r = Inl e \<Longrightarrow> carries wl P e"
  using assms by (auto simp: pays_def)

lemma pays_bind_fact:
  assumes "pays False wl P m" and "\<And>x s t. m s = (Inr x, t) \<Longrightarrow> pays counts wl P (f x)"
  shows "pays counts wl P (bindM m f)"
  unfolding pays_def
proof (intro allI impI)
  fix s r t
  assume run: "bindM m f s = (r, t)"
  show "accepted t = accepted s + (if counts \<and> (\<exists>x. r = Inr x) then 1 else 0) \<and>
     (world_ok wl P s \<longrightarrow> world_ok wl P t \<and> (\<forall>e. r = Inl e \<longrightarrow> carries wl P e))"
  proof (cases "m s")
    case (Pair q u)
    show ?thesis
    proof (cases q)
      case (Inl e)
      then show ?thesis using run Pair paysD [OF assms(1) Pair] by (auto simp: bindM_def)
    next
      case (Inr x)
      then have "f x u = (r, t)" using run Pair by (simp add: bindM_def)
      from paysD [OF assms(2) this] paysD [OF assms(1) Pair] Pair Inr show ?thesis by auto
    qed
  qed
qed

lemma pays_bind [pays_intro]:
  "pays False wl P m \<Longrightarrow> (\<And>x. pays counts wl P (f x)) \<Longrightarrow> pays counts wl P (bindM m f)"
  by (rule pays_bind_fact)

lemma pays_lift [pays_intro]: "(\<And>e. r = Inl e \<Longrightarrow> carries wl P e) \<Longrightarrow> pays False wl P (liftM r)"
  by (auto simp: pays_def liftM_def)

lemma pays_ret [pays_intro]: "pays False wl P (retM x)"
  by (simp add: pays_def retM_def)

lemma pays_ensure [pays_intro]: "carries wl P e \<Longrightarrow> pays False wl P (ensureM b e)"
  by (simp add: pays_def ensureM_def)

lemma pays_ok_or [pays_intro]: "carries wl P e \<Longrightarrow> pays False wl P (ok_orM x e)"
  by (auto simp: pays_def ok_orM_def split: option.split)

lemma pays_remove [pays_intro]: "pays False wl P (modifyM (remove_tx_envelope_from_cache env))"
  by (auto simp: pays_def modifyM_def remove_tx_envelope_from_cache_def remove_tx_envelope_def accepted_def world_ok_def
      split: option.split)

lemma carries_plain [simp]:
  "carries wl P DecodeError" "carries wl P SignEnvelopeError" "carries wl P (ResubmissionError x)" "carries wl P StillWaiting"
  by (simp_all add: carries_def)

lemma pays_ask_account [pays_intro]: "pays False wl P ask_account"
  by (auto simp: pays_def ask_account_def accepted_def world_ok_def split: list.splits)

lemma pays_ask_history [pays_intro]: "pays False wl P (ask_history tx pk)"
  by (auto simp: pays_def ask_history_def accepted_def world_ok_def split: list.splits)

lemma submit_loop_carries:
  assumes "submit_loop (wl_to_base64_xdr wl env) retries backoff n k answers = (r, tries, rest)"
    and "\<forall>a\<in>set answers. \<forall>b e. a b = Inl e \<longrightarrow> carries wl P e" and "faithful_encoding wl" and "payment_made env \<in> P"
  shows "set rest \<subseteq> set answers \<and> (\<forall>e. r = Inl e \<longrightarrow> carries wl P e)"
  using assms(1,2)
proof (induction answers arbitrary: n k tries)
  case (Cons answer later)
  have w: "carries wl P (with_envelope (wl_to_base64_xdr wl env) e)" if "carries wl P e" for e
    using that assms(3,4) by (cases e) (auto simp: carries_def decode_to_envelope_def faithful_encoding_def split: option.splits)
  from submit_loop_step [OF Cons.prems(1)] show ?case
  proof (elim disjE exE conjE)
    fix n' ts
    assume "submit_loop (wl_to_base64_xdr wl env) retries backoff n' (if k * 10 < backoff then k + 1 else k) later = (r, ts, rest)"
    from Cons.IH [OF this] Cons.prems(2) show ?thesis by auto
  qed (use w Cons.prems(2) in auto)
qed auto

lemma save_frame:
  "ws_answers (snd (save_tx_envelope wl env s)) = ws_answers s"
  "ws_accounts (snd (save_tx_envelope wl env s)) = ws_accounts s"
  "ws_submitted (snd (save_tx_envelope wl env s)) = ws_submitted s"
  by (auto simp: save_tx_envelope_def bindM_def ok_orM_def getM_def ensureM_def modifyM_def split: option.split)

lemma remove_frame [simp]:
  "ws_answers (remove_tx_envelope_from_cache env s) = ws_answers s"
  "ws_accounts (remove_tx_envelope_from_cache env s) = ws_accounts s"
  "ws_submitted (remove_tx_envelope_from_cache env s) = ws_submitted s"
  by (simp_all add: remove_tx_envelope_from_cache_def remove_tx_envelope_def split: option.split)

lemma submit_shape:
  assumes "submit_transaction wl env s = (r, t)"
  obtains tries where "horizon_submit_transaction (wl_to_base64_xdr wl env) (wl_max_retry_attempts_before_fallback wl)
      (wl_max_backoff_delay wl) (ws_answers s) = (r, tries, ws_answers t)"
    and "ws_accounts t = ws_accounts s" and "ws_submitted t = ws_submitted s @ [(env, r)]"
  using assms by (auto simp: submit_run post_transaction_def save_frame split: prod.splits if_splits)

lemma pays_submit:
  assumes "faithful_encoding wl" and "payment_made env \<in> P"
  shows "pays True wl P (submit_transaction wl env)"
  unfolding pays_def
proof (intro allI impI)
  fix s r t
  assume "submit_transaction wl env s = (r, t)"
  then obtain tries where loop: "horizon_submit_transaction (wl_to_base64_xdr wl env) (wl_max_retry_attempts_before_fallback wl)
      (wl_max_backoff_delay wl) (ws_answers s) = (r, tries, ws_answers t)"
    and t: "ws_accounts t = ws_accounts s" "ws_submitted t = ws_submitted s @ [(env, r)]"
    by (rule submit_shape)
  show "accepted t = accepted s + (if True \<and> (\<exists>x. r = Inr x) then 1 else 0) \<and>
     (world_ok wl P s \<longrightarrow> world_ok wl P t \<and> (\<forall>e. r = Inl e \<longrightarrow> carries wl P e))"
    using submit_loop_carries [OF loop [unfolded horizon_submit_transaction_def] _ assms] assms(2) t
    by (auto simp: accepted_def world_ok_def) blast+
qed

lemma carries_decoded: "carries wl P (HorizonSubmissionError title status reason ops xdr) \<Longrightarrow>
  decode_to_envelope wl xdr = Inr env \<Longrightarrow> payment_made env \<in> P"
  by (simp add: carries_def)

lemma decode_carries: "decode_to_envelope wl xdr = Inl e \<Longrightarrow> carries wl P e"
  by (auto simp: decode_to_envelope_def split: option.splits)

lemma sign_carries: "sign_envelope wl env = Inl e \<Longrightarrow> carries wl P e"
  by (auto simp: sign_envelope_def ensureR_def split: if_splits)

lemma pays_bump:
  assumes "faithful_encoding wl" and "(memo_text (tx_memo tx), tx_operations tx) \<in> P"
  shows "pays True wl P (bump_sequence_number_and_submit wl tx fee)"
  unfolding bump_sequence_number_and_submit_def Let_def
proof (rule pays_bind [OF pays_ask_account], rule pays_bind_fact)
  fix account
  show "pays False wl P (liftM (create_and_sign_envelope wl (tx\<lparr>tx_seq_num := ha_sequence account + 1\<rparr>) fee))"
    by (rule pays_lift) (auto simp: create_and_sign_envelope_def bindR_def Let_def dest: sign_carries split: sum.splits)
next
  fix account env s t
  assume "liftM (create_and_sign_envelope wl (tx\<lparr>tx_seq_num := ha_sequence account + 1\<rparr>) fee) s = (Inr env, t)"
  then have "payment_made env \<in> P"
    using assms(2) by (auto simp: liftM_def create_and_sign_envelope_def bindR_def Let_def payment_made_def split: sum.splits)
  then show "pays True wl P (submit_transaction wl env)" by (rule pays_submit [OF assms(1)])
qed

lemma transaction_payment:
  "faithful_encoding wl \<Longrightarrow> get_transaction (wl_from_v0 wl) (we_envelope env) = Some tx \<Longrightarrow>
   (memo_text (tx_memo tx), tx_operations tx) = payment_made env"
  by (cases "we_envelope env") (auto simp: payment_made_def faithful_encoding_def)

lemma pays_resubmit:
  assumes "faithful_encoding wl" and "payment_made env \<in> P"
  shows "pays True wl P (resubmit_unless_submitted wl f env)"
  unfolding resubmit_unless_submitted_def
proof (rule pays_bind_fact, rule pays_ok_or)
  fix tx s t
  assume "ok_orM (get_transaction (wl_from_v0 wl) (we_envelope env)) DecodeError s = (Inr tx, t)"
  then have "(memo_text (tx_memo tx), tx_operations tx) \<in> P"
    using transaction_payment [OF assms(1)] assms(2) by (auto simp: ok_orM_def split: option.splits)
  then show "pays True wl P (bindM (ask_history tx (wl_public_key wl)) (\<lambda>submitted.
      bindM (ensureM (\<not> submitted) (ResubmissionError ''Transaction already submitted'')) (\<lambda>_.
      bindM (modifyM (remove_tx_envelope_from_cache env)) (\<lambda>_.
      bump_sequence_number_and_submit wl tx (f (we_fee env))))))"
    by (intro pays_intro pays_bump assms(1)) simp
qed simp

lemma pays_decoded:
  assumes "carries wl P (HorizonSubmissionError title status reason ops xdr)"
    and "\<And>env. payment_made env \<in> P \<Longrightarrow> pays True wl P (f env)"
  shows "pays True wl P (bindM (liftM (decode_to_envelope wl xdr)) f)"
  using assms(2) carries_decoded [OF assms(1)]
  by (intro pays_bind_fact pays_lift) (auto simp: liftM_def dest: decode_carries)

lemma pays_retried:
  assumes "faithful_encoding wl" and "carries wl P (HorizonSubmissionError title status reason ops xdr)"
  shows "pays True wl P (handle_tx_bad_seq_error_with_xdr wl xdr)" "pays True wl P (handle_tx_insufficient_fee_error wl xdr)"
    "pays True wl P (handle_tx_internal_error wl xdr)"
  unfolding handle_tx_bad_seq_error_with_xdr_def handle_tx_insufficient_fee_error_def handle_tx_internal_error_def
    handle_tx_bad_seq_error_with_envelope_def
  by (rule pays_decoded [OF assms(2)], intro pays_intro pays_resubmit pays_submit assms(1); auto dest: sign_carries)+

lemma map_some_run: "map_some m s = (case m s of (Inl e, t) \<Rightarrow> (Inl e, t) | (Inr x, t) \<Rightarrow> (Inr (Some x), t))"
  by (auto simp: map_some_def bindM_def retM_def split: prod.split sum.split)

lemma handle_error_retried:
  assumes "retried e" and "faithful_encoding wl" and "carries wl P e"
  obtains m where "handle_error wl e = map_some m" and "pays True wl P m"
proof (cases e)
  case (HorizonSubmissionError title status reason ops xdr)
  with assms(1) have "reason = ''tx_bad_seq'' \<or> reason = ''tx_internal_error'' \<or> reason = ''tx_insufficient_fee''"
    by (simp add: retried_def)
  then show ?thesis
    using pays_retried [OF assms(2), of P title status reason ops xdr] assms(3) that
    by (auto simp: HorizonSubmissionError handle_error_def)
next
  case (WalletCacheError kind x)
  then show ?thesis
    using assms that pays_resubmit [OF assms(2)]
    by (auto simp: handle_error_def retried_def carries_def handle_tx_bad_seq_error_with_envelope_def)
qed (use assms(1) in \<open>simp_all add: retried_def\<close>)

lemma handle_error_dropped:
  "\<not> retried e \<Longrightarrow> \<exists>t. handle_error wl e s = (Inr None, t) \<and> ws_submitted t = ws_submitted s \<and>
     ws_answers t = ws_answers s \<and> ws_accounts t = ws_accounts s"
  by (auto simp: handle_error_def retried_def bindM_def modifyM_def retM_def
      split: wallet_error.splits option.splits sum.splits)

lemma handle_error_effect:
  assumes "handle_error wl e s = (r, t)" and "faithful_encoding wl" and "carries wl P e"
  shows "accepted t = accepted s + (if \<exists>x. r = Inr (Some x) then 1 else 0)"
    and "world_ok wl P s \<Longrightarrow> world_ok wl P t \<and> (\<forall>e'. r = Inl e' \<longrightarrow> carries wl P e')"
proof -
  have "accepted t = accepted s + (if \<exists>x. r = Inr (Some x) then 1 else 0) \<and>
    (world_ok wl P s \<longrightarrow> world_ok wl P t \<and> (\<forall>e'. r = Inl e' \<longrightarrow> carries wl P e'))"
  proof (cases "retried e")
    case True
    then obtain m where m: "handle_error wl e = map_some m" "pays True wl P m"
      using handle_error_retried assms(2,3) by blast
    then obtain q where "m s = (q, t)" and "r = (case q of Inl e' \<Rightarrow> Inl e' | Inr x \<Rightarrow> Inr (Some x))"
      using assms(1) by (auto simp: map_some_run split: prod.splits sum.splits)
    with paysD [OF m(2)] show ?thesis by (fastforce split: sum.splits)
  next
    case False
    then show ?thesis using handle_error_dropped [of e wl s] assms(1) by (auto simp: accepted_def world_ok_def)
  qed
  then show "accepted t = accepted s + (if \<exists>x. r = Inr (Some x) then 1 else 0)"
    and "world_ok wl P s \<Longrightarrow> world_ok wl P t \<and> (\<forall>e'. r = Inl e' \<longrightarrow> carries wl P e')" by blast+
qed

lemma handle_errors_step:
  assumes "handle_error wl error s = (q, u)"
  shows "handle_errors wl (rest @ [(error, env)]) s = (case q of
      Inl e \<Rightarrow> if is_halted e then (Inl e, u) else handle_errors wl (rest @ [(e, env)]) u
    | Inr None \<Rightarrow> handle_errors wl rest (remove_tx_envelope_from_cache env u)
    | Inr (Some resp) \<Rightarrow> handle_errors wl rest u)"
  using assms by (subst handle_errors.simps) (simp split: sum.split option.split)

lemma handle_errors_rule [case_names empty halted again dropped paid]:
  assumes "\<And>s. Q [] s (Inr (), s)"
    and "\<And>rest error env s e u. handle_error wl error s = (Inl e, u) \<Longrightarrow> is_halted e \<Longrightarrow> Q (rest @ [(error, env)]) s (Inl e, u)"
    and "\<And>rest error env s e u x. handle_error wl error s = (Inl e, u) \<Longrightarrow> Q (rest @ [(e, env)]) u x \<Longrightarrow> Q (rest @ [(error, env)]) s x"
    and "\<And>rest error env s u x. handle_error wl error s = (Inr None, u) \<Longrightarrow>
      Q rest (remove_tx_envelope_from_cache env u) x \<Longrightarrow> Q (rest @ [(error, env)]) s x"
    and "\<And>rest error env s u resp x. handle_error wl error s = (Inr (Some resp), u) \<Longrightarrow> Q rest u x \<Longrightarrow> Q (rest @ [(error, env)]) s x"
  shows "Q errors s (handle_errors wl errors s)"
proof (induction "3 * resources s + sum_list (map error_weight errors)" arbitrary: errors s rule: less_induct)
  case less
  show ?case
  proof (cases errors rule: rev_cases)
    case Nil
    then show ?thesis using assms(1) by (simp add: handle_errors.simps)
  next
    case (snoc rest x)
    obtain error env where x: "x = (error, env)" by fastforce
    obtain q u where run: "handle_error wl error s = (q, u)" by fastforce
    have ne: "errors \<noteq> []" "(error, env) = last errors" "rest = butlast errors" using snoc x by simp_all
    note step = handle_errors_step [OF run, of rest env, folded x, folded snoc]
    show ?thesis
    proof (cases q)
      case (Inl e)
      note run' = run [unfolded Inl]
      show ?thesis
      proof (cases "is_halted e")
        case True
        then show ?thesis using assms(2) [OF run' True, of rest env] step snoc x Inl by simp
      next
        case False
        have "Q (rest @ [(e, env)]) u (handle_errors wl (rest @ [(e, env)]) u)"
          using retry_measure [OF ne(1,2) run' [symmetric] False] ne(3) by (intro less) simp
        from assms(3) [OF run' this] step snoc x Inl False show ?thesis by simp
      qed
    next
      case (Inr y)
      note run' = run [unfolded Inr]
      have smaller: "3 * resources u + sum_list (map error_weight rest) < 3 * resources s + sum_list (map error_weight errors)"
        using drop_measure [OF ne(1) run' [symmetric]] ne(3) by simp
      show ?thesis
      proof (cases y)
        case None
        have "Q rest (remove_tx_envelope_from_cache env u) (handle_errors wl rest (remove_tx_envelope_from_cache env u))"
          using smaller by (intro less) simp
        from assms(4) [OF run' [unfolded None] this] step snoc x Inr None show ?thesis by simp
      next
        case (Some resp)
        have "Q rest u (handle_errors wl rest u)" using smaller by (intro less) simp
        from assms(5) [OF run' [unfolded Some] this] step snoc x Inr Some show ?thesis by simp
      qed
    qed
  qed
qed

lemma remove_effect [simp]:
  "accepted (remove_tx_envelope_from_cache env s) = accepted s"
  "world_ok wl P (remove_tx_envelope_from_cache env s) = world_ok wl P s"
  by (simp_all add: accepted_def world_ok_def)

definition stays :: "wallet \<Rightarrow> (byte list option \<times> operation_body list) set \<Rightarrow> (wallet_error \<times> wallet_envelope) list \<Rightarrow>
    wallet_state \<Rightarrow> (wallet_error + unit) \<times> wallet_state \<Rightarrow> bool" where
  "stays wl P errors s x \<longleftrightarrow> (world_ok wl P s \<and> (\<forall>y\<in>set errors. carries wl P (fst y)) \<longrightarrow>
     accepted (snd x) \<le> accepted s + length errors \<and> world_ok wl P (snd x))"

lemma stays_snoc:
  assumes "faithful_encoding wl" and "handle_error wl error s = (q, u)"
    and "world_ok wl P u \<Longrightarrow> carries wl P error \<Longrightarrow> (\<forall>e. q = Inl e \<longrightarrow> carries wl P e) \<Longrightarrow>
      \<forall>y\<in>set rest. carries wl P (fst y) \<Longrightarrow>
      accepted u = accepted s + (if \<exists>x. q = Inr (Some x) then 1 else 0) \<Longrightarrow>
      accepted (snd x) \<le> accepted s + Suc (length rest) \<and> world_ok wl P (snd x)"
  shows "stays wl P (rest @ [(error, env)]) s x"
  unfolding stays_def
proof (rule impI, elim conjE)
  assume w: "world_ok wl P s" and c: "\<forall>y\<in>set (rest @ [(error, env)]). carries wl P (fst y)"
  then have e: "carries wl P error" and r: "\<forall>y\<in>set rest. carries wl P (fst y)" by simp_all
  note eff = handle_error_effect [OF assms(2,1) e]
  show "accepted (snd x) \<le> accepted s + length (rest @ [(error, env)]) \<and> world_ok wl P (snd x)"
    using assms(3) [OF conjunct1 [OF eff(2) [OF w]] e conjunct2 [OF eff(2) [OF w]] r eff(1)] by simp
qed

lemma handle_errors_effect:
  assumes "faithful_encoding wl"
  shows "stays wl P errors s (handle_errors wl errors s)"
proof (rule handle_errors_rule [where Q = "stays wl P"], goal_cases)
  case (1 s)
  show ?case by (simp add: stays_def)
next
  case (2 rest error env s e u)
  show ?case by (rule stays_snoc [OF assms 2(1)]) simp
next
  case (3 rest error env s e u x)
  show ?case by (rule stays_snoc [OF assms 3(1)]) (use 3(2) in \<open>simp add: stays_def\<close>)
next
  case (4 rest error env s u x)
  show ?case by (rule stays_snoc [OF assms 4(1)]) (use 4(2) in \<open>simp add: stays_def\<close>)
next
  case (5 rest error env s u resp x)
  show ?case by (rule stays_snoc [OF assms 5(1)]) (use 5(2) in \<open>simp add: stays_def\<close>)
qed


section \<open>Payments of redeem requests\<close>

lemma send_run:
  assumes "send_to_address wl request_id ops s = (Inr resp, t)"
  obtains seq fee where "ws_submitted t = ws_submitted s @ [(\<lparr>we_envelope = EnvelopeTypeTx \<lparr>tx_source = wl_public_key wl,
      tx_seq_num = seq, tx_memo = MemoText (take 28 (wl_to_base58 wl request_id)), tx_operations = ops\<rparr>, we_fee = fee\<rparr>, Inr resp)]"
proof -
  from assms obtain account u fee env where a: "ask_account s = (Inr account, u)"
    and env: "create_envelope wl request_id fee (ha_sequence account + 1) ops = Inr env"
    and sub: "submit_transaction wl env u = (Inr resp, t)"
    by (auto simp: send_to_address_def Let_def ok_iff)
  have "ws_submitted u = ws_submitted s" using a by (auto simp: ask_account_def split: list.splits)
  moreover have "ws_submitted t = ws_submitted u @ [(env, Inr resp)]" using sub by (rule submit_shape)
  ultimately show ?thesis
    using env that
    by (auto simp: create_envelope_def create_basic_spacewalk_stellar_transaction_def derive_shortened_request_id_def
        append_multiple_def create_and_sign_envelope_def bindR_def Let_def split: sum.splits if_splits)
qed

definition account_missing :: "wallet_state \<Rightarrow> bool" where
  "account_missing s \<longleftrightarrow> (\<exists>title reason ops xdr. ws_accounts s \<noteq> [] \<and>
     hd (ws_accounts s) = Inl (HorizonSubmissionError title 404 reason ops xdr))"

definition pays_directly :: "byte list \<Rightarrow> stellar_asset \<Rightarrow> int \<Rightarrow> operation_body \<Rightarrow> bool" where
  "pays_directly to asset amount op \<longleftrightarrow>
     op = Payment \<lparr>po_destination = KeyTypeEd25519 to, po_asset = asset, po_amount = amount\<rparr> \<or>
     op = CreateClaimableBalance \<lparr>cb_asset = asset, cb_amount = amount,
       cb_claimants = [\<lparr>cl_destination = to, cl_predicate = ClaimPredicateUnconditional\<rparr>]\<rparr>"

lemma one_lumen:
  "0 \<le> amount \<Longrightarrow> amount < 2 ^ 63 \<Longrightarrow>
   stellar_stroops_to_u128 amount \<ge> decimals_one pendulum_decimals (Stellar StellarNative) \<longleftrightarrow> 10 ^ 7 \<le> amount"
  by (simp add: stroops_to_u128_exact decimals_one_def asset_decimals_def) linarith

lemma built_operation:
  "create_payment_operation wl to asset amount = Inr op \<Longrightarrow> pays_directly to asset amount op"
  "create_unconditional_claimable_balance_operation wl to asset amount = Inr op \<Longrightarrow> pays_directly to asset amount op"
  "create_account_operation wl to amount = Inr op \<Longrightarrow> op = OtherOperation CREATE_ACCOUNT"
  by (auto simp: create_payment_operation_def create_unconditional_claimable_balance_operation_def
      create_account_operation_def map_err_as_build_tx_error_def pays_directly_def split: if_splits)

lemma redeem_operation:
  assumes "create_payment_op_for_redeem_request wl to asset amount s = (Inr op, t)" and "0 \<le> amount" and "amount < 2 ^ 63"
  shows "ws_submitted t = ws_submitted s \<and>
    (if account_missing s \<and> asset = AssetTypeNative \<and> 10 ^ 7 \<le> amount then op = OtherOperation CREATE_ACCOUNT
     else pays_directly to asset amount op)"
proof (cases "ws_accounts s")
  case Nil
  then show ?thesis
    using assms(1) by (simp add: create_payment_op_for_redeem_request_def bindM_def tried_def ask_account_def is_halted_def)
next
  case (Cons a later)
  then show ?thesis
    using assms(1) one_lumen [OF assms(2,3)]
    by (cases a)
      (auto simp: create_payment_op_for_redeem_request_def bindM_def tried_def ask_account_def liftM_def account_missing_def
        split: if_splits wallet_error.splits dest: built_operation)
qed

lemma direct_amount:
  assumes "pays_directly to asset amount op" and "asset_lookup k = Inr asset" and "0 \<le> amount" and "amount < 2 ^ 63"
  shows "get_amount_from_transaction_envelope (EnvelopeTypeTx \<lparr>tx_source = src, tx_seq_num = n, tx_memo = m, tx_operations = [op]\<rparr>) to k =
    Inr (new_amount (nat amount * 100000) k)"
  using assms
  by (auto simp: pays_directly_def get_amount_from_transaction_envelope_def add_operation_def saturating_add_i64_def
      balance_unlookup_def stroops_to_u128_exact bindR_def Let_def)

text \<open>
  C15: a payment for a redeem request that Stellar accepts is one transaction with the memo of the
  request, not to the wallet itself, and the chain counts exactly the amount sent for it; except that
  if the receiver has no account yet and at least one lumen is redeemed, the wallet creates the
  account with the amount, and the chain counts nothing although the vault has paid.
\<close>

theorem redeem_payment_counts:
  assumes "send_payment_to_address wl to asset amount request_id True s = (Inr resp, t)" and "asset_lookup k = Inr asset"
    and "0 \<le> amount" and "amount < 2 ^ 63"
  shows "to \<noteq> wl_public_key wl \<and> (\<exists>env. ws_submitted t = ws_submitted s @ [(env, Inr resp)] \<and>
    get_text_memo_from_tx_env (we_envelope env) = Some (take 28 (wl_to_base58 wl request_id)) \<and>
    get_amount_from_transaction_envelope (we_envelope env) to k =
      Inr (new_amount (if account_missing s \<and> asset = AssetTypeNative \<and> 10 ^ 7 \<le> amount then 0 else nat amount * 100000) k))"
proof -
  from assms(1) obtain op u where own: "wl_public_key wl \<noteq> to"
    and op: "create_payment_op_for_redeem_request wl to asset amount s = (Inr op, u)"
    and send: "send_to_address wl request_id [op] u = (Inr resp, t)"
    by (auto simp: send_payment_to_address_def ok_iff)
  have "get_amount_from_transaction_envelope (EnvelopeTypeTx \<lparr>tx_source = src, tx_seq_num = n, tx_memo = m,
      tx_operations = [OtherOperation CREATE_ACCOUNT]\<rparr>) to k = Inr (new_amount 0 k)" for src n m
    using assms(2)
    by (simp add: get_amount_from_transaction_envelope_def add_operation_def balance_unlookup_def stroops_to_u128_exact bindR_def Let_def)
  then show ?thesis
    using send_run [OF send] redeem_operation [OF op assms(3,4)] direct_amount [OF _ assms(2-4)] own
    by (smt (verit) get_text_memo_from_tx_env.simps(2) memo_text.simps(1) transaction.select_convs(3) wallet_envelope.select_convs(1))
qed

section \<open>Payments made twice, payments not made\<close>

text \<open>
  The wallet pays again for a payment that the search misses: here the third of five payments in the
  history of the account, reported as failed with a bad sequence number.
\<close>

lemma missed_payment_repeated:
  assumes "wl_public_key wl = [1]" and "wl_from_base64_xdr wl xdr = Some \<lparr>we_envelope = EnvelopeTypeTx (own_transaction 30 3), we_fee = fee\<rparr>"
    and "wl_signs wl = (\<lambda>_. True)" and "ws_histories s = [[Some own_history, Some []]]" and "ws_accounts s = [Inr account]"
    and "ws_answers s = [\<lambda>_. Inr resp]"
  shows "ws_submitted (snd (handle_error wl (HorizonSubmissionError title 400 ''tx_bad_seq'' ops (Some xdr)) s)) =
    ws_submitted s @ [(\<lparr>we_envelope = EnvelopeTypeTx ((own_transaction 30 3)\<lparr>tx_seq_num := ha_sequence account + 1\<rparr>), we_fee = fee\<rparr>, Inr resp)]"
  using assms third_payment_missed
  by (simp add: handle_error_def map_some_run handle_tx_bad_seq_error_with_xdr_def handle_tx_bad_seq_error_with_envelope_def
      resubmit_unless_submitted_def bump_sequence_number_and_submit_def create_and_sign_envelope_def sign_envelope_def
      decode_to_envelope_def ask_history_def ask_account_def bindM_def bindR_def ensureR_def liftM_def ok_orM_def ensureM_def
      modifyM_def Let_def submit_run post_transaction_def horizon_submit_transaction_def save_frame
      split: prod.split sum.split)

text \<open>
  The scheduler waits for a message before each round, so that as long as the wallet keeps its end of
  the channel and sends no message to stop, no round takes place after the first.
\<close>

lemma no_periodic_resubmission:
  assumes "resubmit_transactions_from_cache wl s = (Inr (), t)"
  shows "start_periodic_resubmission_of_transactions_from_cache wl [] s = (Inl StillWaiting, t)"
    and "start_periodic_resubmission_of_transactions_from_cache wl [StopMessage] s = (Inr (), t)"
  using assms by (simp_all add: start_periodic_resubmission_of_transactions_from_cache_def bindM_def failM_def retM_def)

text \<open>
  A second envelope with the sequence number of one that waits is sent although it cannot be saved,
  and afterwards the file of the first is gone.
\<close>

lemma second_envelope_removes_first:
  assumes "sequence_number (we_envelope env) = Some n" and "(n, file) \<in> set (ws_files s)"
    and "ws_answers s = [\<lambda>_. Inr resp]" and "submit_transaction wl env s = (r, t)"
  shows "r = Inr resp \<and> (n, file) \<notin> set (ws_files t)"
  using assms
  by (auto simp: submit_run post_transaction_def horizon_submit_transaction_def save_frame Let_def
      remove_tx_envelope_from_cache_def remove_tx_envelope_def)

section \<open>One payment\<close>

text \<open>An operation that submits nothing and fails, or submits one envelope with the memo, whose result it returns.\<close>

definition pays_once :: "byte list \<Rightarrow> tx_response wallet_op \<Rightarrow> bool" where
  "pays_once text m \<longleftrightarrow> (\<forall>s r t. m s = (r, t) \<longrightarrow> ws_submitted t = ws_submitted s \<and> (\<exists>e. r = Inl e) \<or>
     (\<exists>env. ws_submitted t = ws_submitted s @ [(env, r)] \<and> get_text_memo_from_tx_env (we_envelope env) = Some text))"

lemma pays_once_bind:
  assumes "frameM ws_submitted m" and "\<And>x s t. m s = (Inr x, t) \<Longrightarrow> pays_once text (f x)"
  shows "pays_once text (bindM m f)"
  unfolding pays_once_def
proof (intro allI impI)
  fix s r t
  assume run: "bindM m f s = (r, t)"
  obtain q u where m: "m s = (q, u)" by fastforce
  have u: "ws_submitted u = ws_submitted s" using assms(1) m unfolding frameM_def by (metis snd_conv)
  show "ws_submitted t = ws_submitted s \<and> (\<exists>e. r = Inl e) \<or>
     (\<exists>env. ws_submitted t = ws_submitted s @ [(env, r)] \<and> get_text_memo_from_tx_env (we_envelope env) = Some text)"
  proof (cases q)
    case (Inl e)
    then show ?thesis using run m u by (auto simp: bindM_def)
  next
    case (Inr x)
    then have "f x u = (r, t)" using run m by (simp add: bindM_def)
    with assms(2) [of s x u] m Inr u show ?thesis unfolding pays_once_def by metis
  qed
qed

lemma pays_once_submit:
  "get_text_memo_from_tx_env (we_envelope env) = Some text \<Longrightarrow> pays_once text (submit_transaction wl env)"
  unfolding pays_once_def using submit_shape by metis

lemma silent [frame_intro]:
  "frameM ws_submitted ask_account" "frameM ws_submitted m \<Longrightarrow> frameM ws_submitted (tried m)"
  by (auto simp: frameM_def ask_account_def tried_def split: list.split prod.splits sum.splits) (metis snd_conv)+

lemma silent_redeem_op: "frameM ws_submitted (create_payment_op_for_redeem_request wl to asset amount)"
  unfolding create_payment_op_for_redeem_request_def by (intro frame_intro)

lemma payment_once:
  "pays_once (take 28 (wl_to_base58 wl request_id)) (send_payment_to_address wl to asset amount request_id for_redeem)"
proof -
  have "pays_once (take 28 (wl_to_base58 wl request_id)) (send_to_address wl request_id ops)" for ops
    unfolding send_to_address_def Let_def
    by (intro pays_once_bind frame_intro pays_once_submit)
      (auto simp: ok_iff create_envelope_def create_basic_spacewalk_stellar_transaction_def derive_shortened_request_id_def
        append_multiple_def create_and_sign_envelope_def bindR_def Let_def split: sum.splits if_splits)
  then show ?thesis
    unfolding send_payment_to_address_def
    by (intro pays_once_bind) (auto intro: frame_intro silent_redeem_op)
qed

section \<open>A sample wallet\<close>

instance stellar_asset :: countable by countable_datatype
instance muxed_account :: countable by countable_datatype
instance memo :: countable by countable_datatype
instance claim_predicate :: countable by countable_datatype

instance claimant_ext :: (countable) countable
  by (rule countable_classI [of "\<lambda>r. to_nat (cl_destination r, cl_predicate r, claimant.more r)"])
    (metis (no_types, lifting) from_nat_to_nat prod.inject claimant.equality)

instance payment_op_ext :: (countable) countable
  by (rule countable_classI [of "\<lambda>r. to_nat (po_destination r, po_asset r, po_amount r, payment_op.more r)"])
    (metis (no_types, lifting) from_nat_to_nat prod.inject payment_op.equality)

instance claimable_balance_op_ext :: (countable) countable
  by (rule countable_classI [of "\<lambda>r. to_nat (cb_asset r, cb_amount r, cb_claimants r, claimable_balance_op.more r)"])
    (metis (no_types, lifting) from_nat_to_nat prod.inject claimable_balance_op.equality)

instance operation_body :: countable by countable_datatype

instance transaction_ext :: (countable) countable
  by (rule countable_classI [of "\<lambda>r. to_nat (tx_source r, tx_seq_num r, tx_memo r, tx_operations r, transaction.more r)"])
    (metis (no_types, lifting) from_nat_to_nat prod.inject transaction.equality)

instance transaction_envelope :: countable by countable_datatype

instance wallet_envelope_ext :: (countable) countable
  by (rule countable_classI [of "\<lambda>r. to_nat (we_envelope r, we_fee r, wallet_envelope.more r)"])
    (metis (no_types, lifting) from_nat_to_nat prod.inject wallet_envelope.equality)

text \<open>Envelopes can be counted, and the sample wallet writes the number of an envelope in unary.\<close>

definition sample_wallet :: wallet where
  "sample_wallet = \<lparr>wl_public_key = [1], wl_max_retry_attempts_before_fallback = 3, wl_max_backoff_delay = 60,
     wl_to_xdr = (\<lambda>env. replicate (Suc (to_nat env)) 0), wl_from_xdr = (\<lambda>bs. Some (from_nat (length bs - 1))),
     wl_to_base64_xdr = (\<lambda>env. replicate (to_nat env) (CHR ''A'')), wl_from_base64_xdr = (\<lambda>s. Some (from_nat (length s))),
     wl_to_base58 = (\<lambda>_. replicate 28 49), wl_from_asset_code = (\<lambda>_ _. None), wl_from_v0 = (\<lambda>tx. tx),
     wl_builds_operation = (\<lambda>_. True), wl_builds_transaction = (\<lambda>_. True), wl_signs = (\<lambda>_. True), wl_total_fee = (*),
     wl_creates_files = True, wl_writes_files = True, wl_fee_stats = Inr (\<lambda>_. 100)\<rparr>"

definition sample_state :: wallet_state where
  "sample_state = \<lparr>ws_files = [], ws_cursor = None, ws_answers = [\<lambda>_. Inr (own_payment 1 1)],
     ws_accounts = [Inr \<lparr>ha_sequence = 50, ha_balances = []\<rparr>], ws_histories = [[None]], ws_submitted = []\<rparr>"

definition sample_envelope :: "int \<Rightarrow> byte \<Rightarrow> wallet_envelope" where
  "sample_envelope seq memo = \<lparr>we_envelope = EnvelopeTypeTx (own_transaction seq memo), we_fee = 100\<rparr>"

lemma sample_faithful: "faithful_encoding sample_wallet"
  by (simp add: faithful_encoding_def sample_wallet_def)

theorem cached_envelopes_recovered_witness:
  "\<exists>found t. bindM (forM [sample_envelope 7 1, sample_envelope 3 2] (save_tx_envelope sample_wallet))
      (\<lambda>_. get_tx_envelopes sample_wallet) sample_state = (Inr (Inr (found, [])), t) \<and>
    mset found = mset [sample_envelope 7 1, sample_envelope 3 2] \<and>
    sorted (map (\<lambda>env. the (sequence_number (we_envelope env))) found) \<and>
    ws_files t = map (cache_file sample_wallet) [sample_envelope 7 1, sample_envelope 3 2]"
  by (rule cached_envelopes_recovered [OF sample_faithful])
    (simp_all add: sample_wallet_def sample_state_def sample_envelope_def own_transaction_def)


theorem redeem_payment_counts_witness:
  "\<exists>env t resp. send_payment_to_address sample_wallet [2] AssetTypeNative 10000000 [] True
      (sample_state\<lparr>ws_accounts := Inl (HorizonSubmissionError [] 404 [] [] None) # ws_accounts sample_state\<rparr>) = (Inr resp, t) \<and>
    ws_submitted t = [(env, Inr resp)] \<and>
    get_amount_from_transaction_envelope (we_envelope env) [2] (Stellar StellarNative) = Inr (new_amount 0 (Stellar StellarNative))"
proof -
  let ?s = "sample_state\<lparr>ws_accounts := Inl (HorizonSubmissionError [] 404 [] [] None) # ws_accounts sample_state\<rparr>"
  let ?r = "send_payment_to_address sample_wallet [2] AssetTypeNative 10000000 [] True ?s"
  have "\<exists>x. fst ?r = Inr x"
    by (simp add: send_payment_to_address_def create_payment_op_for_redeem_request_def tried_def ask_account_def is_halted_def
        create_account_operation_def map_err_as_build_tx_error_def send_to_address_def create_envelope_def
        create_basic_spacewalk_stellar_transaction_def derive_shortened_request_id_def append_multiple_def
        create_and_sign_envelope_def sign_envelope_def bindM_def bindR_def ensureM_def ensureR_def liftM_def Let_def
        stellar_stroops_to_u128_def decimals_one_def asset_decimals_def
        submit_run post_transaction_def horizon_submit_transaction_def save_frame sample_wallet_def sample_state_def)
  then obtain resp where "?r = (Inr resp, snd ?r)" by (metis prod.collapse)
  from redeem_payment_counts [OF this, of "Stellar StellarNative"] this show ?thesis
    by (auto simp: asset_lookup_def account_missing_def sample_state_def)
qed

end
