(* ===== verification/Slot_Maps.thy ===== *)
theory Slot_Maps
  imports Errors
begin

text \<open>
  The two maps in which a vault collects what it hears from the Stellar network
  (\<^verbatim>\<open>clients/vault/src/oracle/types\<close>): a map with a bounded number of entries that forgets its oldest
  one, and a map that can be read in both directions.
\<close>

section \<open>A bounded map\<close>

definition DEFAULT_MAX_ITEMS_IN_QUEUE :: nat where "DEFAULT_MAX_ITEMS_IN_QUEUE = 200"

record ('k, 'v) limited_fifo_map =
  fifo_limit :: nat
  fifo_queue :: "('k \<times> 'v) list"

definition fifo_new :: "('k, 'v) limited_fifo_map" where
  "fifo_new = \<lparr>fifo_limit = DEFAULT_MAX_ITEMS_IN_QUEUE, fifo_queue = []\<rparr>"

definition fifo_with_limit :: "nat \<Rightarrow> ('k, 'v) limited_fifo_map \<Rightarrow> ('k, 'v) limited_fifo_map" where
  "fifo_with_limit limit m =
     m\<lparr>fifo_limit := if limit < DEFAULT_MAX_ITEMS_IN_QUEUE then DEFAULT_MAX_ITEMS_IN_QUEUE else limit\<rparr>"

definition fifo_len :: "('k, 'v) limited_fifo_map \<Rightarrow> nat" where
  "fifo_len m = length (fifo_queue m)"

definition fifo_contains :: "('k, 'v) limited_fifo_map \<Rightarrow> 'k \<Rightarrow> bool" where
  "fifo_contains m key \<longleftrightarrow> list_ex (\<lambda>(k, _). k = key) (fifo_queue m)"

definition fifo_get :: "('k, 'v) limited_fifo_map \<Rightarrow> 'k \<Rightarrow> 'v option" where
  "fifo_get m key = map_option snd (find (\<lambda>(k, _). k = key) (fifo_queue m))"

definition fifo_first :: "('k, 'v) limited_fifo_map \<Rightarrow> ('k \<times> 'v) option" where
  "fifo_first m = (case fifo_queue m of [] \<Rightarrow> None | x # _ \<Rightarrow> Some x)"

fun find_position :: "('a \<Rightarrow> bool) \<Rightarrow> 'a list \<Rightarrow> nat option" where
  "find_position P [] = None"
| "find_position P (x # xs) = (if P x then Some 0 else map_option Suc (find_position P xs))"

definition fifo_remove :: "'k \<Rightarrow> ('k, 'v) limited_fifo_map \<Rightarrow> 'v option \<times> ('k, 'v) limited_fifo_map" where
  "fifo_remove key m = (case find_position (\<lambda>(k, _). k = key) (fifo_queue m) of
     None \<Rightarrow> (None, m)
   | Some index \<Rightarrow> (Some (snd (fifo_queue m ! index)),
       m\<lparr>fifo_queue := take index (fifo_queue m) @ drop (Suc index) (fifo_queue m)\<rparr>))"

definition fifo_clear :: "('k, 'v) limited_fifo_map \<Rightarrow> ('k, 'v) limited_fifo_map" where
  "fifo_clear m = m\<lparr>fifo_queue := []\<rparr>"

definition fifo_insert :: "'k \<Rightarrow> 'v \<Rightarrow> ('k, 'v) limited_fifo_map \<Rightarrow> 'v option \<times> ('k, 'v) limited_fifo_map" where
  "fifo_insert key v m =
     (let (old_value, m1) = fifo_remove key m;
          kept = (if length (fifo_queue m1) = fifo_limit m1 then drop 1 (fifo_queue m1) else fifo_queue m1)
      in (old_value, m1\<lparr>fifo_queue := kept @ [(key, v)]\<rparr>))"

text \<open>Subtracting the length from a smaller limit panics.\<close>

definition fifo_append ::
  "('k, 'v) limited_fifo_map \<Rightarrow> ('k, 'v) limited_fifo_map \<Rightarrow> (('k \<times> 'v) list \<times> ('k, 'v) limited_fifo_map) result" where
  "fifo_append m other = (bindR (ensureR (fifo_len m \<le> fifo_limit m) Panic) (\<lambda>_.
    let allowable_size = fifo_limit m - fifo_len m in
    let other_queue = fifo_queue other in
    (if length other_queue > allowable_size then
        (let split_index = length other_queue - allowable_size in
         Inr (take split_index other_queue, m\<lparr>fifo_queue := fifo_queue m @ drop split_index other_queue\<rparr>))
      else Inr ([], m\<lparr>fifo_queue := fifo_queue m @ other_queue\<rparr>))))"

section \<open>What the bounded map promises\<close>

definition fifo_ok :: "('k, 'v) limited_fifo_map \<Rightarrow> bool" where
  "fifo_ok m \<longleftrightarrow> distinct (map fst (fifo_queue m)) \<and> length (fifo_queue m) \<le> fifo_limit m \<and>
     DEFAULT_MAX_ITEMS_IN_QUEUE \<le> fifo_limit m"

definition evicted :: "'k \<Rightarrow> ('k, 'v) limited_fifo_map \<Rightarrow> 'k option" where
  "evicted key m = (if fifo_contains m key \<or> fifo_len m < fifo_limit m then None else map_option fst (fifo_first m))"

lemma find_key: "map_option snd (find (\<lambda>(k, _). k = key) xs) = map_of xs key"
  by (induction xs) auto

lemma fifo_get_map_of: "fifo_get m key = map_of (fifo_queue m) key"
  by (simp add: fifo_get_def find_key)

lemma fifo_contains_key: "fifo_contains m key \<longleftrightarrow> key \<in> fst ` set (fifo_queue m)"
  by (force simp: fifo_contains_def list_ex_iff)

lemma fifo_contains_iff: "fifo_contains m key \<longleftrightarrow> fifo_get m key \<noteq> None"
  by (simp add: fifo_contains_key fifo_get_map_of map_of_eq_None_iff)

lemma other_keys: "key \<notin> fst ` set xs \<Longrightarrow> filter (\<lambda>x. fst x \<noteq> key) xs = xs"
  by (auto intro!: filter_True)

lemma drop_position:
  assumes "distinct (map fst xs)"
  shows "case find_position (\<lambda>(k, _). k = key) xs of
      None \<Rightarrow> map_of xs key = None \<and> filter (\<lambda>x. fst x \<noteq> key) xs = xs
    | Some i \<Rightarrow> map_of xs key = Some (snd (xs ! i)) \<and> take i xs @ drop (Suc i) xs = filter (\<lambda>x. fst x \<noteq> key) xs"
  using assms
proof (induction xs)
  case (Cons x xs)
  then show ?case using other_keys [of key xs] by (auto split: option.splits)
qed simp

lemma fifo_remove_eq:
  assumes "fifo_ok m"
  shows "fifo_remove key m = (fifo_get m key, m\<lparr>fifo_queue := filter (\<lambda>x. fst x \<noteq> key) (fifo_queue m)\<rparr>)"
  using assms drop_position [of "fifo_queue m" key]
  by (auto simp: fifo_ok_def fifo_remove_def fifo_get_map_of split: option.splits)

lemma filter_shorter: "key \<in> fst ` set xs \<Longrightarrow> length (filter (\<lambda>x. fst x \<noteq> key) xs) < length xs"
  by (auto intro!: length_filter_less)

lemma filter_bounded: "length xs \<le> n \<Longrightarrow> length (filter P xs) \<le> n"
  using length_filter_le [of P xs] by linarith

lemma fifo_insert_queue:
  assumes "fifo_ok m"
  shows "fifo_insert key v m = (fifo_get m key, m\<lparr>fifo_queue :=
    (case evicted key m of None \<Rightarrow> filter (\<lambda>x. fst x \<noteq> key) (fifo_queue m) | Some _ \<Rightarrow> drop 1 (fifo_queue m)) @ [(key, v)]\<rparr>)"
proof (cases "fifo_contains m key")
  case True
  then have "length (filter (\<lambda>x. fst x \<noteq> key) (fifo_queue m)) \<noteq> fifo_limit m"
    using filter_shorter [of key "fifo_queue m"] assms by (simp add: fifo_ok_def fifo_contains_key)
  then show ?thesis using True by (simp add: fifo_insert_def fifo_remove_eq [OF assms] evicted_def)
next
  case False
  then show ?thesis
    using assms other_keys [of key "fifo_queue m"]
    by (cases "fifo_queue m")
       (auto simp: fifo_insert_def fifo_remove_eq evicted_def fifo_ok_def fifo_len_def fifo_first_def fifo_contains_key
          DEFAULT_MAX_ITEMS_IN_QUEUE_def)
qed

lemma fifo_ok_new: "fifo_ok fifo_new"
  by (simp add: fifo_ok_def fifo_new_def)

lemma fifo_ok_remove: "fifo_ok m \<Longrightarrow> fifo_ok (snd (fifo_remove key m))"
  by (simp add: fifo_remove_eq) (auto simp: fifo_ok_def distinct_map_filter filter_bounded)

lemma room_after_filter:
  assumes "fifo_ok m" and "evicted key m = None"
  shows "length (filter (\<lambda>x. fst x \<noteq> key) (fifo_queue m)) < fifo_limit m"
proof (cases "fifo_contains m key")
  case True
  then show ?thesis
    using assms filter_shorter [of key "fifo_queue m"] by (simp add: fifo_contains_key fifo_ok_def)
next
  case False
  then show ?thesis
    using assms other_keys [of key "fifo_queue m"]
    by (auto simp: evicted_def fifo_contains_key fifo_ok_def fifo_len_def fifo_first_def
        DEFAULT_MAX_ITEMS_IN_QUEUE_def split: if_splits list.splits)
qed

lemma fifo_ok_insert:
  assumes "fifo_ok m"
  shows "fifo_ok (snd (fifo_insert key v m))"
proof (cases "evicted key m")
  case None
  then show ?thesis
    using assms room_after_filter [OF assms None] by (auto simp: fifo_insert_queue fifo_ok_def distinct_map_filter)
next
  case (Some k)
  then have "fifo_queue m \<noteq> []" "key \<notin> fst ` set (fifo_queue m)"
    by (auto simp: evicted_def fifo_first_def fifo_contains_key split: if_splits)
  then show ?thesis
    using Some assms by (cases "fifo_queue m") (auto simp: fifo_insert_queue fifo_ok_def)
qed

section \<open>The contract of a map of slots\<close>

locale slot_map =
  fixes ok :: "'m \<Rightarrow> bool" and lookup :: "'m \<Rightarrow> 'k \<Rightarrow> 'v option" and put :: "'k \<Rightarrow> 'v \<Rightarrow> 'm \<Rightarrow> 'm"
    and del :: "'k \<Rightarrow> 'm \<Rightarrow> 'm" and forgotten :: "'k \<Rightarrow> 'm \<Rightarrow> 'k option"
  assumes ok_put: "ok m \<Longrightarrow> ok (put k v m)"
    and ok_del: "ok m \<Longrightarrow> ok (del k m)"
    and lookup_put: "ok m \<Longrightarrow> lookup (put k v m) j =
      (if j = k then Some v else if forgotten k m = Some j then None else lookup m j)"
    and lookup_del: "ok m \<Longrightarrow> lookup (del k m) j = (if j = k then None else lookup m j)"
    and forgotten_new: "ok m \<Longrightarrow> lookup m k \<noteq> None \<Longrightarrow> forgotten k m = None"
begin

lemma put_same: "ok m \<Longrightarrow> lookup (put k v m) k = Some v"
  by (simp add: lookup_put)

lemma put_again: "ok m \<Longrightarrow> lookup m k \<noteq> None \<Longrightarrow> lookup (put k v m) = (lookup m)(k \<mapsto> v)"
  by (auto simp: lookup_put forgotten_new)

lemma put_only_adds: "ok m \<Longrightarrow> lookup (put k v m) j = Some w \<Longrightarrow> j \<noteq> k \<Longrightarrow> lookup m j = Some w"
  by (simp add: lookup_put split: if_splits)

lemma del_only_removes: "ok m \<Longrightarrow> lookup (del k m) j = Some w \<Longrightarrow> lookup m j = Some w"
  by (simp add: lookup_del split: if_splits)

end

lemma map_of_filter_key: "map_of (filter (\<lambda>x. fst x \<noteq> key) xs) j = (if j = key then None else map_of xs j)"
  by (induction xs) auto

lemma fifo_get_remove:
  "fifo_ok m \<Longrightarrow> fifo_get (snd (fifo_remove key m)) j = (if j = key then None else fifo_get m j)"
  by (simp add: fifo_remove_eq) (simp add: fifo_get_map_of map_of_filter_key)

lemma fifo_get_insert:
  assumes "fifo_ok m"
  shows "fifo_get (snd (fifo_insert key v m)) j =
    (if j = key then Some v else if evicted key m = Some j then None else fifo_get m j)"
proof (cases "evicted key m")
  case None
  then show ?thesis
    using assms by (simp add: fifo_insert_queue) (auto simp: fifo_get_map_of map_of_filter_key map_add_def split: option.splits)
next
  case (Some k)
  then obtain w rest where q: "fifo_queue m = (k, w) # rest" "key \<notin> fst ` set (fifo_queue m)"
    by (auto simp: evicted_def fifo_first_def fifo_contains_key split: if_splits list.splits)
  then have "map_of rest k = None" "map_of rest key = None"
    using assms by (auto simp: fifo_ok_def map_of_eq_None_iff)
  then show ?thesis
    using Some q assms by (auto simp: fifo_insert_queue fifo_get_map_of map_add_def split: option.splits)
qed

lemma fifo_returns:
  "fifo_ok m \<Longrightarrow> fst (fifo_remove key m) = fifo_get m key" "fifo_ok m \<Longrightarrow> fst (fifo_insert key v m) = fifo_get m key"
  by (simp_all add: fifo_remove_eq fifo_insert_queue)

lemma fifo_get_new: "fifo_get fifo_new key = None"
  by (simp add: fifo_get_def fifo_new_def)

interpretation fifo: slot_map fifo_ok fifo_get "\<lambda>k v m. snd (fifo_insert k v m)" "\<lambda>k m. snd (fifo_remove k m)" evicted
  by unfold_locales (auto simp: fifo_ok_insert fifo_ok_remove fifo_get_insert fifo_get_remove evicted_def
      fifo_contains_iff)

text \<open>
  C21: the bounded map behaves as a finite map with a limit: it starts empty, reading, removing and
  inserting do on its entries what they do on a map and return the previous entry, and an insertion
  forgets nothing but the oldest entry, and that only if the key is new and the limit is reached.
\<close>

theorem fifo_refines_map:
  fixes m :: "('k, 'v) limited_fifo_map"
  assumes "fifo_ok m"
  shows "fifo_ok (fifo_new :: ('k, 'v) limited_fifo_map) \<and> fifo_get (fifo_new :: ('k, 'v) limited_fifo_map) = Map.empty \<and>
    fst (fifo_remove key m) = fifo_get m key \<and> fifo_ok (snd (fifo_remove key m)) \<and>
    fifo_get (snd (fifo_remove key m)) = (fifo_get m)(key := None) \<and>
    fst (fifo_insert key v m) = fifo_get m key \<and> fifo_ok (snd (fifo_insert key v m)) \<and>
    fifo_get (snd (fifo_insert key v m)) =
      (if fifo_get m key \<noteq> None \<or> card (dom (fifo_get m)) < fifo_limit m then fifo_get m
       else (fifo_get m)(fst (hd (fifo_queue m)) := None))(key \<mapsto> v)"
proof -
  have "fifo_len m = card (dom (fifo_get m))"
    using assms distinct_card [of "map fst (fifo_queue m)"]
    by (simp add: fifo_len_def fifo_get_map_of [abs_def] dom_map_of_conv_image_fst fifo_ok_def)
  moreover have "fifo_queue m \<noteq> []" if "\<not> fifo_len m < fifo_limit m"
    using that assms by (auto simp: fifo_ok_def fifo_len_def DEFAULT_MAX_ITEMS_IN_QUEUE_def)
  ultimately have "evicted key m = (if fifo_get m key \<noteq> None \<or> card (dom (fifo_get m)) < fifo_limit m then None
      else Some (fst (hd (fifo_queue m))))"
    by (auto simp: evicted_def fifo_contains_iff fifo_first_def split: list.splits)
  then show ?thesis
    using assms by (simp add: fifo_ok_new fifo_get_new fifo_returns fifo_ok_remove fifo_ok_insert fun_eq_iff
        fifo_get_insert fifo_get_remove)
qed

theorem fifo_refines_map_witness:
  "fifo_get (snd (fifo_insert 7 True (snd (fifo_insert 5 False (fifo_new :: (nat, bool) limited_fifo_map))))) =
     [5 \<mapsto> False, 7 \<mapsto> True]"
proof -
  let ?m = "fifo_new :: (nat, bool) limited_fifo_map"
  have lim: "fifo_limit ?m = 200" by (simp add: fifo_new_def DEFAULT_MAX_ITEMS_IN_QUEUE_def)
  have 1: "fifo_ok (snd (fifo_insert 5 False ?m)) \<and> fifo_get (snd (fifo_insert 5 False ?m)) = [5 \<mapsto> False]"
    using fifo_refines_map [of ?m 5 False, OF fifo_ok_new]
    by (simp add: fifo_get_new [abs_def] lim)
  then have "fifo_limit (snd (fifo_insert 5 False ?m)) = 200"
    by (simp add: fifo_insert_queue [OF fifo_ok_new] lim)
  then show ?thesis
    using 1 fifo_refines_map [OF conjunct1 [OF 1], of 7 True] by simp
qed

section \<open>How long an entry is kept\<close>

definition kept_before :: "nat \<Rightarrow> 'k \<Rightarrow> 'v \<Rightarrow> ('k, 'v) limited_fifo_map \<Rightarrow> bool" where
  "kept_before n key v m \<longleftrightarrow> (\<exists>xs ys. fifo_queue m = xs @ (key, v) # ys \<and> length ys \<le> n)"

lemma kept_before_get: "fifo_ok m \<Longrightarrow> kept_before n key v m \<Longrightarrow> fifo_get m key = Some v"
  by (auto simp: kept_before_def fifo_get_map_of fifo_ok_def map_of_eq_None_iff intro!: map_of_is_SomeI)

lemma kept_before_insert:
  assumes "fifo_ok m" and kept: "kept_before n key v m" and "j \<noteq> key" and "Suc n < fifo_limit m"
  shows "kept_before (Suc n) key v (snd (fifo_insert j w m))"
proof -
  obtain xs ys where q: "fifo_queue m = xs @ (key, v) # ys" "length ys \<le> n"
    using kept by (auto simp: kept_before_def)
  show ?thesis
  proof (cases "evicted j m")
    case None
    then have "fifo_queue (snd (fifo_insert j w m)) =
        filter (\<lambda>x. fst x \<noteq> j) xs @ (key, v) # (filter (\<lambda>x. fst x \<noteq> j) ys @ [(j, w)])"
      using q assms(1,3) by (simp add: fifo_insert_queue)
    moreover have "length (filter (\<lambda>x. fst x \<noteq> j) ys @ [(j, w)]) \<le> Suc n" by (simp add: filter_bounded [OF q(2)])
    ultimately show ?thesis unfolding kept_before_def by blast
  next
    case (Some k)
    then have "length (fifo_queue m) \<ge> fifo_limit m" by (auto simp: evicted_def fifo_len_def split: if_splits)
    then have "xs \<noteq> []" using q assms(4) by auto
    then obtain x xs' where "xs = x # xs'" by (cases xs) auto
    then have "fifo_queue (snd (fifo_insert j w m)) = xs' @ (key, v) # (ys @ [(j, w)])"
      using Some q assms(1) by (simp add: fifo_insert_queue)
    moreover have "length (ys @ [(j, w)]) \<le> Suc n" using q by simp
    ultimately show ?thesis unfolding kept_before_def by blast
  qed
qed

lemma fifo_insert_limit: "fifo_ok m \<Longrightarrow> fifo_limit (snd (fifo_insert j w m)) = fifo_limit m"
  by (simp add: fifo_insert_queue)

definition fifo_inserts :: "('k \<times> 'v) list \<Rightarrow> ('k, 'v) limited_fifo_map \<Rightarrow> ('k, 'v) limited_fifo_map" where
  "fifo_inserts xs m = fold (\<lambda>(k, v) m. snd (fifo_insert k v m)) xs m"

lemma kept_before_inserts:
  "fifo_ok m \<Longrightarrow> kept_before n key v m \<Longrightarrow> key \<notin> fst ` set xs \<Longrightarrow> n + length xs < fifo_limit m \<Longrightarrow>
   fifo_ok (fifo_inserts xs m) \<and> kept_before (n + length xs) key v (fifo_inserts xs m)"
proof (induction xs arbitrary: n m)
  case (Cons x xs)
  have "kept_before (Suc n) key v (snd (fifo_insert (fst x) (snd x) m))"
    using Cons.prems by (intro kept_before_insert) auto
  then show ?case
    using Cons.IH [of "snd (fifo_insert (fst x) (snd x) m)" "Suc n"] Cons.prems
    by (simp add: fifo_inserts_def fifo_ok_insert fifo_insert_limit case_prod_unfold)
qed (simp add: fifo_inserts_def)

lemma fifo_keeps_recent:
  assumes "fifo_ok m" and "key \<notin> fst ` set xs" and "length xs < fifo_limit m"
  shows "fifo_get (fifo_inserts xs (snd (fifo_insert key v m))) key = Some v"
proof -
  have "kept_before 0 key v (snd (fifo_insert key v m))"
    using assms(1) by (auto simp: kept_before_def fifo_insert_queue)
  from kept_before_inserts [OF fifo_ok_insert [OF assms(1)] this assms(2)] show ?thesis
    using assms(1,3) by (auto simp: fifo_insert_limit intro: kept_before_get)
qed

lemma fifo_append_ok:
  assumes "fifo_ok m" and "fifo_append m other = Inr (rest, m')"
  shows "length (fifo_queue m') \<le> fifo_limit m' \<and> rest @ drop (length (fifo_queue m)) (fifo_queue m') = fifo_queue other \<and>
    (rest \<noteq> [] \<longrightarrow> fifo_len m' = fifo_limit m')"
  using assms by (auto simp: fifo_append_def result_defs fifo_ok_def fifo_len_def Let_def split: if_splits)

section \<open>A map in both directions\<close>

record ('k, 'v) double_sided_map =
  k_to_v_map :: "'k \<rightharpoonup> 'v"
  v_to_k_map :: "'v \<rightharpoonup> 'k"

definition double_sided_new :: "('k, 'v) double_sided_map" where
  "double_sided_new = \<lparr>k_to_v_map = Map.empty, v_to_k_map = Map.empty\<rparr>"

definition double_sided_insert :: "'k \<Rightarrow> 'v \<Rightarrow> ('k, 'v) double_sided_map \<Rightarrow> ('k, 'v) double_sided_map" where
  "double_sided_insert k v m =
     m\<lparr>k_to_v_map := (k_to_v_map m)(k \<mapsto> v), v_to_k_map := (v_to_k_map m)(v \<mapsto> k)\<rparr>"

definition get_slot_by_txset_hash :: "('k, 'v) double_sided_map \<Rightarrow> 'k \<Rightarrow> 'v option" where
  "get_slot_by_txset_hash m hash = k_to_v_map m hash"

definition get_txset_hash_by_slot :: "('k, 'v) double_sided_map \<Rightarrow> 'v \<Rightarrow> 'k option" where
  "get_txset_hash_by_slot m slot = v_to_k_map m slot"

text \<open>The first removal has happened when the second one finds nothing and the question mark returns.\<close>

definition remove_by_slot :: "'v \<Rightarrow> ('k, 'v) double_sided_map \<Rightarrow> 'k option \<times> ('k, 'v) double_sided_map" where
  "remove_by_slot slot m = (case v_to_k_map m slot of
     None \<Rightarrow> (None, m)
   | Some hash \<Rightarrow>
       (let m1 = m\<lparr>v_to_k_map := (v_to_k_map m)(slot := None)\<rparr> in
        case k_to_v_map m1 hash of
          None \<Rightarrow> (None, m1)
        | Some _ \<Rightarrow> (Some hash, m1\<lparr>k_to_v_map := (k_to_v_map m1)(hash := None)\<rparr>)))"

definition remove_by_txset_hash :: "'k \<Rightarrow> ('k, 'v) double_sided_map \<Rightarrow> 'v option \<times> ('k, 'v) double_sided_map" where
  "remove_by_txset_hash txset_hash m = (case k_to_v_map m txset_hash of
     None \<Rightarrow> (None, m)
   | Some slot \<Rightarrow>
       (let m1 = m\<lparr>k_to_v_map := (k_to_v_map m)(txset_hash := None)\<rparr> in
        case v_to_k_map m1 slot of
          None \<Rightarrow> (None, m1)
        | Some _ \<Rightarrow> (Some slot, m1\<lparr>v_to_k_map := (v_to_k_map m1)(slot := None)\<rparr>)))"

definition two_way :: "('k, 'v) double_sided_map \<Rightarrow> bool" where
  "two_way m \<longleftrightarrow> (\<forall>k v. k_to_v_map m k = Some v \<longleftrightarrow> v_to_k_map m v = Some k)"

lemma two_way_insert:
  assumes "two_way m" and "k_to_v_map m k = None" and "v_to_k_map m v = None"
  shows "two_way (double_sided_insert k v m)"
  using assms unfolding two_way_def double_sided_insert_def
  by (simp split: if_splits) (metis option.distinct(1) option.inject)

lemma two_way_remove:
  assumes "two_way m"
  shows "two_way (snd (remove_by_slot v m)) \<and> fst (remove_by_slot v m) = v_to_k_map m v \<and>
    two_way (snd (remove_by_txset_hash k m)) \<and> fst (remove_by_txset_hash k m) = k_to_v_map m k"
  using assms unfolding two_way_def remove_by_slot_def remove_by_txset_hash_def Let_def
  by (cases "v_to_k_map m v"; cases "k_to_v_map m k"; simp split: option.split)
    (metis option.distinct(1) option.inject)+

text \<open>
  With two hashes announced for one slot the directions disagree: once the transaction set of one
  of them has arrived, the slot of the other one is not found any more.
\<close>

lemma second_hash_lost:
  assumes "h1 \<noteq> h2"
  shows "fst (remove_by_txset_hash h2 (snd (remove_by_txset_hash h1
    (double_sided_insert h2 s (double_sided_insert h1 s m))))) = None"
  using assms by (simp add: remove_by_txset_hash_def double_sided_insert_def Let_def)

lemma remove_by_txset_hash_sub:
  "k_to_v_map (snd (remove_by_txset_hash h m)) k = Some v \<Longrightarrow> k_to_v_map m k = Some v"
  "fst (remove_by_txset_hash h m) = Some v \<Longrightarrow> k_to_v_map m h = Some v"
  by (auto simp: remove_by_txset_hash_def Let_def split: option.splits if_splits)

end
