(* ===== verification/Scp_Collector.thy ===== *)
theory Scp_Collector
  imports Slot_Maps Stellar_Relay
begin

text \<open>
  The part of a vault that follows the Stellar network (\<^verbatim>\<open>clients/vault/src/oracle\<close>): the collector of
  messages of the consensus protocol and of transaction sets, and the construction of the proof of
  a payment from them or from the history archives.  The network is a parameter: whether a message
  can be sent, the hash of a transaction set, the size of array that can be encoded, and what the
  archives answer.
\<close>

section \<open>Messages and archives\<close>

type_synonym slot = nat

datatype tx_set_type = TransactionSet "byte list" | GeneralizedTransactionSet "byte list"

datatype stellar_message =
    GetTxSet "byte list"
  | GetScpState nat
  | ScpMessage scp_envelope
  | TxSet "byte list"
  | GeneralizedTxSet "byte list"
  | OtherMessage nat

datatype scp_history_entry = ScpHistoryV0 nat "scp_envelope list" | ScpHistoryDefault int

datatype transaction_history_ext = ExtV0 | ExtV1 "byte list" | ExtDefault int

record transaction_history_entry =
  the_ledger_seq :: nat
  the_tx_set :: "byte list"
  the_ext :: transaction_history_ext

record network_ops =
  no_send :: "stellar_message \<Rightarrow> bool"
  no_tx_set_hash :: "tx_set_type \<Rightarrow> byte list option"
  no_scp_archive :: "string \<Rightarrow> slot \<Rightarrow> scp_history_entry list option"
  no_unlimited :: "nat \<Rightarrow> bool"
  no_tx_archive :: "string \<Rightarrow> slot \<Rightarrow> transaction_history_entry list option"

datatype agent_error = ConnError | AgentPanic | ProofTimeout | TxSetHashHasNoSlot | NoTxSetHash

definition VALIDATOR_COUNT_TEST_NETWORK :: nat where "VALIDATOR_COUNT_TEST_NETWORK = 3"
definition VALIDATOR_COUNT_PUBLIC_NETWORK :: nat where "VALIDATOR_COUNT_PUBLIC_NETWORK = 23"
definition MAX_SLOTS_TO_REMEMBER :: slot where "MAX_SLOTS_TO_REMEMBER = 12"

definition get_min_externalized_messages :: "bool \<Rightarrow> nat" where
  "get_min_externalized_messages public_network =
     (let validator_count =
        (if public_network then VALIDATOR_COUNT_PUBLIC_NETWORK else VALIDATOR_COUNT_TEST_NETWORK)
      in validator_count * 2 div 3)"

section \<open>The collector\<close>

record scp_collector =
  sc_envelopes_map :: "(slot, scp_envelope list) limited_fifo_map"
  sc_env_from_archive_map :: "(slot, unit) limited_fifo_map"
  sc_txset_map :: "(slot, tx_set_type) limited_fifo_map"
  sc_txset_and_slot_map :: "(byte list, slot) double_sided_map"
  sc_last_slot_index :: slot
  sc_public_network :: bool
  sc_archive_urls :: "string list"

text \<open>The collector and the messages that it has put on the channel to the Stellar node.\<close>

record agent_state =
  ag_collector :: scp_collector
  ag_sent :: "stellar_message list"

type_synonym 'a agent_op = "(agent_state, agent_error, 'a) op"

definition collector_new :: "bool \<Rightarrow> string list \<Rightarrow> scp_collector" where
  "collector_new public_network urls =
     \<lparr>sc_envelopes_map = fifo_new, sc_env_from_archive_map = fifo_new, sc_txset_map = fifo_new,
      sc_txset_and_slot_map = double_sided_new, sc_last_slot_index = 0, sc_public_network = public_network,
      sc_archive_urls = urls\<rparr>"

definition collector_new_with_size_limit :: "bool \<Rightarrow> string list \<Rightarrow> nat \<Rightarrow> scp_collector" where
  "collector_new_with_size_limit public_network urls size_limit =
     \<lparr>sc_envelopes_map = fifo_with_limit size_limit fifo_new,
      sc_env_from_archive_map = fifo_with_limit size_limit fifo_new,
      sc_txset_map = fifo_with_limit size_limit fifo_new,
      sc_txset_and_slot_map = double_sided_new, sc_last_slot_index = 0, sc_public_network = public_network,
      sc_archive_urls = urls\<rparr>"

definition is_envelopes_data_from_archive :: "scp_collector \<Rightarrow> slot \<Rightarrow> bool" where
  "is_envelopes_data_from_archive c slot = fifo_contains (sc_env_from_archive_map c) slot"

definition add_scp_envelope :: "slot \<Rightarrow> scp_envelope \<Rightarrow> scp_collector \<Rightarrow> scp_collector" where
  "add_scp_envelope slot scp_envelope c =
     sc_envelopes_map_update (\<lambda>m. snd (fifo_insert slot
       (case fifo_get m slot of Some v \<Rightarrow> v @ [scp_envelope] | None \<Rightarrow> [scp_envelope]) m)) c"

definition save_txset_hash_and_slot :: "byte list \<Rightarrow> slot \<Rightarrow> scp_collector \<Rightarrow> scp_collector" where
  "save_txset_hash_and_slot txset_hash slot c =
     sc_txset_and_slot_map_update (double_sided_insert txset_hash slot) c"

definition set_last_slot_index :: "slot \<Rightarrow> scp_collector \<Rightarrow> scp_collector" where
  "set_last_slot_index slot c = (if slot > sc_last_slot_index c then c\<lparr>sc_last_slot_index := slot\<rparr> else c)"

text \<open>The slot of the hash is forgotten whether or not the set can be stored.\<close>

definition add_txset_type :: "network_ops \<Rightarrow> tx_set_type \<Rightarrow> scp_collector \<Rightarrow> (agent_error + unit) \<times> scp_collector" where
  "add_txset_type net tx_set c = (case no_tx_set_hash net tx_set of
     None \<Rightarrow> (Inl NoTxSetHash, c)
   | Some hash \<Rightarrow>
       (let (slot, m) = remove_by_txset_hash hash (sc_txset_and_slot_map c);
            c1 = c\<lparr>sc_txset_and_slot_map := m\<rparr>
        in case slot of
             None \<Rightarrow> (Inl TxSetHashHasNoSlot, c1)
           | Some slot \<Rightarrow> (Inr (), sc_txset_map_update (\<lambda>m. snd (fifo_insert slot tx_set m)) c1)))"

definition remove_data :: "slot \<Rightarrow> scp_collector \<Rightarrow> scp_collector" where
  "remove_data slot c =
     sc_txset_map_update (\<lambda>m. snd (fifo_remove slot m))
       (sc_env_from_archive_map_update (\<lambda>m. snd (fifo_remove slot m))
         (sc_envelopes_map_update (\<lambda>m. snd (fifo_remove slot m)) c))"

definition is_txset_new :: "byte list \<Rightarrow> slot \<Rightarrow> scp_collector \<Rightarrow> bool" where
  "is_txset_new txset_hash slot c \<longleftrightarrow>
     get_slot_by_txset_hash (sc_txset_and_slot_map c) txset_hash = None \<and> \<not> fifo_contains (sc_txset_map c) slot"

section \<open>Handling messages\<close>

text \<open>The first 32 bytes of the externalized value; slicing a shorter value panics.\<close>

definition agent_tx_set_hash :: "scp_externalize \<Rightarrow> agent_error + byte list" where
  "agent_tx_set_hash x =
     (let scp_value = ballot_value (externalize_commit x)
      in if length scp_value < 32 then Inl AgentPanic else Inr (take 32 scp_value))"

definition send_message :: "network_ops \<Rightarrow> stellar_message \<Rightarrow> unit agent_op" where
  "send_message net msg s =
     (if no_send net msg then (Inr (), ag_sent_update (\<lambda>sent. sent @ [msg]) s) else (Inl ConnError, s))"

definition handle_envelope :: "network_ops \<Rightarrow> scp_envelope \<Rightarrow> (agent_state, agent_error, slot option) op" where
  "handle_envelope net env = (let slot = stmt_slot_index (env_statement env) in
    (case stmt_pledges (env_statement env) of
        ScpStExternalize stmt \<Rightarrow> (bindM (modifyM (ag_collector_update (set_last_slot_index slot))) (\<lambda>_.
          bindM (liftM (agent_tx_set_hash stmt)) (\<lambda>txset_hash.
          bindM (getM (\<lambda>s. is_txset_new txset_hash slot (ag_collector s))) (\<lambda>new.
          bindM (whenM new ((bindM (send_message net (GetTxSet txset_hash)) (\<lambda>_.
            modifyM (ag_collector_update (save_txset_hash_and_slot txset_hash slot)))))) (\<lambda>_.
          bindM (modifyM (ag_collector_update (add_scp_envelope slot env))) (\<lambda>_.
          retM (Some slot)))))))
      | _ \<Rightarrow> (bindM (modifyM (ag_collector_update (remove_data slot))) (\<lambda>_.
        retM None))))"

definition handle_message :: "network_ops \<Rightarrow> stellar_message \<Rightarrow> unit agent_op" where
  "handle_message net message = (case message of
     ScpMessage env \<Rightarrow> (bindM (handle_envelope net env) (\<lambda>_.
       retM ()))
   | TxSet txs \<Rightarrow> modifyM (ag_collector_update (\<lambda>c. snd (add_txset_type net (TransactionSet txs) c)))
   | GeneralizedTxSet txs \<Rightarrow>
       modifyM (ag_collector_update (\<lambda>c. snd (add_txset_type net (GeneralizedTransactionSet txs) c)))
   | _ \<Rightarrow> retM ())"

section \<open>Building a proof\<close>

record agent_proof =
  pf_slot :: slot
  pf_envelopes :: "scp_envelope list"
  pf_tx_set :: tx_set_type

definition check_slot_still_recoverable_from_overlay :: "slot \<Rightarrow> slot \<Rightarrow> bool" where
  "check_slot_still_recoverable_from_overlay last_slot_index slot \<longleftrightarrow>
     (let recoverable_point = saturating_sub_n last_slot_index MAX_SLOTS_TO_REMEMBER
      in last_slot_index \<noteq> 0 \<and> slot > recoverable_point)"

text \<open>A failure to send is logged only.\<close>

definition ask_overlay_for_envelopes :: "network_ops \<Rightarrow> slot \<Rightarrow> agent_state \<Rightarrow> agent_state" where
  "ask_overlay_for_envelopes net slot s =
     (if slot < 2 ^ 32 then snd (send_message net (GetScpState slot) s) else s)"

definition ask_overlay_for_txset :: "network_ops \<Rightarrow> slot \<Rightarrow> agent_state \<Rightarrow> agent_state" where
  "ask_overlay_for_txset net slot s =
     (case get_txset_hash_by_slot (sc_txset_and_slot_map (ag_collector s)) slot of
        Some txset_hash \<Rightarrow> snd (send_message net (GetTxSet txset_hash) s)
      | None \<Rightarrow> s)"

definition is_entry_of_slot :: "slot \<Rightarrow> scp_history_entry \<Rightarrow> bool" where
  "is_entry_of_slot slot entry = (case entry of ScpHistoryV0 ledger_seq _ \<Rightarrow> ledger_seq = slot | _ \<Rightarrow> False)"

definition is_relevant_envelope :: "scp_envelope \<Rightarrow> bool" where
  "is_relevant_envelope env = (case stmt_pledges (env_statement env) of
     ScpStExternalize _ \<Rightarrow> True | ScpStConfirm _ \<Rightarrow> True | _ \<Rightarrow> False)"

definition archived_envelopes :: "network_ops \<Rightarrow> slot \<Rightarrow> string \<Rightarrow> scp_envelope list option" where
  "archived_envelopes net slot archive_url = (case no_scp_archive net archive_url slot of
     None \<Rightarrow> None
   | Some scp_archive \<Rightarrow> (case find (is_entry_of_slot slot) scp_archive of
       Some (ScpHistoryV0 _ messages) \<Rightarrow>
         (let relevant_envelopes = filter is_relevant_envelope messages;
              externalized_envelopes_count = length (filter is_externalize relevant_envelopes)
          in if externalized_envelopes_count = 0 then None else Some relevant_envelopes)
     | _ \<Rightarrow> None))"

fun get_envelopes_from_horizon_archive :: "network_ops \<Rightarrow> slot \<Rightarrow> string list \<Rightarrow> scp_collector \<Rightarrow> scp_collector" where
  "get_envelopes_from_horizon_archive net slot [] c = c"
| "get_envelopes_from_horizon_archive net slot (archive_url # urls) c =
     (case archived_envelopes net slot archive_url of
        None \<Rightarrow> get_envelopes_from_horizon_archive net slot urls c
      | Some relevant_envelopes \<Rightarrow>
          sc_env_from_archive_map_update (\<lambda>m. snd (fifo_insert slot () m))
            (sc_envelopes_map_update (\<lambda>m. snd (fifo_insert slot relevant_envelopes m)) c))"

definition archived_txset :: "network_ops \<Rightarrow> slot \<Rightarrow> string \<Rightarrow> tx_set_type option" where
  "archived_txset net slot archive_url = (case no_tx_archive net archive_url slot of
     None \<Rightarrow> None
   | Some transactions_archive \<Rightarrow>
       map_option (\<lambda>entry. case the_ext entry of
           ExtV1 generalized_tx_set \<Rightarrow> GeneralizedTransactionSet generalized_tx_set
         | _ \<Rightarrow> TransactionSet (the_tx_set entry))
         (find (\<lambda>entry. the_ledger_seq entry = slot) transactions_archive))"

fun get_txset_from_horizon_archive :: "network_ops \<Rightarrow> slot \<Rightarrow> string list \<Rightarrow> scp_collector \<Rightarrow> scp_collector" where
  "get_txset_from_horizon_archive net slot [] c = c"
| "get_txset_from_horizon_archive net slot (archive_url # urls) c =
     (case archived_txset net slot archive_url of
        None \<Rightarrow> get_txset_from_horizon_archive net slot urls c
      | Some tx_set \<Rightarrow> sc_txset_map_update (\<lambda>m. snd (fifo_insert slot tx_set m)) c)"

definition fetch_envelopes :: "network_ops \<Rightarrow> slot \<Rightarrow> agent_state \<Rightarrow> agent_state" where
  "fetch_envelopes net slot s =
     (if check_slot_still_recoverable_from_overlay (sc_last_slot_index (ag_collector s)) slot
      then ask_overlay_for_envelopes net slot s
      else ag_collector_update (\<lambda>c. get_envelopes_from_horizon_archive net slot (sc_archive_urls c) c) s)"

definition get_envelopes :: "network_ops \<Rightarrow> slot \<Rightarrow> agent_state \<Rightarrow> scp_envelope list option \<times> agent_state" where
  "get_envelopes net slot s =
     (let c = ag_collector s in
      case fifo_get (sc_envelopes_map c) slot of
        Some envelopes \<Rightarrow>
          (if \<not> is_envelopes_data_from_archive c slot \<and>
              length envelopes < get_min_externalized_messages (sc_public_network c)
           then (None, fetch_envelopes net slot s)
           else if no_unlimited net (length envelopes) then (Some envelopes, s) else (None, s))
      | None \<Rightarrow> (None, fetch_envelopes net slot s))"

definition get_txset :: "network_ops \<Rightarrow> slot \<Rightarrow> agent_state \<Rightarrow> tx_set_type option \<times> agent_state" where
  "get_txset net slot s =
     (let c = ag_collector s in
      case fifo_get (sc_txset_map c) slot of
        Some res \<Rightarrow> (Some res, s)
      | None \<Rightarrow>
          (None,
           if check_slot_still_recoverable_from_overlay (sc_last_slot_index c) slot
           then ask_overlay_for_txset net slot s
           else ag_collector_update (\<lambda>c. get_txset_from_horizon_archive net slot (sc_archive_urls c) c) s))"

definition build_proof :: "network_ops \<Rightarrow> slot \<Rightarrow> agent_state \<Rightarrow> agent_proof option \<times> agent_state" where
  "build_proof net slot s =
     (if sc_last_slot_index (ag_collector s) = 0 then (None, s)
      else case get_envelopes net slot s of
        (None, t) \<Rightarrow> (None, t)
      | (Some envelopes, t) \<Rightarrow> (case get_txset net slot t of
          (None, u) \<Rightarrow> (None, u)
        | (Some tx_set, u) \<Rightarrow> (Some \<lparr>pf_slot = slot, pf_envelopes = envelopes, pf_tx_set = tx_set\<rparr>, u)))"

section \<open>The archives\<close>

definition ARCHIVE_NODE_LEDGER_BATCH :: slot where "ARCHIVE_NODE_LEDGER_BATCH = 64"

definition find_last_slot_index_in_batch :: "slot \<Rightarrow> slot" where
  "find_last_slot_index_in_batch slot_index =
     (let rest = (slot_index + 1) mod ARCHIVE_NODE_LEDGER_BATCH
      in if rest = 0 then slot_index else slot_index + ARCHIVE_NODE_LEDGER_BATCH - rest)"

section \<open>Waiting for a proof and listening\<close>

text \<open>
  The attempts to build a proof before the time is over, with the messages heard while the agent
  sleeps after each of them.
\<close>

fun hear_all :: "network_ops \<Rightarrow> stellar_message list \<Rightarrow> agent_state \<Rightarrow> agent_state" where
  "hear_all net [] s = s"
| "hear_all net (m # ms) s = hear_all net ms (snd (handle_message net m s))"

fun get_proof :: "network_ops \<Rightarrow> slot \<Rightarrow> stellar_message list list \<Rightarrow> agent_proof agent_op" where
  "get_proof net slot [] s = (Inl ProofTimeout, s)"
| "get_proof net slot (heard # intervals) s = (case build_proof net slot s of
     (None, t) \<Rightarrow> get_proof net slot intervals (hear_all net heard t)
   | (Some p, t) \<Rightarrow> (Inr p, t))"

datatype overlay_event = NoMessage | ErrorMsg | Received stellar_message | ConnectionLost | ListenTimeout

definition STELLAR_RELAY_HEALTH_CHECK_IN_SECS :: nat where "STELLAR_RELAY_HEALTH_CHECK_IN_SECS = 300"

text \<open>
  A round of the listener: the time at its start, what the connection delivers, and the time after
  that.  The result tells whether the vault is shut down; a panic ends the task without it.
\<close>

fun listen_for_stellar_messages ::
  "network_ops \<Rightarrow> nat \<Rightarrow> (nat \<times> overlay_event \<times> nat) list \<Rightarrow> bool agent_op" where
  "listen_for_stellar_messages net last_valid [] s = (Inr False, s)"
| "listen_for_stellar_messages net last_valid ((before, event, after) # events) s =
     (if last_valid + STELLAR_RELAY_HEALTH_CHECK_IN_SECS < before then (Inr True, s)
      else case event of
        NoMessage \<Rightarrow> listen_for_stellar_messages net last_valid events s
      | Received msg \<Rightarrow> (case handle_message net msg s of
          (Inl AgentPanic, t) \<Rightarrow> (Inl AgentPanic, t)
        | (_, t) \<Rightarrow> listen_for_stellar_messages net after events t)
      | _ \<Rightarrow> (Inr True, s))"

section \<open>Where the parts of a proof come from\<close>

text \<open>The states that an agent can reach, with the messages that it has heard.\<close>

inductive collects :: "network_ops \<Rightarrow> bool \<Rightarrow> string list \<Rightarrow> stellar_message set \<Rightarrow> agent_state \<Rightarrow> bool"
  for net public_network urls where
  collects_start: "collects net public_network urls {} \<lparr>ag_collector = collector_new public_network urls, ag_sent = []\<rparr>"
| collects_hear: "collects net public_network urls H s \<Longrightarrow>
    collects net public_network urls (insert m H) (snd (handle_message net m s))"
| collects_ask: "collects net public_network urls H s \<Longrightarrow>
    collects net public_network urls H (snd (build_proof net slot s))"

definition tx_set_message :: "tx_set_type \<Rightarrow> stellar_message" where
  "tx_set_message ts = (case ts of TransactionSet txs \<Rightarrow> TxSet txs | GeneralizedTransactionSet txs \<Rightarrow> GeneralizedTxSet txs)"

definition heard_for :: "stellar_message set \<Rightarrow> slot \<Rightarrow> scp_envelope \<Rightarrow> bool" where
  "heard_for H slot e \<longleftrightarrow> ScpMessage e \<in> H \<and> is_externalize e \<and> stmt_slot_index (env_statement e) = slot"

definition archived_for :: "network_ops \<Rightarrow> string list \<Rightarrow> slot \<Rightarrow> scp_envelope \<Rightarrow> bool" where
  "archived_for net urls slot e \<longleftrightarrow>
     (\<exists>url\<in>set urls. \<exists>es. archived_envelopes net slot url = Some es \<and> e \<in> set es)"

definition hash_announced :: "stellar_message set \<Rightarrow> slot \<Rightarrow> byte list \<Rightarrow> bool" where
  "hash_announced H slot h \<longleftrightarrow> (\<exists>e x. ScpMessage e \<in> H \<and> stmt_slot_index (env_statement e) = slot \<and>
     stmt_pledges (env_statement e) = ScpStExternalize x \<and> agent_tx_set_hash x = Inr h)"

definition set_announced :: "network_ops \<Rightarrow> stellar_message set \<Rightarrow> slot \<Rightarrow> tx_set_type \<Rightarrow> bool" where
  "set_announced net H slot ts \<longleftrightarrow> tx_set_message ts \<in> H \<and>
     (\<exists>h. no_tx_set_hash net ts = Some h \<and> hash_announced H slot h)"

definition archived_set :: "network_ops \<Rightarrow> string list \<Rightarrow> slot \<Rightarrow> tx_set_type \<Rightarrow> bool" where
  "archived_set net urls slot ts \<longleftrightarrow> (\<exists>url\<in>set urls. archived_txset net slot url = Some ts)"

definition collector_inv ::
  "network_ops \<Rightarrow> bool \<Rightarrow> string list \<Rightarrow> stellar_message set \<Rightarrow> scp_collector \<Rightarrow> bool" where
  "collector_inv net public_network urls H c \<longleftrightarrow>
     fifo_ok (sc_envelopes_map c) \<and> fifo_ok (sc_env_from_archive_map c) \<and> fifo_ok (sc_txset_map c) \<and>
     sc_archive_urls c = urls \<and> sc_public_network c = public_network \<and>
     (\<forall>slot es. fifo_get (sc_envelopes_map c) slot = Some es \<longrightarrow>
        (\<forall>e\<in>set es. heard_for H slot e \<or> archived_for net urls slot e)) \<and>
     (\<forall>slot ts. fifo_get (sc_txset_map c) slot = Some ts \<longrightarrow>
        set_announced net H slot ts \<or> archived_set net urls slot ts) \<and>
     (\<forall>h slot. k_to_v_map (sc_txset_and_slot_map c) h = Some slot \<longrightarrow> hash_announced H slot h)"

lemma collector_inv_new: "collector_inv net pub urls H (collector_new pub urls)"
  by (simp add: collector_inv_def collector_new_def fifo_ok_new fifo_get_new double_sided_new_def)

lemma collector_inv_mono: "collector_inv net pub urls H c \<Longrightarrow> H \<subseteq> G \<Longrightarrow> collector_inv net pub urls G c"
  unfolding collector_inv_def heard_for_def set_announced_def hash_announced_def by blast

lemma inv_last_slot: "collector_inv net pub urls H c \<Longrightarrow> collector_inv net pub urls H (set_last_slot_index slot c)"
  by (simp add: collector_inv_def set_last_slot_index_def)

lemma inv_save_hash:
  "collector_inv net pub urls H c \<Longrightarrow> hash_announced H slot h \<Longrightarrow>
   collector_inv net pub urls H (save_txset_hash_and_slot h slot c)"
  by (auto simp: collector_inv_def save_txset_hash_and_slot_def double_sided_insert_def)

lemma inv_put_envelopes:
  assumes "collector_inv net pub urls H c" and "\<And>e. e \<in> set es \<Longrightarrow> heard_for H slot e \<or> archived_for net urls slot e"
  shows "collector_inv net pub urls H (sc_envelopes_map_update (\<lambda>m. snd (fifo_insert slot es m)) c)"
  using assms fifo.ok_put [of "sc_envelopes_map c"]
  by (auto simp: collector_inv_def fifo.lookup_put split: if_splits)

lemma inv_put_mark:
  "collector_inv net pub urls H c \<Longrightarrow>
   collector_inv net pub urls H (sc_env_from_archive_map_update (\<lambda>m. snd (fifo_insert slot () m)) c)"
  by (simp add: collector_inv_def fifo.ok_put)

lemma inv_put_txset:
  assumes "collector_inv net pub urls H c" and "set_announced net H slot ts \<or> archived_set net urls slot ts"
  shows "collector_inv net pub urls H (sc_txset_map_update (\<lambda>m. snd (fifo_insert slot ts m)) c)"
  using assms by (auto simp: collector_inv_def fifo.ok_put fifo.lookup_put split: if_splits)

lemma inv_add_envelope:
  assumes "collector_inv net pub urls H c" and "heard_for H slot e"
  shows "collector_inv net pub urls H (add_scp_envelope slot e c)"
  using inv_put_envelopes [OF assms(1), of "case fifo_get (sc_envelopes_map c) slot of Some v \<Rightarrow> v @ [e] | None \<Rightarrow> [e]" slot]
    assms
  by (cases "fifo_get (sc_envelopes_map c) slot") (auto simp: add_scp_envelope_def collector_inv_def)

lemma inv_add_txset:
  assumes "collector_inv net pub urls H c" and "tx_set_message ts \<in> H"
  shows "collector_inv net pub urls H (snd (add_txset_type net ts c))"
proof (cases "no_tx_set_hash net ts")
  case (Some h)
  obtain slot m where r: "remove_by_txset_hash h (sc_txset_and_slot_map c) = (slot, m)" by fastforce
  have inv: "collector_inv net pub urls H (c\<lparr>sc_txset_and_slot_map := m\<rparr>)"
    using assms(1) remove_by_txset_hash_sub(1) [of h "sc_txset_and_slot_map c"] r by (auto simp: collector_inv_def)
  show ?thesis
  proof (cases slot)
    case (Some sl)
    then have "hash_announced H sl h"
      using r remove_by_txset_hash_sub(2) [of h "sc_txset_and_slot_map c"] assms(1) by (auto simp: collector_inv_def)
    then have "set_announced net H sl ts" using assms(2) \<open>no_tx_set_hash net ts = Some h\<close> by (auto simp: set_announced_def)
    then show ?thesis
      using inv_put_txset [OF inv] Some r \<open>no_tx_set_hash net ts = Some h\<close> by (simp add: add_txset_type_def)
  qed (use inv r Some in \<open>simp add: add_txset_type_def\<close>)
qed (use assms in \<open>simp add: add_txset_type_def\<close>)

lemma inv_remove_data:
  "collector_inv net pub urls H c \<Longrightarrow> collector_inv net pub urls H (remove_data slot c)"
  by (auto simp: collector_inv_def remove_data_def fifo.ok_del fifo.lookup_del)

lemmas collector_inv_ops = inv_last_slot inv_save_hash inv_add_envelope inv_add_txset inv_remove_data

lemma inv_handle_message:
  assumes "collector_inv net pub urls H (ag_collector s)" and "m \<in> H"
  shows "collector_inv net pub urls H (ag_collector (snd (handle_message net m s)))"
proof (cases m)
  case (ScpMessage e)
  show ?thesis
  proof (cases "stmt_pledges (env_statement e)")
    case (ScpStExternalize x)
    have heard: "heard_for H (stmt_slot_index (env_statement e)) e"
      using assms(2) ScpMessage ScpStExternalize by (simp add: heard_for_def is_externalize_def)
    have "hash_announced H (stmt_slot_index (env_statement e)) h" if "agent_tx_set_hash x = Inr h" for h
      using that assms(2) ScpMessage ScpStExternalize by (auto simp: hash_announced_def)
    then show ?thesis
      using assms(1) heard ScpMessage ScpStExternalize
      by (cases "agent_tx_set_hash x")
        (auto simp: handle_message_def handle_envelope_def send_message_def Let_def bindM_def modifyM_def
          liftM_def getM_def whenM_def retM_def collector_inv_ops)
  qed (use assms(1) ScpMessage in
      \<open>simp_all add: handle_message_def handle_envelope_def Let_def bindM_def modifyM_def retM_def collector_inv_ops\<close>)
qed (use assms in \<open>simp_all add: handle_message_def modifyM_def retM_def inv_add_txset tx_set_message_def\<close>)

lemma inv_archive_envelopes:
  "collector_inv net pub urls H c \<Longrightarrow> set us \<subseteq> set urls \<Longrightarrow>
   collector_inv net pub urls H (get_envelopes_from_horizon_archive net slot us c)"
proof (induction us)
  case (Cons u us)
  show ?case
  proof (cases "archived_envelopes net slot u")
    case (Some es)
    then have "archived_for net urls slot e" if "e \<in> set es" for e
      using that Cons.prems by (auto simp: archived_for_def)
    then show ?thesis using Some Cons.prems by (simp add: inv_put_mark inv_put_envelopes)
  qed (use Cons in simp)
qed simp

lemma inv_archive_txset:
  "collector_inv net pub urls H c \<Longrightarrow> set us \<subseteq> set urls \<Longrightarrow>
   collector_inv net pub urls H (get_txset_from_horizon_archive net slot us c)"
proof (induction us)
  case (Cons u us)
  show ?case
  proof (cases "archived_txset net slot u")
    case (Some ts)
    then have "archived_set net urls slot ts" using Cons.prems by (auto simp: archived_set_def)
    then show ?thesis using Some Cons.prems by (simp add: inv_put_txset)
  qed (use Cons in simp)
qed simp

lemma asking_keeps_collector:
  "ag_collector (ask_overlay_for_envelopes net slot s) = ag_collector s"
  "ag_collector (ask_overlay_for_txset net slot s) = ag_collector s"
  by (simp_all add: ask_overlay_for_envelopes_def ask_overlay_for_txset_def send_message_def split: option.split)

lemma collector_inv_urls: "collector_inv net pub urls H c \<Longrightarrow> sc_archive_urls c = urls"
  by (simp add: collector_inv_def)

lemma inv_get_envelopes:
  "collector_inv net pub urls H (ag_collector s) \<Longrightarrow>
   collector_inv net pub urls H (ag_collector (snd (get_envelopes net slot s)))"
  by (auto simp: get_envelopes_def fetch_envelopes_def Let_def asking_keeps_collector inv_archive_envelopes
      collector_inv_urls split: option.split)

lemma inv_get_txset:
  "collector_inv net pub urls H (ag_collector s) \<Longrightarrow>
   collector_inv net pub urls H (ag_collector (snd (get_txset net slot s)))"
  by (auto simp: get_txset_def Let_def asking_keeps_collector inv_archive_txset collector_inv_urls split: option.split)

lemma inv_build_proof:
  assumes "collector_inv net pub urls H (ag_collector s)"
  shows "collector_inv net pub urls H (ag_collector (snd (build_proof net slot s)))"
  using inv_get_envelopes [OF assms, of slot] inv_get_txset [of net pub urls H "snd (get_envelopes net slot s)" slot] assms
  by (auto simp: build_proof_def split: prod.split option.split)

lemma collects_inv: "collects net pub urls H s \<Longrightarrow> collector_inv net pub urls H (ag_collector s)"
proof (induction rule: collects.induct)
  case (collects_hear H s m)
  then show ?case using collector_inv_mono inv_handle_message [of net pub urls "insert m H" s m] by blast
qed (simp_all add: collector_inv_new inv_build_proof)

text \<open>
  C22: whatever messages the agent hears and proofs it looks for, each of its three maps has one entry per
  slot and no more entries than its limit, and the archives it asks stay those it was started with.
\<close>

theorem collector_well_formed:
  assumes "collects net public_network urls H s"
  shows "distinct (map fst (fifo_queue (sc_envelopes_map (ag_collector s)))) \<and>
    distinct (map fst (fifo_queue (sc_txset_map (ag_collector s)))) \<and>
    distinct (map fst (fifo_queue (sc_env_from_archive_map (ag_collector s)))) \<and>
    length (fifo_queue (sc_envelopes_map (ag_collector s))) \<le> fifo_limit (sc_envelopes_map (ag_collector s)) \<and>
    length (fifo_queue (sc_txset_map (ag_collector s))) \<le> fifo_limit (sc_txset_map (ag_collector s)) \<and>
    length (fifo_queue (sc_env_from_archive_map (ag_collector s))) \<le> fifo_limit (sc_env_from_archive_map (ag_collector s)) \<and>
    sc_archive_urls (ag_collector s) = urls"
  using collects_inv [OF assms] by (simp add: collector_inv_def fifo_ok_def)

lemma get_envelopes_some:
  "get_envelopes net slot s = (Some es, t) \<Longrightarrow> t = s \<and> fifo_get (sc_envelopes_map (ag_collector s)) slot = Some es \<and>
   (is_envelopes_data_from_archive (ag_collector s) slot \<or>
    get_min_externalized_messages (sc_public_network (ag_collector s)) \<le> length es)"
  by (auto simp: get_envelopes_def Let_def split: option.splits if_splits)

lemma get_txset_some:
  "get_txset net slot s = (Some ts, t) \<Longrightarrow> t = s \<and> fifo_get (sc_txset_map (ag_collector s)) slot = Some ts"
  by (auto simp: get_txset_def Let_def split: option.splits)

lemma build_proof_some:
  "build_proof net slot s = (Some p, t) \<Longrightarrow> t = s \<and> pf_slot p = slot \<and>
   fifo_get (sc_envelopes_map (ag_collector s)) slot = Some (pf_envelopes p) \<and>
   fifo_get (sc_txset_map (ag_collector s)) slot = Some (pf_tx_set p) \<and>
   (is_envelopes_data_from_archive (ag_collector s) slot \<or>
    get_min_externalized_messages (sc_public_network (ag_collector s)) \<le> length (pf_envelopes p))"
  by (auto simp: build_proof_def split: if_splits prod.splits option.splits dest!: get_envelopes_some get_txset_some)

text \<open>
  C8: a proof that the agent builds for a slot contains nothing but what the network or a configured
  archive says of that slot: each envelope was heard as an externalize message of the slot or is in
  an archive entry of the slot, the transaction set was received under a hash that an externalize
  message of the slot announced or is the archived one, and without an archive entry there are at
  least as many envelopes as two thirds of the known validators.
\<close>

theorem proof_provenance:
  assumes "collects net public_network urls H s" and "build_proof net slot s = (Some p, t)"
  shows "pf_slot p = slot \<and>
    (\<forall>e\<in>set (pf_envelopes p). heard_for H slot e \<or> archived_for net urls slot e) \<and>
    (set_announced net H slot (pf_tx_set p) \<or> archived_set net urls slot (pf_tx_set p)) \<and>
    (is_envelopes_data_from_archive (ag_collector s) slot \<or>
     (if public_network then 15 else 2) \<le> length (pf_envelopes p))"
  using collects_inv [OF assms(1)] build_proof_some [OF assms(2)]
  by (auto simp: collector_inv_def get_min_externalized_messages_def VALIDATOR_COUNT_PUBLIC_NETWORK_def
      VALIDATOR_COUNT_TEST_NETWORK_def)

section \<open>A proof is found\<close>

lemma kept_before_mono: "kept_before n key v m \<Longrightarrow> n \<le> k \<Longrightarrow> kept_before k key v m"
  by (fastforce simp: kept_before_def)

lemma kept_before_own: "fifo_ok m \<Longrightarrow> kept_before n key v (snd (fifo_insert key v m))"
  unfolding kept_before_def by (rule exI, rule exI [of _ "[]"]) (simp add: fifo_insert_queue)

lemma kept_before_remove:
  assumes "fifo_ok m" and "kept_before n key v m" and "j \<noteq> key"
  shows "kept_before n key v (snd (fifo_remove j m))"
proof -
  obtain xs ys where q: "fifo_queue m = xs @ (key, v) # ys" "length ys \<le> n"
    using assms(2) by (auto simp: kept_before_def)
  have "fifo_queue (snd (fifo_remove j m)) = filter (\<lambda>x. fst x \<noteq> j) xs @ (key, v) # filter (\<lambda>x. fst x \<noteq> j) ys"
    using q assms by (simp add: fifo_remove_eq)
  then show ?thesis unfolding kept_before_def using filter_bounded [OF q(2)] by blast
qed

definition envelope_hash :: "scp_envelope \<Rightarrow> byte list option" where
  "envelope_hash e = (case stmt_pledges (env_statement e) of
     ScpStExternalize x \<Rightarrow> (case agent_tx_set_hash x of Inr h \<Rightarrow> Some h | Inl _ \<Rightarrow> None) | _ \<Rightarrow> None)"

text \<open>
  The messages that are no obstacle to a proof for a slot whose transaction set has a given hash:
  the envelopes of the slot announce that hash, and the envelopes of other slots do not.
\<close>

definition about_slot :: "slot \<Rightarrow> stellar_message \<Rightarrow> bool" where
  "about_slot slot m = (case m of ScpMessage e \<Rightarrow> stmt_slot_index (env_statement e) = slot | _ \<Rightarrow> False)"

definition consistent :: "slot \<Rightarrow> byte list \<Rightarrow> stellar_message \<Rightarrow> bool" where
  "consistent slot h m = (case m of
     ScpMessage e \<Rightarrow> (stmt_slot_index (env_statement e) = slot) = (envelope_hash e = Some h) | _ \<Rightarrow> True)"

definition delivers :: "network_ops \<Rightarrow> byte list \<Rightarrow> stellar_message \<Rightarrow> bool" where
  "delivers net h m = (case m of
     TxSet txs \<Rightarrow> no_tx_set_hash net (TransactionSet txs) = Some h
   | GeneralizedTxSet txs \<Rightarrow> no_tx_set_hash net (GeneralizedTransactionSet txs) = Some h
   | _ \<Rightarrow> False)"

definition holds_entry :: "'k \<Rightarrow> nat \<Rightarrow> ('v \<Rightarrow> bool) option \<Rightarrow> ('k, 'v) limited_fifo_map \<Rightarrow> bool" where
  "holds_entry key n Q m \<longleftrightarrow> fifo_ok m \<and> (case Q of
     None \<Rightarrow> fifo_get m key = None | Some P \<Rightarrow> \<exists>v. P v \<and> kept_before n key v m)"

lemma holds_entry_mono: "holds_entry key n Q m \<Longrightarrow> n \<le> k \<Longrightarrow> holds_entry key k Q m"
  using kept_before_mono by (fastforce simp: holds_entry_def split: option.splits)

lemma holds_entry_ok: "holds_entry key n Q m \<Longrightarrow> fifo_ok m"
  by (simp add: holds_entry_def)

lemma holds_entry_get:
  "holds_entry key n Q m \<Longrightarrow> case Q of None \<Rightarrow> fifo_get m key = None | Some P \<Rightarrow> \<exists>v. P v \<and> fifo_get m key = Some v"
  using kept_before_get by (fastforce simp: holds_entry_def split: option.splits)

lemma holds_entry_own: "fifo_ok m \<Longrightarrow> P v \<Longrightarrow> holds_entry key n (Some P) (snd (fifo_insert key v m))"
  using kept_before_own by (fastforce simp: holds_entry_def fifo_ok_insert)

lemma holds_entry_other:
  assumes "holds_entry key n Q m" and "j \<noteq> key" and "Suc n < 200"
  shows "holds_entry key (Suc n) Q (snd (fifo_insert j v m))"
proof -
  have ok: "fifo_ok m" and "Suc n < fifo_limit m"
    using assms by (auto simp: holds_entry_def fifo_ok_def DEFAULT_MAX_ITEMS_IN_QUEUE_def)
  then have "kept_before (Suc n) key w (snd (fifo_insert j v m))" if "kept_before n key w m" for w
    using kept_before_insert that assms(2) by metis
  then show ?thesis
    using assms(1,2) ok unfolding holds_entry_def
    by (auto simp: fifo_ok_insert fifo_get_insert split: option.splits)
qed

lemma holds_entry_remove:
  assumes "holds_entry key n Q m" and "j \<noteq> key"
  shows "holds_entry key n Q (snd (fifo_remove j m))"
  using assms kept_before_remove [of m n key _ j] unfolding holds_entry_def
  by (auto simp: fifo_ok_remove fifo_get_remove split: option.splits)

definition counted :: "nat \<Rightarrow> ('a list \<Rightarrow> bool) option" where
  "counted k = (if k = 0 then None else Some (\<lambda>es. length es = k))"

definition arrived :: "bool \<Rightarrow> ('a \<Rightarrow> bool) option" where
  "arrived b = (if b then Some (\<lambda>_. True) else None)"

definition awaited :: "slot \<Rightarrow> byte list \<Rightarrow> nat \<Rightarrow> (byte list, slot) double_sided_map \<Rightarrow> bool" where
  "awaited slot h k d \<longleftrightarrow> (\<forall>h'. h' \<noteq> h \<longrightarrow> k_to_v_map d h' \<noteq> Some slot) \<and>
     (if k = 0 then k_to_v_map d h = None else k_to_v_map d h = Some slot \<and> v_to_k_map d slot = Some h)"

definition gathers :: "slot \<Rightarrow> byte list \<Rightarrow> nat \<Rightarrow> nat \<Rightarrow> bool \<Rightarrow> scp_collector \<Rightarrow> bool" where
  "gathers slot h n k b c \<longleftrightarrow>
     holds_entry slot n (counted k) (sc_envelopes_map c) \<and> fifo_ok (sc_env_from_archive_map c) \<and>
     holds_entry slot n (arrived b) (sc_txset_map c) \<and> (k \<noteq> 0 \<longrightarrow> slot \<le> sc_last_slot_index c) \<and>
     (b \<or> awaited slot h k (sc_txset_and_slot_map c))"

lemma gathers_mono: "gathers slot h n k b c \<Longrightarrow> n \<le> j \<Longrightarrow> gathers slot h j k b c"
  by (auto simp: gathers_def intro: holds_entry_mono)

lemma gathers_last: "gathers slot h n k b c \<Longrightarrow> gathers slot h n k b (set_last_slot_index j c)"
  by (auto simp: gathers_def set_last_slot_index_def)

lemma gathers_save:
  "gathers slot h n k b c \<Longrightarrow> h' \<noteq> h \<Longrightarrow> j \<noteq> slot \<Longrightarrow> gathers slot h n k b (save_txset_hash_and_slot h' j c)"
  by (auto simp: gathers_def awaited_def save_txset_hash_and_slot_def double_sided_insert_def)

lemma gathers_other_envelope:
  "gathers slot h n k b c \<Longrightarrow> j \<noteq> slot \<Longrightarrow> Suc n < 200 \<Longrightarrow> gathers slot h (Suc n) k b (add_scp_envelope j e c)"
  by (simp add: gathers_def add_scp_envelope_def holds_entry_other holds_entry_mono [of _ n _ _ "Suc n"])

lemma gathers_remove: "gathers slot h n k b c \<Longrightarrow> j \<noteq> slot \<Longrightarrow> gathers slot h n k b (remove_data j c)"
  by (simp add: gathers_def remove_data_def holds_entry_remove fifo_ok_remove)

lemma gathers_own_envelope:
  assumes g: "gathers slot h n k b c" and "slot \<le> sc_last_slot_index c"
  shows "gathers slot h (Suc n) (Suc k) b
    (add_scp_envelope slot e (if is_txset_new h slot c then save_txset_hash_and_slot h slot c else c))"
proof -
  let ?es = "case fifo_get (sc_envelopes_map c) slot of Some v \<Rightarrow> v @ [e] | None \<Rightarrow> [e]"
  have env: "holds_entry slot n (counted k) (sc_envelopes_map c)" and txs: "holds_entry slot n (arrived b) (sc_txset_map c)"
    using g by (simp_all add: gathers_def)
  have "length ?es = Suc k"
    using holds_entry_get [OF env] by (auto simp: counted_def split: if_splits)
  then have "holds_entry slot (Suc n) (counted (Suc k)) (snd (fifo_insert slot ?es (sc_envelopes_map c)))"
    using holds_entry_own [OF holds_entry_ok [OF env]] by (simp add: counted_def)
  moreover have "is_txset_new h slot c \<longleftrightarrow> \<not> b \<and> k = 0"
    using g holds_entry_get [OF txs]
    by (auto simp: is_txset_new_def gathers_def awaited_def arrived_def get_slot_by_txset_hash_def fifo_contains_iff
        split: if_splits)
  ultimately show ?thesis
    using g assms(2) holds_entry_mono [OF txs, of "Suc n"]
    by (auto simp: gathers_def add_scp_envelope_def save_txset_hash_and_slot_def double_sided_insert_def awaited_def)
qed

lemma awaited_remove:
  assumes "awaited slot h k d" and "remove_by_txset_hash h' d = (r, d')"
  shows "h' \<noteq> h \<Longrightarrow> r \<noteq> Some slot \<and> awaited slot h k d'"
    and "h' = h \<Longrightarrow> k = 0 \<Longrightarrow> r = None \<and> d' = d"
    and "h' = h \<Longrightarrow> k \<noteq> 0 \<Longrightarrow> r = Some slot"
proof -
  have sub: "k_to_v_map d' g = Some v \<Longrightarrow> k_to_v_map d g = Some v" "r = Some v \<Longrightarrow> k_to_v_map d h' = Some v" for g v
    using remove_by_txset_hash_sub [of h' d] assms(2) by auto
  show "h' \<noteq> h \<Longrightarrow> r \<noteq> Some slot \<and> awaited slot h k d'"
  proof -
    assume ne: "h' \<noteq> h"
    then have "k_to_v_map d h' \<noteq> Some slot" using assms(1) by (simp add: awaited_def)
    then have "k_to_v_map d' h = k_to_v_map d h \<and> v_to_k_map d' slot = v_to_k_map d slot"
      using assms(2) ne by (auto simp: remove_by_txset_hash_def Let_def split: option.splits)
    then show ?thesis using assms(1) sub \<open>k_to_v_map d h' \<noteq> Some slot\<close> unfolding awaited_def by metis
  qed
qed (use assms in \<open>auto simp: awaited_def remove_by_txset_hash_def Let_def split: option.splits\<close>)

lemma gathers_put_txset:
  assumes "gathers slot h n k b c" and "Suc n < 200" and "b \<or> j \<noteq> slot \<and> awaited slot h k (sc_txset_and_slot_map c')"
    and "c' = sc_txset_map_update (\<lambda>m. snd (fifo_insert j ts m)) (c\<lparr>sc_txset_and_slot_map := d\<rparr>)"
  shows "gathers slot h (Suc n) k b c'"
proof (cases "j = slot")
  case True
  then have "b" using assms(3) by simp
  then have "holds_entry slot (Suc n) (arrived b) (snd (fifo_insert slot ts (sc_txset_map c)))"
    using assms(1) holds_entry_own [OF holds_entry_ok, of slot n "arrived b" "sc_txset_map c"]
    by (simp add: arrived_def gathers_def)
  then show ?thesis
    using assms True by (auto simp: gathers_def intro: holds_entry_mono)
next
  case False
  then show ?thesis
    using assms by (auto simp: gathers_def holds_entry_other intro: holds_entry_mono)
qed

lemma gathers_txset:
  assumes g: "gathers slot h n k b c" and "Suc n < 200"
  shows "gathers slot h (Suc n) k (b \<or> k \<noteq> 0 \<and> no_tx_set_hash net ts = Some h) (snd (add_txset_type net ts c))"
proof (cases "no_tx_set_hash net ts")
  case (Some h')
  obtain r d where d: "remove_by_txset_hash h' (sc_txset_and_slot_map c) = (r, d)" by fastforce
  show ?thesis
  proof (cases "b \<or> h' \<noteq> h \<or> k = 0")
    case True
    then have "b \<or> r \<noteq> Some slot \<and> awaited slot h k d"
      using g awaited_remove [OF _ d, of slot h k] by (auto simp: gathers_def)
    then show ?thesis
      using True Some d gathers_mono [OF g, of "Suc n"] gathers_put_txset [OF assms, of _ _ ts d]
      by (cases r) (auto simp: add_txset_type_def gathers_def)
  next
    case False
    then have "r = Some slot" using g awaited_remove(3) [OF _ d, of slot h k] by (auto simp: gathers_def)
    then show ?thesis
      using False Some d g holds_entry_own [of "sc_txset_map c" "\<lambda>_. True" ts slot "Suc n"]
      by (auto simp: add_txset_type_def gathers_def arrived_def intro: holds_entry_ok holds_entry_mono)
  qed
qed (use gathers_mono [OF g, of "Suc n"] in \<open>simp add: add_txset_type_def\<close>)

lemma gathers_envelope:
  assumes g: "gathers slot h n k b (ag_collector s)" and "consistent slot h (ScpMessage e)" and "Suc n < 200"
    and "no_send net (GetTxSet h)"
  shows "gathers slot h (Suc n) (if about_slot slot (ScpMessage e) then Suc k else k) b
    (ag_collector (snd (handle_message net (ScpMessage e) s)))"
proof (cases "stmt_slot_index (env_statement e) = slot")
  case True
  then obtain x where x: "stmt_pledges (env_statement e) = ScpStExternalize x" "agent_tx_set_hash x = Inr h"
    using assms(2) by (auto simp: consistent_def envelope_hash_def split: scp_pledges.splits sum.splits)
  have "gathers slot h (Suc n) (Suc k) b (add_scp_envelope slot e
      (if is_txset_new h slot (set_last_slot_index slot (ag_collector s))
       then save_txset_hash_and_slot h slot (set_last_slot_index slot (ag_collector s))
       else set_last_slot_index slot (ag_collector s)))"
    by (rule gathers_own_envelope [OF gathers_last [OF g]]) (simp add: set_last_slot_index_def)
  then show ?thesis
    using True x assms(4)
    by (auto simp: about_slot_def handle_message_def handle_envelope_def send_message_def Let_def bindM_def modifyM_def
        liftM_def getM_def whenM_def retM_def split: if_splits)
next
  case False
  then have ne: "\<not> about_slot slot (ScpMessage e)" "envelope_hash e \<noteq> Some h"
    using assms(2) by (simp_all add: about_slot_def consistent_def)
  have last: "gathers slot h n k b (set_last_slot_index j (ag_collector s))" for j by (rule gathers_last [OF g])
  note other = gathers_other_envelope [OF _ False assms(3)] gathers_save [OF _ _ False] gathers_mono [of _ _ n _ _ _ "Suc n"]
  show ?thesis
  proof (cases "stmt_pledges (env_statement e)")
    case (ScpStExternalize x)
    then have "agent_tx_set_hash x \<noteq> Inr h" using ne(2) by (simp add: envelope_hash_def split: sum.splits)
    then show ?thesis
      using ne(1) ScpStExternalize last other
      by (cases "agent_tx_set_hash x")
        (auto simp: handle_message_def handle_envelope_def send_message_def Let_def bindM_def modifyM_def
          liftM_def getM_def whenM_def retM_def)
  qed (use ne(1) gathers_remove [OF g False] other(3) in
      \<open>simp_all add: handle_message_def handle_envelope_def Let_def bindM_def modifyM_def retM_def\<close>)
qed

lemma gathers_step:
  assumes "gathers slot h n k b (ag_collector s)" and "consistent slot h m" and "Suc n < 200"
    and "no_send net (GetTxSet h)"
  shows "gathers slot h (Suc n) (if about_slot slot m then Suc k else k) (b \<or> k \<noteq> 0 \<and> delivers net h m)
    (ag_collector (snd (handle_message net m s)))"
proof (cases m)
  case (ScpMessage e)
  then show ?thesis using gathers_envelope assms by (simp add: delivers_def)
next
  case (TxSet txs)
  then show ?thesis
    using gathers_txset [OF assms(1,3), of net "TransactionSet txs"]
    by (simp add: delivers_def about_slot_def handle_message_def modifyM_def)
next
  case (GeneralizedTxSet txs)
  then show ?thesis
    using gathers_txset [OF assms(1,3), of net "GeneralizedTransactionSet txs"]
    by (simp add: delivers_def about_slot_def handle_message_def modifyM_def)
qed (use gathers_mono [OF assms(1), of "Suc n"] in
    \<open>simp_all add: delivers_def about_slot_def handle_message_def retM_def\<close>)

text \<open>Whether a transaction set with the hash arrives after an envelope of the slot.\<close>

fun set_delivered :: "network_ops \<Rightarrow> slot \<Rightarrow> byte list \<Rightarrow> bool \<Rightarrow> stellar_message list \<Rightarrow> bool" where
  "set_delivered net slot h seen [] = False"
| "set_delivered net slot h seen (m # ms) =
     (seen \<and> delivers net h m \<or> set_delivered net slot h (seen \<or> about_slot slot m) ms)"

lemma gathers_all:
  assumes "gathers slot h n k b (ag_collector s)" and "list_all (consistent slot h) ms" and "n + length ms < 200"
    and "no_send net (GetTxSet h)"
  shows "gathers slot h (n + length ms) (k + length (filter (about_slot slot) ms))
    (b \<or> set_delivered net slot h (k \<noteq> 0) ms) (ag_collector (hear_all net ms s))"
  using assms
proof (induction ms arbitrary: n k b s)
  case (Cons m ms)
  have "gathers slot h (Suc n) (if about_slot slot m then Suc k else k) (b \<or> k \<noteq> 0 \<and> delivers net h m)
      (ag_collector (snd (handle_message net m s)))"
    using Cons.prems by (intro gathers_step) auto
  from Cons.IH [OF this] Cons.prems show ?case by (cases "about_slot slot m") (simp_all add: disj_assoc)
qed simp

lemma gathers_build_proof:
  assumes g: "gathers slot h n k True (ag_collector s)" and "0 < slot" and "0 < k"
    and "get_min_externalized_messages (sc_public_network (ag_collector s)) \<le> k" and "no_unlimited net k"
  shows "\<exists>p. build_proof net slot s = (Some p, s) \<and> length (pf_envelopes p) = k"
proof -
  obtain es ts where "fifo_get (sc_envelopes_map (ag_collector s)) slot = Some es" "length es = k"
      "fifo_get (sc_txset_map (ag_collector s)) slot = Some ts"
    using g assms(3) holds_entry_get [of slot n "counted k" "sc_envelopes_map (ag_collector s)"]
      holds_entry_get [of slot n "arrived True" "sc_txset_map (ag_collector s)"]
    by (auto simp: gathers_def counted_def arrived_def)
  moreover have "sc_last_slot_index (ag_collector s) \<noteq> 0" using g assms(2,3) by (simp add: gathers_def)
  ultimately show ?thesis
    using assms(4,5) by (simp add: build_proof_def get_envelopes_def get_txset_def Let_def)
qed

lemma hear_all_collects:
  "collects net pub urls H s \<Longrightarrow> collects net pub urls (H \<union> set ms) (hear_all net ms s)"
proof (induction ms arbitrary: H s)
  case (Cons m ms)
  show ?case using Cons.IH [OF collects_hear [OF Cons.prems, of m]] by simp
qed simp

definition unheard :: "slot \<Rightarrow> byte list \<Rightarrow> scp_collector \<Rightarrow> bool" where
  "unheard slot h c \<longleftrightarrow> \<not> fifo_contains (sc_envelopes_map c) slot \<and> \<not> fifo_contains (sc_txset_map c) slot \<and>
     awaited slot h 0 (sc_txset_and_slot_map c)"

text \<open>
  C9: an agent that knows nothing of a slot has a proof for it at its second attempt if, while it waits,
  enough envelopes of the slot arrive and after the first of them the transaction set that they
  announce, among at most 199 messages in any order in which no envelope contradicts them.  The
  request for the transaction set has to reach the node.
\<close>

theorem proof_found:
  assumes "collects net public_network urls H s" and "fst (build_proof net slot s) = None"
    and "unheard slot h (ag_collector (snd (build_proof net slot s)))" and "0 < slot"
    and "length heard < 200" and "list_all (consistent slot h) heard"
    and "set_delivered net slot h False heard" and "no_send net (GetTxSet h)"
    and "length (filter (about_slot slot) heard) \<ge> (if public_network then 15 else 2)"
    and "no_unlimited net (length (filter (about_slot slot) heard))"
  shows "\<exists>p t. get_proof net slot (heard # next # rest) s = (Inr p, t) \<and>
    length (pf_envelopes p) = length (filter (about_slot slot) heard)"
proof -
  obtain t where t: "build_proof net slot s = (None, t)" using assms(2) by (metis prod.collapse)
  have c: "collects net public_network urls H t" using collects_ask [OF assms(1), of slot] t by simp
  have "gathers slot h 0 0 False (ag_collector t)"
    using collects_inv [OF c] assms(3) t
    by (auto simp: gathers_def counted_def arrived_def holds_entry_def collector_inv_def unheard_def fifo_contains_iff)
  then have "gathers slot h (length heard) (length (filter (about_slot slot) heard)) True (ag_collector (hear_all net heard t))"
    using gathers_all [of slot h 0 0 False t heard net] assms by simp
  moreover have "sc_public_network (ag_collector (hear_all net heard t)) = public_network"
    using collects_inv [OF hear_all_collects [OF c]] by (simp add: collector_inv_def)
  ultimately have "\<exists>p. build_proof net slot (hear_all net heard t) = (Some p, hear_all net heard t) \<and>
      length (pf_envelopes p) = length (filter (about_slot slot) heard)"
    using assms(4,9,10) by (intro gathers_build_proof)
      (auto simp: get_min_externalized_messages_def VALIDATOR_COUNT_PUBLIC_NETWORK_def VALIDATOR_COUNT_TEST_NETWORK_def
        split: if_splits)
  then show ?thesis using t by auto
qed

section \<open>Limits of the collector\<close>

text \<open>
  A message of the protocol that does not externalize a value erases what was collected of its
  slot, although the comment in the handler says that such messages are ignored.
\<close>

lemma other_pledges_erase:
  assumes "fifo_ok (sc_envelopes_map (ag_collector s))" and "fifo_ok (sc_txset_map (ag_collector s))"
    and "\<not> is_externalize e"
  shows "fifo_get (sc_envelopes_map (ag_collector (snd (handle_message net (ScpMessage e) s))))
      (stmt_slot_index (env_statement e)) = None \<and>
    fifo_get (sc_txset_map (ag_collector (snd (handle_message net (ScpMessage e) s))))
      (stmt_slot_index (env_statement e)) = None"
  using assms
  by (cases "stmt_pledges (env_statement e)")
    (simp_all add: is_externalize_def handle_message_def handle_envelope_def Let_def bindM_def modifyM_def retM_def
      remove_data_def fifo.lookup_del)

text \<open>A value of fewer than 32 bytes ends the task that listens, and the vault is not shut down.\<close>

lemma short_value_ends_listener:
  assumes "stmt_pledges (env_statement e) = ScpStExternalize x" and "length (ballot_value (externalize_commit x)) < 32"
    and "before \<le> last_valid + STELLAR_RELAY_HEALTH_CHECK_IN_SECS"
  shows "fst (listen_for_stellar_messages net last_valid ((before, Received (ScpMessage e), after) # events) s) = Inl AgentPanic"
  using assms
  by (simp add: handle_message_def handle_envelope_def Let_def bindM_def modifyM_def liftM_def agent_tx_set_hash_def)

text \<open>
  The mark that the envelopes of a slot come from an archive is kept in a map of its own.  Once the
  envelopes are forgotten and the mark is not, one envelope is enough for a proof.
\<close>

lemma stale_archive_mark:
  assumes "fifo_ok (sc_envelopes_map c)" and "fifo_get (sc_envelopes_map c) slot = None"
    and "is_envelopes_data_from_archive c slot" and "no_unlimited net 1"
  shows "get_envelopes net slot \<lparr>ag_collector = add_scp_envelope slot e c, ag_sent = sent\<rparr> =
    (Some [e], \<lparr>ag_collector = add_scp_envelope slot e c, ag_sent = sent\<rparr>)"
  using assms
  by (simp add: get_envelopes_def Let_def add_scp_envelope_def is_envelopes_data_from_archive_def fifo.put_same)

text \<open>The archive file of a slot is that of the last slot of its batch.\<close>

lemma last_slot_in_batch:
  "slot \<le> find_last_slot_index_in_batch slot \<and> find_last_slot_index_in_batch slot < slot + ARCHIVE_NODE_LEDGER_BATCH \<and>
   (find_last_slot_index_in_batch slot + 1) mod ARCHIVE_NODE_LEDGER_BATCH = 0"
proof -
  let ?r = "(slot + 1) mod 64"
  have r: "?r < 64" by simp
  show ?thesis
  proof (cases "?r = 0")
    case False
    have "slot + 1 = 64 * ((slot + 1) div 64) + ?r" by simp
    then have "slot + 64 - ?r + 1 = 64 * ((slot + 1) div 64 + 1)" using r by (simp only: distrib_left)
    then have "(slot + 64 - ?r + 1) mod 64 = 0" by (simp only: mod_mult_self1_is_0)
    then show ?thesis
      using False r by (simp add: find_last_slot_index_in_batch_def ARCHIVE_NODE_LEDGER_BATCH_def Let_def)
  qed (simp add: find_last_slot_index_in_batch_def ARCHIVE_NODE_LEDGER_BATCH_def)
qed

section \<open>A sample run\<close>

definition sample_network :: network_ops where
  "sample_network =
     \<lparr>no_send = (\<lambda>_. True), no_tx_set_hash = (\<lambda>ts. case ts of TransactionSet txs \<Rightarrow> Some (replicate 32 (hd txs)) | _ \<Rightarrow> None),
      no_scp_archive = (\<lambda>_ _. None), no_unlimited = (\<lambda>n. n < 1000), no_tx_archive = (\<lambda>_ _. None)\<rparr>"

definition externalize_message :: "nat \<Rightarrow> byte \<Rightarrow> byte \<Rightarrow> stellar_message" where
  "externalize_message slot node value = ScpMessage
     \<lparr>env_statement = \<lparr>stmt_node_id = [node], stmt_slot_index = slot,
        stmt_pledges = ScpStExternalize
          \<lparr>externalize_commit = \<lparr>ballot_counter = 1, ballot_value = replicate 32 value\<rparr>, externalize_n_h = 1\<rparr>\<rparr>,
      env_signature = []\<rparr>"

definition sample_heard :: "stellar_message list" where
  "sample_heard =
     [externalize_message 7 1 9, externalize_message 8 1 5, TxSet [9], OtherMessage 3, externalize_message 7 2 9]"

definition sample_agent :: agent_state where
  "sample_agent = \<lparr>ag_collector = collector_new False [], ag_sent = []\<rparr>"

lemmas sample_agent_defs = sample_network_def externalize_message_def sample_heard_def sample_agent_def collector_new_def

lemma sample_collects: "collects sample_network False [] (set sample_heard) (hear_all sample_network sample_heard sample_agent)"
  using hear_all_collects [OF collects_start, of sample_network False "[]" sample_heard] by (simp add: sample_agent_def)

lemma sample_builds: "fst (build_proof sample_network 7 (hear_all sample_network sample_heard sample_agent)) \<noteq> None"
  by code_simp

theorem proof_provenance_witness:
  "\<exists>p t. build_proof sample_network 7 (hear_all sample_network sample_heard sample_agent) = (Some p, t) \<and>
     (\<forall>e\<in>set (pf_envelopes p). heard_for (set sample_heard) 7 e) \<and> 2 \<le> length (pf_envelopes p)"
proof -
  let ?s = "hear_all sample_network sample_heard sample_agent"
  obtain p t where p: "build_proof sample_network 7 ?s = (Some p, t)"
    using sample_builds by (cases "build_proof sample_network 7 ?s") auto
  have "\<not> is_envelopes_data_from_archive (ag_collector ?s) 7" by code_simp
  then show ?thesis
    using p proof_provenance [OF sample_collects p] by (auto simp: archived_for_def)
qed

theorem proof_found_witness:
  "\<exists>p t. get_proof sample_network 7 [sample_heard, []] sample_agent = (Inr p, t) \<and> length (pf_envelopes p) = 2"
proof -
  have start: "collects sample_network False [] {} sample_agent"
    unfolding sample_agent_def by (rule collects_start)
  have own: "length (filter (about_slot 7) sample_heard) = 2" by code_simp
  have ask: "build_proof sample_network 7 sample_agent = (None, sample_agent)"
    by (simp add: build_proof_def sample_agent_def collector_new_def)
  have "unheard 7 (replicate 32 9) (ag_collector (snd (build_proof sample_network 7 sample_agent)))"
    unfolding ask snd_conv
    by (simp add: unheard_def awaited_def sample_agent_def collector_new_def double_sided_new_def fifo_contains_iff
        fifo_get_new)
  moreover have "fst (build_proof sample_network 7 sample_agent) = None" unfolding ask by (rule fst_conv)
  moreover have "list_all (consistent 7 (replicate 32 9)) sample_heard" by code_simp
  moreover have "set_delivered sample_network 7 (replicate 32 9) False sample_heard" by code_simp
  moreover have "length sample_heard < 200" by (simp add: sample_heard_def)
  moreover have "no_send sample_network m" and "no_unlimited sample_network 2" for m
    by (simp_all add: sample_network_def)
  ultimately have "\<exists>p t. get_proof sample_network 7 (sample_heard # [] # []) sample_agent = (Inr p, t) \<and>
      length (pf_envelopes p) = length (filter (about_slot 7) sample_heard)"
    by (intro proof_found [OF start, of 7 "replicate 32 9"]) (simp_all only: own, simp_all)
  then show ?thesis by (simp only: own)
qed

theorem collector_well_formed_witness:
  "length (fifo_queue (sc_envelopes_map (ag_collector (hear_all sample_network sample_heard sample_agent)))) \<le>
     fifo_limit (sc_envelopes_map (ag_collector (hear_all sample_network sample_heard sample_agent)))"
  using collector_well_formed [OF sample_collects] by simp

end
