(* ===== verification/Vault_Requests.thy ===== *)
theory Vault_Requests
  imports "HOL-Library.AList" Request_Lifecycle Payments Parachain_Rpc Stellar_Wallet Scp_Collector
begin

text \<open>
  How the vault serves redeem and replace requests (\<^verbatim>\<open>clients/vault/src/requests\<close>, \<^verbatim>\<open>redeem.rs\<close> and
  \<^verbatim>\<open>replace.rs\<close>): it pays on Stellar through its wallet, asks the oracle agent for a proof of the payment
  and executes the request on the chain; after a restart it looks in the history of its account
  for requests that are paid already.
\<close>

section \<open>Errors and the world of a vault\<close>

datatype vault_error =
    VaultInsufficientFunds
  | VaultArithmeticOverflow
  | VaultArithmeticUnderflow
  | VaultTryIntoIntError
  | VaultDeadlineExpired
  | VaultRuntimeError client_error
  | VaultWalletError wallet_error
  | VaultLookupError
  | VaultOracleError agent_error
  | VaultPanic

text \<open>
  What the tasks of a vault share: the clients of the chain, of Stellar and of the overlay network,
  the encodings that the proof is sent with, the vaults it runs and its payment margin in
  milliseconds.  The messages heard during each search for a proof are given in advance.
\<close>

record 'l vault_env =
  ve_client :: "'l client"
  ve_wallet :: wallet
  ve_net :: network_ops
  ve_encode_envelope :: "transaction_envelope \<Rightarrow> byte list"
  ve_encode_proof :: "agent_proof \<Rightarrow> byte list \<times> byte list"
  ve_vault_ids :: "vault_id list"
  ve_payment_margin :: nat

record 'l vault_world =
  vw_parachain :: "'l parachain"
  vw_wallet :: wallet_state
  vw_agent :: agent_state
  vw_heard :: "stellar_message list list list"

type_synonym ('l, 'a) vault_op = "('l vault_world, vault_error, 'a) op"

definition map_error :: "('e \<Rightarrow> 'f) \<Rightarrow> 'e + 'a \<Rightarrow> 'f + 'a" where
  "map_error f r = (case r of Inl e \<Rightarrow> Inl (f e) | Inr x \<Rightarrow> Inr x)"

definition on_parachain :: "('l parachain, client_error, 'a) op \<Rightarrow> ('l, 'a) vault_op" where
  "on_parachain m w = (case m (vw_parachain w) of
     (r, p) \<Rightarrow> (map_error VaultRuntimeError r, w\<lparr>vw_parachain := p\<rparr>))"

definition on_wallet :: "'a wallet_op \<Rightarrow> ('l, 'a) vault_op" where
  "on_wallet m w = (case m (vw_wallet w) of
     (r, p) \<Rightarrow> (map_error VaultWalletError r, w\<lparr>vw_wallet := p\<rparr>))"

definition vault_get_proof :: "'l vault_env \<Rightarrow> slot \<Rightarrow> ('l, agent_proof) vault_op" where
  "vault_get_proof ve slot w =
     (let intervals = (case vw_heard w of [] \<Rightarrow> [] | h # _ \<Rightarrow> h) in
      case get_proof (ve_net ve) slot intervals (vw_agent w) of
        (r, a) \<Rightarrow> (map_error VaultOracleError r, w\<lparr>vw_agent := a, vw_heard := tl (vw_heard w)\<rparr>))"

section \<open>Requests\<close>

datatype request_type = RedeemType | ReplaceType

record vault_request =
  vq_hash :: request_id
  vq_deadline :: "block_number option"
  vq_amount :: balance
  vq_asset :: stellar_asset
  vq_currency :: currency
  vq_stellar_address :: "byte list"
  vq_request_type :: request_type
  vq_vault_id :: vault_id
  vq_fee_budget :: "balance option"

definition MILLISECS_PER_BLOCK :: nat where "MILLISECS_PER_BLOCK = 6000"

definition duration_to_parachain_blocks :: "nat \<Rightarrow> vault_error + block_number" where
  "duration_to_parachain_blocks millis =
     (let num_blocks = millis div MILLISECS_PER_BLOCK
      in if num_blocks < 2 ^ 32 then Inr num_blocks else Inl VaultTryIntoIntError)"

definition calculate_deadline :: "block_number \<Rightarrow> block_number \<Rightarrow> nat \<Rightarrow> vault_error + block_number" where
  "calculate_deadline opentime period payment_margin = (bindR (duration_to_parachain_blocks payment_margin) (\<lambda>margin_parachain_blocks.
    bindR (ok_orR (checked_add_w 32 opentime period) VaultArithmeticOverflow) (\<lambda>end_time.
    ok_orR (checked_sub_n end_time margin_parachain_blocks) VaultArithmeticUnderflow)))"

definition from_redeem_request :: "request_id \<Rightarrow> redeem_request \<Rightarrow> nat \<Rightarrow> vault_error + vault_request" where
  "from_redeem_request hash request payment_margin = (bindR ((case asset_lookup (rr_asset request) of Inl _ \<Rightarrow> Inl VaultLookupError | Inr a \<Rightarrow> Inr a)) (\<lambda>asset.
    bindR (calculate_deadline (rr_opentime request) (rr_period request) payment_margin) (\<lambda>deadline.
    Inr \<lparr>vq_hash = hash, vq_deadline = Some deadline, vq_amount = rr_amount request, vq_asset = asset,
      vq_currency = rr_asset request, vq_stellar_address = rr_stellar_address request,
      vq_request_type = RedeemType, vq_vault_id = rr_vault request, vq_fee_budget = Some (rr_transfer_fee request)\<rparr>)))"

definition from_replace_request :: "request_id \<Rightarrow> replace_request \<Rightarrow> nat \<Rightarrow> vault_error + vault_request" where
  "from_replace_request hash request payment_margin = (bindR ((case asset_lookup (rp_asset request) of Inl _ \<Rightarrow> Inl VaultLookupError | Inr a \<Rightarrow> Inr a)) (\<lambda>asset.
    bindR (calculate_deadline (rp_accept_time request) (rp_period request) payment_margin) (\<lambda>deadline.
    Inr \<lparr>vq_hash = hash, vq_deadline = Some deadline, vq_amount = rp_amount request, vq_asset = asset,
      vq_currency = rp_asset request, vq_stellar_address = rp_stellar_address request,
      vq_request_type = ReplaceType, vq_vault_id = rp_old_vault request, vq_fee_budget = None\<rparr>)))"

definition transfer_stellar_asset :: "'l vault_env \<Rightarrow> vault_request \<Rightarrow> ('l, tx_response) vault_op" where
  "transfer_stellar_asset ve request = (bindM (liftM (case balance_lookup (vq_amount request) of Inl _ \<Rightarrow> Inl VaultLookupError | Inr n \<Rightarrow> Inr n)) (\<lambda>stroop_amount.
    on_wallet (send_payment_to_address (ve_wallet ve) (vq_stellar_address request) (vq_asset request) stroop_amount
      (vq_hash request) (vq_request_type request = RedeemType))))"

definition execute_call :: "'l vault_env \<Rightarrow> vault_request \<Rightarrow> byte list \<Rightarrow> byte list \<Rightarrow> byte list \<Rightarrow>
    ('l parachain, client_error, unit) op" where
  "execute_call ve request tx_env_encoded scp_envelopes_encoded tx_set_encoded = (case vq_request_type request of
     RedeemType \<Rightarrow> client_execute_redeem (ve_client ve) (vq_hash request) tx_env_encoded scp_envelopes_encoded tx_set_encoded
   | ReplaceType \<Rightarrow> client_execute_replace (ve_client ve) (vq_hash request) tx_env_encoded scp_envelopes_encoded tx_set_encoded)"

definition verify_execution :: "client_error + unit \<Rightarrow> retry_policy + unit" where
  "verify_execution result = (case result of
     Inr ok \<Rightarrow> Inr ok
   | Inl err \<Rightarrow> (case is_invalid_transaction err of
       Some (Recoverable data) \<Rightarrow> Inl (Skip (RtInvalidTransaction data))
     | Some (Unrecoverable data) \<Rightarrow> Inl (Throw (RtInvalidTransaction data))
     | None \<Rightarrow>
         if is_pool_too_low_priority err then Inl (Skip RtPoolTooLowPriority)
         else if is_rpc_disconnect_error err then Inl (Throw err)
         else if is_block_hash_not_found_error err then Inl (Skip RtBlockHashNotFound)
         else if is_timeout_error err then Inl (Skip RtTimeout)
         else Inl (Throw err)))"

definition request_execute :: "'l vault_env \<Rightarrow> vault_request \<Rightarrow> transaction_envelope \<Rightarrow> agent_proof \<Rightarrow> ('l, unit) vault_op" where
  "request_execute ve request tx_env proof = (case ve_encode_proof ve proof of
     (scp_envelopes_encoded, tx_set_encoded) \<Rightarrow>
       on_parachain (notify_retry (cl_backoffs (ve_client ve))
         (execute_call ve request (ve_encode_envelope ve tx_env) scp_envelopes_encoded tx_set_encoded) verify_execution))"

definition ensure_deadline :: "vault_request \<Rightarrow> ('l, unit) vault_op" where
  "ensure_deadline request = (case vq_deadline request of
     None \<Rightarrow> retM ()
   | Some deadline \<Rightarrow> (bindM (on_parachain client_get_current_active_block_number) (\<lambda>height.
     ensureM (height < deadline) VaultDeadlineExpired)))"

definition prove_and_execute :: "'l vault_env \<Rightarrow> vault_request \<Rightarrow> tx_response \<Rightarrow> ('l, unit) vault_op" where
  "prove_and_execute ve request response = (bindM (ok_orM (tr_envelope response) (VaultWalletError DecodeError)) (\<lambda>tx_env.
    bindM (vault_get_proof ve (tr_ledger response)) (\<lambda>proof.
    request_execute ve request tx_env proof)))"

definition pay_and_execute :: "'l vault_env \<Rightarrow> vault_request \<Rightarrow> ('l, unit) vault_op" where
  "pay_and_execute ve request = (bindM (ensure_deadline request) (\<lambda>_.
    bindM (transfer_stellar_asset ve request) (\<lambda>response.
    prove_and_execute ve request response)))"

section \<open>New requests\<close>

text \<open>An event names the vault it is for; a vault that is not run by this client ignores it.\<close>

definition on_redeem_request :: "'l vault_env \<Rightarrow> request_id \<Rightarrow> vault_id \<Rightarrow> ('l, unit) vault_op" where
  "on_redeem_request ve redeem_id vault_id =
     (if vault_id \<in> set (ve_vault_ids ve) then (bindM (on_parachain (client_get_redeem_request redeem_id)) (\<lambda>stored.
       bindM (liftM (from_redeem_request redeem_id stored (ve_payment_margin ve))) (\<lambda>request.
       pay_and_execute ve request)))
      else retM ())"

definition on_accept_replace :: "'l vault_env \<Rightarrow> request_id \<Rightarrow> vault_id \<Rightarrow> ('l, unit) vault_op" where
  "on_accept_replace ve replace_id old_vault_id =
     (if old_vault_id \<in> set (ve_vault_ids ve) then (bindM (on_parachain (client_get_replace_request replace_id)) (\<lambda>stored.
       bindM (liftM (from_replace_request replace_id stored (ve_payment_margin ve))) (\<lambda>request.
       pay_and_execute ve request)))
      else retM ())"

text \<open>The three queries run together; the first error that occurs in their order is returned.\<close>

definition handle_replace_request :: "'l vault_env \<Rightarrow> vault_id \<Rightarrow> balance \<Rightarrow> vault_id \<Rightarrow> ('l, unit) vault_op" where
  "handle_replace_request ve old_vault_id amount vault_id = (bindM (on_parachain (client_get_required_collateral_for_wrapped (ve_client ve) amount
      (wrapped_currency vault_id) (collateral_currency vault_id))) (\<lambda>required_replace_collateral.
    bindM (on_parachain (client_get_vault_total_collateral (ve_client ve) vault_id)) (\<lambda>current_collateral.
    bindM (on_parachain (client_get_required_collateral_for_vault (ve_client ve) vault_id)) (\<lambda>used_collateral.
    let total_required_collateral = saturating_add_w 128 required_replace_collateral used_collateral in
    bindM (ensureM (total_required_collateral \<le> current_collateral) VaultInsufficientFunds) (\<lambda>_.
    on_parachain (client_accept_replace (ve_client ve) vault_id old_vault_id amount 0 (wl_public_key (ve_wallet ve))))))))"

fun try_accept :: "'l vault_env \<Rightarrow> vault_id \<Rightarrow> balance \<Rightarrow> vault_id list \<Rightarrow> ('l, vault_id option) vault_op" where
  "try_accept ve old_vault_id amount [] = retM None"
| "try_accept ve old_vault_id amount (vault_id # vault_ids) = (bindM (attemptM (handle_replace_request ve old_vault_id amount vault_id)) (\<lambda>result.
  (case result of
      Inr _ \<Rightarrow> retM (Some vault_id)
    | Inl _ \<Rightarrow> try_accept ve old_vault_id amount vault_ids)))"

text \<open>The result is the vault that accepted, for which the cancellation scheduler is told to look again.\<close>

definition on_request_replace :: "'l vault_env \<Rightarrow> bool \<Rightarrow> vault_id \<Rightarrow> balance \<Rightarrow> ('l, vault_id option) vault_op" where
  "on_request_replace ve accept_replace_requests old_vault_id amount =
     (if is_this_vault (ve_client ve) old_vault_id then retM None
      else if accept_replace_requests then try_accept ve old_vault_id amount (ve_vault_ids ve)
      else retM None)"

section \<open>Open requests after a start\<close>

type_synonym request_map = "(byte list \<times> vault_request) list"

definition request_memo :: "'l vault_env \<Rightarrow> vault_request \<Rightarrow> vault_error + byte list" where
  "request_memo ve request = (case derive_shortened_request_id (wl_to_base58 (ve_wallet ve)) (vq_hash request) of
     Inl _ \<Rightarrow> Inl VaultPanic | Inr memo \<Rightarrow> Inr memo)"

definition filter_redeem_reqs :: "nat \<Rightarrow> request_id \<times> redeem_request \<Rightarrow> vault_request option" where
  "filter_redeem_reqs payment_margin hash_request = (case hash_request of (hash, request) \<Rightarrow>
     if rr_status request = RedeemPending
     then (case from_redeem_request hash request payment_margin of Inr r \<Rightarrow> Some r | Inl _ \<Rightarrow> None) else None)"

definition filter_replace_reqs :: "nat \<Rightarrow> request_id \<times> replace_request \<Rightarrow> vault_request option" where
  "filter_replace_reqs payment_margin hash_request = (case hash_request of (hash, request) \<Rightarrow>
     if rp_status request = ReplacePending
     then (case from_replace_request hash request payment_margin of Inr r \<Rightarrow> Some r | Inl _ \<Rightarrow> None) else None)"

fun collect_requests :: "'l vault_env \<Rightarrow> vault_request list \<Rightarrow> request_map \<Rightarrow> vault_error + request_map" where
  "collect_requests ve [] m = Inr m"
| "collect_requests ve (request # reqs) m = (bindR (request_memo ve request) (\<lambda>memo.
  collect_requests ve reqs (AList.update memo request m)))"

definition retrieve_open_redeem_replace_requests :: "'l vault_env \<Rightarrow> ('l, request_map) vault_op" where
  "retrieve_open_redeem_replace_requests ve = (bindM (on_parachain (client_get_vault_redeem_requests (ve_client ve) (cl_account (ve_client ve))
      (filter_redeem_reqs (ve_payment_margin ve)))) (\<lambda>open_redeems.
    bindM (on_parachain (client_get_old_vault_replace_requests (ve_client ve) (cl_account (ve_client ve))
      (filter_replace_reqs (ve_payment_margin ve)))) (\<lambda>open_replaces.
    liftM (collect_requests ve (open_redeems @ open_replaces) []))))"

definition get_request_for_stellar_tx :: "tx_response \<Rightarrow> request_map \<Rightarrow> vault_request option" where
  "get_request_for_stellar_tx tx reqs = (case response_memo_text tx of
     None \<Rightarrow> None
   | Some memo \<Rightarrow> (case map_of reqs memo of
       None \<Rightarrow> None
     | Some request \<Rightarrow> (case tr_envelope tx of
         None \<Rightarrow> None
       | Some envelope \<Rightarrow>
           if get_payment_amount_for_asset_to envelope (vq_stellar_address request) (vq_asset request) \<ge> vq_amount request
           then Some request else None)))"

text \<open>The tasks that are spawned: to execute a request that is paid, or to pay and execute one.\<close>

datatype request_task = ExecuteTask vault_request transaction_envelope slot | PayTask vault_request

definition spawn_task_to_execute_open_request ::
  "'l vault_env \<Rightarrow> vault_request \<Rightarrow> tx_response \<Rightarrow> vault_error + byte list \<times> request_task list" where
  "spawn_task_to_execute_open_request ve request transaction = (bindR (request_memo ve request) (\<lambda>hash_as_memo.
    Inr (hash_as_memo, (case tr_envelope transaction of
      None \<Rightarrow> [] | Some tx_envelope \<Rightarrow> [ExecuteTask request tx_envelope (tr_ledger transaction)]))))"

function tasks_for_paid_requests ::
  "'l vault_env \<Rightarrow> response_iter \<Rightarrow> request_map \<Rightarrow> request_task list \<Rightarrow> vault_error + request_map \<times> request_task list" where
  "tasks_for_paid_requests ve tx_iter reqs tasks = (case iter_next tx_iter of
     (None, _) \<Rightarrow> Inr (reqs, tasks)
   | (Some transaction, tx_iter1) \<Rightarrow>
       if reqs = [] then Inr (reqs, tasks)
       else case get_request_for_stellar_tx transaction reqs of
         None \<Rightarrow> tasks_for_paid_requests ve tx_iter1 reqs tasks
       | Some request \<Rightarrow> (case spawn_task_to_execute_open_request ve request transaction of
           Inl e \<Rightarrow> Inl e
         | Inr (hash_as_memo, spawned) \<Rightarrow>
             tasks_for_paid_requests ve tx_iter1 (filter (\<lambda>x. fst x \<noteq> hash_as_memo) reqs) (tasks @ spawned)))"
  by pat_completeness auto
termination
  by (relation "measure (\<lambda>(_, it, _, _). iter_size it)") (auto dest: iter_next_size [OF sym])

declare tasks_for_paid_requests.simps [simp del]

text \<open>The answer to the question for the transactions of the account: the first page and the later ones, or an error.\<close>

definition execute_open_requests ::
  "'l vault_env \<Rightarrow> (tx_response list \<times> tx_response list option list) option \<Rightarrow> ('l, request_task list) vault_op" where
  "execute_open_requests ve transactions_result = (bindM (retrieve_open_redeem_replace_requests ve) (\<lambda>open_requests.
    (case transactions_result of
        None \<Rightarrow> retM (map (\<lambda>x. PayTask (snd x)) open_requests)
      | Some (records, pages) \<Rightarrow> (bindM (liftM (tasks_for_paid_requests ve \<lparr>it_records = records, it_pages = pages\<rparr> open_requests [])) (\<lambda>found.
        retM (case found of (unpaid, tasks) \<Rightarrow> tasks @ map (\<lambda>x. PayTask (snd x)) unpaid))))))"

section \<open>Running the tasks\<close>

definition MAX_EXECUTION_RETRIES :: nat where "MAX_EXECUTION_RETRIES = 3"

text \<open>Each search for a proof that fails counts; an execution that fails is not tried again.\<close>

function execute_open_request_loop :: "'l vault_env \<Rightarrow> vault_request \<Rightarrow> transaction_envelope \<Rightarrow> slot \<Rightarrow> nat \<Rightarrow> ('l, unit) vault_op" where
  "execute_open_request_loop ve request tx_envelope slot retry_count w =
     (if retry_count < MAX_EXECUTION_RETRIES then
        (case vault_get_proof ve slot w of
           (Inl _, w1) \<Rightarrow> execute_open_request_loop ve request tx_envelope slot (retry_count + 1) w1
         | (Inr proof, w1) \<Rightarrow> (Inr (), snd (request_execute ve request tx_envelope proof w1)))
      else (Inr (), w))"
  by pat_completeness auto
termination
  by (relation "measure (\<lambda>(_, _, _, _, n, _). MAX_EXECUTION_RETRIES - n)") auto

declare execute_open_request_loop.simps [simp del]

definition execute_open_request :: "'l vault_env \<Rightarrow> vault_request \<Rightarrow> transaction_envelope \<Rightarrow> slot \<Rightarrow> ('l, unit) vault_op" where
  "execute_open_request ve request tx_envelope slot = execute_open_request_loop ve request tx_envelope slot 0"

definition pay_and_execute_open_request :: "'l vault_env \<Rightarrow> vault_request \<Rightarrow> ('l, unit) vault_op" where
  "pay_and_execute_open_request ve request =
     (if vq_vault_id request \<in> set (ve_vault_ids ve) then (bindM (attemptM (pay_and_execute ve request)) (\<lambda>_.
       retM ()))
      else retM ())"

fun run_task :: "'l vault_env \<Rightarrow> request_task \<Rightarrow> ('l, unit) vault_op" where
  "run_task ve (ExecuteTask request tx_envelope slot) = execute_open_request ve request tx_envelope slot"
| "run_task ve (PayTask request) = pay_and_execute_open_request ve request"

section \<open>Each open request has one task\<close>

definition settles :: "tx_response \<Rightarrow> byte list \<Rightarrow> vault_request \<Rightarrow> bool" where
  "settles tx memo request \<longleftrightarrow> response_memo_text tx = Some memo \<and> (\<exists>envelope. tr_envelope tx = Some envelope \<and>
     vq_amount request \<le> get_payment_amount_for_asset_to envelope (vq_stellar_address request) (vq_asset request))"

fun task_request :: "request_task \<Rightarrow> vault_request" where
  "task_request (ExecuteTask request _ _) = request"
| "task_request (PayTask request) = request"

definition well_keyed :: "'l vault_env \<Rightarrow> request_map \<Rightarrow> bool" where
  "well_keyed ve m \<longleftrightarrow> distinct (map fst m) \<and> (\<forall>x\<in>set m. request_memo ve (snd x) = Inr (fst x))"

lemma update_subset: "set (AList.update k v m) \<subseteq> insert (k, v) (set m)"
  by (induction m) auto

lemma collected_well_keyed: "collect_requests ve rs m = Inr m' \<Longrightarrow> well_keyed ve m \<Longrightarrow> well_keyed ve m'"
proof (induction ve rs m rule: collect_requests.induct)
  case (2 ve r rs m)
  then obtain memo where memo: "request_memo ve r = Inr memo" "collect_requests ve rs (AList.update memo r m) = Inr m'"
    by (auto simp: bindR_def split: sum.splits)
  have "well_keyed ve (AList.update memo r m)"
    using "2.prems"(2) memo(1)
    using update_subset [of memo r m] by (auto simp: well_keyed_def distinct_update)
  then show ?case using "2.IH" memo by blast
qed simp

lemma request_found:
  assumes "get_request_for_stellar_tx tx m = Some r" and "well_keyed ve m"
  obtains memo where "(memo, r) \<in> set m" and "settles tx memo r" and "request_memo ve r = Inr memo"
  using assms map_of_SomeD
  by (fastforce simp: get_request_for_stellar_tx_def settles_def well_keyed_def split: option.splits if_splits)

lemma request_not_found: "get_request_for_stellar_tx tx m = None \<Longrightarrow> well_keyed ve m \<Longrightarrow> (memo, r) \<in> set m \<Longrightarrow> \<not> settles tx memo r"
  by (auto simp: get_request_for_stellar_tx_def settles_def well_keyed_def split: option.splits if_splits
      dest: eq_key_imp_eq_value [of m memo r])

lemma remove_request:
  "distinct (map fst m) \<Longrightarrow> (memo, r) \<in> set m \<Longrightarrow>
   mset (map snd m) = add_mset r (mset (map snd (filter (\<lambda>x. fst x \<noteq> memo) m)))"
proof (induction m)
  case (Cons x m)
  show ?case
  proof (cases "x = (memo, r)")
    case True
    then have "filter (\<lambda>x. fst x \<noteq> memo) m = m" using Cons.prems(1) by (auto simp: filter_id_conv)
    then show ?thesis using True by simp
  next
    case False
    then have "fst x \<noteq> memo" using Cons.prems by (auto simp: image_iff)
    then show ?thesis using False Cons by auto
  qed
qed simp

text \<open>What is known of the tasks and the requests that are left after a walk over the transactions.\<close>

definition sorted_out :: "tx_response set \<Rightarrow> request_map \<Rightarrow> request_task list \<Rightarrow> request_map \<times> request_task list \<Rightarrow> bool" where
  "sorted_out txs reqs tasks result = (case result of (unpaid, found) \<Rightarrow> \<exists>new. found = tasks @ new \<and> set unpaid \<subseteq> set reqs \<and>
     (\<forall>x\<in>set unpaid. \<forall>tx\<in>txs. \<not> settles tx (fst x) (snd x)) \<and>
     (\<forall>task\<in>set new. \<exists>r tx env memo. task = ExecuteTask r env (tr_ledger tx) \<and> (memo, r) \<in> set reqs \<and>
        tx \<in> txs \<and> settles tx memo r \<and> tr_envelope tx = Some env) \<and>
     mset (map snd reqs) = mset (map task_request new) + mset (map snd unpaid))"

lemma sorted_out_none: "sorted_out {} reqs tasks (reqs, tasks)" "sorted_out txs [] tasks ([], tasks)"
  by (auto simp: sorted_out_def)

lemma sorted_out_skip:
  assumes "sorted_out txs reqs tasks result" and "\<forall>x\<in>set reqs. \<not> settles tx (fst x) (snd x)"
  shows "sorted_out (insert tx txs) reqs tasks result"
  using assms unfolding sorted_out_def by (cases result) (fastforce dest: subsetD)

lemma sorted_out_found:
  assumes "sorted_out txs (filter (\<lambda>x. fst x \<noteq> memo) reqs) (tasks @ [ExecuteTask r env (tr_ledger tx)]) result"
    and "well_keyed ve reqs" and "(memo, r) \<in> set reqs" and "settles tx memo r" and "tr_envelope tx = Some env"
  shows "sorted_out (insert tx txs) reqs tasks result"
proof -
  obtain unpaid found where result: "result = (unpaid, found)" by fastforce
  from assms(1) obtain new where new: "found = tasks @ ExecuteTask r env (tr_ledger tx) # new"
    and un: "set unpaid \<subseteq> set (filter (\<lambda>x. fst x \<noteq> memo) reqs)" "\<forall>x\<in>set unpaid. \<forall>tx\<in>txs. \<not> settles tx (fst x) (snd x)"
    and ex: "\<forall>task\<in>set new. \<exists>q t e m. task = ExecuteTask q e (tr_ledger t) \<and> (m, q) \<in> set (filter (\<lambda>x. fst x \<noteq> memo) reqs) \<and>
      t \<in> txs \<and> settles t m q \<and> tr_envelope t = Some e"
    and ms: "mset (map snd (filter (\<lambda>x. fst x \<noteq> memo) reqs)) = mset (map task_request new) + mset (map snd unpaid)"
    unfolding sorted_out_def result by auto
  have "\<forall>x\<in>set unpaid. \<not> settles tx (fst x) (snd x)" using un(1) assms(4) by (auto simp: settles_def)
  moreover have "mset (map snd reqs) = mset (map task_request (ExecuteTask r env (tr_ledger tx) # new)) + mset (map snd unpaid)"
    using remove_request [of reqs memo r] assms(2,3) ms by (simp add: well_keyed_def)
  ultimately show ?thesis
    unfolding sorted_out_def result prod.case using new un ex assms(3-5)
    by (intro exI [of _ "ExecuteTask r env (tr_ledger tx) # new"]) (simp, blast)
qed

lemma spawned:
  assumes "request_memo ve r = Inr memo" and "settles tx memo r"
  shows "\<exists>env. tr_envelope tx = Some env \<and>
    spawn_task_to_execute_open_request ve r tx = Inr (memo, [ExecuteTask r env (tr_ledger tx)])"
  using assms by (auto simp: spawn_task_to_execute_open_request_def settles_def bindR_def)

lemma tasks_sorted_out:
  assumes "tasks_for_paid_requests ve it reqs tasks = Inr result" and "well_keyed ve reqs"
  shows "sorted_out (set (iter_all it)) reqs tasks result"
  using assms
proof (induction ve it reqs tasks rule: tasks_for_paid_requests.induct)
  case (1 ve it reqs tasks)
  obtain n it1 where n: "iter_next it = (n, it1)" by fastforce
  show ?case
  proof (cases n)
    case None
    then show ?thesis
      using n 1(3) iter_next_all(1) [of it it1] sorted_out_none(1) by (auto simp: tasks_for_paid_requests.simps [of ve it])
  next
    case (Some tx)
    then have all: "iter_all it = tx # iter_all it1" using n iter_next_all(2) by simp
    show ?thesis
    proof (cases "reqs = []")
      case True
      then show ?thesis using n Some 1(3) sorted_out_none(2) by (auto simp: tasks_for_paid_requests.simps [of ve it])
    next
      case False
      show ?thesis
      proof (cases "get_request_for_stellar_tx tx reqs")
        case None
        then have "sorted_out (set (iter_all it1)) reqs tasks result"
          using 1(1) [OF n [symmetric] Some False None] 1(3,4) n Some False by (simp add: tasks_for_paid_requests.simps [of ve it])
        then show ?thesis using sorted_out_skip request_not_found [OF None 1(4)] all by auto
      next
        case (Some r)
        then obtain memo where memo: "(memo, r) \<in> set reqs" "settles tx memo r" "request_memo ve r = Inr memo"
          using request_found 1(4) by blast
        then obtain env where env: "tr_envelope tx = Some env"
          "spawn_task_to_execute_open_request ve r tx = Inr (memo, [ExecuteTask r env (tr_ledger tx)])"
          using spawned by blast
        have "well_keyed ve (filter (\<lambda>x. fst x \<noteq> memo) reqs)"
          using 1(4) by (auto simp: well_keyed_def distinct_map_filter)
        then have "sorted_out (set (iter_all it1)) (filter (\<lambda>x. fst x \<noteq> memo) reqs) (tasks @ [ExecuteTask r env (tr_ledger tx)]) result"
          using 1(2) [OF n [symmetric] \<open>n = Some tx\<close> False Some env(2) refl] 1(3) n \<open>n = Some tx\<close> False Some env(2)
          by (simp add: tasks_for_paid_requests.simps [of ve it])
        then show ?thesis using sorted_out_found [OF _ 1(4) memo(1,2) env(1)] all by simp
      qed
    qed
  qed
qed


text \<open>If the history cannot be read, every open request is paid, whether or not it was paid before.\<close>

lemma unread_history_pays_all:
  assumes "retrieve_open_redeem_replace_requests ve w = (Inr reqs, u)"
  shows "execute_open_requests ve None w = (Inr (map (\<lambda>x. PayTask (snd x)) reqs), u)"
  using assms by (simp add: execute_open_requests_def bindM_def retM_def)

section \<open>Paying and executing\<close>

definition completed_on :: "request_id \<Rightarrow> 'l chain \<Rightarrow> bool" where
  "completed_on j s \<longleftrightarrow> (\<exists>r. re_requests (ch_redeem s) j = Some r \<and> rr_status r = RedeemStatusCompleted)"

lemma keeps_redeem_requests: "frameM open_view m \<Longrightarrow> keepsOkM (\<lambda>s. re_requests (ch_redeem s) j \<noteq> None) m"
  by (erule keeps_frame) (simp add: open_view_def requests_def)

lemma triple_mark_completed:
  "tripleM (\<lambda>s. re_requests (ch_redeem s) j \<noteq> None)
     (bindM (set_redeem_status j RedeemStatusCompleted) (\<lambda>_. redeem_deposit_event e)) (\<lambda>_. completed_on j)"
  by (auto simp: tripleM_def set_redeem_status_def redeem_deposit_event_def completed_on_def ok_iff)

lemma open_redeem_exists: "get_open_redeem_request_from_id j s = Inr r \<Longrightarrow> re_requests (ch_redeem s) j \<noteq> None"
  by (auto simp: get_open_redeem_request_from_id_def get_redeem_request_def result_defs split: option.splits)

lemma triple_execute_redeem: "tripleM (\<lambda>_. True) (execute_redeem c ori j b1 b2 b3) (\<lambda>_. completed_on j)"
  unfolding execute_redeem_def execute_redeem_internal_def Let_def
  apply (rule triple_transactional, rule triple_lift, rule triple_query)
  apply (rule triple_pre [where P' = "\<lambda>s. re_requests (ch_redeem s) j \<noteq> None"])
   apply (use open_redeem_exists in blast)
  apply (rule triple_queryM, rule triple_lift, rule triple_lift, rule triple_ensure, rule triple_lift)
  apply (rule triple_then, rule keeps_redeem_requests, intro frame_intro)+
  apply (rule triple_mark_completed)
  done

lemma execute_redeem_call_completes:
  assumes "apply_extrinsic c i ori (RedeemCall (call_execute_redeem j b1 b2 b3)) s = (Inr (), t)"
  shows "completed_on j t"
  using tripleD [OF triple_execute_redeem [of c ori j b1 b2 b3], where s = "ch_env_update (env_extrinsic_index_update (\<lambda>_. Some i)) s"]
    assms by (simp add: apply_extrinsic_def dispatch_def dispatch_redeem_def bindM_def modifyM_def)

lemma notify_retry_ok:
  assumes "notify_retry n call verify s = (Inr x, t)" and "\<And>r y. verify r = Inr y \<Longrightarrow> r = Inr y"
  shows "\<exists>u. call u = (Inr x, t)"
  using assms(1)
proof (induction n arbitrary: s rule: less_induct)
  case (less n)
  obtain r1 u where u: "call s = (r1, u)" by fastforce
  from less.prems u show ?case
  proof (cases rule: notify_retry_step)
    case (ok y)
    then show ?thesis using u assms(2) by (metis Inr_inject)
  qed (use less.IH in auto)
qed

lemma verify_execution_ok: "verify_execution r = Inr y \<Longrightarrow> r = Inr y"
  by (auto simp: verify_execution_def split: sum.splits option.splits recoverability.splits if_splits)

lemma request_execute_ok:
  assumes "request_execute ve request env proof w = (Inr (), w')" and "vq_request_type request = RedeemType"
  shows "completed_on (vq_hash request) (pc_chain (vw_parachain w')) \<and> vw_wallet w' = vw_wallet w"
proof -
  obtain b1 b2 where p: "ve_encode_proof ve proof = (b1, b2)" by fastforce
  from assms(1) obtain p' where retry: "notify_retry (cl_backoffs (ve_client ve))
      (execute_call ve request (ve_encode_envelope ve env) b1 b2) verify_execution (vw_parachain w) = (Inr (), p')"
    and w': "w' = w\<lparr>vw_parachain := p'\<rparr>"
    by (auto simp: request_execute_def p on_parachain_def map_error_def split: prod.splits sum.splits)
  from notify_retry_ok [OF retry verify_execution_ok] obtain u
    where "execute_call ve request (ve_encode_envelope ve env) b1 b2 u = (Inr (), p')" by blast
  then obtain x where "with_retry (ve_client ve) (RedeemCall (call_execute_redeem (vq_hash request)
      (ve_encode_envelope ve env) b1 b2)) u = (Inr x, p')"
    by (auto simp: execute_call_def assms(2) client_execute_redeem_def send_call_def ok_iff)
  from with_retry_ok [OF this] show ?thesis using execute_redeem_call_completes w' by auto
qed

lemma keeps_wallet [frame_intro]:
  "frameM vw_wallet (on_parachain m)" "frameM vw_wallet (vault_get_proof ve slot)"
  "frameM vw_wallet (request_execute ve request env proof)"
  by (auto simp: frameM_def on_parachain_def vault_get_proof_def request_execute_def Let_def split: prod.split)

definition paid_once :: "'l vault_env \<Rightarrow> vault_request \<Rightarrow> 'l vault_world \<Rightarrow> 'l vault_world \<Rightarrow> bool" where
  "paid_once ve request w w' \<longleftrightarrow> (\<exists>env result. ws_submitted (vw_wallet w') = ws_submitted (vw_wallet w) @ [(env, result)] \<and>
     get_text_memo_from_tx_env (we_envelope env) = Some (take 28 (wl_to_base58 (ve_wallet ve) (vq_hash request))))"

lemma transfer_once:
  assumes "transfer_stellar_asset ve request w = (r, w')"
  shows "ws_submitted (vw_wallet w') = ws_submitted (vw_wallet w) \<and> (\<exists>e. r = Inl e) \<or> paid_once ve request w w'"
proof (cases "balance_lookup (vq_amount request)")
  case (Inl e)
  then show ?thesis using assms by (auto simp: transfer_stellar_asset_def bindM_def liftM_def)
next
  case (Inr n)
  obtain q s where "send_payment_to_address (ve_wallet ve) (vq_stellar_address request) (vq_asset request) n
      (vq_hash request) (vq_request_type request = RedeemType) (vw_wallet w) = (q, s)" by fastforce
  moreover from this have "r = map_error VaultWalletError q \<and> w' = w\<lparr>vw_wallet := s\<rparr>"
    using assms Inr by (auto simp: transfer_stellar_asset_def bindM_def liftM_def on_wallet_def)
  moreover note payment_once [unfolded pays_once_def, rule_format, OF calculation(1)]
  ultimately show ?thesis by (auto simp: paid_once_def map_error_def)
qed

lemma prove_and_execute_ok:
  assumes "prove_and_execute ve request response w = (Inr (), w')" and "vq_request_type request = RedeemType"
  shows "completed_on (vq_hash request) (pc_chain (vw_parachain w'))"
  using assms(1) request_execute_ok [OF _ assms(2)] unfolding prove_and_execute_def ok_iff by blast

text \<open>
  C10: serving a request makes at most one payment, with the memo of the request and before its
  deadline, and if serving a redeem request succeeds, the payment was made and the request is
  completed on the chain.
\<close>

theorem redeem_paid_and_completed:
  assumes "pay_and_execute ve request w = (r, w')"
  shows "(ws_submitted (vw_wallet w') = ws_submitted (vw_wallet w) \<and> (\<exists>e. r = Inl e) \<or> paid_once ve request w w' \<and>
      (\<forall>deadline. vq_deadline request = Some deadline \<longrightarrow> active_block (pc_chain (vw_parachain w)) < deadline)) \<and>
    (r = Inr () \<and> vq_request_type request = RedeemType \<longrightarrow> completed_on (vq_hash request) (pc_chain (vw_parachain w')))"
proof -
  have frames: "frameM vw_wallet (ensure_deadline request)" "frameM vw_wallet (prove_and_execute ve request response)" for response
    unfolding ensure_deadline_def prove_and_execute_def by (auto intro!: frame_intro split: option.split)
  obtain q u where u: "ensure_deadline request w = (q, u)" by fastforce
  have wu: "vw_wallet u = vw_wallet w" using frames(1) u unfolding frameM_def by (metis snd_conv)
  show ?thesis
  proof (cases q)
    case (Inl e)
    then show ?thesis using assms u wu by (auto simp: pay_and_execute_def bindM_def)
  next
    case (Inr x)
    have deadline: "active_block (pc_chain (vw_parachain w)) < d" if "vq_deadline request = Some d" for d
      using u Inr that
      by (auto simp: ensure_deadline_def ok_iff on_parachain_def map_error_def client_get_current_active_block_number_def rpc_request_def
          get_latest_storage_def split: prod.splits sum.splits list.splits bool.splits)
    obtain q2 v where v: "transfer_stellar_asset ve request u = (q2, v)" by fastforce
    have rest: "(case q2 of Inl e \<Rightarrow> (Inl e, v) | Inr resp \<Rightarrow> prove_and_execute ve request resp v) = (r, w')"
      using assms u v Inr by (auto simp: pay_and_execute_def bindM_def)
    have "vw_wallet w' = vw_wallet v"
    proof (cases q2)
      case (Inr b)
      then have "w' = snd (prove_and_execute ve request b v)" using rest by simp
      then show ?thesis using frames(2) [of b] by (simp add: frameM_def)
    qed (use rest in simp)
    then have "ws_submitted (vw_wallet w') = ws_submitted (vw_wallet w) \<and> (\<exists>e. r = Inl e) \<or> paid_once ve request w w'"
    proof -
      from transfer_once [OF v] consider
          (unpaid) e where "ws_submitted (vw_wallet v) = ws_submitted (vw_wallet u)" "q2 = Inl e"
        | (paid) "paid_once ve request u v" by blast
      then show ?thesis
      proof cases
        case unpaid
        then have "r = Inl e" "w' = v" using rest by auto
        then show ?thesis using unpaid wu by simp
      next
        case paid
        then have "paid_once ve request w w'" unfolding paid_once_def using wu \<open>vw_wallet w' = vw_wallet v\<close> by simp
        then show ?thesis by simp
      qed
    qed
    moreover have "completed_on (vq_hash request) (pc_chain (vw_parachain w'))" if "r = Inr ()" "vq_request_type request = RedeemType"
      using rest that prove_and_execute_ok by (cases q2) auto
    ultimately show ?thesis using deadline by blast
  qed
qed

text \<open>
  Executing a paid request never pays, and at most three searches for a proof are made.
\<close>

lemma open_execution_loop:
  assumes "n \<le> MAX_EXECUTION_RETRIES"
  shows "vw_wallet (snd (execute_open_request_loop ve request env slot n w)) = vw_wallet w \<and>
    (\<exists>k \<le> MAX_EXECUTION_RETRIES - n. vw_heard (snd (execute_open_request_loop ve request env slot n w)) = drop k (vw_heard w))"
  using assms
proof (induction "MAX_EXECUTION_RETRIES - n" arbitrary: n w)
  case 0
  then show ?case by (simp add: execute_open_request_loop.simps [of _ _ _ _ MAX_EXECUTION_RETRIES])
next
  case (Suc m)
  then have less: "n < MAX_EXECUTION_RETRIES" by simp
  obtain r u where u: "vault_get_proof ve slot w = (r, u)" by fastforce
  then have heard: "vw_wallet u = vw_wallet w" "vw_heard u = drop 1 (vw_heard w)"
    by (auto simp: vault_get_proof_def Let_def drop_Suc split: prod.splits)
  show ?case
  proof (cases r)
    case (Inl e)
    then have "execute_open_request_loop ve request env slot n w = execute_open_request_loop ve request env slot (n + 1) u"
      using u less by (simp add: execute_open_request_loop.simps [of _ _ _ _ n])
    moreover have "m = MAX_EXECUTION_RETRIES - (n + 1)" "n + 1 \<le> MAX_EXECUTION_RETRIES" using Suc.hyps(2) by auto
    note Suc.hyps(1) [OF this, of u]
    then obtain k where "k \<le> MAX_EXECUTION_RETRIES - (n + 1)"
      "vw_heard (snd (execute_open_request_loop ve request env slot (n + 1) u)) = drop (Suc k) (vw_heard w)"
      "vw_wallet (snd (execute_open_request_loop ve request env slot (n + 1) u)) = vw_wallet w" using heard by auto
    ultimately show ?thesis using less by (auto intro!: exI [of _ "Suc k"])
  next
    case (Inr p)
    then have "snd (execute_open_request_loop ve request env slot n w) = snd (request_execute ve request env p u)"
      using u less by (simp add: execute_open_request_loop.simps [of _ _ _ _ n])
    moreover have "vw_heard (snd (request_execute ve request env p u)) = vw_heard u"
      "vw_wallet (snd (request_execute ve request env p u)) = vw_wallet u"
      by (simp_all add: request_execute_def on_parachain_def split: prod.split)
    ultimately show ?thesis using heard less by (auto intro!: exI [of _ 1])
  qed
qed

lemma open_execution_pays_nothing:
  "vw_wallet (snd (execute_open_request ve request env slot w)) = vw_wallet w"
  "\<exists>k \<le> 3. vw_heard (snd (execute_open_request ve request env slot w)) = drop k (vw_heard w)"
  using open_execution_loop [of 0 ve request env slot w] by (auto simp: execute_open_request_def MAX_EXECUTION_RETRIES_def)


section \<open>A sample vault\<close>

definition served_request :: vault_request where
  "served_request = \<lparr>vq_hash = paid_id, vq_deadline = Some 100, vq_amount = 100000, vq_asset = AssetTypeNative,
     vq_currency = Stellar StellarNative, vq_stellar_address = [5], vq_request_type = RedeemType, vq_vault_id = sample_vault,
     vq_fee_budget = Some 0\<rparr>"

definition served_env :: "ledger vault_env" where
  "served_env = \<lparr>ve_client = sample_client\<lparr>cl_config := paid_config, cl_redeem_keys := (\<lambda>_. [paid_id])\<rparr>, ve_wallet = sample_wallet, ve_net = sample_network,
     ve_encode_envelope = (\<lambda>_. []), ve_encode_proof = (\<lambda>_. ([], [9])), ve_vault_ids = [sample_vault],
     ve_payment_margin = 6000\<rparr>"

definition paid_response :: tx_response where
  "paid_response = (own_payment 1 49)\<lparr>tr_ledger := 7, tr_memo := Some (replicate 28 49), tr_envelope := Some sample_payment\<rparr>"

definition served_world :: "ledger vault_world" where
  "served_world =
    \<lparr>vw_parachain = sample_parachain\<lparr>pc_chain := chain_with (vault_entry (VaultActive True) 100000), pc_attempts := [Included 3]\<rparr>,
     vw_wallet = sample_state\<lparr>ws_answers := [\<lambda>_. Inr paid_response],
       ws_accounts := [Inr \<lparr>ha_sequence = 9, ha_balances = [\<lparr>hb_asset_code = None, hb_asset_issuer = None, hb_asset_type = ASSET_TYPE_NATIVE\<rparr>]\<rparr>, Inr \<lparr>ha_sequence = 50, ha_balances = []\<rparr>]\<rparr>,
     vw_agent = sample_agent, vw_heard = [[sample_heard, []]]\<rparr>"

lemma sample_proof_found: "\<exists>p. fst (get_proof sample_network 7 [sample_heard, []] sample_agent) = Inr p"
proof -
  have "case fst (get_proof sample_network 7 [sample_heard, []] sample_agent) of Inl _ \<Rightarrow> False | Inr _ \<Rightarrow> True" by code_simp
  then show ?thesis by (auto split: sum.splits)
qed

lemma served_call:
  "fst (apply_extrinsic paid_config 3 (Signed 1) (RedeemCall (call_execute_redeem paid_id [] [] [9]))
     (chain_with (vault_entry (VaultActive True) 100000))) = Inr ()"
proof -
  let ?s = "chain_with (vault_entry (VaultActive True) 100000)"
  let ?t = "ch_env_update (env_extrinsic_index_update (\<lambda>_. Some 3)) ?s"
  have "validated_payment paid_config paid_id [] [] [9] ?t = validated_payment paid_config paid_id [] [] [9] ?s"
    by (simp add: validated_payment_def validate_on_chain_def)
  then show ?thesis
  by (simp add: apply_extrinsic_def dispatch_def dispatch_redeem_def execute_redeem_def execute_redeem_internal_def paid_accepted get_open_redeem_request_from_id_def
      get_redeem_request_def sample_redeem_def redeem_amount_def redeem_transfer_fee_def redeem_fee_def redeem_premium_def
      redeem_tokens_def rv_execute_redeem_tokens_def rv_decrease_to_be_redeemed_def rv_decrease_issued_def
      to_be_redeemed_tokens_def set_redeem_status_def redeem_deposit_event_def burn_from_def transfer_def
      ledger_transfer_impl_def sample_paid nothing_staked paid_run_defs)
qed

lemma served_transfer: "\<exists>u. transfer_stellar_asset served_env served_request served_world = (Inr paid_response, served_world\<lparr>vw_wallet := u\<rparr>)"
    by (simp add: transfer_stellar_asset_def on_wallet_def map_error_def balance_lookup_def served_env_def served_request_def served_world_def
        send_payment_to_address_def create_payment_op_for_redeem_request_def tried_def ask_account_def is_halted_def
        is_trustline_exist_def get_asset_def create_payment_operation_def map_err_as_build_tx_error_def send_to_address_def create_envelope_def
        create_basic_spacewalk_stellar_transaction_def derive_shortened_request_id_def append_multiple_def
        create_and_sign_envelope_def sign_envelope_def bindM_def bindR_def ensureM_def ensureR_def liftM_def Let_def
        submit_run post_transaction_def horizon_submit_transaction_def save_frame sample_wallet_def sample_state_def
        DECIMALS_CONVERSION_RATE_def CHAIN_DECIMALS_def STELLAR_DECIMALS_def result_defs)

lemma served_execution:
  "fst (request_execute served_env served_request env proof (w\<lparr>vw_parachain := vw_parachain served_world\<rparr>)) = Inr ()"
proof -
  let ?call = "RedeemCall (call_execute_redeem paid_id [] [] [9])"
  obtain t where "apply_extrinsic paid_config 3 (Signed (Suc 0)) ?call (chain_with (vault_entry (VaultActive True) 100000)) = (Inr (), t)"
    using served_call by (metis One_nat_def prod.collapse)
  then show ?thesis
    by (simp add: request_execute_def on_parachain_def map_error_def served_env_def served_request_def served_world_def
        sample_parachain_def sample_client_def execute_call_def client_execute_redeem_def send_call_def with_retry_def
        notify_retry.simps submit_once_def run_call_def verify_submission_def verify_execution_def Let_def bindM_def retM_def)
qed

lemma request_served: "\<exists>w'. pay_and_execute served_env served_request served_world = (Inr (), w')"
proof -
  obtain p a where p: "get_proof sample_network 7 [sample_heard, []] sample_agent = (Inr p, a)"
    using sample_proof_found by (metis prod.collapse)
  obtain u where u: "transfer_stellar_asset served_env served_request served_world = (Inr paid_response, served_world\<lparr>vw_wallet := u\<rparr>)"
    using served_transfer by blast
  have d: "ensure_deadline served_request served_world = (Inr (), served_world)"
    by (simp add: ensure_deadline_def served_request_def served_world_def on_parachain_def map_error_def
        client_get_current_active_block_number_def rpc_request_def get_latest_storage_def sample_parachain_def bindM_def ensureM_def
        chain_with_def sample_chain_def security_genesis_def remove_error_def active_block_def insert_error_def set_status_def retM_def)
  let ?w = "served_world\<lparr>vw_wallet := u, vw_agent := a, vw_heard := []\<rparr>"
  have "prove_and_execute served_env served_request paid_response (served_world\<lparr>vw_wallet := u\<rparr>) =
      request_execute served_env served_request sample_payment p ?w"
    using p by (simp add: prove_and_execute_def vault_get_proof_def map_error_def bindM_def ok_orM_def liftM_def ok_orR_def paid_response_def
        served_env_def served_world_def del: get_proof.simps)
  moreover have "?w\<lparr>vw_parachain := vw_parachain served_world\<rparr> = ?w" by simp
  ultimately have "fst (pay_and_execute served_env served_request served_world) = Inr ()"
    using d u served_execution [of sample_payment p ?w] by (simp add: pay_and_execute_def bindM_def)
  then show ?thesis by (metis prod.collapse)
qed

theorem redeem_paid_and_completed_witness:
  "\<exists>w'. pay_and_execute served_env served_request served_world = (Inr (), w') \<and> completed_on paid_id (pc_chain (vw_parachain w')) \<and>
     paid_once served_env served_request served_world w'"
proof -
  obtain w' where w': "pay_and_execute served_env served_request served_world = (Inr (), w')" using request_served by blast
  from redeem_paid_and_completed [OF w'] w' show ?thesis by (auto simp: served_request_def)
qed

lemma served_requests:
  "fst (retrieve_open_redeem_replace_requests served_env served_world) = Inr [(replicate 28 49, served_request)]"
  by (simp add: retrieve_open_redeem_replace_requests_def on_parachain_def map_error_def client_get_vault_redeem_requests_def
      client_get_old_vault_replace_requests_def rpc_request_def get_latest_storage_def served_env_def served_world_def
      sample_client_def sample_parachain_def get_redeem_requests_for_vault_def get_replace_requests_for_old_vault_def
      client_get_redeem_request_def query_finalized_or_error_def query_finalized_def filter_redeem_reqs_def from_redeem_request_def
      sample_redeem_def asset_lookup_def calculate_deadline_def duration_to_parachain_blocks_def MILLISECS_PER_BLOCK_def
      checked_add_w_def checked_sub_n_def served_request_def request_memo_def derive_shortened_request_id_def sample_wallet_def
      ok_orM_def liftM_def retM_def bindM_def result_defs)

lemma served_tasks:
  "tasks_for_paid_requests served_env \<lparr>it_records = [paid_response], it_pages = []\<rparr> [(replicate 28 49, served_request)] [] =
     Inr ([], [ExecuteTask served_request sample_payment 7])"
  by (simp add: tasks_for_paid_requests.simps iter_next_def get_top_record_def jump_to_next_page_def get_request_for_stellar_tx_def response_memo_text_def
      TYPE_MEMOTEXT_def paid_response_def own_payment_def served_request_def get_payment_amount_for_asset_to_def Let_def
      sample_payment_def payment_step_def balance_unlookup_def stellar_stroops_to_u128_def saturating_add_i64_def
      DECIMALS_CONVERSION_RATE_def CHAIN_DECIMALS_def STELLAR_DECIMALS_def
      spawn_task_to_execute_open_request_def request_memo_def derive_shortened_request_id_def served_env_def sample_wallet_def result_defs)


end
