(* ===== verification/Request_Cancellation.thy ===== *)
theory Request_Cancellation
  imports Parachain_Rpc Payments
begin

text \<open>
  The task of a vault that cancels the issue and replace requests that nobody has executed in time
  (\<^verbatim>\<open>clients/vault/src/cancellation.rs\<close>), on any chain that answers its three questions, and then
  on the chain of this development.
\<close>

section \<open>The scheduler\<close>

datatype cancel_event = Opened | Executed request_id | ParachainBlock block_number

record unconverted_open_time =
  uo_id :: request_id
  uo_open_height :: block_number
  uo_period :: block_number

record active_request =
  ar_id :: request_id
  ar_deadline :: block_number

datatype list_state = ListValid | ListInvalid

record 's canceller =
  cn_open_requests :: "('s, client_error, unconverted_open_time list) op"
  cn_period :: "('s, client_error, block_number) op"
  cn_cancel :: "request_id \<Rightarrow> ('s, client_error, unit) op"

text \<open>The last field holds the requests that the task has reported as cancelled.\<close>

record 's scheduler =
  sd_world :: 's
  sd_height :: block_number
  sd_active :: "active_request list"
  sd_state :: list_state
  sd_cancelled :: "request_id list"

definition issue_canceller :: "'l client \<Rightarrow> 'l parachain canceller" where
  "issue_canceller cl =
     \<lparr>cn_open_requests = (bindM (client_get_vault_issue_requests cl (cl_account cl)) (\<lambda>reqs.
       retM (map (\<lambda>(id, issue). \<lparr>uo_id = id, uo_open_height = ir_opentime issue, uo_period = ir_period issue\<rparr>)
         (filter (\<lambda>(_, issue). ir_status issue = IssuePending) reqs)))),
      cn_period = client_get_issue_period,
      cn_cancel = client_cancel_issue cl\<rparr>"

definition replace_canceller :: "'l client \<Rightarrow> 'l parachain canceller" where
  "replace_canceller cl =
     \<lparr>cn_open_requests = (bindM (client_get_new_vault_replace_requests cl (cl_account cl)) (\<lambda>reqs.
       retM (map (\<lambda>(id, replace). \<lparr>uo_id = id, uo_open_height = rp_accept_time replace, uo_period = rp_period replace\<rparr>)
         (filter (\<lambda>(_, replace). rp_status replace = ReplacePending) reqs)))),
      cn_period = client_get_replace_period,
      cn_cancel = client_cancel_replace cl\<rparr>"

definition drain_expired :: "active_request list \<Rightarrow> block_number \<Rightarrow> active_request list \<times> active_request list" where
  "drain_expired reqs current_height =
     (filter (\<lambda>req. current_height > ar_deadline req) reqs,
      filter (\<lambda>req. \<not> current_height > ar_deadline req) reqs)"

fun cancel_each :: "'s canceller \<Rightarrow> active_request list \<Rightarrow> 's scheduler \<Rightarrow> list_state \<times> 's scheduler" where
  "cancel_each cn [] s = (ListValid, s)"
| "cancel_each cn (request # rest) s = (case cn_cancel cn (ar_id request) (sd_world s) of
     (Inr _, w) \<Rightarrow> cancel_each cn rest
       (s\<lparr>sd_world := w, sd_cancelled := sd_cancelled s @ [ar_id request]\<rparr>)
   | (Inl _, w) \<Rightarrow> (ListInvalid, s\<lparr>sd_world := w\<rparr>))"

definition cancel_requests :: "'s canceller \<Rightarrow> 's scheduler \<Rightarrow> list_state \<times> 's scheduler" where
  "cancel_requests cn s =
     (let (expired, kept) = drain_expired (sd_active s) (sd_height s)
      in cancel_each cn expired (s\<lparr>sd_active := kept\<rparr>))"

definition to_active_request :: "block_number \<Rightarrow> unconverted_open_time \<Rightarrow> client_error + active_request" where
  "to_active_request global_period r =
     (let period = max global_period (uo_period r) in
      case checked_add_w 32 (uo_open_height r) period of
        Some deadline \<Rightarrow> Inr \<lparr>ar_id = uo_id r, ar_deadline = deadline\<rparr>
      | None \<Rightarrow> Inl RtArithmeticOverflow)"

definition get_open_requests :: "'s canceller \<Rightarrow> ('s, client_error, active_request list) op" where
  "get_open_requests cn = (bindM (cn_open_requests cn) (\<lambda>open_requests.
    (if open_requests = [] then retM []
      else (bindM (cn_period cn) (\<lambda>global_period.
        liftM (mapR (to_active_request global_period) open_requests))))))"

text \<open>A list that could not be fetched is left empty; its state is decided by the event alone.\<close>

definition refresh_list :: "'s canceller \<Rightarrow> 's scheduler \<Rightarrow> 's scheduler" where
  "refresh_list cn s = (case sd_state s of
     ListInvalid \<Rightarrow> (case get_open_requests cn (sd_world s) of
       (Inr x, w) \<Rightarrow> s\<lparr>sd_world := w, sd_active := x\<rparr>
     | (Inl _, w) \<Rightarrow> s\<lparr>sd_world := w, sd_active := []\<rparr>)
   | ListValid \<Rightarrow> s)"

definition process_event :: "'s canceller \<Rightarrow> cancel_event \<Rightarrow> 's scheduler \<Rightarrow> 's scheduler" where
  "process_event cn event s =
     (let s = refresh_list cn s in
      case event of
        ParachainBlock height \<Rightarrow>
          (case cancel_requests cn (s\<lparr>sd_height := height\<rparr>) of (state, t) \<Rightarrow> t\<lparr>sd_state := state\<rparr>)
      | Executed executed_id \<Rightarrow>
          s\<lparr>sd_active := filter (\<lambda>x. ar_id x \<noteq> executed_id) (sd_active s), sd_state := ListValid\<rparr>
      | Opened \<Rightarrow> s\<lparr>sd_state := ListInvalid\<rparr>)"

text \<open>The task ends when the channel of events is closed.\<close>

fun handle_cancellation :: "'s canceller \<Rightarrow> cancel_event list \<Rightarrow> ('s scheduler, client_error, unit) op" where
  "handle_cancellation cn [] s = (Inl RtChannelClosed, s)"
| "handle_cancellation cn (event # events) s = handle_cancellation cn events (process_event cn event s)"

definition scheduler_new :: "'s \<Rightarrow> block_number \<Rightarrow> 's scheduler" where
  "scheduler_new w parachain_height =
     \<lparr>sd_world = w, sd_height = parachain_height, sd_active = [], sd_state = ListInvalid, sd_cancelled = []\<rparr>"

section \<open>What a block settles\<close>

lemma cancel_each_cases:
  "cancel_each cn rs s = (st, t) \<Longrightarrow> sd_active t = sd_active s \<and> sd_height t = sd_height s \<and>
   (\<exists>fst_part left. rs = fst_part @ left \<and> sd_cancelled t = sd_cancelled s @ map ar_id fst_part \<and> (st = ListValid \<longrightarrow> left = []))"
proof (induction rs arbitrary: s)
  case (Cons r rs)
  show ?case
  proof (cases "fst (cn_cancel cn (ar_id r) (sd_world s))")
    case (Inl e)
    then have "sd_active t = sd_active s \<and> sd_height t = sd_height s \<and> sd_cancelled t = sd_cancelled s \<and> st = ListInvalid"
      using Cons.prems by (cases "cn_cancel cn (ar_id r) (sd_world s)") auto
    then show ?thesis by (intro conjI exI [of _ "[]"] exI [of _ "r # rs"]) auto
  next
    case (Inr x)
    then have "cancel_each cn rs (s\<lparr>sd_world := snd (cn_cancel cn (ar_id r) (sd_world s)),
        sd_cancelled := sd_cancelled s @ [ar_id r]\<rparr>) = (st, t)"
      using Cons.prems by (cases "cn_cancel cn (ar_id r) (sd_world s)") auto
    from Cons.IH [OF this] obtain fst_part left where
      "sd_active t = sd_active s \<and> sd_height t = sd_height s \<and> rs = fst_part @ left \<and>
       sd_cancelled t = sd_cancelled s @ ar_id r # map ar_id fst_part \<and> (st = ListValid \<longrightarrow> left = [])" by auto
    then show ?thesis by (intro conjI exI [of _ "r # fst_part"] exI [of _ left]) auto
  qed
qed auto

lemma mapR_member: "mapR f xs = Inr ys \<Longrightarrow> x \<in> set xs \<Longrightarrow> \<exists>y\<in>set ys. f x = Inr y"
  by (auto simp: mapR_ok list_all2_conv_all_nth in_set_conv_nth)

lemma mapR_origin: "mapR f xs = Inr ys \<Longrightarrow> y \<in> set ys \<Longrightarrow> \<exists>x\<in>set xs. f x = Inr y"
  by (auto simp: mapR_ok list_all2_conv_all_nth in_set_conv_nth) (metis nth_mem)

lemma block_event:
  assumes "sd_state s = ListInvalid" and "get_open_requests cn (sd_world s) = (Inr act, w)"
  shows "process_event cn (ParachainBlock h) s =
    (case cancel_each cn (filter (\<lambda>r. ar_deadline r < h) act)
        (s\<lparr>sd_world := w, sd_height := h, sd_active := filter (\<lambda>r. \<not> ar_deadline r < h) act\<rparr>) of
       (state, t) \<Rightarrow> t\<lparr>sd_state := state\<rparr>)"
  using assms by (simp add: process_event_def refresh_list_def cancel_requests_def drain_expired_def Let_def)


section \<open>When the list is lost\<close>

definition quiet :: "'s scheduler \<Rightarrow> bool" where
  "quiet s \<longleftrightarrow> sd_state s = ListValid \<and> sd_active s = []"

lemma quiet_stays: "quiet s \<Longrightarrow> e \<noteq> Opened \<Longrightarrow> quiet (process_event cn e s) \<and>
  sd_cancelled (process_event cn e s) = sd_cancelled s \<and> sd_world (process_event cn e s) = sd_world s"
  by (cases e) (simp_all add: quiet_def process_event_def refresh_list_def cancel_requests_def drain_expired_def Let_def)

lemma quiet_run:
  "quiet s \<Longrightarrow> Opened \<notin> set events \<Longrightarrow>
   sd_cancelled (snd (handle_cancellation cn events s)) = sd_cancelled s \<and>
   sd_world (snd (handle_cancellation cn events s)) = sd_world s"
proof (induction events arbitrary: s)
  case (Cons e events)
  show ?case using Cons.IH [of "process_event cn e s"] quiet_stays [of s e cn] Cons.prems by auto
qed simp

text \<open>
  One failure to fetch the list is enough to stop the task: unless the event is a new request,
  the empty list counts as valid afterwards, and until a new request is opened no later block asks
  the chain again or cancels anything, whatever has expired.
\<close>

theorem failed_query_stops_cancelling:
  assumes "sd_state s = ListInvalid" and "get_open_requests cn (sd_world s) = (Inl e, w)" and "Opened \<notin> set (event # events)"
  shows "sd_cancelled (snd (handle_cancellation cn (event # events) s)) = sd_cancelled s \<and>
    sd_world (snd (handle_cancellation cn (event # events) s)) = w"
proof -
  have "quiet (process_event cn event s) \<and> sd_cancelled (process_event cn event s) = sd_cancelled s \<and>
      sd_world (process_event cn event s) = w"
    using assms by (cases event)
      (auto simp: process_event_def refresh_list_def cancel_requests_def drain_expired_def Let_def quiet_def)
  then show ?thesis using quiet_run [of "process_event cn event s" events cn] assms(3) by simp
qed

text \<open>
  A request whose cancellation always fails hides the expired requests that are listed after it.
\<close>

lemma failing_request_starves_later:
  assumes "sd_state s = ListInvalid" and "get_open_requests cn (sd_world s) = (Inr act, w)"
    and "filter (\<lambda>r. ar_deadline r < h) act = r # rest" and "cn_cancel cn (ar_id r) w = (Inl e, v)"
  shows "process_event cn (ParachainBlock h) s =
    s\<lparr>sd_world := v, sd_height := h, sd_active := filter (\<lambda>r. \<not> ar_deadline r < h) act, sd_state := ListInvalid\<rparr>"
  using assms by (simp add: block_event)

section \<open>On the chain\<close>

text \<open>The scheduler and the chain agree on when a request has expired.\<close>

lemma deadline_agrees:
  assumes "to_active_request (is_period (ch_issue s)) \<lparr>uo_id = j, uo_open_height = ir_opentime r, uo_period = ir_period r\<rparr>
      = Inr a" and "active_block s = h"
  shows "block_expired (ir_opentime r) (max (is_period (ch_issue s)) (ir_period r)) s = Inr (ar_deadline a < h)"
  using assms
  by (auto simp: to_active_request_def block_expired_def parachain_block_expired_def active_block_def Let_def ok_iff
      checked_add_w_def result_defs split: option.splits if_splits)

definition cancelled_on :: "request_id \<Rightarrow> 'l chain \<Rightarrow> bool" where
  "cancelled_on j s \<longleftrightarrow> (\<exists>r. is_requests (ch_issue s) j = Some r \<and> ir_status r = IssueStatusCancelled)"

lemma keeps_issue_requests: "frameM open_view m \<Longrightarrow> keepsOkM (\<lambda>s. is_requests (ch_issue s) = y) m"
  by (erule keeps_frame) (simp add: open_view_def requests_def)

lemma triple_mark_cancelled:
  assumes "m j = Some r \<and> ir_status r = IssuePending"
  shows "tripleM (\<lambda>s. is_requests (ch_issue s) = m)
      (bindM (set_issue_status j IssueStatusCancelled) (\<lambda>_. issue_deposit_event e))
      (\<lambda>_ s. \<exists>r. m j = Some r \<and> ir_status r = IssuePending \<and>
         is_requests (ch_issue s) = m(j \<mapsto> r\<lparr>ir_status := IssueStatusCancelled\<rparr>))"
  using assms by (auto simp: tripleM_def set_issue_status_def mutate_issue_request_def issue_deposit_event_def ok_iff)

lemma pending_issue:
  "get_pending_issue j s = Inr r \<Longrightarrow> is_requests (ch_issue s) j = Some r \<and> ir_status r = IssuePending"
  by (cases "is_requests (ch_issue s) j"; cases "ir_status (the (is_requests (ch_issue s) j))")
    (auto simp: get_pending_issue_def get_issue_request_def result_defs)

lemma triple_cancel_issue:
  "tripleM (\<lambda>s. is_requests (ch_issue s) = m) (cancel_issue c ori j)
    (\<lambda>_ s. \<exists>r. m j = Some r \<and> ir_status r = IssuePending \<and>
       is_requests (ch_issue s) = m(j \<mapsto> r\<lparr>ir_status := IssueStatusCancelled\<rparr>))"
  unfolding cancel_issue_def cancel_issue_internal_def Let_def
proof (rule triple_transactional, rule triple_lift,
    rule triple_query_fact [where F = "\<lambda>r. m j = Some r \<and> ir_status r = IssuePending"])
  show "m j = Some r \<and> ir_status r = IssuePending" if "is_requests (ch_issue s) = m" "get_pending_issue j s = Inr r" for r s
    using that pending_issue by blast
qed (rule triple_getM, rule triple_queryM, rule triple_then, rule keeps_issue_requests, intro frame_intro,
    rule triple_queryM, rule triple_then, rule keeps_issue_requests, intro frame_intro,
    rule triple_lift, rule triple_then, rule keeps_issue_requests, intro frame_intro, erule triple_mark_cancelled)

lemma cancel_call: "apply_extrinsic c i ori (IssueCall (call_cancel_issue j)) s =
    cancel_issue c ori j (ch_env_update (env_extrinsic_index_update (\<lambda>_. Some i)) s)"
  by (simp add: apply_extrinsic_def dispatch_def dispatch_issue_def bindM_def modifyM_def)

lemma cancel_call_ok:
  assumes "apply_extrinsic c i ori (IssueCall (call_cancel_issue j)) s = (Inr (), t)"
  obtains r where "is_requests (ch_issue s) j = Some r" "ir_status r = IssuePending"
    "is_requests (ch_issue t) = (is_requests (ch_issue s))(j \<mapsto> r\<lparr>ir_status := IssueStatusCancelled\<rparr>)"
proof -
  have "\<exists>r. is_requests (ch_issue s) j = Some r \<and> ir_status r = IssuePending \<and>
      is_requests (ch_issue t) = (is_requests (ch_issue s))(j \<mapsto> r\<lparr>ir_status := IssueStatusCancelled\<rparr>)"
    by (rule tripleD [OF triple_cancel_issue [of _ c ori j],
          where s = "ch_env_update (env_extrinsic_index_update (\<lambda>_. Some i)) s"])
       (use assms in \<open>simp_all add: cancel_call\<close>)
  then show ?thesis using that by blast
qed

lemma cancel_call_marks: "apply_extrinsic c i ori (IssueCall (call_cancel_issue j)) s = (Inr (), t) \<Longrightarrow> cancelled_on j t"
  by (erule cancel_call_ok) (simp add: cancelled_on_def)

lemma cancel_call_stable:
  assumes "cancelled_on k s"
  shows "cancelled_on k (snd (apply_extrinsic c i ori (IssueCall (call_cancel_issue j)) s))"
proof (cases "fst (apply_extrinsic c i ori (IssueCall (call_cancel_issue j)) s)")
  case (Inl e)
  then have "snd (apply_extrinsic c i ori (IssueCall (call_cancel_issue j)) s) =
      ch_env_update (env_extrinsic_index_update (\<lambda>_. Some i)) s"
    unfolding cancel_call cancel_issue_def by (metis prod.collapse transactionalM_error)
  then show ?thesis using assms by (simp add: cancelled_on_def)
next
  case (Inr x)
  then have "apply_extrinsic c i ori (IssueCall (call_cancel_issue j)) s =
      (Inr (), snd (apply_extrinsic c i ori (IssueCall (call_cancel_issue j)) s))" by (simp add: prod_eq_iff)
  then show ?thesis by (rule cancel_call_ok) (use assms in \<open>auto simp: cancelled_on_def\<close>)
qed

lemma send_call_state: "snd (send_call cl call w) = snd (with_retry cl call w)"
  by (simp add: send_call_def bindM_def retM_def split: prod.split sum.split)

lemma client_cancel_stable:
  "cancelled_on k (pc_chain w) \<Longrightarrow> cancelled_on k (pc_chain (snd (client_cancel_issue cl j w)))"
  using with_retry_stable [where P = "cancelled_on k", OF cancel_call_stable, of w]
  by (simp add: client_cancel_issue_def send_call_state)

lemma client_cancel_marks: "client_cancel_issue cl j w = (Inr x, v) \<Longrightarrow> cancelled_on j (pc_chain v)"
  by (auto simp: client_cancel_issue_def send_call_def ok_iff dest!: with_retry_ok cancel_call_marks)

lemma cancel_each_marks:
  "cancel_each (issue_canceller cl) rs s = (st, t) \<Longrightarrow>
   (\<forall>k. cancelled_on k (pc_chain (sd_world s)) \<longrightarrow> cancelled_on k (pc_chain (sd_world t))) \<and>
   (st = ListValid \<longrightarrow> (\<forall>r\<in>set rs. cancelled_on (ar_id r) (pc_chain (sd_world t))))"
proof (induction rs arbitrary: s)
  case (Cons r rs)
  obtain x w where x: "client_cancel_issue cl (ar_id r) (sd_world s) = (x, w)" by fastforce
  have stable: "cancelled_on k (pc_chain (sd_world s)) \<Longrightarrow> cancelled_on k (pc_chain w)" for k
    using client_cancel_stable [of k "sd_world s" cl "ar_id r"] x by simp
  show ?case
  proof (cases x)
    case (Inl e)
    then show ?thesis using Cons.prems x stable by (auto simp: issue_canceller_def)
  next
    case (Inr y)
    let ?s = "s\<lparr>sd_world := w, sd_cancelled := sd_cancelled s @ [ar_id r]\<rparr>"
    have "cancel_each (issue_canceller cl) rs ?s = (st, t)" using Cons.prems x Inr by (simp add: issue_canceller_def)
    from Cons.IH [OF this] show ?thesis using stable client_cancel_marks [of cl "ar_id r" "sd_world s" y w] x Inr by simp
  qed
qed simp

text \<open>The chain accepts the cancellations one after the other.\<close>

fun all_accepted :: "'l client \<Rightarrow> request_id list \<Rightarrow> 'l parachain \<Rightarrow> bool" where
  "all_accepted cl [] w = True"
| "all_accepted cl (j # js) w = (case client_cancel_issue cl j w of
     (Inr _, v) \<Rightarrow> all_accepted cl js v | (Inl _, v) \<Rightarrow> False)"

lemma all_accepted_valid:
  "all_accepted cl (map ar_id rs) (sd_world s) \<Longrightarrow> fst (cancel_each (issue_canceller cl) rs s) = ListValid"
  by (induction rs arbitrary: s) (auto simp: issue_canceller_def split: prod.splits sum.splits)

lemma get_latest_storage_ready: "pc_reads w = [] \<Longrightarrow> get_latest_storage w = (Inr (pc_chain w), w)"
  by (simp add: get_latest_storage_def)

lemma fetch_ready:
  assumes "\<And>k. k \<in> set keys \<Longrightarrow> fetch k w = (Inr (f k), w)"
  shows "fetch_filtered fetch Some keys None acc w = (Inr (acc @ map (\<lambda>k. (k, f k)) keys), w)"
  using assms by (induction keys arbitrary: acc) simp_all

lemma issue_requests_ready:
  assumes "pc_reads w = []"
  shows "client_get_vault_issue_requests cl a w =
    (Inr (map (\<lambda>k. (k, the (is_requests (ch_issue (pc_chain w)) k)))
       (get_issue_requests_for_vault (cl_issue_keys cl (pc_chain w)) a (pc_chain w))), w)"
proof -
  have "client_get_issue_request k w = (Inr (the (is_requests (ch_issue (pc_chain w)) k)), w)"
    if "k \<in> set (get_issue_requests_for_vault (cl_issue_keys cl (pc_chain w)) a (pc_chain w))" for k
    using that assms
    by (auto simp: get_issue_requests_for_vault_def client_get_issue_request_def query_finalized_or_error_def
        query_finalized_def get_latest_storage_ready bindM_def retM_def ok_orM_def split: option.splits)
  from fetch_ready [where fetch = client_get_issue_request, OF this] show ?thesis
    by (simp add: client_get_vault_issue_requests_def rpc_request_def get_latest_storage_ready assms bindM_def retM_def)
qed

lemma issue_list_ready:
  assumes "pc_reads w = []"
    and "\<forall>k\<in>set (cl_issue_keys cl (pc_chain w)). \<forall>q. is_requests (ch_issue (pc_chain w)) k = Some q \<longrightarrow>
      ir_opentime q + max (is_period (ch_issue (pc_chain w))) (ir_period q) < 2 ^ 32"
  shows "\<exists>act. get_open_requests (issue_canceller cl) w = (Inr act, w) \<and>
    (\<forall>j r. j \<in> set (cl_issue_keys cl (pc_chain w)) \<and> is_requests (ch_issue (pc_chain w)) j = Some r \<and>
       ir_status r = IssuePending \<and> vid_account (ir_vault r) = cl_account cl \<longrightarrow>
       (\<exists>a\<in>set act. ar_id a = j \<and>
          ar_deadline a = ir_opentime r + max (is_period (ch_issue (pc_chain w))) (ir_period r)))"
proof -
  let ?p = "is_period (ch_issue (pc_chain w))"
  let ?m = "is_requests (ch_issue (pc_chain w))"
  define us where "us = map (\<lambda>(id, issue). \<lparr>uo_id = id, uo_open_height = ir_opentime issue, uo_period = ir_period issue\<rparr>)
    (filter (\<lambda>(_, issue). ir_status issue = IssuePending)
      (map (\<lambda>k. (k, the (?m k))) (get_issue_requests_for_vault (cl_issue_keys cl (pc_chain w)) (cl_account cl) (pc_chain w))))"
  define act where "act = map (\<lambda>u. \<lparr>ar_id = uo_id u, ar_deadline = uo_open_height u + max ?p (uo_period u)\<rparr>) us"
  have ok: "uo_open_height u + max ?p (uo_period u) < 2 ^ 32" if "u \<in> set us" for u
    using that assms(2) by (auto simp: us_def get_issue_requests_for_vault_def split: option.splits)
  have "mapR (to_active_request ?p) us = Inr act"
    using ok by (auto simp: mapR_ok act_def list_all2_conv_all_nth to_active_request_def checked_add_w_def Let_def)
  moreover have "cn_open_requests (issue_canceller cl) w = (Inr us, w)"
    using issue_requests_ready [OF assms(1), of cl "cl_account cl"]
    by (simp add: issue_canceller_def bindM_def retM_def us_def)
  ultimately have "get_open_requests (issue_canceller cl) w = (Inr act, w)"
    using assms(1)
    by (simp add: get_open_requests_def issue_canceller_def bindM_def retM_def liftM_def client_get_issue_period_def
        rpc_request_def get_latest_storage_ready act_def)
  moreover have "\<exists>a\<in>set act. ar_id a = j \<and> ar_deadline a = ir_opentime r + max ?p (ir_period r)"
    if "j \<in> set (cl_issue_keys cl (pc_chain w))" "?m j = Some r" "ir_status r = IssuePending"
      "vid_account (ir_vault r) = cl_account cl" for j r
    using that by (force simp: act_def us_def get_issue_requests_for_vault_def image_iff)
  ultimately show ?thesis by blast
qed

text \<open>
  C17: on the chain of this development, at a block past the deadline of a pending issue request of
  the vault, with a list to fetch and a node that answers, the request is cancelled on the chain or
  the list is fetched again at the next event; and if the chain accepts the cancellations of the
  expired requests, the request is cancelled.
\<close>

theorem expired_issue_cancelled:
  assumes "sd_state s = ListInvalid" and "pc_reads (sd_world s) = []" and "ch = pc_chain (sd_world s)"
    and "j \<in> set (cl_issue_keys cl ch)" and "is_requests (ch_issue ch) j = Some r" and "ir_status r = IssuePending"
    and "vid_account (ir_vault r) = cl_account cl" and "ir_opentime r + max (is_period (ch_issue ch)) (ir_period r) < h"
    and "\<forall>k\<in>set (cl_issue_keys cl ch). \<forall>q. is_requests (ch_issue ch) k = Some q \<longrightarrow>
      ir_opentime q + max (is_period (ch_issue ch)) (ir_period q) < 2 ^ 32"
  shows "\<exists>act. get_open_requests (issue_canceller cl) (sd_world s) = (Inr act, sd_world s) \<and>
    (let t = process_event (issue_canceller cl) (ParachainBlock h) s in
     (cancelled_on j (pc_chain (sd_world t)) \<or> sd_state t = ListInvalid) \<and>
     (all_accepted cl (map ar_id (filter (\<lambda>r. ar_deadline r < h) act)) (sd_world s) \<longrightarrow>
        cancelled_on j (pc_chain (sd_world t))))"
proof -
  obtain act where act: "get_open_requests (issue_canceller cl) (sd_world s) = (Inr act, sd_world s)"
    and "\<exists>a\<in>set act. ar_id a = j \<and> ar_deadline a = ir_opentime r + max (is_period (ch_issue ch)) (ir_period r)"
    using issue_list_ready [OF assms(2), of cl] assms(3-9) by fastforce
  then have j: "j \<in> ar_id ` set (filter (\<lambda>r. ar_deadline r < h) act)" using assms(8) by force
  let ?s = "s\<lparr>sd_world := sd_world s, sd_height := h, sd_active := filter (\<lambda>r. \<not> ar_deadline r < h) act\<rparr>"
  obtain st t where t: "cancel_each (issue_canceller cl) (filter (\<lambda>r. ar_deadline r < h) act) ?s = (st, t)" by fastforce
  have "process_event (issue_canceller cl) (ParachainBlock h) s = t\<lparr>sd_state := st\<rparr>"
    by (simp only: block_event [OF assms(1) act] t prod.case)
  moreover have "st = ListValid \<longrightarrow> cancelled_on j (pc_chain (sd_world t))"
    using cancel_each_marks [OF t] j by auto
  moreover have "all_accepted cl (map ar_id (filter (\<lambda>r. ar_deadline r < h) act)) (sd_world s) \<longrightarrow> st = ListValid"
    using all_accepted_valid [of cl "filter (\<lambda>r. ar_deadline r < h) act" ?s] t by simp
  ultimately show ?thesis using act by (cases st) (auto simp: Let_def)
qed

section \<open>A sample run\<close>

definition late_chain :: "ledger chain" where
  "late_chain = (chain_with (vault_entry (VaultActive True) 100000))
     \<lparr>ch_security := (ch_security sample_chain)\<lparr>active_block_number := 200\<rparr>\<rparr>"

definition late_client :: "ledger client" where
  "late_client = sample_client\<lparr>cl_config := paid_config, cl_issue_keys := (\<lambda>_. [paid_id])\<rparr>"

definition late_scheduler :: "ledger parachain scheduler" where
  "late_scheduler = scheduler_new
     \<lparr>pc_chain = late_chain, pc_attempts = [Included 0], pc_reads = [], pc_shutdown = False\<rparr> 199"

lemmas late_defs = late_client_def late_scheduler_def scheduler_new_def sample_client_def

lemma late_period [simp]: "is_period (ch_issue (chain_with v)) = 100"
  by (simp add: chain_with_def sample_chain_def issue_genesis_def)

lemma late_requests [simp]:
  "is_requests (ch_issue late_chain) = [paid_id \<mapsto> sample_issue]" "is_period (ch_issue late_chain) = 100"
  by (simp_all add: late_chain_def)

lemma late_list:
  "get_open_requests (issue_canceller late_client) (sd_world late_scheduler) =
     (Inr [\<lparr>ar_id = paid_id, ar_deadline = 101\<rparr>], sd_world late_scheduler)"
  by (simp add: get_open_requests_def issue_canceller_def client_get_vault_issue_requests_def rpc_request_def
      get_latest_storage_def client_get_issue_request_def query_finalized_or_error_def query_finalized_def
      get_issue_requests_for_vault_def client_get_issue_period_def to_active_request_def checked_add_w_def Let_def
      bindM_def retM_def liftM_def ok_orM_def late_defs sample_issue_def sample_vault_def new_vault_id_def result_defs)

lemma late_cancel_accepted:
  "fst (cancel_issue paid_config (Signed 1) paid_id (ch_env_update (env_extrinsic_index_update (\<lambda>_. Some 0)) late_chain)) = Inr ()"
  by (simp add: cancel_issue_def cancel_issue_internal_def get_pending_issue_def get_issue_request_def sample_issue_def
      block_expired_def parachain_block_expired_def is_vault_liquidated_def transfer_funds_def transfer_def ledger_transfer_impl_def decrease_to_be_issued_tokens_def late_chain_def paid_run_defs)

lemma late_accepted: "all_accepted late_client [paid_id] (sd_world late_scheduler)"
proof -
  have "fst (client_cancel_issue late_client paid_id (sd_world late_scheduler)) = Inr ()"
    using late_cancel_accepted
    by (auto simp: client_cancel_issue_def send_call_def with_retry_def notify_retry.simps submit_once_def run_call_def
        cancel_call verify_submission_def Let_def bindM_def retM_def late_defs split: prod.split sum.split)
  then show ?thesis
    by (cases "client_cancel_issue late_client paid_id (sd_world late_scheduler)") simp
qed


theorem expired_issue_cancelled_witness:
  "cancelled_on paid_id (pc_chain (sd_world (process_event (issue_canceller late_client) (ParachainBlock 200) late_scheduler)))"
proof -
  have "\<exists>act. get_open_requests (issue_canceller late_client) (sd_world late_scheduler) = (Inr act, sd_world late_scheduler) \<and>
    (let t = process_event (issue_canceller late_client) (ParachainBlock 200) late_scheduler in
     (cancelled_on paid_id (pc_chain (sd_world t)) \<or> sd_state t = ListInvalid) \<and>
     (all_accepted late_client (map ar_id (filter (\<lambda>r. ar_deadline r < 200) act)) (sd_world late_scheduler) \<longrightarrow>
        cancelled_on paid_id (pc_chain (sd_world t))))"
    by (rule expired_issue_cancelled [where ch = late_chain and r = sample_issue])
      (simp_all add: late_defs sample_issue_def sample_vault_def new_vault_id_def)
  then show ?thesis using late_list late_accepted by (auto simp: Let_def)
qed

theorem failed_query_stops_cancelling_witness:
  "sd_cancelled (snd (handle_cancellation (issue_canceller late_client) [ParachainBlock 199, ParachainBlock 200]
     (late_scheduler\<lparr>sd_world := (sd_world late_scheduler)\<lparr>pc_reads := [False]\<rparr>\<rparr>))) = []"
proof -
  let ?s = "late_scheduler\<lparr>sd_world := (sd_world late_scheduler)\<lparr>pc_reads := [False]\<rparr>\<rparr>"
  have "sd_state ?s = ListInvalid" "sd_cancelled ?s = []" by (simp_all add: late_defs)
  moreover have "get_open_requests (issue_canceller late_client) (sd_world ?s) =
      (Inl (RtSubxt (OtherSubxt 0)), sd_world late_scheduler)"
    by (simp add: get_open_requests_def issue_canceller_def client_get_vault_issue_requests_def rpc_request_def
        get_latest_storage_def bindM_def late_defs)
  ultimately show ?thesis
    using failed_query_stops_cancelling [of ?s "issue_canceller late_client" _ _ "ParachainBlock 199" "[ParachainBlock 200]"]
    by simp
qed

end
