(* ===== verification/Vault_Issues.thy ===== *)
theory Vault_Issues
  imports Vault_Requests Request_Cancellation
begin

text \<open>
  How the vault executes issue requests (\<^verbatim>\<open>clients/vault/src/issue.rs\<close> and \<^verbatim>\<open>clients/wallet/src/task.rs\<close>): it
  keeps the open issue requests of the chain together with the memo each of them is paid with,
  remembers for each ledger the payment that was made to it with one of these memos, and runs one task per ledger that
  asks for a proof and executes the request on the chain.
\<close>

section \<open>The task of a ledger\<close>

datatype issue_failure = ExecutionFailed client_error | IssueMemoNotFound slot

datatype slot_task_status = TaskReady | TaskSuccess | TaskRecoverableError | TaskFailed issue_failure

text \<open>
  A channel for one message, seen from its receiver: empty while the sender is alive, holding the
  message, or closed once the message is taken or the sender is gone.
\<close>

datatype 'a oneshot = ChannelEmpty | ChannelHolds 'a | ChannelClosed

datatype try_recv_error = RecvEmpty | RecvClosed

fun try_recv :: "'a oneshot \<Rightarrow> (try_recv_error + 'a) \<times> 'a oneshot" where
  "try_recv ChannelEmpty = (Inl RecvEmpty, ChannelEmpty)"
| "try_recv (ChannelHolds x) = (Inr x, ChannelClosed)"
| "try_recv ChannelClosed = (Inl RecvClosed, ChannelClosed)"

record slot_task =
  st_slot :: slot
  st_task_execution_receiver :: "slot_task_status oneshot"
  st_latest_status :: slot_task_status

definition slot_task_new :: "slot \<Rightarrow> slot_task_status oneshot \<Rightarrow> slot_task" where
  "slot_task_new slot receiver =
     \<lparr>st_slot = slot, st_task_execution_receiver = receiver, st_latest_status = TaskReady\<rparr>"

fun is_final :: "slot_task_status \<Rightarrow> bool" where
  "is_final TaskSuccess = True"
| "is_final (TaskFailed _) = True"
| "is_final _ = False"

definition update_status :: "slot_task \<Rightarrow> slot_task_status \<times> slot_task" where
  "update_status task =
     (if is_final (st_latest_status task) then (st_latest_status task, task)
      else case try_recv (st_task_execution_receiver task) of (received, receiver) \<Rightarrow>
        let status = (case received of
            Inr TaskReady \<Rightarrow> st_latest_status task
          | Inr new_status \<Rightarrow> new_status
          | Inl RecvEmpty \<Rightarrow> TaskReady
          | Inl RecvClosed \<Rightarrow> TaskRecoverableError)
        in (status, task\<lparr>st_task_execution_receiver := receiver, st_latest_status := status\<rparr>))"

definition set_receiver :: "slot_task_status oneshot \<Rightarrow> slot_task \<Rightarrow> bool \<times> slot_task" where
  "set_receiver receiver task =
     (if is_final (st_latest_status task) then (False, task)
      else (True, task\<lparr>st_task_execution_receiver := receiver\<rparr>))"

text \<open>The result tells whether there is a new sender.\<close>

definition recover_with_new_sender :: "slot_task \<Rightarrow> bool \<times> slot_task" where
  "recover_with_new_sender task = (case update_status task of (status, task1) \<Rightarrow>
     if status = TaskRecoverableError then
       (case set_receiver ChannelEmpty task1 of
          (True, task2) \<Rightarrow> (True, task2\<lparr>st_latest_status := TaskReady\<rparr>)
        | (False, task2) \<Rightarrow> (False, task2))
     else (False, task1))"

section \<open>The issue requests of the vault\<close>

text \<open>
  The sender of a task is known by the ledger of the task: a new sender is made only after the one
  before it has sent its message or is gone.
\<close>

record 'l issue_world =
  iw_vault :: "'l vault_world"
  iw_issues :: "request_id \<rightharpoonup> issue_request"
  iw_memos :: "byte list \<rightharpoonup> request_id"
  iw_ledger :: ledger_tx_env_map
  iw_processed :: "slot \<rightharpoonup> slot_task"
  iw_running :: "slot \<rightharpoonup> transaction_envelope"
  iw_events :: "cancel_event list"

type_synonym ('l, 'a) issue_op = "('l issue_world, vault_error, 'a) op"

definition is_vault :: "byte list \<Rightarrow> byte list \<Rightarrow> bool" where
  "is_vault p1 p2_raw \<longleftrightarrow> p1 = p2_raw"

definition ask_parachain :: "('l parachain, client_error, 'a) op \<Rightarrow> ('l, 'a) issue_op" where
  "ask_parachain m w = (case on_parachain m (iw_vault w) of (r, v) \<Rightarrow> (r, w\<lparr>iw_vault := v\<rparr>))"

definition issue_memo :: "'l vault_env \<Rightarrow> request_id \<Rightarrow> vault_error + byte list" where
  "issue_memo ve issue_id = (case derive_shortened_request_id (wl_to_base58 (ve_wallet ve)) issue_id of
     Inl _ \<Rightarrow> Inl VaultPanic | Inr memo \<Rightarrow> Inr memo)"

definition insert_issue :: "'l vault_env \<Rightarrow> request_id \<times> issue_request \<Rightarrow> ('l, unit) issue_op" where
  "insert_issue ve entry = (case entry of (issue_id, request) \<Rightarrow> (bindM (modifyM (\<lambda>w. w\<lparr>iw_issues := (iw_issues w)(issue_id \<mapsto> request)\<rparr>)) (\<lambda>_.
    bindM (liftM (issue_memo ve issue_id)) (\<lambda>shortened_request_id.
    modifyM (\<lambda>w. w\<lparr>iw_memos := (iw_memos w)(shortened_request_id \<mapsto> issue_id)\<rparr>)))))"

definition remove_issue :: "'l vault_env \<Rightarrow> request_id \<Rightarrow> ('l, unit) issue_op" where
  "remove_issue ve issue_id = (bindM (modifyM (\<lambda>w. w\<lparr>iw_issues := (iw_issues w)(issue_id := None)\<rparr>)) (\<lambda>_.
    bindM (liftM (issue_memo ve issue_id)) (\<lambda>shortened_request_id.
    modifyM (\<lambda>w. w\<lparr>iw_memos := (iw_memos w)(shortened_request_id := None)\<rparr>))))"

definition initialize_issue_set :: "'l vault_env \<Rightarrow> ('l, unit) issue_op" where
  "initialize_issue_set ve = (bindM (ask_parachain (client_get_all_active_issues (ve_client ve))) (\<lambda>requests1.
    forM requests1 (insert_issue ve)))"

definition on_request_issue :: "'l vault_env \<Rightarrow> request_id \<Rightarrow> byte list \<Rightarrow> ('l, unit) issue_op" where
  "on_request_issue ve issue_id vault_stellar_public_key =
     (if is_vault (wl_public_key (ve_wallet ve)) vault_stellar_public_key then (bindM (attemptM (ask_parachain (client_get_issue_request issue_id))) (\<lambda>issue_request_result.
       (case issue_request_result of
           Inr issue_request \<Rightarrow> (bindM (insert_issue ve (issue_id, issue_request)) (\<lambda>_.
             modifyM (\<lambda>w. w\<lparr>iw_events := iw_events w @ [Opened]\<rparr>)))
         | Inl _ \<Rightarrow> retM ())))
      else retM ())"

definition on_cancel_issue :: "'l vault_env \<Rightarrow> request_id \<Rightarrow> ('l, unit) issue_op" where
  "on_cancel_issue ve issue_id = remove_issue ve issue_id"

definition on_execute_issue :: "'l vault_env \<Rightarrow> request_id \<Rightarrow> ('l, unit) issue_op" where
  "on_execute_issue ve issue_id = remove_issue ve issue_id"

section \<open>Relevant payments\<close>

definition is_relevant :: "byte list \<Rightarrow> (request_id \<rightharpoonup> issue_request) \<Rightarrow> (byte list \<rightharpoonup> request_id) \<Rightarrow> tx_response \<Rightarrow> bool" where
  "is_relevant vault_address issue_requests memos_to_issue_ids tx =
     (case response_memo_text tx of
        None \<Rightarrow> False
      | Some text \<Rightarrow> (case memos_to_issue_ids text of
          None \<Rightarrow> False
        | Some issue_id \<Rightarrow> (case issue_requests issue_id of
            None \<Rightarrow> False
          | Some request \<Rightarrow> (case tr_envelope tx of
              None \<Rightarrow> False
            | Some tx_env \<Rightarrow> (case asset_lookup (ir_asset request) of
                Inl _ \<Rightarrow> False
              | Inr asset \<Rightarrow> get_payment_amount_for_asset_to tx_env vault_address asset > 0)))))"

text \<open>One round over the new transactions of the account of the vault, from a cursor.\<close>

definition fetch_payments ::
  "'l vault_env \<Rightarrow> wallet_error + tx_response list \<Rightarrow> tx_response list option list \<Rightarrow> nat \<Rightarrow> 'l issue_world \<Rightarrow>
   (wallet_error + nat) \<times> 'l issue_world" where
  "fetch_payments ve answer pages last_cursor w =
     (case fetch_horizon_and_process_new_transactions (iw_issues w = Map.empty \<or> iw_memos w = Map.empty)
         (is_relevant (wl_public_key (ve_wallet ve)) (iw_issues w) (iw_memos w)) answer pages (iw_ledger w) last_cursor of
        Inl e \<Rightarrow> (Inl e, w)
      | Inr (ledger_env_map, cursor) \<Rightarrow> (Inr cursor, w\<lparr>iw_ledger := ledger_env_map\<rparr>))"

section \<open>Processing\<close>

text \<open>The result tells whether a sender is returned.\<close>

definition create_task_status_sender :: "slot \<Rightarrow> (slot \<rightharpoonup> slot_task) \<Rightarrow> bool \<times> (slot \<rightharpoonup> slot_task)" where
  "create_task_status_sender slot processed_map = (case processed_map slot of
     Some existing \<Rightarrow> (case recover_with_new_sender existing of
       (sender, task) \<Rightarrow> (sender, processed_map(slot \<mapsto> task)))
   | None \<Rightarrow> (True, processed_map(slot \<mapsto> slot_task_new slot ChannelEmpty)))"

definition spawn_task :: "slot \<Rightarrow> 'l issue_world \<Rightarrow> 'l issue_world" where
  "spawn_task slot w = (case create_task_status_sender slot (iw_processed w) of
     (True, processed) \<Rightarrow> w\<lparr>iw_processed := processed, iw_running := (iw_running w)(slot := iw_ledger w slot)\<rparr>
   | (False, processed) \<Rightarrow> w\<lparr>iw_processed := processed\<rparr>)"

fun spawn_tasks :: "slot list \<Rightarrow> 'l issue_world \<Rightarrow> 'l issue_world" where
  "spawn_tasks [] w = w"
| "spawn_tasks (slot # slots) w = spawn_tasks slots (spawn_task slot w)"

definition cleanup_ledger_env_map :: "'l issue_world \<Rightarrow> 'l issue_world" where
  "cleanup_ledger_env_map w =
     (let checked = (\<lambda>slot. map_option update_status (iw_processed w slot));
        finished = (\<lambda>slot. case checked slot of Some (status, _) \<Rightarrow> is_final status | None \<Rightarrow> False)
      in w\<lparr>iw_ledger := (\<lambda>slot. if finished slot then None else iw_ledger w slot),
           iw_processed := (\<lambda>slot. if finished slot then None else map_option snd (checked slot))\<rparr>)"

text \<open>The status that the task of a ledger sends.\<close>

definition vault_execute_issue :: "'l vault_env \<Rightarrow> transaction_envelope \<Rightarrow> slot \<Rightarrow> 'l issue_world \<Rightarrow> slot_task_status \<times> 'l issue_world" where
  "vault_execute_issue ve tx_env slot w = (case vault_get_proof ve slot (iw_vault w) of
     (Inl _, v) \<Rightarrow> (TaskRecoverableError, w\<lparr>iw_vault := v\<rparr>)
   | (Inr proof, v) \<Rightarrow>
       (case ve_encode_proof ve proof of (envelopes, tx_set) \<Rightarrow>
        let w1 = w\<lparr>iw_vault := v\<rparr>;
          issue_id_memo = (case get_text_memo_from_tx_env tx_env of
              Some text_memo \<Rightarrow> map_option (\<lambda>issue_id. (issue_id, text_memo)) (iw_memos w text_memo)
            | None \<Rightarrow> None)
        in case issue_id_memo of
             Some (issue_id, text_memo) \<Rightarrow>
               (case client_execute_issue (ve_client ve) issue_id (ve_encode_envelope ve tx_env) envelopes tx_set (vw_parachain v) of
                  (Inr _, p) \<Rightarrow>
                    (TaskSuccess, w1\<lparr>iw_vault := v\<lparr>vw_parachain := p\<rparr>, iw_issues := (iw_issues w)(issue_id := None),
                       iw_memos := (iw_memos w)(text_memo := None)\<rparr>)
                | (Inl err, p) \<Rightarrow>
                    (if is_issue_completed err then TaskSuccess else TaskFailed (ExecutionFailed err),
                     w1\<lparr>iw_vault := v\<lparr>vw_parachain := p\<rparr>\<rparr>))
           | None \<Rightarrow> (TaskFailed (IssueMemoNotFound slot), w1)))"

definition tell_task :: "slot \<Rightarrow> slot_task_status oneshot \<Rightarrow> 'l issue_world \<Rightarrow> 'l issue_world" where
  "tell_task slot message w =
     w\<lparr>iw_processed := (iw_processed w)(slot := map_option (st_task_execution_receiver_update (\<lambda>_. message)) (iw_processed w slot)),
       iw_running := (iw_running w)(slot := None)\<rparr>"

definition run_issue_task :: "'l vault_env \<Rightarrow> slot \<Rightarrow> 'l issue_world \<Rightarrow> 'l issue_world" where
  "run_issue_task ve slot w = (case iw_running w slot of
     None \<Rightarrow> w
   | Some tx_env \<Rightarrow> (case vault_execute_issue ve tx_env slot w of (status, w1) \<Rightarrow> tell_task slot (ChannelHolds status) w1))"

text \<open>A task that panics drops its sender.\<close>

definition lose_issue_task :: "slot \<Rightarrow> 'l issue_world \<Rightarrow> 'l issue_world" where
  "lose_issue_task slot w = (if iw_running w slot = None then w else tell_task slot ChannelClosed w)"

section \<open>The run of a vault\<close>

text \<open>
  The tasks of the vault run concurrently; each access to the maps they share is under a lock.  A
  task between two of its accesses is a step of its own, and a task that executes an issue request
  is one step from its proof to its status.
\<close>

inductive issue_step :: "'l vault_env \<Rightarrow> 'l issue_world \<Rightarrow> 'l issue_world \<Rightarrow> bool" for ve where
  step_initialize: "issue_step ve w (snd (initialize_issue_set ve w))"
| step_request: "issue_step ve w (snd (on_request_issue ve j key w))"
| step_cancelled: "issue_step ve w (snd (on_cancel_issue ve j w))"
| step_executed: "issue_step ve w (snd (on_execute_issue ve j w))"
| step_fetch: "issue_step ve w (snd (fetch_payments ve answer pages cursor w))"
| step_spawn: "set slots \<subseteq> dom (iw_ledger w) \<Longrightarrow> issue_step ve w (spawn_tasks slots w)"
| step_run: "issue_step ve w (run_issue_task ve slot w)"
| step_lose: "issue_step ve w (lose_issue_task slot w)"
| step_cleanup: "issue_step ve w (cleanup_ledger_env_map w)"
| step_chain: "issue_step ve w (w\<lparr>iw_vault := v\<rparr>)"

inductive issues_reachable :: "'l vault_env \<Rightarrow> 'l vault_world \<Rightarrow> 'l issue_world \<Rightarrow> bool" for ve v where
  reach_start: "issues_reachable ve v \<lparr>iw_vault = v, iw_issues = Map.empty, iw_memos = Map.empty, iw_ledger = Map.empty,
     iw_processed = Map.empty, iw_running = Map.empty, iw_events = []\<rparr>"
| reach_step: "issues_reachable ve v w \<Longrightarrow> issue_step ve w w' \<Longrightarrow> issues_reachable ve v w'"

section \<open>One task per payment\<close>

lemma update_status_cases:
  assumes "update_status task = (status, task')"
  shows "is_final (st_latest_status task) \<and> status = st_latest_status task \<and> task' = task \<or>
    \<not> is_final (st_latest_status task) \<and> (case st_task_execution_receiver task of
       ChannelEmpty \<Rightarrow> status = TaskReady \<and> task' = task\<lparr>st_latest_status := TaskReady\<rparr>
     | ChannelHolds s \<Rightarrow> status = (if s = TaskReady then st_latest_status task else s) \<and>
         task' = task\<lparr>st_task_execution_receiver := ChannelClosed, st_latest_status := status\<rparr>
     | ChannelClosed \<Rightarrow> status = TaskRecoverableError \<and> task' = task\<lparr>st_latest_status := TaskRecoverableError\<rparr>)"
  using assms by (cases "st_task_execution_receiver task")
    (auto simp: update_status_def Let_def split: if_splits slot_task_status.splits)

text \<open>A status that is final stays, and only a task whose sender is gone gets a new one.\<close>

lemma final_status_stays: "is_final (st_latest_status task) \<Longrightarrow> update_status task = (st_latest_status task, task)"
  by (simp add: update_status_def)

definition awaited_task :: "slot_task \<Rightarrow> bool" where
  "awaited_task task \<longleftrightarrow> st_task_execution_receiver task = ChannelEmpty \<and> \<not> is_final (st_latest_status task)"

definition reported_task :: "slot_task \<Rightarrow> bool" where
  "reported_task task \<longleftrightarrow> (case st_task_execution_receiver task of
     ChannelEmpty \<Rightarrow> False | ChannelHolds s \<Rightarrow> s \<noteq> TaskReady \<and> \<not> is_final (st_latest_status task)
   | ChannelClosed \<Rightarrow> True)"

lemma awaited_updates: "awaited_task task \<Longrightarrow> update_status task = (TaskReady, task\<lparr>st_latest_status := TaskReady\<rparr>)"
  by (auto simp: update_status_def awaited_task_def Let_def)

lemma recover_awaited: "awaited_task task \<Longrightarrow> recover_with_new_sender task = (False, task\<lparr>st_latest_status := TaskReady\<rparr>)"
  by (simp add: recover_with_new_sender_def awaited_updates)

lemma recover_reported:
  assumes "reported_task task"
  shows "(\<exists>t. recover_with_new_sender task = (True, t) \<and> awaited_task t \<and> fst (update_status task) = TaskRecoverableError) \<or>
    (\<exists>t. recover_with_new_sender task = (False, t) \<and> reported_task t \<and> is_final (st_latest_status t) \<and>
       st_latest_status t = fst (update_status task))"
proof -
  obtain s t where u: "update_status task = (s, t)" by fastforce
  from update_status_cases [OF u] assms show ?thesis
    by (cases s; cases "st_task_execution_receiver task")
      (auto simp: recover_with_new_sender_def u set_receiver_def reported_task_def awaited_task_def split: if_splits)
qed

text \<open>
  The lookup of memos leads to the issue request with that memo.  A payment whose task is running is
  still kept and waits for the task; every other task has sent its status or is gone.
\<close>

definition lookup_ok :: "'l vault_env \<Rightarrow> 'l issue_world \<Rightarrow> bool" where
  "lookup_ok ve w \<longleftrightarrow> (\<forall>m j. iw_memos w m = Some j \<longrightarrow> iw_issues w j \<noteq> None \<and> issue_memo ve j = Inr m)"

fun task_ok :: "'e option \<Rightarrow> slot_task option \<Rightarrow> 'r option \<Rightarrow> bool" where
  "task_ok payment None running \<longleftrightarrow> running = None"
| "task_ok payment (Some task) None \<longleftrightarrow> payment \<noteq> None \<and> reported_task task"
| "task_ok payment (Some task) (Some _) \<longleftrightarrow> payment \<noteq> None \<and> awaited_task task"

definition tasks_ok :: "'l issue_world \<Rightarrow> bool" where
  "tasks_ok w \<longleftrightarrow> (\<forall>slot. task_ok (iw_ledger w slot) (iw_processed w slot) (iw_running w slot))"

definition keepsM :: "('s \<Rightarrow> bool) \<Rightarrow> ('s, 'e, 'a) op \<Rightarrow> bool" where
  "keepsM P m \<longleftrightarrow> (\<forall>s. P s \<longrightarrow> P (snd (m s)))"

lemma keepsM_bind: "keepsM P m \<Longrightarrow> (\<And>x. keepsM P (f x)) \<Longrightarrow> keepsM P (bindM m f)"
  unfolding keepsM_def
proof (intro allI impI)
  fix s
  assume m: "\<forall>s. P s \<longrightarrow> P (snd (m s))" and f: "\<And>x. \<forall>s. P s \<longrightarrow> P (snd (f x s))" and "P s"
  obtain r t where t: "m s = (r, t)" by fastforce
  then have "P t" using m \<open>P s\<close> by (metis snd_conv)
  then show "P (snd (bindM m f s))" using t f by (cases r) (simp_all add: bindM_def)
qed

lemma keepsM_modify: "(\<And>s. P s \<Longrightarrow> P (f s)) \<Longrightarrow> keepsM P (modifyM f)"
  by (simp add: keepsM_def modifyM_def)

lemma keepsM_for: "(\<And>x. keepsM P (f x)) \<Longrightarrow> keepsM P (forM xs f)"
  by (induction xs) (simp_all add: keepsM_bind, simp add: keepsM_def retM_def)

lemma keepsM_attempt: "keepsM P m \<Longrightarrow> keepsM P (attemptM m)"
  unfolding keepsM_def attemptM_def by (metis (mono_tags, lifting) case_prod_beta snd_conv)

lemma keepsM_ret: "keepsM P (retM x)"
  by (simp add: keepsM_def retM_def)

lemma keepsM_asks: "keepsM (lookup_ok ve) (ask_parachain m)"
  by (simp add: keepsM_def ask_parachain_def lookup_ok_def split: prod.split)

lemma insert_issue_lookup: "keepsM (lookup_ok ve) (insert_issue ve entry)"
proof (cases entry)
  case (Pair j r)
  then show ?thesis
    by (auto simp: keepsM_def insert_issue_def lookup_ok_def bindM_def modifyM_def liftM_def split: sum.split)
qed

lemma remove_issue_lookup: "keepsM (lookup_ok ve) (remove_issue ve j)"
proof (cases "issue_memo ve j")
  case (Inl e)
  then show ?thesis by (auto simp: keepsM_def remove_issue_def lookup_ok_def bindM_def modifyM_def liftM_def)
next
  case (Inr m)
  then show ?thesis by (auto simp: keepsM_def remove_issue_def lookup_ok_def bindM_def modifyM_def liftM_def)
qed

lemma handlers_lookup:
  "keepsM (lookup_ok ve) (initialize_issue_set ve)" "keepsM (lookup_ok ve) (on_request_issue ve j key)"
  "keepsM (lookup_ok ve) (on_cancel_issue ve j)" "keepsM (lookup_ok ve) (on_execute_issue ve j)"
     apply (simp add: initialize_issue_set_def keepsM_bind keepsM_asks keepsM_for insert_issue_lookup)
    apply (auto simp: on_request_issue_def intro!: keepsM_bind keepsM_attempt keepsM_asks keepsM_modify keepsM_ret insert_issue_lookup
      split: sum.split)[1]
    apply (simp add: lookup_ok_def)
   apply (simp_all add: on_cancel_issue_def on_execute_issue_def remove_issue_lookup)
  done

definition task_view :: "'l issue_world \<Rightarrow> ledger_tx_env_map \<times> (slot \<rightharpoonup> slot_task) \<times> (slot \<rightharpoonup> transaction_envelope)" where
  "task_view w = (iw_ledger w, iw_processed w, iw_running w)"

lemma tasks_ok_view: "task_view w = task_view w' \<Longrightarrow> tasks_ok w = tasks_ok w'"
  by (simp add: task_view_def tasks_ok_def)

lemma handlers_tasks:
  "frameM task_view (initialize_issue_set ve)" "frameM task_view (on_request_issue ve j key)"
  "frameM task_view (on_cancel_issue ve j)" "frameM task_view (on_execute_issue ve j)"
proof -
  have ask: "frameM task_view (ask_parachain m)" for m :: "('a parachain, client_error, 'b) op"
    by (simp add: frameM_def ask_parachain_def task_view_def split: prod.split)
  have ins: "frameM task_view (insert_issue ve x)" for x
    by (cases x) (auto simp: insert_issue_def task_view_def intro!: frame_intro)
  have rem: "frameM task_view (remove_issue ve j)"
    by (auto simp: remove_issue_def task_view_def intro!: frame_intro)
  show "frameM task_view (initialize_issue_set ve)" "frameM task_view (on_request_issue ve j key)"
    "frameM task_view (on_cancel_issue ve j)" "frameM task_view (on_execute_issue ve j)"
    unfolding initialize_issue_set_def on_request_issue_def on_cancel_issue_def on_execute_issue_def
    by (intro frame_intro ask ins rem; simp add: task_view_def)+
qed

lemma tasks_okD: "tasks_ok w \<Longrightarrow> task_ok (iw_ledger w slot) (iw_processed w slot) (iw_running w slot)"
  by (simp add: tasks_ok_def)

lemma awaited_ready: "awaited_task task \<Longrightarrow> awaited_task (task\<lparr>st_latest_status := TaskReady\<rparr>)"
  by (simp add: awaited_task_def)

text \<open>A payment is served if its task runs or has ended for good.\<close>

definition served :: "'l issue_world \<Rightarrow> slot \<Rightarrow> bool" where
  "served w slot \<longleftrightarrow> iw_running w slot \<noteq> None \<or>
     (\<exists>task. iw_processed w slot = Some task \<and> is_final (st_latest_status task))"

lemma running_not_spawned:
  assumes "tasks_ok w" and "iw_running w slot = Some env"
  shows "\<exists>task. iw_processed w slot = Some task \<and> create_task_status_sender slot (iw_processed w) =
    (False, (iw_processed w)(slot \<mapsto> task\<lparr>st_latest_status := TaskReady\<rparr>)) \<and> awaited_task task \<and> iw_ledger w slot \<noteq> None"
  using tasks_okD [OF assms(1), of slot] assms(2)
  by (cases "iw_processed w slot") (simp_all add: create_task_status_sender_def recover_awaited)

lemma spawn_task_ok:
  assumes "tasks_ok w" and "iw_ledger w slot \<noteq> None"
  shows "tasks_ok (spawn_task slot w) \<and> served (spawn_task slot w) slot \<and> (\<forall>x. served w x \<longrightarrow> served (spawn_task slot w) x) \<and>
    iw_ledger (spawn_task slot w) = iw_ledger w"
proof (cases "iw_running w slot")
  case (Some env)
  then obtain task where "iw_processed w slot = Some task" "spawn_task slot w =
      w\<lparr>iw_processed := (iw_processed w)(slot \<mapsto> task\<lparr>st_latest_status := TaskReady\<rparr>)\<rparr>" "awaited_task task"
    using running_not_spawned [OF assms(1)] by (fastforce simp: spawn_task_def)
  then show ?thesis using Some assms by (auto simp: tasks_ok_def served_def awaited_ready)
next
  case None
  show ?thesis
  proof (cases "iw_processed w slot")
    case None
    then show ?thesis
      using assms by (auto simp: spawn_task_def create_task_status_sender_def tasks_ok_def served_def slot_task_new_def awaited_task_def)
  next
    case (Some task)
    then have rep: "reported_task task" using tasks_okD [OF assms(1), of slot] None by simp
    from recover_reported [OF rep] show ?thesis
    proof (elim disjE exE conjE)
      fix t assume "recover_with_new_sender task = (True, t)" "awaited_task t"
      then show ?thesis using Some None assms
        by (auto simp: spawn_task_def create_task_status_sender_def tasks_ok_def served_def)
    next
      fix t assume "recover_with_new_sender task = (False, t)" "reported_task t" "is_final (st_latest_status t)"
      then show ?thesis using Some None assms
        by (auto simp: spawn_task_def create_task_status_sender_def tasks_ok_def served_def)
    qed
  qed
qed

lemma spawn_tasks_ok:
  assumes "tasks_ok w" and "set slots \<subseteq> dom (iw_ledger w)"
  shows "tasks_ok (spawn_tasks slots w) \<and> (\<forall>x. x \<in> set slots \<or> served w x \<longrightarrow> served (spawn_tasks slots w) x)"
  using assms
proof (induction slots arbitrary: w)
  case (Cons slot slots)
  then have one: "tasks_ok (spawn_task slot w)" "served (spawn_task slot w) slot"
    "\<forall>x. served w x \<longrightarrow> served (spawn_task slot w) x" "iw_ledger (spawn_task slot w) = iw_ledger w"
    using spawn_task_ok [of w slot] by auto
  then show ?case using Cons.IH [of "spawn_task slot w"] Cons.prems(2) by auto
qed simp

lemma cleanup_slot:
  "iw_processed (cleanup_ledger_env_map w) slot = (case iw_processed w slot of None \<Rightarrow> None
     | Some task \<Rightarrow> if is_final (fst (update_status task)) then None else Some (snd (update_status task)))"
  "iw_ledger (cleanup_ledger_env_map w) slot = (case iw_processed w slot of None \<Rightarrow> iw_ledger w slot
     | Some task \<Rightarrow> if is_final (fst (update_status task)) then None else iw_ledger w slot)"
  "iw_running (cleanup_ledger_env_map w) = iw_running w"
  by (simp_all add: cleanup_ledger_env_map_def Let_def split: option.split prod.split)

lemma reported_updates: "reported_task task \<Longrightarrow> is_final (fst (update_status task)) \<or> reported_task (snd (update_status task))"
  using update_status_cases [of task "fst (update_status task)" "snd (update_status task)"]
  by (auto simp: reported_task_def split: oneshot.splits)

lemma cleanup_ok:
  assumes "tasks_ok w"
  shows "tasks_ok (cleanup_ledger_env_map w)"
  unfolding tasks_ok_def
proof
  fix slot
  show "task_ok (iw_ledger (cleanup_ledger_env_map w) slot) (iw_processed (cleanup_ledger_env_map w) slot)
      (iw_running (cleanup_ledger_env_map w) slot)"
  proof (cases "iw_processed w slot")
    case (Some task)
    then show ?thesis
      using tasks_okD [OF assms, of slot] reported_updates [of task]
      by (cases "iw_running w slot") (auto simp: cleanup_slot awaited_updates awaited_ready)
  qed (insert tasks_okD [OF assms, of slot], simp add: cleanup_slot)
qed

lemma tell_ok:
  assumes "tasks_ok w" and "iw_running w slot = Some env" and "message \<noteq> ChannelEmpty" and "message \<noteq> ChannelHolds TaskReady"
  shows "tasks_ok (tell_task slot message w)"
proof -
  obtain task where "iw_processed w slot = Some task" "awaited_task task" "iw_ledger w slot \<noteq> None"
    using running_not_spawned [OF assms(1,2)] by blast
  moreover from this have "reported_task (task\<lparr>st_task_execution_receiver := message\<rparr>)"
    using assms(3,4) by (auto simp: reported_task_def awaited_task_def split: oneshot.split)
  ultimately show ?thesis using assms(1) by (auto simp: tasks_ok_def tell_task_def)
qed

lemma execute_issue_cases:
  assumes "vault_execute_issue ve env slot w = (status, w')"
  obtains (unproved) v where "status = TaskRecoverableError" and "w' = w\<lparr>iw_vault := v\<rparr>"
  | (unknown) v where "status = TaskFailed (IssueMemoNotFound slot)" and "w' = w\<lparr>iw_vault := v\<rparr>"
  | (failed) v j m pf b1 b2 e p where "get_text_memo_from_tx_env env = Some m" and "iw_memos w m = Some j"
      and "vault_get_proof ve slot (iw_vault w) = (Inr pf, v)" and "ve_encode_proof ve pf = (b1, b2)"
      and "client_execute_issue (ve_client ve) j (ve_encode_envelope ve env) b1 b2 (vw_parachain v) = (Inl e, p)"
      and "status = (if is_issue_completed e then TaskSuccess else TaskFailed (ExecutionFailed e))"
      and "w' = w\<lparr>iw_vault := v\<lparr>vw_parachain := p\<rparr>\<rparr>"
  | (executed) v j m b1 b2 p where "get_text_memo_from_tx_env env = Some m" and "iw_memos w m = Some j"
      and "client_execute_issue (ve_client ve) j (ve_encode_envelope ve env) b1 b2 (vw_parachain v) = (Inr (), p)"
      and "status = TaskSuccess" and "w' = w\<lparr>iw_vault := v\<lparr>vw_parachain := p\<rparr>, iw_issues := (iw_issues w)(j := None),
        iw_memos := (iw_memos w)(m := None)\<rparr>"
proof -
  obtain r v where v: "vault_get_proof ve slot (iw_vault w) = (r, v)" by fastforce
  show ?thesis
  proof (cases r)
    case (Inl e)
    then show ?thesis using assms v unproved by (auto simp: vault_execute_issue_def)
  next
    case (Inr pf)
    obtain b1 b2 where b: "ve_encode_proof ve pf = (b1, b2)" by fastforce
    note run = assms [unfolded vault_execute_issue_def v Inr prod.case sum.case b Let_def]
    show ?thesis
    proof (cases "\<exists>m j. get_text_memo_from_tx_env env = Some m \<and> iw_memos w m = Some j")
      case True
      then obtain m j where mj: "get_text_memo_from_tx_env env = Some m" "iw_memos w m = Some j" by blast
      obtain q p where q: "client_execute_issue (ve_client ve) j (ve_encode_envelope ve env) b1 b2 (vw_parachain v) = (q, p)"
        by fastforce
      show ?thesis
      proof (cases q)
        case (Inl e)
        show ?thesis by (rule failed [OF mj v [unfolded Inr] b q [unfolded Inl]]) (use run mj q Inl in auto)
      next
        case (Inr u)
        then have "q = Inr ()" by simp
        then show ?thesis by (intro executed [OF mj]) (use run mj q in auto)
      qed
    next
      case False
      then have "status = TaskFailed (IssueMemoNotFound slot) \<and> w' = w\<lparr>iw_vault := v\<rparr>"
        using run by (auto split: option.splits)
      then show ?thesis using unknown by blast
    qed
  qed
qed

lemma lookup_view: "iw_issues w = iw_issues w' \<Longrightarrow> iw_memos w = iw_memos w' \<Longrightarrow> lookup_ok ve w = lookup_ok ve w'"
  by (simp add: lookup_ok_def)

lemma lookup_updates [simp]:
  "lookup_ok ve (tell_task slot message w) = lookup_ok ve w" "lookup_ok ve (cleanup_ledger_env_map w) = lookup_ok ve w"
  "lookup_ok ve (spawn_task slot w) = lookup_ok ve w" "lookup_ok ve (w\<lparr>iw_ledger := m\<rparr>) = lookup_ok ve w"
  by (rule lookup_view; simp add: tell_task_def cleanup_ledger_env_map_def spawn_task_def Let_def split: prod.split bool.split)+

lemma vault_views [simp]:
  "lookup_ok ve (w\<lparr>iw_vault := v\<rparr>) = lookup_ok ve w" "task_view (w\<lparr>iw_vault := v\<rparr>) = task_view w"
  "task_view (w\<lparr>iw_issues := i\<rparr>) = task_view w" "task_view (w\<lparr>iw_memos := m\<rparr>) = task_view w"
  by (simp_all add: lookup_ok_def task_view_def)

lemma forget_lookup:
  assumes "lookup_ok ve w" and "iw_memos w m = Some j"
  shows "lookup_ok ve (w\<lparr>iw_issues := (iw_issues w)(j := None), iw_memos := (iw_memos w)(m := None)\<rparr>)"
proof -
  have "k = m" if "iw_memos w k = Some j" for k
    using assms that unfolding lookup_ok_def by (metis Inr_inject)
  then show ?thesis using assms(1) by (simp add: lookup_ok_def) blast
qed

lemma execute_issue_effect:
  assumes "vault_execute_issue ve env slot w = (status, w')"
  shows "status \<noteq> TaskReady \<and> task_view w' = task_view w \<and> (lookup_ok ve w \<longrightarrow> lookup_ok ve w')"
  using assms
proof (cases rule: execute_issue_cases)
  case (executed v j m b1 b2 p)
  then show ?thesis using forget_lookup [of ve "w\<lparr>iw_vault := v\<lparr>vw_parachain := p\<rparr>\<rparr>" m j] by simp
qed simp_all

lemma run_issue_task_ok:
  assumes "tasks_ok w" and "lookup_ok ve w"
  shows "tasks_ok (run_issue_task ve slot w) \<and> lookup_ok ve (run_issue_task ve slot w)"
proof (cases "iw_running w slot")
  case (Some env)
  obtain status w1 where w1: "vault_execute_issue ve env slot w = (status, w1)" by fastforce
  note eff = execute_issue_effect [OF w1]
  have "tasks_ok w1" using tasks_ok_view eff assms(1) by blast
  moreover have "iw_running w1 slot = Some env" using eff Some by (simp add: task_view_def)
  ultimately have "tasks_ok (tell_task slot (ChannelHolds status) w1)" using tell_ok eff by blast
  moreover have "lookup_ok ve (tell_task slot (ChannelHolds status) w1)"
    using eff assms(2) by simp
  ultimately show ?thesis using Some w1 by (simp add: run_issue_task_def)
qed (simp add: run_issue_task_def assms)

lemma lose_issue_task_ok:
  "tasks_ok w \<Longrightarrow> tasks_ok (lose_issue_task slot w)" "lookup_ok ve w \<Longrightarrow> lookup_ok ve (lose_issue_task slot w)"
  using tell_ok [of w slot _ ChannelClosed] by (auto simp: lose_issue_task_def)

lemma saved_stays: "m slot \<noteq> None \<Longrightarrow> foldl (save_relevant relevant) m txs slot \<noteq> None"
proof (induction txs arbitrary: m)
  case (Cons tx txs)
  then show ?case by (auto simp: save_relevant_def split: option.splits)
qed simp

lemma fetch_payments_ok:
  assumes "tasks_ok w" and "lookup_ok ve w"
  shows "tasks_ok (snd (fetch_payments ve answer pages cursor w)) \<and> lookup_ok ve (snd (fetch_payments ve answer pages cursor w))"
proof -
  have "\<exists>m. snd (fetch_payments ve answer pages cursor w) = w\<lparr>iw_ledger := m\<rparr> \<and> (\<forall>slot. iw_ledger w slot \<noteq> None \<longrightarrow> m slot \<noteq> None)"
  proof (cases "(\<exists>e. answer = Inl e) \<or> iw_issues w = Map.empty \<or> iw_memos w = Map.empty")
    case True
    then show ?thesis
      by (intro exI [of _ "iw_ledger w"]) (auto simp: fetch_payments_def fetch_horizon_and_process_new_transactions_def)
  next
    case False
    then obtain records where "answer = Inr records" by (cases answer) auto
    then have "\<exists>txs. snd (fetch_payments ve answer pages cursor w) = w\<lparr>iw_ledger := foldl (save_relevant
        (is_relevant (wl_public_key (ve_wallet ve)) (iw_issues w) (iw_memos w))) (iw_ledger w) txs\<rparr>"
      using False by (auto simp: fetch_payments_def fetch_horizon_and_process_new_transactions_def process_transactions_all)
    then show ?thesis using saved_stays by metis
  qed
  then obtain m where m: "snd (fetch_payments ve answer pages cursor w) = w\<lparr>iw_ledger := m\<rparr>"
    "\<forall>slot. iw_ledger w slot \<noteq> None \<longrightarrow> m slot \<noteq> None" by blast
  have "task_ok (m slot) (iw_processed w slot) (iw_running w slot)" for slot
    using tasks_okD [OF assms(1), of slot] m(2)
    by (cases "iw_processed w slot"; cases "iw_running w slot") auto
  then show ?thesis using m(1) assms(2) by (simp add: tasks_ok_def)
qed

lemma spawn_lookup: "lookup_ok ve (spawn_tasks slots w) = lookup_ok ve w"
  by (induction slots arbitrary: w) simp_all

lemma issue_step_ok:
  assumes "issue_step ve w w'" and "tasks_ok w" and "lookup_ok ve w"
  shows "tasks_ok w' \<and> lookup_ok ve w'"
proof -
  have handler: "tasks_ok (snd (m w)) \<and> lookup_ok ve (snd (m w))"
    if "frameM task_view m" "keepsM (lookup_ok ve) m" for m :: "('a, unit) issue_op"
    using that assms(2,3) tasks_ok_view [of "snd (m w)" w] by (simp add: frameM_def keepsM_def)
  from assms(1) show ?thesis
  proof cases
    case (step_spawn slots)
    then show ?thesis using spawn_tasks_ok [OF assms(2)] assms(3) by (simp add: spawn_lookup)
  next
    case step_cleanup
    then show ?thesis using cleanup_ok [OF assms(2)] assms(3) by simp
  next
    case (step_chain v)
    then show ?thesis using assms(2,3) by (simp add: tasks_ok_def)
  qed (simp_all add: handler handlers_lookup handlers_tasks fetch_payments_ok run_issue_task_ok lose_issue_task_ok assms(2,3))
qed

lemma reachable_ok: "issues_reachable ve v w \<Longrightarrow> tasks_ok w \<and> lookup_ok ve w"
proof (induction rule: issues_reachable.induct)
  case reach_start
  then show ?case by (simp add: tasks_ok_def lookup_ok_def)
next
  case (reach_step w w')
  then show ?case using issue_step_ok by blast
qed


section \<open>Executed on the chain\<close>

definition issue_completed_on :: "request_id \<Rightarrow> 'l chain \<Rightarrow> bool" where
  "issue_completed_on j s \<longleftrightarrow> (\<exists>r. is_requests (ch_issue s) j = Some r \<and> ir_status r = IssueStatusCompleted)"

definition issue_keys :: "'l chain \<Rightarrow> request_id set" where
  "issue_keys s = dom (is_requests (ch_issue s))"

interpretation of_issue_keys: issue_view issue_keys
  by unfold_locales (simp_all add: issue_keys_def dom_mutation del: dom_fun_upd)

lemma keeps_issue_keys: "frameM issue_keys m \<Longrightarrow> keepsOkM (\<lambda>s. j \<in> issue_keys s) m"
  by (erule keeps_frame) simp

lemma triple_issue_completed:
  "tripleM (\<lambda>s. j \<in> issue_keys s)
     (bindM (set_issue_status j IssueStatusCompleted) (\<lambda>_. issue_deposit_event e)) (\<lambda>_. issue_completed_on j)"
  by (auto simp: tripleM_def set_issue_status_def mutate_issue_request_def issue_deposit_event_def issue_completed_on_def
      issue_keys_def ok_iff)

lemma executable_issue_exists: "get_executable_issue_request_from_id j s = Inr r \<Longrightarrow> j \<in> issue_keys s"
  by (auto simp: issue_keys_def get_executable_issue_request_from_id_def get_issue_request_def result_defs split: option.splits)

lemma triple_execute_issue: "tripleM (\<lambda>_. True) (execute_issue c ori j b1 b2 b3) (\<lambda>_. issue_completed_on j)"
  unfolding execute_issue_def execute_issue_internal_def Let_def
  apply (rule triple_transactional, rule triple_lift, rule triple_query)
  apply (rule triple_pre [where P' = "\<lambda>s. j \<in> issue_keys s"])
   apply (use executable_issue_exists in blast)
  apply (rule triple_queryM, rule triple_lift)
  apply (rule triple_then, rule keeps_issue_keys, intro frame_intro)
  apply (rule triple_lift)
  apply (rule triple_issue_completed | rule triple_then, rule keeps_issue_keys, intro frame_intro)+
  done

lemma execute_issue_call_completes:
  assumes "apply_extrinsic c i ori (IssueCall (call_execute_issue j b1 b2 b3)) s = (Inr (), t)"
  shows "issue_completed_on j t"
  using tripleD [OF triple_execute_issue [of c ori j b1 b2 b3], where s = "ch_env_update (env_extrinsic_index_update (\<lambda>_. Some i)) s"]
    assms by (simp add: apply_extrinsic_def dispatch_def dispatch_issue_def bindM_def modifyM_def)

lemma client_execute_issue_ok:
  assumes "client_execute_issue cl j b1 b2 b3 s = (Inr (), t)"
  shows "issue_completed_on j (pc_chain t)"
proof -
  from assms obtain x where "with_retry cl (IssueCall (call_execute_issue j b1 b2 b3)) s = (Inr x, t)"
    by (auto simp: client_execute_issue_def send_call_def ok_iff)
  from with_retry_ok [OF this] show ?thesis using execute_issue_call_completes by blast
qed

text \<open>
  C11: when the task of a payment reports success in a state that the vault reaches, the memo of the payment
  belongs to an issue request that the vault kept, and either the request is completed on the chain now and
  the vault has forgotten it, or the chain has answered that it was completed before.
\<close>

theorem reported_issue_completed:
  assumes "issues_reachable ve v w" and "vault_execute_issue ve env slot w = (TaskSuccess, w')"
  shows "\<exists>j m. get_text_memo_from_tx_env env = Some m \<and> issue_memo ve j = Inr m \<and> iw_issues w j \<noteq> None \<and>
    (issue_completed_on j (pc_chain (vw_parachain (iw_vault w'))) \<and> iw_issues w' j = None \<and> iw_memos w' m = None \<or>
     (\<exists>pf u. vault_get_proof ve slot (iw_vault w) = (Inr pf, u) \<and>
        client_execute_issue (ve_client ve) j (ve_encode_envelope ve env) (fst (ve_encode_proof ve pf)) (snd (ve_encode_proof ve pf))
          (vw_parachain u) = (Inl (RtSubxt (SubxtRuntime (IssueErr IssueCompleted))), vw_parachain (iw_vault w'))))"
proof -
  have known: "iw_issues w j \<noteq> None \<and> issue_memo ve j = Inr m" if "iw_memos w m = Some j" for m j
    using reachable_ok [OF assms(1)] that by (simp add: lookup_ok_def)
  from assms(2) show ?thesis
  proof (cases rule: execute_issue_cases)
    case (failed v j m pf b1 b2 e p)
    then have "e = RtSubxt (SubxtRuntime (IssueErr IssueCompleted))" by (simp add: is_issue_completed_def split: if_splits)
    then show ?thesis using known [OF failed(2)] failed by (intro exI [of _ j] exI [of _ m]) simp
  next
    case (executed v j m b1 b2 p)
    then show ?thesis using known [OF executed(2)] client_execute_issue_ok [OF executed(3)] by (intro exI [of _ j] exI [of _ m]) simp
  qed simp_all
qed

text \<open>
  An execution that fails for another reason, as when the connection is lost, ends the task: the payment is
  dropped at the next cleanup and the vault does not try it again.
\<close>

lemma failed_execution_drops_payment:
  assumes "tasks_ok w" and "iw_running w slot = Some env" and "vault_execute_issue ve env slot w = (TaskFailed failure, w1)"
  shows "iw_ledger (cleanup_ledger_env_map (run_issue_task ve slot w)) slot = None \<and>
    iw_processed (cleanup_ledger_env_map (run_issue_task ve slot w)) slot = None"
proof -
  obtain task where task: "iw_processed w slot = Some task" "awaited_task task"
    using running_not_spawned [OF assms(1,2)] by blast
  have "iw_processed w1 slot = Some task" using execute_issue_effect [OF assms(3)] task(1) by (simp add: task_view_def)
  then have "iw_processed (run_issue_task ve slot w) slot = Some (task\<lparr>st_task_execution_receiver := ChannelHolds (TaskFailed failure)\<rparr>)"
    using assms(2,3) by (simp add: run_issue_task_def tell_task_def)
  then show ?thesis using task(2) by (simp add: cleanup_slot update_status_def awaited_task_def Let_def)
qed

section \<open>A sample run\<close>

text \<open>The vault hears of an issue request, sees its payment in ledger 7 and starts a task for it.\<close>

definition issuing_env :: "ledger vault_env" where
  "issuing_env = served_env\<lparr>ve_wallet := sample_wallet\<lparr>wl_public_key := [5], wl_to_base58 := (\<lambda>bs. bs)\<rparr>\<rparr>"

definition issue_payment :: tx_response where
  "issue_payment = (own_payment 1 7)\<lparr>tr_ledger := 7, tr_memo := Some (replicate 28 7), tr_envelope := Some sample_payment\<rparr>"

definition issuing_start :: "ledger issue_world" where
  "issuing_start = \<lparr>iw_vault = served_world, iw_issues = Map.empty, iw_memos = Map.empty, iw_ledger = Map.empty,
     iw_processed = Map.empty, iw_running = Map.empty, iw_events = []\<rparr>"

definition issuing_fetched :: "ledger issue_world" where
  "issuing_fetched = snd (fetch_payments issuing_env (Inr [issue_payment]) [] 0
     (snd (on_request_issue issuing_env paid_id [5] issuing_start)))"

definition issuing_world :: "ledger issue_world" where
  "issuing_world = spawn_tasks [7] issuing_fetched"

lemma issuing_fetched_is:
  "issuing_fetched = \<lparr>iw_vault = served_world, iw_issues = [paid_id \<mapsto> sample_issue], iw_memos = [replicate 28 7 \<mapsto> paid_id],
     iw_ledger = [7 \<mapsto> sample_payment], iw_processed = Map.empty, iw_running = Map.empty, iw_events = [Opened]\<rparr>"
proof -
  have "issue_memo issuing_env paid_id = Inr (replicate 28 7)"
    by (simp add: issue_memo_def derive_shortened_request_id_def issuing_env_def paid_id_def)
  moreover have "served_world\<lparr>vw_parachain := vw_parachain served_world\<rparr> = served_world" by simp
  ultimately have requested: "snd (on_request_issue issuing_env paid_id [5] issuing_start) =
      issuing_start\<lparr>iw_issues := [paid_id \<mapsto> sample_issue], iw_memos := [replicate 28 7 \<mapsto> paid_id], iw_events := [Opened]\<rparr>"
    by (simp add: on_request_issue_def is_vault_def issuing_env_def ask_parachain_def on_parachain_def map_error_def
        client_get_issue_request_def query_finalized_or_error_def query_finalized_def get_latest_storage_def served_world_def
        sample_parachain_def insert_issue_def issuing_start_def bindM_def attemptM_def modifyM_def liftM_def retM_def ok_orM_def result_defs)
  have "is_relevant [5] [paid_id \<mapsto> sample_issue] [replicate 28 7 \<mapsto> paid_id] issue_payment"
    by (simp add: is_relevant_def response_memo_text_def TYPE_MEMOTEXT_def issue_payment_def own_payment_def sample_issue_def
        asset_lookup_def get_payment_amount_for_asset_to_def sample_payment_def payment_step_def balance_unlookup_def
        stellar_stroops_to_u128_def saturating_add_i64_def DECIMALS_CONVERSION_RATE_def CHAIN_DECIMALS_def STELLAR_DECIMALS_def Let_def)
  then show ?thesis
    unfolding issuing_fetched_def requested
    by (simp add: fetch_payments_def fetch_horizon_and_process_new_transactions_def process_transactions_all iter_all_def
        save_relevant_def issuing_env_def issuing_start_def) (simp add: issue_payment_def)
qed

lemma issuing_world_is:
  "issuing_world = issuing_fetched\<lparr>iw_processed := [7 \<mapsto> slot_task_new 7 ChannelEmpty], iw_running := [7 \<mapsto> sample_payment]\<rparr>"
  by (simp add: issuing_world_def spawn_task_def create_task_status_sender_def issuing_fetched_is)

lemma issuing_reachable: "issues_reachable issuing_env served_world issuing_world"
proof -
  have "issues_reachable issuing_env served_world issuing_start"
    unfolding issuing_start_def by (rule reach_start)
  then have "issues_reachable issuing_env served_world (snd (on_request_issue issuing_env paid_id [5] issuing_start))"
    by (rule reach_step) (rule step_request)
  then have "issues_reachable issuing_env served_world issuing_fetched"
    unfolding issuing_fetched_def by (rule reach_step) (rule step_fetch)
  then show ?thesis
    unfolding issuing_world_def by (rule reach_step) (rule step_spawn, simp add: issuing_fetched_is)
qed


lemma issuing_call:
  "fst (apply_extrinsic paid_config 3 (Signed 1) (IssueCall (call_execute_issue paid_id [] [] [9]))
     (chain_with (vault_entry (VaultActive True) 100000))) = Inr ()"
proof -
  let ?s = "chain_with (vault_entry (VaultActive True) 100000)"
  let ?t = "ch_env_update (env_extrinsic_index_update (\<lambda>_. Some 3)) ?s"
  have "issue_validate_stellar_transaction paid_config paid_id [] [] [9] ?t =
      issue_validate_stellar_transaction paid_config paid_id [] [] [9] ?s"
    by (simp add: issue_validate_stellar_transaction_def validate_on_chain_def)
  then show ?thesis
    by (simp add: apply_extrinsic_def dispatch_def dispatch_issue_def execute_issue_def execute_issue_internal_def paid_accepted
        get_executable_issue_request_from_id_def get_issue_request_def handle_issue_requests_def sample_issue_def sample_paid
        nothing_staked paid_run_defs)
qed

lemma issuing_executes: "fst (vault_execute_issue issuing_env sample_payment 7 issuing_world) = TaskSuccess"
proof -
  obtain p a where p: "get_proof sample_network 7 [sample_heard, []] sample_agent = (Inr p, a)"
    using sample_proof_found by (metis prod.collapse)
  let ?v = "served_world\<lparr>vw_agent := a, vw_heard := []\<rparr>"
  have v: "vault_get_proof issuing_env 7 served_world = (Inr p, ?v)"
    using p by (simp add: vault_get_proof_def map_error_def issuing_env_def served_env_def served_world_def del: get_proof.simps)
  obtain t where "apply_extrinsic paid_config 3 (Signed (Suc 0)) (IssueCall (call_execute_issue paid_id [] [] [9]))
      (chain_with (vault_entry (VaultActive True) 100000)) = (Inr (), t)"
    using issuing_call by (metis One_nat_def prod.collapse)
  then have "fst (client_execute_issue (ve_client issuing_env) paid_id [] [] [9] (vw_parachain ?v)) = Inr ()"
    by (simp add: issuing_env_def served_env_def served_world_def sample_parachain_def sample_client_def client_execute_issue_def
        send_call_def with_retry_def notify_retry.simps submit_once_def run_call_def verify_submission_def Let_def bindM_def retM_def)
  then obtain q where "client_execute_issue (ve_client issuing_env) paid_id [] [] [9] (vw_parachain ?v) = (Inr (), q)"
    by (metis prod.collapse)
  moreover have "ve_encode_proof issuing_env p = ([], [9])" "ve_encode_envelope issuing_env sample_payment = []"
    by (simp_all add: issuing_env_def served_env_def)
  moreover have "iw_vault issuing_world = served_world" "iw_memos issuing_world (replicate 28 7) = Some paid_id"
    by (simp_all add: issuing_world_is issuing_fetched_is)
  moreover have "get_text_memo_from_tx_env sample_payment = Some (replicate 28 7)" by (simp add: sample_payment_def)
  ultimately show ?thesis using v by (simp add: vault_execute_issue_def Let_def)
qed

theorem reported_issue_completed_witness:
  "\<exists>j. issue_memo issuing_env j = Inr (replicate 28 7) \<and> iw_issues issuing_world j \<noteq> None \<and>
     get_text_memo_from_tx_env sample_payment = Some (replicate 28 7)"
proof -
  obtain w' where "vault_execute_issue issuing_env sample_payment 7 issuing_world = (TaskSuccess, w')"
    using issuing_executes by (metis prod.collapse)
  from reported_issue_completed [OF issuing_reachable this] show ?thesis by (auto simp: sample_payment_def)
qed

end
